(* ===== verification/Prelude.thy ===== *)
theory Prelude
  imports Main "HOL-Library.Sublist"
begin

text \<open>
  Shared vocabulary of the development: the names of the model's basic types, the
  JavaScript string operations the route handlers call (truthiness of request fields,
  \<open>String.prototype.trim\<close>, \<open>toLowerCase\<close>, \<open>endsWith\<close>, \<open>split\<close>, array indexing),
  the decimal and hexadecimal codecs used to print object ids and tokens, and the JSON
  values the handlers send.  Every operation is executable; the lemmas are the generic
  facts the component theories share, in particular the round trips
  \<open>js_split (js_join ..)\<close>, \<open>parse_dec (nat_to_dec ..)\<close> and
  \<open>hex_decode (hex_encode ..)\<close>.
\<close>

named_theorems js_simps "evaluation rules of the JavaScript helpers"

type_synonym oid = nat \<comment> \<open>a MongoDB ObjectId\<close>
type_synonym time = nat \<comment> \<open>\<open>Date.now()\<close>, milliseconds\<close>

subsection \<open>Truthiness of request fields\<close>

text \<open>
  A field of \<open>req.body\<close> is \<open>undefined\<close> (\<open>None\<close>) or a string.  JavaScript
  treats \<open>undefined\<close> and the empty string as false.
\<close>

fun js_truthy :: "string option \<Rightarrow> bool" where
  "js_truthy None = False"
| "js_truthy (Some s) = (s \<noteq> [])"

fun js_truthy_int :: "int option \<Rightarrow> bool" where
  "js_truthy_int None = False"
| "js_truthy_int (Some n) = (n \<noteq> 0)"

text \<open>\<open>a || b\<close> on optional strings.\<close>

definition js_or :: "string option \<Rightarrow> string \<Rightarrow> string" where
  "js_or a b = (case a of Some s \<Rightarrow> if s \<noteq> [] then s else b | None \<Rightarrow> b)"

lemma js_or_truthy [simp]: "js_truthy a \<Longrightarrow> js_or a b = the a"
  by (cases a) (auto simp: js_or_def)

lemma js_or_falsy [simp]: "\<not> js_truthy a \<Longrightarrow> js_or a b = b"
  by (cases a) (auto simp: js_or_def)

lemma js_or_nonempty: "b \<noteq> [] \<Longrightarrow> js_or a b \<noteq> []"
  by (cases a) (auto simp: js_or_def)

text \<open>\<open>xs.includes(v)\<close> for an optional string \<open>v\<close>.\<close>

fun js_includes :: "string list \<Rightarrow> string option \<Rightarrow> bool" where
  "js_includes xs None = False"
| "js_includes xs (Some s) = (s \<in> set xs)"

lemma all_not_Some_pair [simp]: "(\<forall>a b. x \<noteq> Some (a, b)) \<longleftrightarrow> x = None"
  by (cases x) auto

subsection \<open>\<open>String.prototype.trim\<close>\<close>

text \<open>
  Characters are code units \<open>0..255\<close>; the white space \<open>trim\<close> removes among them is
  TAB, LF, VT, FF, CR, SPACE and NO-BREAK SPACE.
\<close>

definition is_js_space :: "char \<Rightarrow> bool" where
  "is_js_space c \<longleftrightarrow> of_char c \<in> {9, 10, 11, 12, 13, 32, 160 :: nat}"

definition js_trim :: "string \<Rightarrow> string" where
  "js_trim s = rev (dropWhile is_js_space (rev (dropWhile is_js_space s)))"

lemma dropWhile_rev_hd:
  "dropWhile P xs \<noteq> [] \<Longrightarrow> \<not> P (hd (dropWhile P xs))"
  by (induction xs) auto

lemma dropWhile_hd_stable: "ys = [] \<or> \<not> Q (hd ys) \<Longrightarrow> dropWhile Q ys = ys"
  by (cases ys) auto

lemma dropWhile_trimmed:
  "dropWhile Q (rev (dropWhile Q (rev (dropWhile Q s)))) = rev (dropWhile Q (rev (dropWhile Q s)))"
  by (metis (no_types, lifting) Nil_is_rev_conv dropWhile_eq_Nil_conv
      dropWhile_hd_stable dropWhile_last hd_dropWhile hd_rev last_rev)

lemma js_trim_idem [simp]: "js_trim (js_trim s) = js_trim s"
  by (simp add: js_trim_def dropWhile_trimmed)

lemma js_trim_Nil_iff: "js_trim s = [] \<longleftrightarrow> (\<forall>c \<in> set s. is_js_space c)"
proof -
  have "(\<forall>x \<in> set (dropWhile is_js_space s). is_js_space x) \<longleftrightarrow> dropWhile is_js_space s = []"
    using dropWhile_rev_hd [of is_js_space s]
    by (cases "dropWhile is_js_space s") (auto dest: set_dropWhileD)
  then show ?thesis by (auto simp: js_trim_def dest: set_dropWhileD)
qed

subsection \<open>\<open>toLowerCase\<close> and \<open>endsWith\<close>\<close>

text \<open>
  \<open>toLowerCase\<close> on code units \<open>0..255\<close>: \<open>A..Z\<close> and the Latin-1 capitals
  \<open>0xC0..0xDE\<close> except the multiplication sign \<open>0xD7\<close> move down by 32.
\<close>

definition js_lower_char :: "char \<Rightarrow> char" where
  "js_lower_char c =
     (let n = of_char c :: nat in
      if 65 \<le> n \<and> n \<le> 90 \<or> 192 \<le> n \<and> n \<le> 222 \<and> n \<noteq> 215 then char_of (n + 32) else c)"

definition to_lower_case :: "string \<Rightarrow> string" where
  "to_lower_case s = map js_lower_char s"

lemma js_lower_char_idem [simp]: "js_lower_char (js_lower_char c) = js_lower_char c"
  by (simp add: js_lower_char_def Let_def)

lemma to_lower_case_idem [simp]: "to_lower_case (to_lower_case s) = to_lower_case s"
  by (simp add: to_lower_case_def)

lemma length_to_lower_case [simp]: "length (to_lower_case s) = length s"
  by (simp add: to_lower_case_def)

definition ends_with :: "string \<Rightarrow> string \<Rightarrow> bool" where
  "ends_with s t \<longleftrightarrow> length t \<le> length s \<and> drop (length s - length t) s = t"

lemma ends_with_suffix: "ends_with s t \<longleftrightarrow> suffix t s"
proof
  assume "ends_with s t"
  then have "s = take (length s - length t) s @ t"
    by (metis append_take_drop_id ends_with_def)
  then show "suffix t s" by (metis suffix_def)
next
  assume "suffix t s"
  then obtain zs where "s = zs @ t" by (auto simp: suffix_def)
  then show "ends_with s t" by (simp add: ends_with_def)
qed

subsection \<open>\<open>split\<close>, joining and array indexing\<close>

text \<open>\<open>s.split(c)\<close> for a one-character separator: \<open>"".split(c)\<close> is \<open>[""]\<close>.\<close>

fun js_split :: "char \<Rightarrow> string \<Rightarrow> string list" where
  "js_split c [] = [[]]"
| "js_split c (x # xs) =
     (if x = c then [] # js_split c xs
      else (case js_split c xs of [] \<Rightarrow> [[x]] | p # ps \<Rightarrow> (x # p) # ps))"

fun js_join :: "char \<Rightarrow> string list \<Rightarrow> string" where
  "js_join c [] = []"
| "js_join c [p] = p"
| "js_join c (p # q # ps) = p @ c # js_join c (q # ps)"

text \<open>\<open>xs[i]\<close>: \<open>undefined\<close> out of range.\<close>

fun nth_opt :: "'a list \<Rightarrow> nat \<Rightarrow> 'a option" where
  "nth_opt [] i = None"
| "nth_opt (x # xs) 0 = Some x"
| "nth_opt (x # xs) (Suc i) = nth_opt xs i"

lemma nth_opt_conv: "nth_opt xs i = (if i < length xs then Some (xs ! i) else None)"
  by (induction xs i rule: nth_opt.induct) auto

lemma nth_opt_one [simp]: "nth_opt (x # y # ys) 1 = Some y"
  by (simp add: nth_opt_conv)

lemma js_split_not_Nil [simp]: "js_split c s \<noteq> []"
  by (induction s) (auto split: list.split)

lemma js_split_append_nosep:
  "c \<notin> set p \<Longrightarrow>
   js_split c (p @ rest) = (case js_split c rest of [] \<Rightarrow> [p] | q # qs \<Rightarrow> (p @ q) # qs)"
  by (induction p) (auto split: list.split)

lemma js_split_nosep: "c \<notin> set p \<Longrightarrow> js_split c p = [p]"
  using js_split_append_nosep [of c p "[]"] by simp

lemma js_split_sep: "c \<notin> set p \<Longrightarrow> js_split c (p @ c # rest) = p # js_split c rest"
  by (simp add: js_split_append_nosep split: list.split)

lemma js_split_join:
  "ps \<noteq> [] \<Longrightarrow> (\<forall>p \<in> set ps. c \<notin> set p) \<Longrightarrow> js_split c (js_join c ps) = ps"
proof (induction ps rule: induct_list012)
  case 1
  then show ?case by simp
next
  case (2 p)
  then show ?case by (simp add: js_split_nosep)
next
  case (3 p q ps)
  then show ?case by (simp add: js_split_sep)
qed

lemma set_js_join: "set (js_join c xs) \<subseteq> insert c (\<Union>x \<in> set xs. set x)"
  by (induction c xs rule: js_join.induct) auto

subsection \<open>Decimal numerals\<close>

fun nat_to_dec :: "nat \<Rightarrow> string" where
  "nat_to_dec n =
     (if n < 10 then [char_of (48 + n)]
      else nat_to_dec (n div 10) @ [char_of (48 + n mod 10)])"

declare nat_to_dec.simps [simp del]

definition is_digit :: "char \<Rightarrow> bool" where
  "is_digit c \<longleftrightarrow> 48 \<le> (of_char c :: nat) \<and> (of_char c :: nat) \<le> 57"

definition dec_val :: "string \<Rightarrow> nat" where
  "dec_val s = foldl (\<lambda>n c. 10 * n + (of_char c - 48)) 0 s"

text \<open>A canonical numeral: digits only, no leading zero.\<close>

definition parse_dec :: "string \<Rightarrow> nat option" where
  "parse_dec s =
     (if s \<noteq> [] \<and> list_all is_digit s \<and> nat_to_dec (dec_val s) = s
      then Some (dec_val s) else None)"

lemma dec_val_snoc: "dec_val (s @ [c]) = 10 * dec_val s + (of_char c - 48)"
  by (simp add: dec_val_def)

lemma nat_to_dec_props:
  "dec_val (nat_to_dec n) = n \<and> nat_to_dec n \<noteq> [] \<and> list_all is_digit (nat_to_dec n)"
proof (induction n rule: nat_to_dec.induct)
  case (1 n)
  show ?case
  proof (cases "n < 10")
    case True
    then show ?thesis
      by (simp add: nat_to_dec.simps [of n] dec_val_def is_digit_def)
  next
    case False
    have d: "(of_char (char_of (48 + n mod 10)) :: nat) = 48 + n mod 10"
      by simp
    have "list_all is_digit [char_of (48 + n mod 10)]"
      by (simp add: is_digit_def)
    with False "1.IH" d show ?thesis
      by (simp add: nat_to_dec.simps [of n] dec_val_snoc)
  qed
qed

lemma parse_dec_nat_to_dec [simp]: "parse_dec (nat_to_dec n) = Some n"
  using nat_to_dec_props [of n] by (simp add: parse_dec_def)

lemma nat_to_dec_inj [simp]: "nat_to_dec m = nat_to_dec n \<longleftrightarrow> m = n"
  by (metis nat_to_dec_props)

lemma parse_dec_Some: "parse_dec s = Some n \<Longrightarrow> nat_to_dec n = s"
  by (auto simp: parse_dec_def split: if_splits)

lemma nat_to_dec_digits: "c \<in> set (nat_to_dec n) \<Longrightarrow> is_digit c"
  using nat_to_dec_props [of n] by (simp add: list_all_iff)

subsection \<open>Hexadecimal encoding of strings\<close>

definition hex_digit :: "nat \<Rightarrow> char" where
  "hex_digit n = (if n < 10 then char_of (48 + n) else char_of (87 + n))"

definition hex_val :: "char \<Rightarrow> nat option" where
  "hex_val c =
     (let n = of_char c :: nat in
      if 48 \<le> n \<and> n \<le> 57 then Some (n - 48)
      else if 97 \<le> n \<and> n \<le> 102 then Some (n - 87) else None)"

definition hex_encode :: "string \<Rightarrow> string" where
  "hex_encode s = concat (map (\<lambda>c. [hex_digit (of_char c div 16), hex_digit (of_char c mod 16)]) s)"

fun hex_decode :: "string \<Rightarrow> string option" where
  "hex_decode [] = Some []"
| "hex_decode [_] = None"
| "hex_decode (a # b # rest) =
     (case (hex_val a, hex_val b) of
        (Some x, Some y) \<Rightarrow> map_option (Cons (char_of (16 * x + y))) (hex_decode rest)
      | _ \<Rightarrow> None)"

lemma hex_val_digit [simp]: "n < 16 \<Longrightarrow> hex_val (hex_digit n) = Some n"
  by (auto simp: hex_val_def hex_digit_def Let_def)

lemma of_char_div_16: "(of_char c :: nat) div 16 < 16"
  using nat_of_char_less_256 [of c] by linarith

lemma hex_char_recompose: "char_of (16 * ((of_char c :: nat) div 16) + of_char c mod 16) = c"
  by simp

lemma hex_encode_Cons:
  "hex_encode (c # s) = hex_digit (of_char c div 16) # hex_digit (of_char c mod 16) # hex_encode s"
  by (simp add: hex_encode_def)

lemma hex_decode_encode [simp]: "hex_decode (hex_encode s) = Some s"
proof (induction s)
  case Nil
  then show ?case by (simp add: hex_encode_def)
next
  case (Cons c s)
  then show ?case
    by (simp add: hex_encode_Cons of_char_div_16)
qed

lemma hex_encode_alphabet: "c \<in> set (hex_encode s) \<Longrightarrow> hex_val c \<noteq> None"
  using of_char_div_16 by (auto simp: hex_encode_def)

subsection \<open>JSON values\<close>

datatype json = JNull | JBool bool | JNum int | JStr string | JArr "json list"
  | JObj "(string \<times> json) list"

fun json_keys :: "json \<Rightarrow> string list" where
  "json_keys (JObj kvs) = map fst kvs"
| "json_keys _ = []"

fun json_get :: "json \<Rightarrow> string \<Rightarrow> json option" where
  "json_get (JObj kvs) k = map_of kvs k"
| "json_get _ k = None"

text \<open>\<open>JSON.stringify\<close> drops a property whose value is \<open>undefined\<close>.\<close>

fun opt_field :: "string \<Rightarrow> ('a \<Rightarrow> json) \<Rightarrow> 'a option \<Rightarrow> (string \<times> json) list" where
  "opt_field k f None = []"
| "opt_field k f (Some v) = [(k, f v)]"

text \<open>Every key of a JSON value, nested objects and arrays included.\<close>

fun json_all_keys :: "json \<Rightarrow> string list" where
  "json_all_keys (JObj kvs) = concat (map (\<lambda>(k, v). k # json_all_keys v) kvs)"
| "json_all_keys (JArr js) = concat (map json_all_keys js)"
| "json_all_keys _ = []"

lemma fst_opt_field [simp]: "map fst (opt_field k f v) = (case v of None \<Rightarrow> [] | Some _ \<Rightarrow> [k])"
  by (cases v) auto

lemma opt_field_atomic: "(k, v) \<in> set (opt_field n f x) \<Longrightarrow> k = n \<and> (\<exists>y. v = f y)"
  by (cases x) auto

end
