(* ===== verification/Crypto.thy ===== *)
theory Crypto
  imports Prelude
begin

text \<open>
  The two libraries the authentication flow calls, modelled from their documented
  behaviour (spec sections 4.1 and 4.2): \<open>bcrypt\<close> (salted one-way hash and compare) and
  \<open>jsonwebtoken\<close> (\<open>jwt.sign\<close> with \<open>expiresIn: "7d"\<close>, \<open>jwt.verify\<close>).
  A hash is a symbolic value: its salt, cost and the first 72 bytes of the password
  (bcrypt ignores the rest); \<open>bcrypt.compare\<close> holds exactly when the candidate agrees on
  those bytes.  A token is a string of six dot-separated fields: the hex-encoded id, email
  and username, the decimal \<open>iat\<close> and \<open>exp\<close> (seconds), and a signature that
  depends on the secret and on the five fields.  \<open>jwt_verify\<close> checks, in
  jsonwebtoken's order, the shape of the token, the signature, and then the expiry
  (\<open>floor(now / 1000) >= exp\<close> raises \<open>TokenExpiredError\<close>).
\<close>

subsection \<open>bcrypt\<close>

datatype pw_hash = BCrypt (hash_cost: nat) (hash_salt: nat) (hash_key: string)

text \<open>\<open>bcrypt.hash(password, await bcrypt.genSalt(10))\<close>\<close>

definition bcrypt_hash :: "string \<Rightarrow> nat \<Rightarrow> pw_hash" where
  "bcrypt_hash pw s = BCrypt 10 s (take 72 pw)"

text \<open>\<open>bcrypt.compare(password, hash)\<close>\<close>

definition bcrypt_compare :: "string \<Rightarrow> pw_hash \<Rightarrow> bool" where
  "bcrypt_compare pw h \<longleftrightarrow> take 72 pw = hash_key h"

text \<open>The stored string \<open>$2b$10$...\<close> has 60 characters, whatever the password.\<close>

definition hash_string_length :: "pw_hash \<Rightarrow> nat" where
  "hash_string_length h = 60"

definition hash_string :: "pw_hash \<Rightarrow> string" where
  "hash_string h = ''$2b$'' @ nat_to_dec (hash_cost h) @ ''$'' @ nat_to_dec (hash_salt h)"

lemma bcrypt_compare_hash [simp]: "bcrypt_compare pw (bcrypt_hash pw s)"
  by (simp add: bcrypt_compare_def bcrypt_hash_def)

lemma bcrypt_compare_hash_iff:
  "bcrypt_compare pw' (bcrypt_hash pw s) \<longleftrightarrow> take 72 pw' = take 72 pw"
  by (simp add: bcrypt_compare_def bcrypt_hash_def)

subsection \<open>jsonwebtoken\<close>

record claims =
  claim_id :: string
  claim_email :: string
  claim_username :: string
  claim_iat :: nat
  claim_exp :: nat

text \<open>\<open>expiresIn: "7d"\<close>, in seconds.\<close>

definition token_lifetime :: nat where
  "token_lifetime = 7 * 24 * 60 * 60"

definition payload_parts :: "claims \<Rightarrow> string list" where
  "payload_parts c =
     [hex_encode (claim_id c), hex_encode (claim_email c), hex_encode (claim_username c),
      nat_to_dec (claim_iat c), nat_to_dec (claim_exp c)]"

text \<open>The HMAC of the header and payload under the secret.\<close>

definition jwt_signature :: "string \<Rightarrow> string \<Rightarrow> string" where
  "jwt_signature secret body = hex_encode (secret @ CHR ''|'' # body)"

definition jwt_encode :: "string \<Rightarrow> claims \<Rightarrow> string" where
  "jwt_encode secret c =
     js_join CHR ''.'' (payload_parts c @ [jwt_signature secret (js_join CHR ''.'' (payload_parts c))])"

text \<open>
  \<open>jwt.sign({ id, email, username }, secret, { expiresIn: "7d" })\<close> at time \<open>now\<close>
  (milliseconds): \<open>iat\<close> is the current second, \<open>exp\<close> seven days later.
\<close>

definition jwt_sign :: "string \<Rightarrow> string \<Rightarrow> string \<Rightarrow> string \<Rightarrow> time \<Rightarrow> string" where
  "jwt_sign secret uid em un t =
     jwt_encode secret \<lparr>claim_id = uid, claim_email = em, claim_username = un,
                        claim_iat = t div 1000, claim_exp = t div 1000 + token_lifetime\<rparr>"

datatype verify_result =
    Verified claims
  | TokenExpiredError
  | JsonWebTokenError
  | NotBeforeError

fun decode_parts :: "string list \<Rightarrow> claims option" where
  "decode_parts [i, e, u, ia, ex] =
     (case (hex_decode i, hex_decode e, hex_decode u, parse_dec ia, parse_dec ex) of
        (Some i', Some e', Some u', Some ia', Some ex') \<Rightarrow>
          Some \<lparr>claim_id = i', claim_email = e', claim_username = u',
                claim_iat = ia', claim_exp = ex'\<rparr>
      | _ \<Rightarrow> None)"
| "decode_parts _ = None"

fun verify_parts :: "string \<Rightarrow> time \<Rightarrow> string list \<Rightarrow> verify_result" where
  "verify_parts secret t [i, e, u, ia, ex, sig] =
     (case decode_parts [i, e, u, ia, ex] of
        None \<Rightarrow> JsonWebTokenError
      | Some c \<Rightarrow>
          if sig \<noteq> jwt_signature secret (js_join CHR ''.'' [i, e, u, ia, ex]) then JsonWebTokenError
          else if claim_exp c \<le> t div 1000 then TokenExpiredError
          else Verified c)"
| "verify_parts secret t _ = JsonWebTokenError"

text \<open>\<open>jwt.verify(token, secret)\<close> at time \<open>t\<close> (milliseconds).\<close>

definition jwt_verify :: "string \<Rightarrow> time \<Rightarrow> string \<Rightarrow> verify_result" where
  "jwt_verify secret t tok = verify_parts secret t (js_split CHR ''.'' tok)"

subsection \<open>Round trip of tokens\<close>

lemma dot_not_hex: "CHR ''.'' \<notin> set (hex_encode s)"
proof
  assume "CHR ''.'' \<in> set (hex_encode s)"
  then have "hex_val CHR ''.'' \<noteq> None" by (rule hex_encode_alphabet)
  then show False by (simp add: hex_val_def)
qed

lemma dot_not_dec: "CHR ''.'' \<notin> set (nat_to_dec n)"
  using nat_to_dec_digits [of "CHR ''.''" n] by (auto simp: is_digit_def)

lemma payload_parts_no_dot: "\<forall>p \<in> set (payload_parts c) \<union> {jwt_signature secret b}. CHR ''.'' \<notin> set p"
  by (simp add: payload_parts_def jwt_signature_def dot_not_hex dot_not_dec)

lemma split_jwt_encode:
  "js_split CHR ''.'' (jwt_encode secret c) =
     payload_parts c @ [jwt_signature secret (js_join CHR ''.'' (payload_parts c))]"
  unfolding jwt_encode_def
  by (rule js_split_join) (use payload_parts_no_dot in auto)

lemma decode_payload_parts [simp]: "decode_parts (payload_parts c) = Some c"
  by (simp add: payload_parts_def)

lemma hex_encode_inj: "hex_encode a = hex_encode b \<Longrightarrow> a = b"
  by (metis hex_decode_encode option.inject)

lemma jwt_signature_inj:
  "jwt_signature s b = jwt_signature s' b \<longleftrightarrow> s = s'"
  by (auto simp: jwt_signature_def dest: hex_encode_inj)

text \<open>Verifying a token with the secret it was signed with gives back its claims until
  it expires, and \<open>TokenExpiredError\<close> from then on.\<close>

lemma jwt_verify_encode:
  "jwt_verify secret t (jwt_encode secret c) =
     (if claim_exp c \<le> t div 1000 then TokenExpiredError else Verified c)"
proof -
  obtain i e u ia ex where pp: "payload_parts c = [i, e, u, ia, ex]"
    by (simp add: payload_parts_def)
  have "decode_parts [i, e, u, ia, ex] = Some c"
    using decode_payload_parts [of c] pp by simp
  then show ?thesis
    by (simp add: jwt_verify_def split_jwt_encode pp)
qed

text \<open>A token signed under another secret is rejected as invalid, expired or not.\<close>

lemma jwt_verify_other_secret:
  "secret' \<noteq> secret \<Longrightarrow> jwt_verify secret' t (jwt_encode secret c) = JsonWebTokenError"
proof -
  assume ne: "secret' \<noteq> secret"
  obtain i e u ia ex where pp: "payload_parts c = [i, e, u, ia, ex]"
    by (simp add: payload_parts_def)
  have "decode_parts [i, e, u, ia, ex] = Some c"
    using decode_payload_parts [of c] pp by simp
  with ne show ?thesis
    by (simp add: jwt_verify_def split_jwt_encode pp jwt_signature_inj)
qed

text \<open>A verified token is always strictly before its expiry second.\<close>

lemma jwt_verify_Verified_exp:
  "jwt_verify secret t tok = Verified c \<Longrightarrow> t div 1000 < claim_exp c"
proof -
  assume v: "jwt_verify secret t tok = Verified c"
  have "verify_parts secret t ps = Verified c \<Longrightarrow> t div 1000 < claim_exp c" for ps
    by (induction secret t ps rule: verify_parts.induct)
       (auto split: option.splits if_splits)
  with v show ?thesis by (simp add: jwt_verify_def)
qed

text \<open>A token never contains a space, so it survives the header's \<open>split(" ")\<close>.\<close>

lemma space_not_in_jwt: "CHR '' '' \<notin> set (jwt_encode s c)"
proof
  define ps where "ps = payload_parts c @ [jwt_signature s (js_join CHR ''.'' (payload_parts c))]"
  assume "CHR '' '' \<in> set (jwt_encode s c)"
  then have "CHR '' '' \<in> set (js_join CHR ''.'' ps)" by (simp add: jwt_encode_def ps_def)
  then have "CHR '' '' \<in> insert CHR ''.'' (\<Union>x \<in> set ps. set x)" using set_js_join by blast
  then obtain p where p: "p \<in> set ps" and sp: "CHR '' '' \<in> set p" by auto
  have h: "CHR '' '' \<notin> set (hex_encode x)" for x
    using hex_encode_alphabet [of "CHR '' ''" x] by (auto simp: hex_val_def)
  have n: "CHR '' '' \<notin> set (nat_to_dec k)" for k
    using nat_to_dec_digits [of "CHR '' ''" k] by (auto simp: is_digit_def)
  from p sp h n show False by (auto simp: ps_def payload_parts_def jwt_signature_def)
qed

end
