(* ===== verification/Models.thy ===== *)
theory Models
  imports Prelude Crypto
begin

text \<open>
  The three Mongoose schemas of \<open>src/models\<close>: the document of each collection as a
  record, the schema's setters (\<open>trim\<close>, \<open>lowercase\<close>, defaults) as the constructor
  a handler calls, and its validators (\<open>required\<close>, \<open>minlength\<close>, \<open>maxlength\<close>,
  \<open>min\<close>, \<open>max\<close>, \<open>enum\<close>, \<open>match\<close>) as a list of named checks that \<open>save()\<close>
  runs.  The e-mail pattern \<open>^\w+([\.-]?\w+)*@gmail\.com$\<close> is given twice: as the
  language of the regular expression (inductive, rule by rule) and as the executable
  left-to-right matcher \<open>email_match\<close>; the two agree.
\<close>

subsection \<open>Validators\<close>

text \<open>A schema's validators: one check per path; \<open>save()\<close> fails with the failing paths.\<close>

definition failed_paths :: "(string \<times> bool) list \<Rightarrow> string list" where
  "failed_paths cs = map fst (filter (\<lambda>(p, ok). \<not> ok) cs)"

lemma failed_paths_Nil_iff: "failed_paths cs = [] \<longleftrightarrow> list_all snd cs"
  by (induction cs) (auto simp: failed_paths_def)

text \<open>\<open>err.message\<close> of a Mongoose \<open>ValidationError\<close>.\<close>

definition validation_message :: "string \<Rightarrow> string list \<Rightarrow> string" where
  "validation_message model paths = model @ '' validation failed: '' @ js_join CHR '','' paths"

text \<open>\<open>maxlength\<close> on an optional path: skipped when the value is absent.\<close>

fun opt_maxlength :: "nat \<Rightarrow> string option \<Rightarrow> bool" where
  "opt_maxlength n None = True"
| "opt_maxlength n (Some s) = (length s \<le> n)"

text \<open>A Mongoose setter on an optional path.\<close>

definition opt_trim :: "string option \<Rightarrow> string option" where
  "opt_trim v = map_option js_trim v"

subsection \<open>The e-mail pattern\<close>

text \<open>\<open>\w\<close> is \<open>[A-Za-z0-9_]\<close>; the separators are \<open>.\<close> and \<open>-\<close>.\<close>

definition is_word_char :: "char \<Rightarrow> bool" where
  "is_word_char c \<longleftrightarrow>
     (let n = of_char c :: nat in
      48 \<le> n \<and> n \<le> 57 \<or> 65 \<le> n \<and> n \<le> 90 \<or> 97 \<le> n \<and> n \<le> 122 \<or> n = 95)"

definition is_email_sep :: "char \<Rightarrow> bool" where
  "is_email_sep c \<longleftrightarrow> c = CHR ''.'' \<or> c = CHR ''-''"

lemma word_not_sep: "is_word_char c \<Longrightarrow> \<not> is_email_sep c"
  by (auto simp: is_word_char_def is_email_sep_def)

text \<open>\<open>\w+\<close>\<close>

inductive word_run :: "string \<Rightarrow> bool" where
  word_one: "is_word_char c \<Longrightarrow> word_run [c]"
| word_more: "is_word_char c \<Longrightarrow> word_run w \<Longrightarrow> word_run (c # w)"

text \<open>\<open>([\.-]?\w+)*\<close>\<close>

inductive local_tail :: "string \<Rightarrow> bool" where
  tail_nil: "local_tail []"
| tail_word: "word_run w \<Longrightarrow> local_tail t \<Longrightarrow> local_tail (w @ t)"
| tail_sep: "is_email_sep c \<Longrightarrow> word_run w \<Longrightarrow> local_tail t \<Longrightarrow> local_tail (c # w @ t)"

text \<open>The language of \<open>^\w+([\.-]?\w+)*@gmail\.com$\<close>.\<close>

definition gmail_regex :: "string \<Rightarrow> bool" where
  "gmail_regex s \<longleftrightarrow> (\<exists>w t. s = w @ t @ ''@gmail.com'' \<and> word_run w \<and> local_tail t)"

text \<open>
  The matcher reads the local part left to right, remembering whether the last
  character was a word character: a separator must follow one, and the part must end
  with one.
\<close>

fun local_scan :: "bool \<Rightarrow> string \<Rightarrow> bool" where
  "local_scan after_word [] = after_word"
| "local_scan after_word (c # cs) =
     (if is_word_char c then local_scan True cs
      else if is_email_sep c \<and> after_word then local_scan False cs
      else False)"

definition email_match :: "string \<Rightarrow> bool" where
  "email_match s \<longleftrightarrow> ends_with s ''@gmail.com'' \<and> local_scan False (take (length s - 10) s)"

text \<open>\<open>^[0-9]{10,15}$\<close>\<close>

definition phone_match :: "string \<Rightarrow> bool" where
  "phone_match s \<longleftrightarrow> 10 \<le> length s \<and> length s \<le> 15 \<and> list_all is_digit s"

subsection \<open>User\<close>

definition default_profile_image :: string where
  "default_profile_image = ''https://cdn-icons-png.flaticon.com/512/3135/3135715.png''"

record user =
  username :: string
  email :: string
  password :: pw_hash
  profileImage :: string
  firstName :: "string option"
  lastName :: "string option"
  age :: "int option"
  gender :: "string option"
  phone :: "string option"
  country :: "string option"
  city :: "string option"
  address :: "string option"
  qualification :: "string option"
  createdAt :: time
  updatedAt :: time

text \<open>
  \<open>new User({ username, email, password, profileImage })\<close>: \<open>trim\<close> on the username,
  \<open>lowercase\<close> on the e-mail, the default image when none is given, both timestamps
  \<open>Date.now()\<close>.  An absent username is kept as the empty string, which \<open>required\<close>
  rejects exactly as it rejects \<open>undefined\<close>.
\<close>

definition new_user :: "string option \<Rightarrow> string \<Rightarrow> pw_hash \<Rightarrow> string option \<Rightarrow> time \<Rightarrow> user" where
  "new_user un em h img t =
     \<lparr>username = (case un of None \<Rightarrow> [] | Some s \<Rightarrow> js_trim s),
      email = to_lower_case em, password = h,
      profileImage = (case img of None \<Rightarrow> default_profile_image | Some s \<Rightarrow> s),
      firstName = None, lastName = None, age = None, gender = None, phone = None,
      country = None, city = None, address = None, qualification = None,
      createdAt = t, updatedAt = t\<rparr>"

definition user_checks :: "user \<Rightarrow> (string \<times> bool) list" where
  "user_checks u =
     [(''username'', username u \<noteq> [] \<and> 3 \<le> length (username u) \<and> length (username u) \<le> 30),
      (''email'', email u \<noteq> [] \<and> email_match (email u)),
      (''password'', 5 \<le> hash_string_length (password u) \<and> hash_string_length (password u) \<le> 100),
      (''firstName'', opt_maxlength 50 (firstName u)),
      (''lastName'', opt_maxlength 50 (lastName u)),
      (''age'', (case age u of None \<Rightarrow> True | Some a \<Rightarrow> 1 \<le> a \<and> a \<le> 120)),
      (''gender'', (case gender u of None \<Rightarrow> True
                     | Some g \<Rightarrow> g \<in> set [''Male'', ''Female'', ''Other'', ''''])),
      (''phone'', (case phone u of None \<Rightarrow> True | Some p \<Rightarrow> p = [] \<or> phone_match p)),
      (''address'', opt_maxlength 200 (address u)),
      (''qualification'', opt_maxlength 100 (qualification u))]"

definition user_valid :: "user \<Rightarrow> bool" where
  "user_valid u \<longleftrightarrow> failed_paths (user_checks u) = []"

subsection \<open>Blog\<close>

definition validCategories :: "string list" where
  "validCategories = [''Business'', ''Study'', ''Technology'', ''Food'', ''Travel'', ''Others'']"

record blog =
  title :: string
  description :: string
  category :: string
  blog_image :: string
  author :: oid
  blog_createdAt :: time

definition blog_checks :: "blog \<Rightarrow> (string \<times> bool) list" where
  "blog_checks b =
     [(''title'', title b \<noteq> []),
      (''description'', description b \<noteq> []),
      (''category'', category b \<noteq> [] \<and> category b \<in> set validCategories),
      (''image'', blog_image b \<noteq> [])]"

definition blog_valid :: "blog \<Rightarrow> bool" where
  "blog_valid b \<longleftrightarrow> failed_paths (blog_checks b) = []"

subsection \<open>Comment\<close>

record comment =
  content :: string
  comment_blog :: oid
  comment_user :: oid
  comment_createdAt :: time
  comment_updatedAt :: time

definition comment_checks :: "comment \<Rightarrow> (string \<times> bool) list" where
  "comment_checks c = [(''content'', content c \<noteq> [])]"

definition comment_valid :: "comment \<Rightarrow> bool" where
  "comment_valid c \<longleftrightarrow> failed_paths (comment_checks c) = []"

subsection \<open>The matcher recognises the pattern's language\<close>

lemma local_scan_word_run:
  "word_run w \<Longrightarrow> local_scan b (w @ t) = local_scan True t"
  by (induction arbitrary: b rule: word_run.induct) auto

lemma local_tail_scan: "local_tail t \<Longrightarrow> local_scan True t"
proof (induction rule: local_tail.induct)
  case tail_nil
  then show ?case by simp
next
  case (tail_word w t)
  then show ?case by (simp add: local_scan_word_run)
next
  case (tail_sep c w t)
  then show ?case by (simp add: local_scan_word_run word_not_sep)
qed

lemma local_scan_complete:
  "(local_scan True s \<longrightarrow> local_tail s) \<and>
   (local_scan False s \<longrightarrow> (\<exists>w t. s = w @ t \<and> word_run w \<and> local_tail t))"
proof (induction s)
  case Nil
  then show ?case by (simp add: tail_nil)
next
  case (Cons c cs)
  show ?case
  proof (cases "is_word_char c")
    case True
    then have sc: "local_scan b (c # cs) = local_scan True cs" for b by simp
    have w: "word_run [c]" using True by (rule word_one)
    show ?thesis
    proof (intro conjI impI)
      assume "local_scan True (c # cs)"
      then have "local_tail cs" using Cons.IH sc by blast
      then show "local_tail (c # cs)" using tail_word [OF w] by simp
    next
      assume "local_scan False (c # cs)"
      then have "local_tail cs" using Cons.IH sc by blast
      then have "c # cs = [c] @ cs \<and> word_run [c] \<and> local_tail cs" using w by simp
      then show "\<exists>w t. c # cs = w @ t \<and> word_run w \<and> local_tail t" by blast
    qed
  next
    case False
    show ?thesis
    proof (intro conjI impI)
      assume a: "local_scan True (c # cs)"
      with False have sep: "is_email_sep c" and "local_scan False cs" by (simp_all split: if_splits)
      then obtain w t where "cs = w @ t" "word_run w" "local_tail t" using Cons.IH by blast
      then show "local_tail (c # cs)" using tail_sep [OF sep] by simp
    next
      assume "local_scan False (c # cs)"
      with False show "\<exists>w t. c # cs = w @ t \<and> word_run w \<and> local_tail t" by simp
    qed
  qed
qed

lemma local_scan_False_iff:
  "local_scan False s \<longleftrightarrow> (\<exists>w t. s = w @ t \<and> word_run w \<and> local_tail t)"
proof
  assume "local_scan False s"
  then show "\<exists>w t. s = w @ t \<and> word_run w \<and> local_tail t"
    using local_scan_complete [of s] by blast
next
  assume "\<exists>w t. s = w @ t \<and> word_run w \<and> local_tail t"
  then obtain w t where "s = w @ t" "word_run w" "local_tail t" by blast
  then show "local_scan False s" by (simp add: local_scan_word_run local_tail_scan)
qed

text \<open>
  The executable matcher accepts exactly the strings of the language of the schema's
  regular expression \<open>^\w+([\.-]?\w+)*@gmail\.com$\<close>.
\<close>

lemma email_match_iff_regex: "email_match s \<longleftrightarrow> gmail_regex s"
proof
  assume m: "email_match s"
  let ?l = "take (length s - 10) s"
  have "drop (length s - 10) s = ''@gmail.com''"
    using m by (simp add: email_match_def ends_with_def eval_nat_numeral)
  then have s: "s = ?l @ ''@gmail.com''"
    by (metis append_take_drop_id)
  from m obtain w t where "?l = w @ t" "word_run w" "local_tail t"
    by (auto simp: email_match_def local_scan_False_iff)
  with s have "s = w @ t @ ''@gmail.com'' \<and> word_run w \<and> local_tail t" by simp
  then show "gmail_regex s" unfolding gmail_regex_def by blast
next
  assume "gmail_regex s"
  then obtain w t where s: "s = w @ t @ ''@gmail.com''" and "word_run w" "local_tail t"
    by (auto simp: gmail_regex_def)
  then have "local_scan False (w @ t)" by (simp add: local_scan_word_run local_tail_scan)
  with s show "email_match s"
    by (simp add: email_match_def ends_with_def)
qed

end
