(* ===== verification/Store.thy ===== *)
theory Store
  imports Models
begin

text \<open>
  The MongoDB database behind the three Mongoose models.  A collection is an
  association list from ObjectIds to documents in insertion (natural) order, which is
  the order \<open>find\<close> and \<open>findOne\<close> scan.  ObjectIds come from one counter
  \<open>next_id\<close>, so they are fresh and unique across the collections.  The operations
  are those the routes call: \<open>findById\<close>, \<open>find\<close>, \<open>findOne\<close>, \<open>save()\<close> of a new
  or a loaded document (schema validation first, then the unique index on
  \<open>users.email\<close>), \<open>findByIdAndUpdate\<close> (no validators, as in Mongoose's default) and
  \<open>findByIdAndDelete\<close>.  \<open>db_wf\<close> is the invariant every operation keeps: keys
  distinct and allocated, every document valid for its schema, e-mails unique and
  lower-case, comment contents trimmed.
\<close>

type_synonym 'a coll = "(oid \<times> 'a) list"

record db =
  users :: "user coll"
  blogs :: "blog coll"
  comments :: "comment coll"
  next_id :: oid

definition empty_db :: db where
  "empty_db = \<lparr>users = [], blogs = [], comments = [], next_id = 0\<rparr>"

text \<open>
  \<open>ObjectId#toString\<close> and the cast of a string to an ObjectId that \<open>findById\<close> and
  \<open>save()\<close> perform (a \<open>CastError\<close> when it fails).  Ids are printed as canonical
  decimal numerals.
\<close>

definition oid_str :: "oid \<Rightarrow> string" where
  "oid_str i = nat_to_dec i"

definition cast_oid :: "string \<Rightarrow> oid option" where
  "cast_oid s = parse_dec s"

datatype db_error =
    ValidationError string "string list"
  | CastError string
  | DuplicateKey string
  | DocumentNotFound string oid

fun error_message :: "db_error \<Rightarrow> string" where
  "error_message (ValidationError m ps) = validation_message m ps"
| "error_message (CastError path) = ''Cast to ObjectId failed for value at path '' @ path"
| "error_message (DuplicateKey k) = ''E11000 duplicate key error: email '' @ k"
| "error_message (DocumentNotFound m i) =
     ''No document found for query '' @ [CHR 0x22] @ ''{ _id: '' @ oid_str i @ '' }'' @ [CHR 0x22] @
     '' on model '' @ [CHR 0x22] @ m @ [CHR 0x22]"

lemma cast_oid_str [simp]: "cast_oid (oid_str i) = Some i"
  by (simp add: cast_oid_def oid_str_def)

lemma oid_str_inj [simp]: "oid_str i = oid_str j \<longleftrightarrow> i = j"
  by (simp add: oid_str_def)

lemma cast_oid_Some: "cast_oid s = Some i \<Longrightarrow> s = oid_str i"
  by (simp add: cast_oid_def oid_str_def parse_dec_Some)

subsection \<open>Queries and writes on one collection\<close>

definition find_by_id :: "'a coll \<Rightarrow> oid \<Rightarrow> 'a option" where
  "find_by_id c i = map_of c i"

definition find_where :: "('a \<Rightarrow> bool) \<Rightarrow> 'a coll \<Rightarrow> 'a coll" where
  "find_where P c = filter (\<lambda>(i, d). P d) c"

definition find_one :: "('a \<Rightarrow> bool) \<Rightarrow> 'a coll \<Rightarrow> (oid \<times> 'a) option" where
  "find_one P c = find (\<lambda>(i, d). P d) c"

definition insert_doc :: "oid \<Rightarrow> 'a \<Rightarrow> 'a coll \<Rightarrow> 'a coll" where
  "insert_doc i d c = c @ [(i, d)]"

definition replace_doc :: "oid \<Rightarrow> 'a \<Rightarrow> 'a coll \<Rightarrow> 'a coll" where
  "replace_doc i d c = map (\<lambda>(k, v). if k = i then (k, d) else (k, v)) c"

definition delete_doc :: "oid \<Rightarrow> 'a coll \<Rightarrow> 'a coll" where
  "delete_doc i c = filter (\<lambda>(k, v). k \<noteq> i) c"

subsection \<open>Saving documents\<close>

text \<open>\<open>new User(..).save()\<close>: validation, the unique index on \<open>email\<close>, insertion.\<close>

definition save_new_user :: "user \<Rightarrow> db \<Rightarrow> db_error + (oid \<times> db)" where
  "save_new_user u d =
     (let ps = failed_paths (user_checks u) in
      if ps \<noteq> [] then Inl (ValidationError ''User'' ps)
      else if find_one (\<lambda>v. email v = email u) (users d) \<noteq> None then Inl (DuplicateKey (email u))
      else Inr (next_id d, d\<lparr>users := insert_doc (next_id d) u (users d), next_id := Suc (next_id d)\<rparr>))"

text \<open>\<open>user.save()\<close> of a loaded user; the \<open>pre('save')\<close> hook stamps \<open>updatedAt\<close>.\<close>

definition save_user :: "oid \<Rightarrow> user \<Rightarrow> time \<Rightarrow> db \<Rightarrow> db_error + (user \<times> db)" where
  "save_user i u t d =
     (let ps = failed_paths (user_checks u); u' = u\<lparr>updatedAt := t\<rparr> in
      if ps \<noteq> [] then Inl (ValidationError ''User'' ps)
      else Inr (u', d\<lparr>users := replace_doc i u' (users d)\<rparr>))"

definition save_new_blog :: "blog \<Rightarrow> db \<Rightarrow> db_error + (oid \<times> db)" where
  "save_new_blog b d =
     (let ps = failed_paths (blog_checks b) in
      if ps \<noteq> [] then Inl (ValidationError ''Blog'' ps)
      else Inr (next_id d, d\<lparr>blogs := insert_doc (next_id d) b (blogs d), next_id := Suc (next_id d)\<rparr>))"

definition save_new_comment :: "comment \<Rightarrow> db \<Rightarrow> db_error + (oid \<times> db)" where
  "save_new_comment c d =
     (let ps = failed_paths (comment_checks c) in
      if ps \<noteq> [] then Inl (ValidationError ''Comment'' ps)
      else Inr (next_id d, d\<lparr>comments := insert_doc (next_id d) c (comments d),
                              next_id := Suc (next_id d)\<rparr>))"

definition save_comment :: "oid \<Rightarrow> comment \<Rightarrow> time \<Rightarrow> db \<Rightarrow> db_error + (comment \<times> db)" where
  "save_comment i c t d =
     (let ps = failed_paths (comment_checks c); c' = c\<lparr>comment_updatedAt := t\<rparr> in
      if ps \<noteq> [] then Inl (ValidationError ''Comment'' ps)
      else Inr (c', d\<lparr>comments := replace_doc i c' (comments d)\<rparr>))"

subsection \<open>Documents as JSON\<close>

text \<open>A user document as \<open>res.json\<close> sends it; \<open>undefined\<close> paths are left out.\<close>

definition user_fields :: "oid \<Rightarrow> user \<Rightarrow> (string \<times> json) list" where
  "user_fields i u =
     [(''_id'', JStr (oid_str i)), (''username'', JStr (username u)), (''email'', JStr (email u)),
      (''password'', JStr (hash_string (password u))), (''profileImage'', JStr (profileImage u))] @
     opt_field ''firstName'' JStr (firstName u) @ opt_field ''lastName'' JStr (lastName u) @
     opt_field ''age'' JNum (age u) @ opt_field ''gender'' JStr (gender u) @
     opt_field ''phone'' JStr (phone u) @ opt_field ''country'' JStr (country u) @
     opt_field ''city'' JStr (city u) @ opt_field ''address'' JStr (address u) @
     opt_field ''qualification'' JStr (qualification u) @
     [(''createdAt'', JNum (int (createdAt u))), (''updatedAt'', JNum (int (updatedAt u))),
      (''__v'', JNum 0)]"

definition user_json :: "oid \<Rightarrow> user \<Rightarrow> json" where
  "user_json i u = JObj (user_fields i u)"

text \<open>\<open>.select("-password")\<close>\<close>

definition select_without :: "string \<Rightarrow> (string \<times> json) list \<Rightarrow> (string \<times> json) list" where
  "select_without k fs = filter (\<lambda>(k', v). k' \<noteq> k) fs"

definition user_json_public :: "oid \<Rightarrow> user \<Rightarrow> json" where
  "user_json_public i u = JObj (select_without ''password'' (user_fields i u))"

text \<open>\<open>.populate(path, "f1 f2 ..")\<close>: the referenced user's \<open>_id\<close> and the selected
  paths, or \<open>null\<close> when the user is gone.\<close>

definition select_fields :: "string list \<Rightarrow> (string \<times> json) list \<Rightarrow> (string \<times> json) list" where
  "select_fields ks fs = filter (\<lambda>(k, v). k = ''_id'' \<or> k \<in> set ks) fs"

definition populate_user :: "string list \<Rightarrow> db \<Rightarrow> oid \<Rightarrow> json" where
  "populate_user ks d a =
     (case find_by_id (users d) a of
        None \<Rightarrow> JNull
      | Some u \<Rightarrow> JObj (select_fields ks (user_fields a u)))"

definition blog_json :: "json \<Rightarrow> oid \<Rightarrow> blog \<Rightarrow> json" where
  "blog_json auth i b =
     JObj [(''_id'', JStr (oid_str i)), (''title'', JStr (title b)),
           (''description'', JStr (description b)), (''category'', JStr (category b)),
           (''image'', JStr (blog_image b)), (''author'', auth),
           (''createdAt'', JNum (int (blog_createdAt b))), (''__v'', JNum 0)]"

definition comment_json :: "json \<Rightarrow> oid \<Rightarrow> comment \<Rightarrow> json" where
  "comment_json usr i c =
     JObj [(''_id'', JStr (oid_str i)), (''content'', JStr (content c)),
           (''blog'', JStr (oid_str (comment_blog c))), (''user'', usr),
           (''createdAt'', JNum (int (comment_createdAt c))),
           (''updatedAt'', JNum (int (comment_updatedAt c))), (''__v'', JNum 0)]"

subsection \<open>The invariant\<close>

definition coll_wf :: "('a \<Rightarrow> bool) \<Rightarrow> oid \<Rightarrow> 'a coll \<Rightarrow> bool" where
  "coll_wf P n c \<longleftrightarrow> distinct (map fst c) \<and> list_all (\<lambda>(i, d). i < n \<and> P d) c"

definition user_doc_ok :: "user \<Rightarrow> bool" where
  "user_doc_ok u \<longleftrightarrow> user_valid u \<and> to_lower_case (email u) = email u"

definition comment_doc_ok :: "comment \<Rightarrow> bool" where
  "comment_doc_ok c \<longleftrightarrow> comment_valid c \<and> js_trim (content c) = content c"

definition db_wf :: "db \<Rightarrow> bool" where
  "db_wf d \<longleftrightarrow>
     coll_wf user_doc_ok (next_id d) (users d) \<and>
     coll_wf blog_valid (next_id d) (blogs d) \<and>
     coll_wf comment_doc_ok (next_id d) (comments d) \<and>
     distinct (map (email \<circ> snd) (users d))"

lemma db_wf_empty: "db_wf empty_db"
  by (simp add: db_wf_def empty_db_def coll_wf_def)

subsection \<open>Lemmas on collections\<close>

named_theorems coll_simps "how the collection writes act on lookups and keys"

lemma map_of_insert_doc [coll_simps]:
  "map_of (insert_doc i d c) k = (if map_of c k = None \<and> k = i then Some d else map_of c k)"
  by (auto simp: insert_doc_def map_add_def split: option.split)

lemma map_of_replace_doc [coll_simps]:
  "map_of (replace_doc i d c) k = (if k = i \<and> map_of c k \<noteq> None then Some d else map_of c k)"
  by (induction c) (auto simp: replace_doc_def)

lemma map_of_delete_doc [coll_simps]:
  "distinct (map fst c) \<Longrightarrow> map_of (delete_doc i c) k = (if k = i then None else map_of c k)"
  by (induction c) (auto simp: delete_doc_def)

lemma keys_replace_doc [coll_simps]: "map fst (replace_doc i d c) = map fst c"
  by (induction c) (auto simp: replace_doc_def)

lemma keys_delete_doc [coll_simps]: "map fst (delete_doc i c) = filter (\<lambda>k. k \<noteq> i) (map fst c)"
  by (induction c) (auto simp: delete_doc_def)

lemma keys_insert_doc [coll_simps]: "map fst (insert_doc i d c) = map fst c @ [i]"
  by (simp add: insert_doc_def)

lemma find_one_None: "find_one P c = None \<longleftrightarrow> (\<forall>(i, d) \<in> set c. \<not> P d)"
  by (auto simp: find_one_def find_None_iff)

lemma find_one_Some: "find_one P c = Some (i, d) \<Longrightarrow> (i, d) \<in> set c \<and> P d"
proof (induction c)
  case Nil
  then show ?case by (simp add: find_one_def)
next
  case (Cons x c)
  then show ?case by (cases x) (auto simp: find_one_def split: if_splits)
qed

lemma map_replace_doc_same:
  "distinct (map fst c) \<Longrightarrow> map_of c i = Some d0 \<Longrightarrow> f d = f d0 \<Longrightarrow>
   map (f \<circ> snd) (replace_doc i d c) = map (f \<circ> snd) c"
  by (induction c) (force simp: replace_doc_def)+

lemma coll_wf_lookup: "coll_wf P n c \<Longrightarrow> map_of c i = Some d \<Longrightarrow> P d \<and> i < n"
  by (auto simp: coll_wf_def list_all_iff dest!: map_of_SomeD)

lemma coll_wf_insert:
  "coll_wf P n c \<Longrightarrow> P d \<Longrightarrow> coll_wf P (Suc n) (insert_doc n d c)"
  by (auto simp: coll_wf_def insert_doc_def list_all_iff)

lemma coll_wf_mono: "coll_wf P n c \<Longrightarrow> n \<le> m \<Longrightarrow> coll_wf P m c"
  by (auto simp: coll_wf_def list_all_iff)

lemma list_all_replace_doc:
  "list_all (\<lambda>(k, v). k < n \<and> P v) c \<Longrightarrow> P d \<Longrightarrow>
   list_all (\<lambda>(k, v). k < n \<and> P v) (replace_doc i d c)"
  by (induction c) (auto simp: replace_doc_def split: if_splits)

lemma coll_wf_replace:
  "coll_wf P n c \<Longrightarrow> P d \<Longrightarrow> coll_wf P n (replace_doc i d c)"
  by (simp add: coll_wf_def keys_replace_doc list_all_replace_doc)

lemma coll_wf_delete: "coll_wf P n c \<Longrightarrow> coll_wf P n (delete_doc i c)"
  by (auto simp: coll_wf_def delete_doc_def list_all_iff distinct_map_filter)

lemma coll_wf_Suc: "coll_wf P n c \<Longrightarrow> coll_wf P (Suc n) c"
  by (auto simp: coll_wf_def list_all_iff)

lemma find_one_email_None:
  "find_one (\<lambda>v. email v = x) c = None \<Longrightarrow> x \<notin> set (map (email \<circ> snd) c)"
  by (auto simp: find_one_None)

subsection \<open>Saving keeps the invariant\<close>

named_theorems wf_intros "preservation of the database invariant"

lemma save_new_user_wf:
  assumes "db_wf d" "to_lower_case (email u) = email u" "save_new_user u d = Inr (i, d')"
  shows "db_wf d'"
proof -
  have nf: "find_one (\<lambda>v. email v = email u) (users d) = None"
  proof (rule ccontr)
    assume "find_one (\<lambda>v. email v = email u) (users d) \<noteq> None"
    with assms(3) show False by (simp add: save_new_user_def Let_def split: if_splits)
  qed
  from assms(3) nf have v: "user_valid u"
    and d': "d' = d\<lparr>users := insert_doc (next_id d) u (users d), next_id := Suc (next_id d)\<rparr>"
    by (auto simp: save_new_user_def user_valid_def Let_def split: if_splits)
  have "coll_wf user_doc_ok (Suc (next_id d)) (insert_doc (next_id d) u (users d))"
    using assms(1,2) v by (auto simp: db_wf_def user_doc_ok_def intro: coll_wf_insert)
  with assms(1) find_one_email_None [OF nf] show ?thesis
    by (auto simp: d' db_wf_def insert_doc_def intro: coll_wf_Suc)
qed

lemma user_checks_updatedAt [simp]: "user_checks (u\<lparr>updatedAt := t\<rparr>) = user_checks u"
  by (simp add: user_checks_def)

lemma save_user_wf:
  assumes "db_wf d" "map_of (users d) i = Some u0" "email u = email u0"
    and "save_user i u t d = Inr (u', d')"
  shows "db_wf d'"
proof -
  from assms(4) have v: "user_valid u" and u': "u' = u\<lparr>updatedAt := t\<rparr>"
    and d': "d' = d\<lparr>users := replace_doc i u' (users d)\<rparr>"
    by (auto simp: save_user_def user_valid_def Let_def split: if_splits)
  have "user_doc_ok u0" using assms(1,2) by (auto simp: db_wf_def dest: coll_wf_lookup)
  then have ok: "user_doc_ok u'" using v assms(3) by (simp add: u' user_doc_ok_def user_valid_def)
  have "map (email \<circ> snd) (replace_doc i u' (users d)) = map (email \<circ> snd) (users d)"
    using assms(1,2,3) by (intro map_replace_doc_same) (simp_all add: u' db_wf_def coll_wf_def)
  with assms(1) ok show ?thesis by (simp add: d' db_wf_def coll_wf_replace)
qed

lemma save_new_blog_wf:
  assumes "db_wf d" "save_new_blog b d = Inr (i, d')"
  shows "db_wf d'"
proof -
  from assms(2) have v: "blog_valid b"
    and d': "d' = d\<lparr>blogs := insert_doc (next_id d) b (blogs d), next_id := Suc (next_id d)\<rparr>"
    by (auto simp: save_new_blog_def blog_valid_def Let_def split: if_splits)
  with assms(1) show ?thesis by (auto simp: db_wf_def intro: coll_wf_insert coll_wf_Suc)
qed

lemma save_new_comment_wf:
  assumes "db_wf d" "js_trim (content c) = content c" "save_new_comment c d = Inr (i, d')"
  shows "db_wf d'"
proof -
  from assms(3) have v: "comment_valid c"
    and d': "d' = d\<lparr>comments := insert_doc (next_id d) c (comments d), next_id := Suc (next_id d)\<rparr>"
    by (auto simp: save_new_comment_def comment_valid_def Let_def split: if_splits)
  with assms(1,2) show ?thesis
    by (auto simp: db_wf_def comment_doc_ok_def intro: coll_wf_insert coll_wf_Suc)
qed

lemma comment_checks_updatedAt [simp]:
  "comment_checks (c\<lparr>comment_updatedAt := t\<rparr>) = comment_checks c"
  by (simp add: comment_checks_def)

lemma save_comment_wf:
  assumes "db_wf d" "js_trim (content c) = content c" "save_comment i c t d = Inr (c', d')"
  shows "db_wf d'"
proof -
  from assms(3) have v: "comment_valid c" and c': "c' = c\<lparr>comment_updatedAt := t\<rparr>"
    and d': "d' = d\<lparr>comments := replace_doc i c' (comments d)\<rparr>"
    by (auto simp: save_comment_def comment_valid_def Let_def split: if_splits)
  have "comment_doc_ok c'" using v assms(2) by (simp add: c' comment_doc_ok_def comment_valid_def)
  with assms(1) show ?thesis by (simp add: d' db_wf_def coll_wf_replace)
qed

subsection \<open>What a populated user carries\<close>

lemma user_fields_atomic: "(k, v) \<in> set (user_fields i u) \<Longrightarrow> json_all_keys v = []"
  by (auto simp: user_fields_def dest!: opt_field_atomic)

lemma populate_user_keys:
  "''password'' \<notin> set ks \<Longrightarrow> ''password'' \<notin> set (json_all_keys (populate_user ks d a))"
  by (fastforce simp: populate_user_def select_fields_def split: option.splits dest: user_fields_atomic)

subsection \<open>Collections as maps\<close>

lemma map_of_snoc_fresh: "map_of (xs @ [(k, v)]) = (if map_of xs k = None then (map_of xs)(k \<mapsto> v) else map_of xs)"
  by (auto simp: fun_eq_iff map_add_def split: option.splits)

lemma map_of_replace_present: "map_of c i \<noteq> None \<Longrightarrow> map_of (replace_doc i v c) = (map_of c)(i \<mapsto> v)"
  by (simp add: fun_eq_iff map_of_replace_doc)

lemma map_of_delete_present: "distinct (map fst c) \<Longrightarrow> map_of (delete_doc i c) = (map_of c)(i := None)"
  by (simp add: fun_eq_iff map_of_delete_doc)

lemma fresh_next_id:
  assumes "db_wf d"
  shows "map_of (blogs d) (next_id d) = None" "map_of (comments d) (next_id d) = None"
  using assms
  by (cases "map_of (blogs d) (next_id d)"; cases "map_of (comments d) (next_id d)";
      auto simp: db_wf_def dest: coll_wf_lookup)+

end
