(* ===== verification/Http.thy ===== *)
theory Http
  imports Prelude
begin

text \<open>
  The Express side of a request: what a handler sends back (\<open>res.status(..).json(..)\<close>,
  \<open>res.cookie(..)\<close>, \<open>res.clearCookie(..)\<close>) and the process environment a handler
  reads (\<open>Date.now()\<close>, \<open>process.env.JWT_SECRET\<close>, \<open>process.env.NODE_ENV\<close>, and the
  random salt \<open>bcrypt.genSalt\<close> draws).  Responses are values; a handler returns one
  together with the new database.  \<open>now\<close> is the clock as the request is handled
  (\<open>jwt.verify\<close> reads it, and the handlers stamp documents with it);
  \<open>check_delay\<close> is the time, in milliseconds, that passes between \<open>jwt.verify\<close>'s
  reading of the clock and the second reading \<open>Date.now()\<close> of the middleware's own
  expiry test: Node reads the clock twice, and the two readings may differ.
\<close>

record cookie_options =
  httpOnly :: bool
  secure :: bool
  sameSite :: string
  maxAge :: nat

datatype cookie_op = KeepCookie | SetCookie string string cookie_options | ClearCookie string

record resp =
  status :: nat
  body :: json
  cookie :: cookie_op

record env =
  now :: time
  check_delay :: time
  jwt_secret :: string
  salt :: nat
  production :: bool

text \<open>\<open>res.status(s).json(j)\<close>\<close>

definition json_resp :: "nat \<Rightarrow> json \<Rightarrow> resp" where
  "json_resp s j = \<lparr>status = s, body = j, cookie = KeepCookie\<rparr>"

text \<open>\<open>res.status(s).json({ message: m })\<close>\<close>

definition msg_resp :: "nat \<Rightarrow> string \<Rightarrow> resp" where
  "msg_resp s m = json_resp s (JObj [(''message'', JStr m)])"

text \<open>\<open>res.status(s).json({ message: m, error: err.message })\<close>\<close>

definition msg_err_resp :: "nat \<Rightarrow> string \<Rightarrow> string \<Rightarrow> resp" where
  "msg_err_resp s m e = json_resp s (JObj [(''message'', JStr m), (''error'', JStr e)])"

lemma status_simps [simp]:
  "status (json_resp s j) = s" "status (msg_resp s m) = s" "status (msg_err_resp s m e) = s"
  by (simp_all add: json_resp_def msg_resp_def msg_err_resp_def)

lemma cookie_simps [simp]:
  "cookie (json_resp s j) = KeepCookie" "cookie (msg_resp s m) = KeepCookie"
  "cookie (msg_err_resp s m e) = KeepCookie"
  by (simp_all add: json_resp_def msg_resp_def msg_err_resp_def)

lemma msg_resp_eq_iff [simp]: "msg_resp s m = msg_resp s' m' \<longleftrightarrow> s = s' \<and> m = m'"
  by (simp add: msg_resp_def json_resp_def)

end
