(* ===== verification/AuthMiddleware.thy ===== *)
theory AuthMiddleware
  imports Http Crypto
begin

text \<open>
  \<open>src/middleware/authMiddleware.js\<close>.  The gate reads the \<open>token\<close> cookie, or else the
  second space-separated word of the \<open>Authorization\<close> header, verifies it and either
  passes the decoded claims on (\<open>req.user = decoded; next()\<close>) or answers itself.
  \<open>auth_gate\<close> is the body of the middleware over any \<open>jwt.verify\<close>; its lemmas hold
  for every verifier.  \<open>authMiddleware\<close> instantiates it with the jsonwebtoken model
  of \<open>Crypto\<close>, whose facts discharge the verifier's side of the lemmas.  The clock is
  read twice: \<open>jwt.verify\<close> reads \<open>now\<close>, and the test
  \<open>Date.now() >= decoded.exp * 1000\<close> of line 18 reads it \<open>check_delay\<close>
  milliseconds later, so that test fires only for a token whose expiry falls between the
  two readings.
\<close>

record auth_req =
  cookie_token :: "string option"
  authorization :: "string option"

text \<open>\<open>req.cookies.token || req.header("Authorization")?.split(" ")[1]\<close>\<close>

definition extract_token :: "auth_req \<Rightarrow> string option" where
  "extract_token r =
     (if js_truthy (cookie_token r) then cookie_token r
      else (case authorization r of
              None \<Rightarrow> None
            | Some h \<Rightarrow> nth_opt (js_split CHR '' '' h) 1))"

datatype gate = Next claims | Deny resp

definition auth_gate :: "(string \<Rightarrow> verify_result) \<Rightarrow> time \<Rightarrow> auth_req \<Rightarrow> gate" where
  "auth_gate verify t r =
     (let tok = extract_token r in
      if \<not> js_truthy tok then Deny (msg_resp 401 ''Access denied. Please login to continue.'')
      else (case verify (the tok) of
              Verified c \<Rightarrow>
                if claim_exp c \<noteq> 0 \<and> claim_exp c * 1000 \<le> t
                then Deny (msg_resp 401 ''Token has expired. Please login again.'')
                else Next c
            | TokenExpiredError \<Rightarrow> Deny (msg_resp 401 ''Session expired. Please login again.'')
            | JsonWebTokenError \<Rightarrow> Deny (msg_resp 401 ''Invalid token. Please login again.'')
            | NotBeforeError \<Rightarrow> Deny (msg_resp 500 ''Authentication error. Please try again.'')))"

definition authMiddleware :: "env \<Rightarrow> auth_req \<Rightarrow> gate" where
  "authMiddleware e r = auth_gate (jwt_verify (jwt_secret e) (now e)) (now e + check_delay e) r"

subsection \<open>Where the token comes from\<close>

lemma extract_token_cookie: "js_truthy (cookie_token r) \<Longrightarrow> extract_token r = cookie_token r"
  by (simp add: extract_token_def)

lemma nth_opt_js_split_word:
  "CHR '' '' \<notin> set s \<Longrightarrow> CHR '' '' \<notin> set t \<Longrightarrow>
   nth_opt (js_split CHR '' '' (s @ CHR '' '' # t)) 1 = Some t"
  by (simp add: js_split_sep js_split_nosep)

text \<open>
  Without a cookie, the gate takes the second space-separated word of the
  \<open>Authorization\<close> header as the token, whatever the first word is: the
  \<open>Bearer\<close> scheme is never checked.
\<close>

lemma extract_token_header:
  "\<not> js_truthy (cookie_token r) \<Longrightarrow> authorization r = Some (s @ CHR '' '' # t) \<Longrightarrow>
   CHR '' '' \<notin> set s \<Longrightarrow> CHR '' '' \<notin> set t \<Longrightarrow> extract_token r = Some t"
  by (simp add: extract_token_def js_split_sep js_split_nosep)

subsection \<open>The gate for any verifier\<close>

named_theorems gate_simps "the branches of the authentication gate"

lemma auth_gate_no_token [gate_simps]:
  "\<not> js_truthy (extract_token r) \<Longrightarrow>
   auth_gate verify t r = Deny (msg_resp 401 ''Access denied. Please login to continue.'')"
  by (simp add: auth_gate_def)

lemma auth_gate_verified [gate_simps]:
  "extract_token r = Some tok \<Longrightarrow> tok \<noteq> [] \<Longrightarrow> verify tok = Verified c \<Longrightarrow>
   t div 1000 < claim_exp c \<Longrightarrow> auth_gate verify t r = Next c"
  by (auto simp: auth_gate_def)

lemma auth_gate_expired [gate_simps]:
  "extract_token r = Some tok \<Longrightarrow> tok \<noteq> [] \<Longrightarrow> verify tok = TokenExpiredError \<Longrightarrow>
   auth_gate verify t r = Deny (msg_resp 401 ''Session expired. Please login again.'')"
  by (simp add: auth_gate_def)

lemma auth_gate_invalid [gate_simps]:
  "extract_token r = Some tok \<Longrightarrow> tok \<noteq> [] \<Longrightarrow> verify tok = JsonWebTokenError \<Longrightarrow>
   auth_gate verify t r = Deny (msg_resp 401 ''Invalid token. Please login again.'')"
  by (simp add: auth_gate_def)

lemma auth_gate_Next:
  "auth_gate verify t r = Next c \<Longrightarrow>
   \<exists>tok. extract_token r = Some tok \<and> tok \<noteq> [] \<and> verify tok = Verified c"
  by (cases "extract_token r")
     (auto simp: auth_gate_def split: verify_result.splits if_splits)

text \<open>
  After a successful \<open>jwt.verify\<close>, the gate's answer is decided by the middleware's own
  expiry test alone.
\<close>

lemma auth_gate_verified_test:
  "extract_token r = Some tok \<Longrightarrow> tok \<noteq> [] \<Longrightarrow> verify tok = Verified c \<Longrightarrow>
   auth_gate verify t r =
     (if claim_exp c \<noteq> 0 \<and> claim_exp c * 1000 \<le> t
      then Deny (msg_resp 401 ''Token has expired. Please login again.'') else Next c)"
  by (simp add: auth_gate_def)

subsection \<open>The gate with the jsonwebtoken model\<close>

lemma jwt_encode_not_Nil: "jwt_encode s c \<noteq> []"
  by (simp add: jwt_encode_def payload_parts_def)

lemma div_1000_less: "((t::nat) div 1000 < k) = (t < k * 1000)"
  by (simp add: div_less_iff_less_mult)

text \<open>\<open>jwt.verify\<close> on a token signed with the server's secret, at the first reading.\<close>

lemma jwt_verify_signed:
  "jwt_verify (jwt_secret e) (now e) (jwt_encode (jwt_secret e) c) =
     (if now e < claim_exp c * 1000 then Verified c else TokenExpiredError)"
  by (simp add: jwt_verify_encode div_1000_less [symmetric] not_less)

text \<open>
  The middleware's own test answers \<open>Token has expired\<close> only for a token that
  \<open>jwt.verify\<close> accepted and whose expiry came between the two clock readings.
\<close>

lemma authMiddleware_expired_window:
  assumes "authMiddleware e r = Deny (msg_resp 401 ''Token has expired. Please login again.'')"
  shows "\<exists>c::claims. now e < claim_exp c * 1000 \<and> claim_exp c * 1000 \<le> now e + check_delay e"
proof -
  obtain tok c where v: "jwt_verify (jwt_secret e) (now e) tok = Verified c"
    and w: "claim_exp c * 1000 \<le> now e + check_delay e"
    using assms by (auto simp: authMiddleware_def auth_gate_def Let_def split: verify_result.splits if_splits)
  have "now e < claim_exp c * 1000"
    using jwt_verify_Verified_exp [OF v] by (simp add: div_1000_less)
  then show ?thesis using w by blast
qed

text \<open>
  C9.  For a token signed with the server's secret, the middleware answers 401
  \<open>Token has expired. Please login again.\<close> exactly when the token's expiry instant
  \<open>exp * 1000\<close> lies after \<open>jwt.verify\<close>'s reading of the clock and no later than the
  \<open>Date.now()\<close> of line 18: the branch is reachable only in the window between the two
  readings, and a token past its expiry at the first reading gets \<open>Session expired\<close>.
\<close>

lemma authMiddleware_second_expiry:
  assumes tok: "extract_token r = Some (jwt_encode (jwt_secret e) c)"
  shows "authMiddleware e r = Deny (msg_resp 401 ''Token has expired. Please login again.'') \<longleftrightarrow>
         now e < claim_exp c * 1000 \<and> claim_exp c * 1000 \<le> now e + check_delay e"
  using tok by (auto simp: authMiddleware_def auth_gate_def jwt_verify_signed jwt_encode_not_Nil)

lemma authMiddleware_signed:
  assumes tok: "extract_token r = Some (jwt_encode (jwt_secret e) c)"
    and live: "now e + check_delay e < claim_exp c * 1000"
  shows "authMiddleware e r = Next c"
proof -
  have "jwt_verify (jwt_secret e) (now e) (jwt_encode (jwt_secret e) c) = Verified c"
    using live by (simp add: jwt_verify_signed)
  from auth_gate_verified_test [where verify = "jwt_verify (jwt_secret e) (now e)", OF tok jwt_encode_not_Nil this]
  show ?thesis using live by (simp add: authMiddleware_def)
qed

lemma authMiddleware_expired:
  assumes tok: "extract_token r = Some (jwt_encode (jwt_secret e) c)"
    and dead: "claim_exp c \<le> now e div 1000"
  shows "authMiddleware e r = Deny (msg_resp 401 ''Session expired. Please login again.'')"
proof -
  have "jwt_verify (jwt_secret e) (now e) (jwt_encode (jwt_secret e) c) = TokenExpiredError"
    using dead by (subst jwt_verify_encode) simp
  from auth_gate_expired [where verify = "jwt_verify (jwt_secret e) (now e)", OF tok jwt_encode_not_Nil this] show ?thesis
    by (simp add: authMiddleware_def)
qed

text \<open>
  C19.  A token signed with any secret other than the server's is refused with 401
  \<open>Invalid token. Please login again.\<close>, whatever claims it carries.
\<close>

lemma authMiddleware_forged:
  assumes tok: "extract_token r = Some (jwt_encode s c)" and other: "s \<noteq> jwt_secret e"
  shows "authMiddleware e r = Deny (msg_resp 401 ''Invalid token. Please login again.'')"
proof -
  have "jwt_verify (jwt_secret e) (now e) (jwt_encode s c) = JsonWebTokenError"
    using other by (intro jwt_verify_other_secret) simp
  from auth_gate_invalid [where verify = "jwt_verify (jwt_secret e) (now e)", OF tok jwt_encode_not_Nil this] show ?thesis
    by (simp add: authMiddleware_def)
qed

lemma auth_gate_Deny_keys:
  "auth_gate verify t r = Deny rs \<Longrightarrow> json_keys (body rs) = [''message'']"
  by (auto simp: auth_gate_def msg_resp_def json_resp_def Let_def
           split: if_splits verify_result.splits)

lemma auth_gate_Deny_msg: "auth_gate verify t r = Deny rs \<Longrightarrow> \<exists>s m. rs = msg_resp s m"
  by (auto simp: auth_gate_def Let_def split: if_splits verify_result.splits)

end
