(* ===== verification/AuthRoutes.thy ===== *)
theory AuthRoutes
  imports Store AuthMiddleware
begin

text \<open>
  \<open>src/routes/authRoutes.js\<close>: \<open>POST /signup\<close>, \<open>POST /login\<close>, \<open>GET /user\<close>,
  \<open>POST /logout\<close>, \<open>PUT /user/update\<close>, \<open>GET /user/verify\<close>.  Each handler takes
  the request's fields (an absent body field is \<open>None\<close>), for the protected ones the
  claims the gate attached as \<open>req.user\<close>, and the database; it returns the response
  and the new database.  Every \<open>return res.status(..)\<close> of the source is a branch,
  and every exception the \<open>try\<close> block catches (\<open>email.toLowerCase()\<close> of an absent
  e-mail, \<open>bcrypt\<close> on an absent password, a \<open>CastError\<close> or \<open>ValidationError\<close>)
  is the branch answering 500.  \<open>User.findOne({ email })\<close> applies the schema's
  \<open>lowercase\<close> setter to the query value, as Mongoose casts queries.
\<close>

subsection \<open>Handlers\<close>

definition signup ::
  "env \<Rightarrow> string option \<Rightarrow> string option \<Rightarrow> string option \<Rightarrow> string option \<Rightarrow> db \<Rightarrow> resp \<times> db" where
  "signup e un em pw img d =
     (case em of
        None \<Rightarrow> (msg_resp 500 ''Internal Server Error'', d)
      | Some em' \<Rightarrow>
          (let lc = to_lower_case em' in
           if \<not> ends_with lc ''@gmail.com''
           then (msg_resp 400 ''Only @gmail.com emails are allowed!'', d)
           else if find_one (\<lambda>u. email u = lc) (users d) \<noteq> None
           then (msg_resp 400 ''Email already registered. Please log in!'', d)
           else (case pw of
                   None \<Rightarrow> (msg_resp 500 ''Internal Server Error'', d)
                 | Some p \<Rightarrow>
                     (case save_new_user (new_user un lc (bcrypt_hash p (salt e)) img (now e)) d of
                        Inl err \<Rightarrow> (msg_resp 500 ''Internal Server Error'', d)
                      | Inr (i, d') \<Rightarrow>
                          (json_resp 201 (JObj [(''success'', JBool True),
                                                (''message'', JStr ''User registered successfully!'')]),
                           d')))))"

definition login_cookie_options :: "env \<Rightarrow> cookie_options" where
  "login_cookie_options e =
     \<lparr>httpOnly = True, secure = production e, sameSite = ''strict'', maxAge = 7 * 24 * 60 * 60 * 1000\<rparr>"

definition login_body :: "oid \<Rightarrow> user \<Rightarrow> string \<Rightarrow> json" where
  "login_body i u tok =
     JObj [(''success'', JBool True), (''message'', JStr ''Login successful''),
           (''user'', JObj [(''id'', JStr (oid_str i)), (''username'', JStr (username u)),
                            (''email'', JStr (email u)), (''profileImage'', JStr (profileImage u))]),
           (''token'', JStr tok)]"

definition login :: "env \<Rightarrow> string option \<Rightarrow> string option \<Rightarrow> db \<Rightarrow> resp \<times> db" where
  "login e em pw d =
     (case find_one (\<lambda>u. Some (email u) = map_option to_lower_case em) (users d) of
        None \<Rightarrow> (msg_resp 400 ''Invalid credentials'', d)
      | Some (i, u) \<Rightarrow>
          (case pw of
             None \<Rightarrow> (msg_resp 500 ''Server error'', d)
           | Some p \<Rightarrow>
               if \<not> bcrypt_compare p (password u) then (msg_resp 400 ''Invalid credentials'', d)
               else
                 (let tok = jwt_sign (jwt_secret e) (oid_str i) (email u) (username u) (now e) in
                  (\<lparr>status = 200, body = login_body i u tok,
                    cookie = SetCookie ''token'' tok (login_cookie_options e)\<rparr>, d))))"

definition get_user :: "claims \<Rightarrow> db \<Rightarrow> resp \<times> db" where
  "get_user c d =
     (case cast_oid (claim_id c) of
        None \<Rightarrow> (msg_resp 500 ''Internal Server Error'', d)
      | Some i \<Rightarrow>
          (case find_by_id (users d) i of
             None \<Rightarrow> (msg_resp 404 ''User not found!'', d)
           | Some u \<Rightarrow> (json_resp 200 (user_json_public i u), d)))"

definition logout :: "db \<Rightarrow> resp \<times> db" where
  "logout d =
     (\<lparr>status = 200, body = JObj [(''message'', JStr ''Logout successful!'')],
       cookie = ClearCookie ''token''\<rparr>, d)"

record profile_update =
  pu_firstName :: "string option"
  pu_lastName :: "string option"
  pu_age :: "int option"
  pu_gender :: "string option"
  pu_phone :: "string option"
  pu_country :: "string option"
  pu_city :: "string option"
  pu_address :: "string option"
  pu_qualification :: "string option"

text \<open>\<open>if (v) user.f = v\<close>, through the path's setter \<open>f\<close>.\<close>

definition assign_if :: "(string \<Rightarrow> string) \<Rightarrow> string option \<Rightarrow> string option \<Rightarrow> string option" where
  "assign_if f v old = (if js_truthy v then map_option f v else old)"

definition apply_profile :: "profile_update \<Rightarrow> user \<Rightarrow> user" where
  "apply_profile b u =
     u\<lparr>firstName := assign_if js_trim (pu_firstName b) (firstName u),
       lastName := assign_if js_trim (pu_lastName b) (lastName u),
       age := (if js_truthy_int (pu_age b) then pu_age b else age u),
       gender := assign_if id (pu_gender b) (gender u),
       phone := assign_if js_trim (pu_phone b) (phone u),
       country := assign_if js_trim (pu_country b) (country u),
       city := assign_if js_trim (pu_city b) (city u),
       address := assign_if js_trim (pu_address b) (address u),
       qualification := assign_if js_trim (pu_qualification b) (qualification u)\<rparr>"

definition update_user :: "env \<Rightarrow> claims \<Rightarrow> profile_update \<Rightarrow> db \<Rightarrow> resp \<times> db" where
  "update_user e c b d =
     (case cast_oid (claim_id c) of
        None \<Rightarrow> (msg_resp 500 ''Internal Server Error'', d)
      | Some i \<Rightarrow>
          (case find_by_id (users d) i of
             None \<Rightarrow> (msg_resp 404 ''User not found!'', d)
           | Some u \<Rightarrow>
               (case save_user i (apply_profile b u) (now e) d of
                  Inl err \<Rightarrow> (msg_resp 500 ''Internal Server Error'', d)
                | Inr (u', d') \<Rightarrow>
                    (json_resp 200 (JObj [(''message'', JStr ''Profile updated successfully!''),
                                          (''user'', user_json i u')]), d'))))"

definition verify_user :: "claims \<Rightarrow> db \<Rightarrow> resp \<times> db" where
  "verify_user c d =
     (case cast_oid (claim_id c) of
        None \<Rightarrow> (msg_resp 500 ''Server error'', d)
      | Some i \<Rightarrow>
          (case find_by_id (users d) i of
             None \<Rightarrow> (msg_resp 404 ''User not found'', d)
           | Some u \<Rightarrow>
               (json_resp 200 (JObj [(''success'', JBool True),
                  (''user'', JObj [(''_id'', JStr (oid_str i)), (''username'', JStr (username u)),
                                   (''email'', JStr (email u)),
                                   (''profileImage'', JStr (profileImage u))])]), d)))"

subsection \<open>Signup\<close>

text \<open>
  Signup with an e-mail that does not end in \<open>@gmail.com\<close> after lower-casing is
  answered 400 \<open>Only @gmail.com emails are allowed!\<close> and stores nothing.
\<close>

lemma signup_non_gmail:
  "\<not> ends_with (to_lower_case em) ''@gmail.com'' \<Longrightarrow>
   signup e un (Some em) pw img d = (msg_resp 400 ''Only @gmail.com emails are allowed!'', d)"
  by (simp add: signup_def)

text \<open>
  Signup with a Gmail address already registered, in any letter case, is answered
  400 \<open>Email already registered. Please log in!\<close> and stores nothing.
\<close>

lemma signup_registered:
  "ends_with (to_lower_case em) ''@gmail.com'' \<Longrightarrow>
   find_one (\<lambda>u. email u = to_lower_case em) (users d) \<noteq> None \<Longrightarrow>
   signup e un (Some em) pw img d = (msg_resp 400 ''Email already registered. Please log in!'', d)"
  by (simp add: signup_def)

lemma signup_created:
  assumes "ends_with (to_lower_case em) ''@gmail.com''"
    and "find_one (\<lambda>u. email u = to_lower_case em) (users d) = None"
    and "user_valid (new_user un (to_lower_case em) (bcrypt_hash p (salt e)) img (now e))"
  shows "signup e un (Some em) (Some p) img d =
     (json_resp 201 (JObj [(''success'', JBool True), (''message'', JStr ''User registered successfully!'')]),
      d\<lparr>users := users d @ [(next_id d, new_user un (to_lower_case em) (bcrypt_hash p (salt e)) img (now e))],
        next_id := Suc (next_id d)\<rparr>)"
proof -
  have "find_one (\<lambda>v. email v = to_lower_case em) (users d) = None" by (rule assms(2))
  then show ?thesis
    using assms by (simp add: signup_def save_new_user_def user_valid_def new_user_def insert_doc_def)
qed

text \<open>Every answer of \<open>/signup\<close> other than 201 leaves the database as it was.\<close>

lemma signup_unchanged:
  "status (fst (signup e un em pw img d)) \<noteq> 201 \<Longrightarrow> snd (signup e un em pw img d) = d"
  by (auto simp: signup_def Let_def split: option.splits if_splits sum.splits)

lemma email_new_user [simp]: "email (new_user un em h img t) = to_lower_case em"
  by (simp add: new_user_def)

lemma signup_wf [wf_intros]:
  assumes wf: "db_wf d"
  shows "db_wf (snd (signup e un em pw img d))"
proof -
  have "db_wf d'"
    if "save_new_user (new_user un lc (bcrypt_hash p (salt e)) img (now e)) d = Inr (i, d')"
    for lc p i d'
    using save_new_user_wf [OF wf _ that] by simp
  with wf show ?thesis by (auto simp: signup_def Let_def split: option.splits sum.splits)
qed

subsection \<open>Login\<close>

lemma login_unknown_email:
  "find_one (\<lambda>u. Some (email u) = map_option to_lower_case em) (users d) = None \<Longrightarrow>
   login e em pw d = (msg_resp 400 ''Invalid credentials'', d)"
  by (simp add: login_def)

lemma login_wrong_password:
  "find_one (\<lambda>u. Some (email u) = map_option to_lower_case em) (users d) = Some (i, u) \<Longrightarrow>
   \<not> bcrypt_compare p (password u) \<Longrightarrow>
   login e em (Some p) d = (msg_resp 400 ''Invalid credentials'', d)"
  by (simp add: login_def)

lemma login_success:
  "find_one (\<lambda>u. Some (email u) = map_option to_lower_case em) (users d) = Some (i, u) \<Longrightarrow>
   bcrypt_compare p (password u) \<Longrightarrow>
   login e em (Some p) d =
     (let tok = jwt_sign (jwt_secret e) (oid_str i) (email u) (username u) (now e) in
      (\<lparr>status = 200, body = login_body i u tok,
        cookie = SetCookie ''token'' tok (login_cookie_options e)\<rparr>, d))"
  by (simp add: login_def)

lemma login_unchanged: "snd (login e em pw d) = d"
  by (simp add: login_def Let_def split: option.splits prod.splits)

subsection \<open>Profile routes\<close>

lemma password_not_selected: "''password'' \<notin> set (map fst (select_without ''password'' fs))"
  by (induction fs) (auto simp: select_without_def)

lemma get_user_unchanged: "snd (get_user c d) = d"
  by (simp add: get_user_def split: option.splits)

lemma verify_user_unchanged: "snd (verify_user c d) = d"
  by (simp add: verify_user_def split: option.splits)

lemma email_apply_profile [simp]: "email (apply_profile b u) = email u"
  by (simp add: apply_profile_def)

lemma update_user_wf [wf_intros]:
  assumes wf: "db_wf d"
  shows "db_wf (snd (update_user e c b d))"
proof -
  have "db_wf d'"
    if "map_of (users d) i = Some u" "save_user i (apply_profile b u) (now e) d = Inr (u', d')"
    for i u u' d'
    using save_user_wf [OF wf that(1) _ that(2)] by simp
  with wf show ?thesis by (auto simp: update_user_def find_by_id_def split: option.splits sum.splits)
qed

subsection \<open>Facts the end-to-end properties use\<close>

lemma signup_201:
  assumes "status (fst (signup e un em pw img d)) = 201"
  shows "\<exists>em' p. em = Some em' \<and> pw = Some p \<and> ends_with (to_lower_case em') ''@gmail.com'' \<and>
           find_one (\<lambda>u. email u = to_lower_case em') (users d) = None \<and>
           user_valid (new_user un (to_lower_case em') (bcrypt_hash p (salt e)) img (now e)) \<and>
           snd (signup e un em pw img d) =
             d\<lparr>users := users d @ [(next_id d, new_user un (to_lower_case em') (bcrypt_hash p (salt e)) img (now e))],
               next_id := Suc (next_id d)\<rparr>"
  using assms
  by (auto simp: signup_def save_new_user_def user_valid_def insert_doc_def Let_def
           split: option.splits if_splits sum.splits)

lemma find_one_snoc:
  "find_one P xs = None \<Longrightarrow> P v \<Longrightarrow> find_one P (xs @ [(k, v)]) = Some (k, v)"
  by (induction xs) (auto simp: find_one_def split: if_splits)

lemma login_cookie_token:
  "cookie (fst (login e em pw d)) = SetCookie n tok opts \<Longrightarrow>
   \<exists>uid em' un. tok = jwt_sign (jwt_secret e) uid em' un (now e)"
  by (auto simp: login_def Let_def split: option.splits if_splits intro!: exI)

subsection \<open>What a request can change of a user\<close>

lemma apply_profile_credentials [simp]:
  "password (apply_profile b u) = password u" "username (apply_profile b u) = username u"
  "createdAt (apply_profile b u) = createdAt u"
  by (simp_all add: apply_profile_def)

lemma signup_users:
  "users (snd (signup e un em pw img d)) = users d \<or>
   (\<exists>u. users (snd (signup e un em pw img d)) = users d @ [(next_id d, u)])"
  by (auto simp: signup_def save_new_user_def insert_doc_def Let_def split: option.splits sum.splits)

lemma update_user_effect:
  "users (snd (update_user e c b d)) = users d \<or>
   (\<exists>i u. map_of (users d) i = Some u \<and>
      users (snd (update_user e c b d)) = replace_doc i ((apply_profile b u)\<lparr>updatedAt := now e\<rparr>) (users d))"
  by (auto simp: update_user_def find_by_id_def save_user_def Let_def split: option.splits sum.splits if_splits)

end
