(* ===== verification/BlogRoutes.thy ===== *)
theory BlogRoutes
  imports Store AuthMiddleware "HOL-Library.Multiset"
begin

text \<open>
  \<open>src/routes/blogRoutes.js\<close>: \<open>POST /blogs\<close>, \<open>GET /blogs\<close>,
  \<open>GET /blogs/my-blogs\<close>, \<open>DELETE /blogs/:id\<close>, \<open>PUT /blogs/:id\<close>.  The path
  parameter is the raw string of the URL; \<open>findById\<close> casts it to an ObjectId.  The
  owner check compares \<open>blog.author.toString()\<close> with the id string of the verified
  token.  Listings are sorted newest first with a stable sort, so blogs created in the
  same millisecond keep their natural order.
\<close>

definition blog_not_found :: resp where
  "blog_not_found = msg_resp 404 ''Blog not found''"

text \<open>\<open>new Blog({ title, description, image, author: userId, category })\<close>\<close>

definition new_blog ::
  "string option \<Rightarrow> string option \<Rightarrow> string option \<Rightarrow> string option \<Rightarrow> oid \<Rightarrow> time \<Rightarrow> blog" where
  "new_blog t ds im cat uid tm =
     \<lparr>title = the t, description = the ds, category = the cat,
      blog_image = (case im of None \<Rightarrow> [] | Some s \<Rightarrow> s), author = uid, blog_createdAt = tm\<rparr>"

definition create_blog ::
  "env \<Rightarrow> claims \<Rightarrow> string option \<Rightarrow> string option \<Rightarrow> string option \<Rightarrow> string option \<Rightarrow> db \<Rightarrow>
   resp \<times> db" where
  "create_blog e c t ds im cat d =
     (if \<not> js_truthy t \<or> \<not> js_truthy ds
      then (msg_resp 400 ''Title and description are required'', d)
      else if \<not> js_includes validCategories cat
      then (msg_resp 400 ''Invalid category selected'', d)
      else (case cast_oid (claim_id c) of
              None \<Rightarrow> (msg_err_resp 500 ''Error posting blog''
                         (error_message (ValidationError ''Blog'' [''author''])), d)
            | Some uid \<Rightarrow>
                (let b = new_blog t ds im cat uid (now e) in
                 case save_new_blog b d of
                   Inl err \<Rightarrow> (msg_err_resp 500 ''Error posting blog'' (error_message err), d)
                 | Inr (i, d') \<Rightarrow>
                     (json_resp 201 (JObj [(''message'', JStr ''Blog posted successfully!''),
                        (''blog'', blog_json (populate_user [''username'', ''email''] d' uid) i b)]),
                      d'))))"

text \<open>\<open>.sort({ createdAt: -1 })\<close>\<close>

definition newest_first :: "blog coll \<Rightarrow> blog coll" where
  "newest_first bs = sort_key (\<lambda>(i, b). - int (blog_createdAt b)) bs"

definition blogs_json :: "db \<Rightarrow> blog coll \<Rightarrow> json" where
  "blogs_json d bs =
     JArr (map (\<lambda>(i, b). blog_json (populate_user [''username'', ''email'', ''profileImage''] d (author b)) i b) bs)"

definition list_blogs :: "db \<Rightarrow> resp \<times> db" where
  "list_blogs d = (json_resp 200 (JObj [(''blogs'', blogs_json d (newest_first (blogs d)))]), d)"

definition my_blogs :: "claims \<Rightarrow> db \<Rightarrow> resp \<times> db" where
  "my_blogs c d =
     (case cast_oid (claim_id c) of
        None \<Rightarrow> (msg_err_resp 500 ''Error fetching user blogs'' (error_message (CastError ''author'')), d)
      | Some uid \<Rightarrow>
          (json_resp 200 (JObj [(''blogs'',
             blogs_json d (newest_first (find_where (\<lambda>b. author b = uid) (blogs d))))]), d))"

definition delete_blog :: "claims \<Rightarrow> string \<Rightarrow> db \<Rightarrow> resp \<times> db" where
  "delete_blog c bid d =
     (case cast_oid bid of
        None \<Rightarrow> (msg_err_resp 500 ''Error deleting blog'' (error_message (CastError ''_id'')), d)
      | Some i \<Rightarrow>
          (case find_by_id (blogs d) i of
             None \<Rightarrow> (blog_not_found, d)
           | Some b \<Rightarrow>
               if oid_str (author b) \<noteq> claim_id c
               then (msg_resp 403 ''You are not authorized to delete this blog'', d)
               else (msg_resp 200 ''Blog deleted successfully'', d\<lparr>blogs := delete_doc i (blogs d)\<rparr>)))"

text \<open>
  \<open>Blog.findByIdAndUpdate(id, { title: title || blog.title, ..., updatedAt }, { new: true })\<close>:
  no validators run, and \<open>updatedAt\<close>, which the schema does not declare, is dropped.
\<close>

definition merge_blog :: "string option \<Rightarrow> string option \<Rightarrow> string option \<Rightarrow> string option \<Rightarrow> blog \<Rightarrow> blog" where
  "merge_blog t ds im cat b =
     b\<lparr>title := js_or t (title b), description := js_or ds (description b),
       blog_image := js_or im (blog_image b), category := js_or cat (category b)\<rparr>"

definition update_blog ::
  "claims \<Rightarrow> string \<Rightarrow> string option \<Rightarrow> string option \<Rightarrow> string option \<Rightarrow> string option \<Rightarrow> db \<Rightarrow>
   resp \<times> db" where
  "update_blog c bid t ds im cat d =
     (case cast_oid bid of
        None \<Rightarrow> (msg_err_resp 500 ''Error updating blog'' (error_message (CastError ''_id'')), d)
      | Some i \<Rightarrow>
          (case find_by_id (blogs d) i of
             None \<Rightarrow> (blog_not_found, d)
           | Some b \<Rightarrow>
               if oid_str (author b) \<noteq> claim_id c
               then (msg_resp 403 ''Unauthorized: You can only edit your own blog'', d)
               else if js_truthy cat \<and> \<not> js_includes validCategories cat
               then (msg_resp 400 ''Invalid category selected'', d)
               else
                 (let b' = merge_blog t ds im cat b;
                      d' = d\<lparr>blogs := replace_doc i b' (blogs d)\<rparr> in
                  (json_resp 200 (JObj [(''message'', JStr ''Blog updated successfully''),
                     (''blog'', blog_json (populate_user [''username'', ''email'', ''profileImage''] d' (author b')) i b')]),
                   d'))))"

subsection \<open>Existence before ownership\<close>

lemma delete_blog_missing:
  "cast_oid bid = Some i \<Longrightarrow> map_of (blogs d) i = None \<Longrightarrow> delete_blog c bid d = (blog_not_found, d)"
  by (simp add: delete_blog_def find_by_id_def)

lemma update_blog_missing:
  "cast_oid bid = Some i \<Longrightarrow> map_of (blogs d) i = None \<Longrightarrow>
   update_blog c bid t ds im cat d = (blog_not_found, d)"
  by (simp add: update_blog_def find_by_id_def)

lemma delete_blog_non_owner:
  "map_of (blogs d) i = Some b \<Longrightarrow> oid_str (author b) \<noteq> claim_id c \<Longrightarrow>
   delete_blog c (oid_str i) d = (msg_resp 403 ''You are not authorized to delete this blog'', d)"
  by (simp add: delete_blog_def find_by_id_def)

lemma update_blog_non_owner:
  "map_of (blogs d) i = Some b \<Longrightarrow> oid_str (author b) \<noteq> claim_id c \<Longrightarrow>
   update_blog c (oid_str i) t ds im cat d =
     (msg_resp 403 ''Unauthorized: You can only edit your own blog'', d)"
  by (simp add: update_blog_def find_by_id_def)

lemma delete_blog_owner:
  "map_of (blogs d) i = Some b \<Longrightarrow> oid_str (author b) = claim_id c \<Longrightarrow>
   delete_blog c (oid_str i) d =
     (msg_resp 200 ''Blog deleted successfully'', d\<lparr>blogs := delete_doc i (blogs d)\<rparr>)"
  by (simp add: delete_blog_def find_by_id_def)

text \<open>Only a 200 answer writes the blog collection, and then only at the blog the path names.\<close>

lemma delete_blog_effect:
  "snd (delete_blog c bid d) = d \<or>
   (\<exists>i b. cast_oid bid = Some i \<and> map_of (blogs d) i = Some b \<and> oid_str (author b) = claim_id c \<and>
          snd (delete_blog c bid d) = d\<lparr>blogs := delete_doc i (blogs d)\<rparr>)"
  by (auto simp: delete_blog_def find_by_id_def split: option.splits)

lemma update_blog_effect:
  "snd (update_blog c bid t ds im cat d) = d \<or>
   (\<exists>i b. cast_oid bid = Some i \<and> map_of (blogs d) i = Some b \<and> oid_str (author b) = claim_id c \<and>
          snd (update_blog c bid t ds im cat d) =
            d\<lparr>blogs := replace_doc i (merge_blog t ds im cat b) (blogs d)\<rparr>)"
  by (auto simp: update_blog_def find_by_id_def Let_def split: option.splits)

lemma author_merge_blog [simp]: "author (merge_blog t ds im cat b) = author b"
  by (simp add: merge_blog_def)

subsection \<open>Validation on create and update\<close>

lemma create_blog_invalid_category:
  "\<not> js_includes validCategories cat \<Longrightarrow>
   status (fst (create_blog e c t ds im cat d)) = 400 \<and> snd (create_blog e c t ds im cat d) = d"
  by (simp add: create_blog_def)

lemma author_new_blog [simp]: "author (new_blog t ds im cat uid tm) = uid"
  by (simp add: new_blog_def)

lemma create_blog_effect:
  "snd (create_blog e c t ds im cat d) = d \<or>
   (\<exists>uid. cast_oid (claim_id c) = Some uid \<and> blog_valid (new_blog t ds im cat uid (now e)) \<and>
        snd (create_blog e c t ds im cat d) =
          d\<lparr>blogs := blogs d @ [(next_id d, new_blog t ds im cat uid (now e))], next_id := Suc (next_id d)\<rparr>)"
  by (auto simp: create_blog_def save_new_blog_def blog_valid_def insert_doc_def Let_def
           split: option.splits sum.splits if_splits)

text \<open>A creation that stores a blog had a title, a description and a category.\<close>

lemma create_blog_fields:
  "snd (create_blog e c t ds im cat d) \<noteq> d \<Longrightarrow> t \<noteq> None \<and> ds \<noteq> None \<and> cat \<noteq> None"
proof -
  have "js_truthy v \<Longrightarrow> v \<noteq> None" "js_includes xs v \<Longrightarrow> v \<noteq> None" for v :: "string option" and xs
    by (cases v; simp)+
  then show "snd (create_blog e c t ds im cat d) \<noteq> d \<Longrightarrow> t \<noteq> None \<and> ds \<noteq> None \<and> cat \<noteq> None"
    by (auto simp: create_blog_def save_new_blog_def Let_def split: option.splits sum.splits if_splits)
qed

lemma js_includes_the: "js_includes xs v \<Longrightarrow> the v \<in> set xs"
  by (cases v) auto

lemma blog_valid_merge:
  "blog_valid b \<Longrightarrow> \<not> (js_truthy cat \<and> \<not> js_includes validCategories cat) \<Longrightarrow>
   blog_valid (merge_blog t ds im cat b)"
  by (cases cat) (auto simp: blog_valid_def blog_checks_def failed_paths_Nil_iff merge_blog_def
                             js_or_def split: option.splits)

subsection \<open>The invariant\<close>

lemma create_blog_wf [wf_intros]: "db_wf d \<Longrightarrow> db_wf (snd (create_blog e c t ds im cat d))"
  by (auto simp: create_blog_def Let_def split: option.splits sum.splits intro: save_new_blog_wf)

lemma delete_blog_wf [wf_intros]: "db_wf d \<Longrightarrow> db_wf (snd (delete_blog c bid d))"
  by (auto simp: delete_blog_def db_wf_def split: option.splits intro: coll_wf_delete)

lemma update_blog_wf [wf_intros]: "db_wf d \<Longrightarrow> db_wf (snd (update_blog c bid t ds im cat d))"
proof -
  assume wf: "db_wf d"
  have "db_wf (d\<lparr>blogs := replace_doc i (merge_blog t ds im cat b) (blogs d)\<rparr>)"
    if "map_of (blogs d) i = Some b" "\<not> (js_truthy cat \<and> \<not> js_includes validCategories cat)" for i b
  proof -
    have "blog_valid b" using wf that(1) by (auto simp: db_wf_def dest: coll_wf_lookup)
    then have "blog_valid (merge_blog t ds im cat b)" using that(2) by (rule blog_valid_merge)
    with wf show ?thesis by (simp add: db_wf_def coll_wf_replace)
  qed
  with wf show ?thesis
    by (auto simp: update_blog_def find_by_id_def Let_def split: option.splits)
qed

subsection \<open>Listings\<close>

lemma newest_first_sorted: "sorted (map (\<lambda>(i, b). - int (blog_createdAt b)) (newest_first bs))"
  by (simp add: newest_first_def)

lemma newest_first_mset: "mset (newest_first bs) = mset bs"
  by (simp add: newest_first_def)

end
