(* ===== verification/CommentRoutes.thy ===== *)
theory CommentRoutes
  imports Store AuthMiddleware "HOL-Library.Multiset"
begin

text \<open>
  \<open>src/routes/commentRoutes.js\<close>, mounted at \<open>/api/comments\<close>:
  \<open>GET /blog/:blogId\<close>, \<open>POST /\<close>, \<open>PUT /:id\<close>, \<open>DELETE /:id\<close>.  Unlike the blog
  routes, the update handler validates the content before it looks the comment up, and
  every caught exception answers 400 with the error's message.  Creation does not
  check that the blog exists.
\<close>

definition comment_required :: resp where
  "comment_required = msg_resp 400 ''Comment content is required''"

definition comment_not_found :: resp where
  "comment_not_found = msg_resp 404 ''Comment not found''"

text \<open>\<open>!req.body.content || !req.body.content.trim()\<close>\<close>

definition content_missing :: "string option \<Rightarrow> bool" where
  "content_missing v \<longleftrightarrow> \<not> js_truthy v \<or> js_trim (the v) = []"

definition newest_comments :: "comment coll \<Rightarrow> comment coll" where
  "newest_comments cs = sort_key (\<lambda>(i, c). - int (comment_createdAt c)) cs"

definition comments_populated :: "db \<Rightarrow> oid \<Rightarrow> comment \<Rightarrow> json" where
  "comments_populated d i c =
     comment_json (populate_user [''username'', ''email'', ''profileImage''] d (comment_user c)) i c"

definition list_comments :: "string \<Rightarrow> db \<Rightarrow> resp \<times> db" where
  "list_comments bid d =
     (case cast_oid bid of
        None \<Rightarrow> (msg_resp 500 ''Error fetching comments'', d)
      | Some b \<Rightarrow>
          (json_resp 200 (JArr (map (\<lambda>(i, c). comments_populated d i c)
             (newest_comments (find_where (\<lambda>c. comment_blog c = b) (comments d))))), d))"

text \<open>\<open>new Comment({ content: req.body.content.trim(), blog: req.body.blogId, user: req.user.id })\<close>\<close>

definition new_comment :: "string \<Rightarrow> oid \<Rightarrow> oid \<Rightarrow> time \<Rightarrow> comment" where
  "new_comment txt b u tm =
     \<lparr>content = js_trim txt, comment_blog = b, comment_user = u,
      comment_createdAt = tm, comment_updatedAt = tm\<rparr>"

definition create_comment :: "env \<Rightarrow> claims \<Rightarrow> string option \<Rightarrow> string option \<Rightarrow> db \<Rightarrow> resp \<times> db" where
  "create_comment e c txt bid d =
     (if content_missing txt then (comment_required, d)
      else if \<not> js_truthy bid then (msg_resp 400 ''Blog ID is required'', d)
      else (case (cast_oid (the bid), cast_oid (claim_id c)) of
              (Some b, Some u) \<Rightarrow>
                (let cm = new_comment (the txt) b u (now e) in
                 case save_new_comment cm d of
                   Inl err \<Rightarrow> (msg_err_resp 400 ''Error creating comment'' (error_message err), d)
                 | Inr (i, d') \<Rightarrow>
                     (json_resp 201 (JObj [(''message'', JStr ''Comment added successfully''),
                                           (''comment'', comments_populated d' i cm)]), d'))
            | (None, None) \<Rightarrow> (msg_err_resp 400 ''Error creating comment''
                             (error_message (ValidationError ''Comment'' [''blog'', ''user''])), d)
            | (None, Some u) \<Rightarrow> (msg_err_resp 400 ''Error creating comment''
                             (error_message (ValidationError ''Comment'' [''blog''])), d)
            | (Some b, None) \<Rightarrow> (msg_err_resp 400 ''Error creating comment''
                             (error_message (ValidationError ''Comment'' [''user''])), d)))"

definition update_comment :: "env \<Rightarrow> claims \<Rightarrow> string \<Rightarrow> string option \<Rightarrow> db \<Rightarrow> resp \<times> db" where
  "update_comment e c cid txt d =
     (if content_missing txt then (comment_required, d)
      else (case cast_oid cid of
              None \<Rightarrow> (msg_err_resp 400 ''Error updating comment'' (error_message (CastError ''_id'')), d)
            | Some i \<Rightarrow>
                (case find_by_id (comments d) i of
                   None \<Rightarrow> (comment_not_found, d)
                 | Some cm \<Rightarrow>
                     if oid_str (comment_user cm) \<noteq> claim_id c
                     then (msg_resp 403 ''Not authorized to edit this comment'', d)
                     else
                       (case save_comment i (cm\<lparr>content := js_trim (the txt), comment_updatedAt := now e\<rparr>) (now e) d of
                          Inl err \<Rightarrow> (msg_err_resp 400 ''Error updating comment'' (error_message err), d)
                        | Inr (cm', d') \<Rightarrow>
                            (json_resp 200 (JObj [(''message'', JStr ''Comment updated successfully''),
                                                  (''comment'', comments_populated d' i cm')]), d')))))"

definition delete_comment :: "claims \<Rightarrow> string \<Rightarrow> db \<Rightarrow> resp \<times> db" where
  "delete_comment c cid d =
     (case cast_oid cid of
        None \<Rightarrow> (msg_err_resp 400 ''Error deleting comment'' (error_message (CastError ''_id'')), d)
      | Some i \<Rightarrow>
          (case find_by_id (comments d) i of
             None \<Rightarrow> (comment_not_found, d)
           | Some cm \<Rightarrow>
               if oid_str (comment_user cm) \<noteq> claim_id c
               then (msg_resp 403 ''Not authorized to delete this comment'', d)
               else (json_resp 200 (JObj [(''message'', JStr ''Comment deleted successfully''),
                                          (''commentId'', JStr cid)]),
                     d\<lparr>comments := delete_doc i (comments d)\<rparr>)))"

subsection \<open>Existence before ownership\<close>

lemma delete_comment_missing:
  "cast_oid cid = Some i \<Longrightarrow> map_of (comments d) i = None \<Longrightarrow>
   delete_comment c cid d = (comment_not_found, d)"
  by (simp add: delete_comment_def find_by_id_def)

lemma update_comment_missing:
  "\<not> content_missing txt \<Longrightarrow> cast_oid cid = Some i \<Longrightarrow> map_of (comments d) i = None \<Longrightarrow>
   update_comment e c cid txt d = (comment_not_found, d)"
  by (simp add: update_comment_def find_by_id_def)

lemma delete_comment_non_owner:
  "map_of (comments d) i = Some cm \<Longrightarrow> oid_str (comment_user cm) \<noteq> claim_id c \<Longrightarrow>
   delete_comment c (oid_str i) d = (msg_resp 403 ''Not authorized to delete this comment'', d)"
  by (simp add: delete_comment_def find_by_id_def)

lemma update_comment_non_owner:
  "\<not> content_missing txt \<Longrightarrow> map_of (comments d) i = Some cm \<Longrightarrow>
   oid_str (comment_user cm) \<noteq> claim_id c \<Longrightarrow>
   update_comment e c (oid_str i) txt d = (msg_resp 403 ''Not authorized to edit this comment'', d)"
  by (simp add: update_comment_def find_by_id_def)

lemma delete_comment_effect:
  "snd (delete_comment c cid d) = d \<or>
   (\<exists>i cm. cast_oid cid = Some i \<and> map_of (comments d) i = Some cm \<and>
           oid_str (comment_user cm) = claim_id c \<and>
           snd (delete_comment c cid d) = d\<lparr>comments := delete_doc i (comments d)\<rparr>)"
  by (auto simp: delete_comment_def find_by_id_def split: option.splits)

lemma create_comment_effect:
  "snd (create_comment e c tx bid d) = d \<or>
   (\<exists>b u. cast_oid (claim_id c) = Some u \<and>
      snd (create_comment e c tx bid d) =
        d\<lparr>comments := comments d @ [(next_id d, new_comment (the tx) b u (now e))], next_id := Suc (next_id d)\<rparr>)"
  by (auto simp: create_comment_def save_new_comment_def insert_doc_def Let_def
           split: option.splits sum.splits)

lemma update_comment_effect:
  "snd (update_comment e c cid txt d) = d \<or>
   (\<exists>i cm. cast_oid cid = Some i \<and> map_of (comments d) i = Some cm \<and>
           oid_str (comment_user cm) = claim_id c \<and>
           snd (update_comment e c cid txt d) =
             d\<lparr>comments := replace_doc i (cm\<lparr>content := js_trim (the txt), comment_updatedAt := now e\<rparr>)
                                     (comments d)\<rparr>)"
  by (auto simp: update_comment_def find_by_id_def save_comment_def Let_def
           split: option.splits sum.splits if_splits)

subsection \<open>The invariant\<close>

lemma js_trim_new_comment [simp]: "js_trim (content (new_comment txt b u tm)) = content (new_comment txt b u tm)"
  by (simp add: new_comment_def)

lemma create_comment_wf [wf_intros]: "db_wf d \<Longrightarrow> db_wf (snd (create_comment e c txt bid d))"
proof -
  assume wf: "db_wf d"
  have "db_wf d'" if "save_new_comment (new_comment s b u t) d = Inr (i, d')" for s b u t i d'
    using save_new_comment_wf [OF wf _ that] by simp
  with wf show ?thesis
    by (auto simp: create_comment_def Let_def split: option.splits sum.splits)
qed

lemma update_comment_wf [wf_intros]: "db_wf d \<Longrightarrow> db_wf (snd (update_comment e c cid txt d))"
proof -
  assume wf: "db_wf d"
  have "db_wf d'"
    if "save_comment i (cm\<lparr>content := js_trim s, comment_updatedAt := t\<rparr>) t' d = Inr (cm', d')"
    for i cm s t t' cm' d'
    using save_comment_wf [OF wf _ that] by simp
  with wf show ?thesis
    by (auto simp: update_comment_def find_by_id_def split: option.splits sum.splits)
qed

lemma delete_comment_wf [wf_intros]: "db_wf d \<Longrightarrow> db_wf (snd (delete_comment c cid d))"
  by (auto simp: delete_comment_def db_wf_def split: option.splits intro: coll_wf_delete)

subsection \<open>Listing\<close>

lemma list_comments_unchanged: "snd (list_comments bid d) = d"
  by (simp add: list_comments_def split: option.splits)

lemma newest_comments_sorted: "sorted (map (\<lambda>(i, c). - int (comment_createdAt c)) (newest_comments cs))"
  by (simp add: newest_comments_def)

lemma newest_comments_mset: "mset (newest_comments cs) = mset cs"
  by (simp add: newest_comments_def)

end
