(* ===== verification/Server.thy ===== *)
theory Server
  imports AuthRoutes BlogRoutes CommentRoutes
begin

text \<open>
  \<open>src/server.js\<close> mounts the three routers (\<open>/api\<close>, \<open>/api\<close>,
  \<open>/api/comments\<close>) and puts \<open>authMiddleware\<close> in front of the protected routes.
  A request is the endpoint it matched, with its path parameters and body fields, and
  the cookie and header the gate reads.  \<open>serve\<close> runs one request against the
  database; \<open>reachable\<close> is the set of databases some sequence of requests produces
  from the empty one, any clock, secret and salt at each step.  The frame lemmas say
  which collections each handler can write; with the handlers' effect lemmas they give
  the ownership theorems of the root theory.
\<close>

datatype route =
    Signup "string option" "string option" "string option" "string option"
  | Login "string option" "string option"
  | GetUser
  | Logout
  | UpdateUser profile_update
  | VerifyUser
  | CreateBlog "string option" "string option" "string option" "string option"
  | ListBlogs
  | MyBlogs
  | DeleteBlog string
  | UpdateBlog string "string option" "string option" "string option" "string option"
  | ListComments string
  | CreateComment "string option" "string option"
  | UpdateComment string "string option"
  | DeleteComment string

text \<open>\<open>router.METHOD(path, authMiddleware, handler)\<close>: the gate answers, or the handler
  runs with \<open>req.user\<close>.\<close>

definition with_auth :: "env \<Rightarrow> auth_req \<Rightarrow> db \<Rightarrow> (claims \<Rightarrow> resp \<times> db) \<Rightarrow> resp \<times> db" where
  "with_auth e r d h = (case authMiddleware e r of Deny rs \<Rightarrow> (rs, d) | Next c \<Rightarrow> h c)"

fun serve :: "env \<Rightarrow> route \<Rightarrow> auth_req \<Rightarrow> db \<Rightarrow> resp \<times> db" where
  "serve e (Signup un em pw img) r d = signup e un em pw img d"
| "serve e (Login em pw) r d = login e em pw d"
| "serve e GetUser r d = with_auth e r d (\<lambda>c. get_user c d)"
| "serve e Logout r d = logout d"
| "serve e (UpdateUser b) r d = with_auth e r d (\<lambda>c. update_user e c b d)"
| "serve e VerifyUser r d = with_auth e r d (\<lambda>c. verify_user c d)"
| "serve e (CreateBlog t ds im cat) r d = with_auth e r d (\<lambda>c. create_blog e c t ds im cat d)"
| "serve e ListBlogs r d = list_blogs d"
| "serve e MyBlogs r d = with_auth e r d (\<lambda>c. my_blogs c d)"
| "serve e (DeleteBlog bid) r d = with_auth e r d (\<lambda>c. delete_blog c bid d)"
| "serve e (UpdateBlog bid t ds im cat) r d = with_auth e r d (\<lambda>c. update_blog c bid t ds im cat d)"
| "serve e (ListComments bid) r d = list_comments bid d"
| "serve e (CreateComment txt bid) r d = with_auth e r d (\<lambda>c. create_comment e c txt bid d)"
| "serve e (UpdateComment cid txt) r d = with_auth e r d (\<lambda>c. update_comment e c cid txt d)"
| "serve e (DeleteComment cid) r d = with_auth e r d (\<lambda>c. delete_comment c cid d)"

text \<open>The identity a request acts as: the \<open>id\<close> claim of the token the gate accepts.\<close>

definition acts_as :: "env \<Rightarrow> auth_req \<Rightarrow> string \<Rightarrow> bool" where
  "acts_as e r uid \<longleftrightarrow> (case authMiddleware e r of Next c \<Rightarrow> claim_id c = uid | Deny rs \<Rightarrow> False)"

text \<open>The endpoints registered with \<open>authMiddleware\<close> in front of their handler.\<close>

fun requires_auth :: "route \<Rightarrow> bool" where
  "requires_auth (Signup un em pw img) = False"
| "requires_auth (Login em pw) = False"
| "requires_auth Logout = False"
| "requires_auth ListBlogs = False"
| "requires_auth (ListComments bid) = False"
| "requires_auth _ = True"

text \<open>A response whose body has no \<open>password\<close> key at any depth.\<close>

abbreviation no_pw :: "resp \<Rightarrow> bool" where
  "no_pw rs \<equiv> ''password'' \<notin> set (json_all_keys (body rs))"

inductive reachable :: "db \<Rightarrow> bool" where
  start: "reachable empty_db"
| step: "reachable d \<Longrightarrow> reachable (snd (serve e rt r d))"

inductive_cases reachable_stepE: "reachable d'"

subsection \<open>The gate in front of a handler\<close>

lemma with_auth_preserves:
  "P d \<Longrightarrow> (\<And>c. authMiddleware e r = Next c \<Longrightarrow> P (snd (h c))) \<Longrightarrow> P (snd (with_auth e r d h))"
  by (simp add: with_auth_def split: gate.split)

lemma with_auth_Next: "authMiddleware e r = Next c \<Longrightarrow> with_auth e r d h = h c"
  by (simp add: with_auth_def)

lemma with_auth_Deny: "authMiddleware e r = Deny rs \<Longrightarrow> with_auth e r d h = (rs, d)"
  by (simp add: with_auth_def)

subsection \<open>Frames: which collections a handler writes\<close>

named_theorems frame_simps "the collections a handler leaves alone"

lemma signup_frame [frame_simps]:
  "blogs (snd (signup e un em pw img d)) = blogs d"
  "comments (snd (signup e un em pw img d)) = comments d"
  by (auto simp: signup_def save_new_user_def Let_def split: option.splits sum.splits)

lemma update_user_frame [frame_simps]:
  "blogs (snd (update_user e c b d)) = blogs d"
  "comments (snd (update_user e c b d)) = comments d"
  by (auto simp: update_user_def save_user_def Let_def split: option.splits sum.splits)

lemma create_blog_frame [frame_simps]:
  "comments (snd (create_blog e c t ds im cat d)) = comments d"
  "users (snd (create_blog e c t ds im cat d)) = users d"
  by (auto simp: create_blog_def save_new_blog_def Let_def split: option.splits sum.splits)

lemma blog_writes_frame [frame_simps]:
  "comments (snd (delete_blog c bid d)) = comments d"
  "comments (snd (update_blog c bid t ds im cat d)) = comments d"
  by (auto simp: delete_blog_def update_blog_def Let_def split: option.splits)

lemma create_comment_frame [frame_simps]:
  "blogs (snd (create_comment e c txt bid d)) = blogs d"
  by (auto simp: create_comment_def save_new_comment_def Let_def split: option.splits sum.splits)

lemma comment_writes_frame [frame_simps]:
  "blogs (snd (update_comment e c cid txt d)) = blogs d"
  "blogs (snd (delete_comment c cid d)) = blogs d"
  by (auto simp: update_comment_def delete_comment_def save_comment_def Let_def
           split: option.splits sum.splits)

lemma readers_unchanged [frame_simps]:
  "snd (login e em pw d) = d" "snd (get_user c d) = d" "snd (logout d) = d"
  "snd (verify_user c d) = d" "snd (list_blogs d) = d" "snd (my_blogs c d) = d"
  "snd (list_comments bid d) = d"
  by (simp_all add: login_unchanged get_user_unchanged verify_user_unchanged list_comments_unchanged
                    logout_def list_blogs_def my_blogs_def split: option.splits)

subsection \<open>Every request keeps the invariant\<close>

lemma with_auth_wf:
  "db_wf d \<Longrightarrow> (\<And>c. db_wf (snd (h c))) \<Longrightarrow> db_wf (snd (with_auth e r d h))"
  by (rule with_auth_preserves)

lemma serve_wf:
  assumes wf: "db_wf d"
  shows "db_wf (snd (serve e rt r d))"
proof (cases rt)
  case (Signup un em pw img)
  then show ?thesis using wf by (simp add: signup_wf)
next
  case (Login em pw)
  then show ?thesis using wf by (simp add: frame_simps)
next
  case GetUser
  then show ?thesis using wf by (simp add: with_auth_wf frame_simps)
next
  case Logout
  then show ?thesis using wf by (simp add: frame_simps)
next
  case (UpdateUser b)
  then show ?thesis using wf by (simp add: with_auth_wf update_user_wf)
next
  case VerifyUser
  then show ?thesis using wf by (simp add: with_auth_wf frame_simps)
next
  case (CreateBlog t ds im cat)
  then show ?thesis using wf by (simp add: with_auth_wf create_blog_wf)
next
  case ListBlogs
  then show ?thesis using wf by (simp add: frame_simps)
next
  case MyBlogs
  then show ?thesis using wf by (simp add: with_auth_wf frame_simps)
next
  case (DeleteBlog bid)
  then show ?thesis using wf by (simp add: with_auth_wf delete_blog_wf)
next
  case (UpdateBlog bid t ds im cat)
  then show ?thesis using wf by (simp add: with_auth_wf update_blog_wf)
next
  case (ListComments bid)
  then show ?thesis using wf by (simp add: frame_simps)
next
  case (CreateComment ct bid)
  then show ?thesis using wf by (simp add: with_auth_wf create_comment_wf)
next
  case (UpdateComment cid ct)
  then show ?thesis using wf by (simp add: with_auth_wf update_comment_wf)
next
  case (DeleteComment cid)
  then show ?thesis using wf by (simp add: with_auth_wf delete_comment_wf)
qed

lemma reachable_wf: "reachable d \<Longrightarrow> db_wf d"
  by (induction rule: reachable.induct) (auto intro: db_wf_empty serve_wf)

subsection \<open>Documents of other users\<close>

lemma map_of_append_known: "map_of xs j = Some v \<Longrightarrow> map_of (xs @ ys) j = Some v"
  by (simp add: map_add_find_right)

lemma not_acts_as: "\<not> acts_as e r uid \<Longrightarrow> authMiddleware e r = Next c \<Longrightarrow> claim_id c \<noteq> uid"
  by (simp add: acts_as_def)

lemma keys_distinct_blogs: "db_wf d \<Longrightarrow> distinct (map fst (blogs d))"
  by (simp add: db_wf_def coll_wf_def)

lemma keys_distinct_comments: "db_wf d \<Longrightarrow> distinct (map fst (comments d))"
  by (simp add: db_wf_def coll_wf_def)

lemma delete_blog_foreign:
  assumes wf: "db_wf d" and j: "map_of (blogs d) j = Some b" and c: "claim_id c \<noteq> oid_str (author b)"
  shows "map_of (blogs (snd (delete_blog c bid d))) j = Some b"
  using delete_blog_effect [of c bid d]
proof
  assume "snd (delete_blog c bid d) = d"
  with j show ?thesis by simp
next
  assume "\<exists>i b'. cast_oid bid = Some i \<and> map_of (blogs d) i = Some b' \<and> oid_str (author b') = claim_id c \<and>
          snd (delete_blog c bid d) = d\<lparr>blogs := delete_doc i (blogs d)\<rparr>"
  then obtain i b' where i: "map_of (blogs d) i = Some b'" "oid_str (author b') = claim_id c"
    and d': "snd (delete_blog c bid d) = d\<lparr>blogs := delete_doc i (blogs d)\<rparr>" by blast
  have "i \<noteq> j" using i j c by auto
  with j d' keys_distinct_blogs [OF wf] show ?thesis by (simp add: map_of_delete_doc)
qed

lemma update_blog_foreign:
  assumes j: "map_of (blogs d) j = Some b" and c: "claim_id c \<noteq> oid_str (author b)"
  shows "map_of (blogs (snd (update_blog c bid t ds im cat d))) j = Some b"
  using update_blog_effect [of c bid t ds im cat d]
proof
  assume "snd (update_blog c bid t ds im cat d) = d"
  with j show ?thesis by simp
next
  assume "\<exists>i b'. cast_oid bid = Some i \<and> map_of (blogs d) i = Some b' \<and> oid_str (author b') = claim_id c \<and>
          snd (update_blog c bid t ds im cat d) =
            d\<lparr>blogs := replace_doc i (merge_blog t ds im cat b') (blogs d)\<rparr>"
  then obtain i b' where i: "map_of (blogs d) i = Some b'" "oid_str (author b') = claim_id c"
    and d': "snd (update_blog c bid t ds im cat d) = d\<lparr>blogs := replace_doc i (merge_blog t ds im cat b') (blogs d)\<rparr>"
    by blast
  have "i \<noteq> j" using i j c by auto
  with j d' show ?thesis by (simp add: map_of_replace_doc)
qed

lemma create_blog_keeps:
  "map_of (blogs d) j = Some b \<Longrightarrow> map_of (blogs (snd (create_blog e c t ds im cat d))) j = Some b"
  using create_blog_effect [of e c t ds im cat d] by (auto intro: map_of_append_known)

text \<open>Every endpoint keeps a blog whose author the request does not act as.\<close>

lemma serve_blog_foreign:
  assumes wf: "db_wf d" and j: "map_of (blogs d) j = Some b"
    and who: "\<not> acts_as e r (oid_str (author b))"
  shows "map_of (blogs (snd (serve e rt r d))) j = Some b"
proof -
  have gate: "map_of (blogs (snd (with_auth e r d h))) j = Some b"
    if "\<And>c. claim_id c \<noteq> oid_str (author b) \<Longrightarrow> map_of (blogs (snd (h c))) j = Some b" for h
    using that who j by (auto simp: with_auth_def acts_as_def split: gate.splits)
  show ?thesis
  proof (cases rt)
    case (CreateBlog t ds im cat)
    then show ?thesis using j by (auto intro!: gate create_blog_keeps)
  next
    case (DeleteBlog bid)
    then show ?thesis by (auto intro!: gate delete_blog_foreign [OF wf j])
  next
    case (UpdateBlog bid t ds im cat)
    then show ?thesis by (auto intro!: gate update_blog_foreign [OF j])
  qed (use j in \<open>auto intro!: gate simp: frame_simps\<close>)
qed

lemma update_comment_foreign:
  assumes j: "map_of (comments d) j = Some cm" and c: "claim_id c \<noteq> oid_str (comment_user cm)"
  shows "map_of (comments (snd (update_comment e c cid tx d))) j = Some cm"
  using update_comment_effect [of e c cid tx d]
proof
  assume "snd (update_comment e c cid tx d) = d"
  with j show ?thesis by simp
next
  assume "\<exists>i cm'. cast_oid cid = Some i \<and> map_of (comments d) i = Some cm' \<and>
           oid_str (comment_user cm') = claim_id c \<and>
           snd (update_comment e c cid tx d) =
             d\<lparr>comments := replace_doc i (cm'\<lparr>content := js_trim (the tx), comment_updatedAt := now e\<rparr>)
                                     (comments d)\<rparr>"
  then obtain i cm' where i: "map_of (comments d) i = Some cm'" "oid_str (comment_user cm') = claim_id c"
    and d': "snd (update_comment e c cid tx d) =
             d\<lparr>comments := replace_doc i (cm'\<lparr>content := js_trim (the tx), comment_updatedAt := now e\<rparr>)
                                     (comments d)\<rparr>" by blast
  have "i \<noteq> j" using i j c by auto
  with j d' show ?thesis by (simp add: map_of_replace_doc)
qed


lemma create_comment_keeps:
  "map_of (comments d) j = Some cm \<Longrightarrow> map_of (comments (snd (create_comment e c tx bid d))) j = Some cm"
  by (auto simp: create_comment_def save_new_comment_def insert_doc_def Let_def
           split: option.splits sum.splits intro: map_of_append_known)


lemma delete_comment_foreign:
  assumes wf: "db_wf d" and j: "map_of (comments d) j = Some cm"
    and c: "claim_id c \<noteq> oid_str (comment_user cm)"
  shows "map_of (comments (snd (delete_comment c cid d))) j = Some cm"
  using delete_comment_effect [of c cid d]
proof
  assume "snd (delete_comment c cid d) = d"
  with j show ?thesis by simp
next
  assume "\<exists>i cm'. cast_oid cid = Some i \<and> map_of (comments d) i = Some cm' \<and>
           oid_str (comment_user cm') = claim_id c \<and>
           snd (delete_comment c cid d) = d\<lparr>comments := delete_doc i (comments d)\<rparr>"
  then obtain i cm' where i: "map_of (comments d) i = Some cm'" "oid_str (comment_user cm') = claim_id c"
    and d': "snd (delete_comment c cid d) = d\<lparr>comments := delete_doc i (comments d)\<rparr>" by blast
  have "i \<noteq> j" using i j c by auto
  with j d' keys_distinct_comments [OF wf] show ?thesis by (simp add: map_of_delete_doc)
qed

lemma serve_comment_foreign:
  assumes wf: "db_wf d" and j: "map_of (comments d) j = Some cm"
    and who: "\<not> acts_as e r (oid_str (comment_user cm))"
  shows "map_of (comments (snd (serve e rt r d))) j = Some cm"
proof -
  have gate: "map_of (comments (snd (with_auth e r d h))) j = Some cm"
    if "\<And>c. claim_id c \<noteq> oid_str (comment_user cm) \<Longrightarrow> map_of (comments (snd (h c))) j = Some cm" for h
    using that who j by (auto simp: with_auth_def acts_as_def split: gate.splits)
  show ?thesis
  proof (cases rt)
    case (CreateComment tx bid)
    then show ?thesis using j by (auto intro!: gate create_comment_keeps)
  next
    case (UpdateComment cid tx)
    then show ?thesis by (auto intro!: gate update_comment_foreign [OF j])
  next
    case (DeleteComment cid)
    then show ?thesis by (auto intro!: gate delete_comment_foreign [OF wf j])
  qed (use j in \<open>auto intro!: gate simp: frame_simps\<close>)
qed


subsection \<open>What responses carry\<close>

lemma no_pw_simps:
  "json_all_keys (body (msg_resp s m)) = [''message'']"
  "json_all_keys (body (msg_err_resp s m x)) = [''message'', ''error'']"
  "body (json_resp s j) = j"
  "json_all_keys (blog_json a i b) = [''_id'', ''title'', ''description'', ''category'', ''image'', ''author''] @
     json_all_keys a @ [''createdAt'', ''__v'']"
  "json_all_keys (comment_json a i c) = [''_id'', ''content'', ''blog'', ''user''] @ json_all_keys a @
     [''createdAt'', ''updatedAt'', ''__v'']"
  by (simp_all add: msg_resp_def msg_err_resp_def json_resp_def blog_json_def comment_json_def)

lemma populate_no_pw [simp]:
  "''password'' \<notin> set (json_all_keys (populate_user [''username'', ''email''] d a))"
  "''password'' \<notin> set (json_all_keys (populate_user [''username'', ''email'', ''profileImage''] d a))"
  by (simp_all add: populate_user_keys)

lemma with_auth_no_pw:
  "(\<And>c. no_pw (fst (h c))) \<Longrightarrow> no_pw (fst (with_auth e r d h))"
  by (auto simp: with_auth_def authMiddleware_def no_pw_simps split: gate.splits dest!: auth_gate_Deny_msg)

lemma auth_routes_no_pw:
  "no_pw (fst (signup e un em pw img d))" "no_pw (fst (login e em pw d))"
  "no_pw (fst (get_user c d))" "no_pw (fst (logout d))" "no_pw (fst (verify_user c d))"
  subgoal by (auto simp: signup_def no_pw_simps Let_def split: option.splits sum.splits)
  subgoal by (auto simp: login_def login_body_def no_pw_simps Let_def split: option.splits)
  subgoal by (auto simp: get_user_def user_json_public_def select_without_def no_pw_simps
                   split: option.splits dest: user_fields_atomic)
  subgoal by (simp add: logout_def)
  subgoal by (auto simp: verify_user_def no_pw_simps split: option.splits)
  done

lemma blog_routes_no_pw:
  "no_pw (fst (create_blog e c t ds im cat d))" "no_pw (fst (list_blogs d))" "no_pw (fst (my_blogs c d))"
  "no_pw (fst (delete_blog c bid d))" "no_pw (fst (update_blog c bid t ds im cat d))"
  subgoal by (auto simp: create_blog_def no_pw_simps Let_def split: option.splits sum.splits)
  subgoal by (auto simp: list_blogs_def blogs_json_def no_pw_simps)
  subgoal by (auto simp: my_blogs_def blogs_json_def no_pw_simps split: option.splits)
  subgoal by (auto simp: delete_blog_def blog_not_found_def no_pw_simps split: option.splits)
  subgoal by (auto simp: update_blog_def blog_not_found_def no_pw_simps Let_def split: option.splits)
  done

lemma comment_routes_no_pw:
  "no_pw (fst (list_comments bid d))" "no_pw (fst (create_comment e c tx bo d))"
  "no_pw (fst (update_comment e c cid tx d))" "no_pw (fst (delete_comment c cid d))"
  subgoal by (auto simp: list_comments_def comments_populated_def no_pw_simps split: option.splits)
  subgoal by (auto simp: create_comment_def comments_populated_def comment_required_def no_pw_simps Let_def
                   split: option.splits sum.splits)
  subgoal by (auto simp: update_comment_def comments_populated_def comment_required_def comment_not_found_def
                   no_pw_simps split: option.splits sum.splits)
  subgoal by (auto simp: delete_comment_def comment_not_found_def no_pw_simps split: option.splits)
  done

subsection \<open>The shape of every response\<close>

text \<open>
  The error taxonomy of the API: a response's status is one of the codes the handlers
  use, and an error response (400 and above) is a JSON object whose first field is a
  string \<open>message\<close>.
\<close>

definition resp_shaped :: "resp \<Rightarrow> bool" where
  "resp_shaped rs \<longleftrightarrow>
     status rs \<in> {200, 201, 204, 400, 401, 403, 404, 500} \<and>
     (400 \<le> status rs \<longrightarrow> (\<exists>m rest. body rs = JObj ((''message'', JStr m) # rest)))"

lemma resp_shaped_simps [simp]:
  "resp_shaped (msg_resp s m) \<longleftrightarrow> s \<in> {200, 201, 204, 400, 401, 403, 404, 500}"
  "resp_shaped (msg_err_resp s m x) \<longleftrightarrow> s \<in> {200, 201, 204, 400, 401, 403, 404, 500}"
  "s < 400 \<Longrightarrow> resp_shaped (json_resp s j) \<longleftrightarrow> s \<in> {200, 201, 204}"
  by (auto simp: resp_shaped_def msg_resp_def msg_err_resp_def json_resp_def)

lemma auth_gate_Deny_shaped: "auth_gate verify t r = Deny rs \<Longrightarrow> resp_shaped rs"
  by (auto simp: auth_gate_def Let_def split: if_splits verify_result.splits)

lemma with_auth_shaped:
  "(\<And>c. resp_shaped (fst (h c))) \<Longrightarrow> resp_shaped (fst (with_auth e r d h))"
  by (auto simp: with_auth_def authMiddleware_def split: gate.splits dest: auth_gate_Deny_shaped)

lemma auth_routes_shaped:
  "resp_shaped (fst (signup e un em pw img d))" "resp_shaped (fst (login e em pw d))"
  "resp_shaped (fst (get_user c d))" "resp_shaped (fst (logout d))"
  "resp_shaped (fst (update_user e c b d))" "resp_shaped (fst (verify_user c d))"
  subgoal by (auto simp: signup_def Let_def split: option.splits sum.splits)
  subgoal by (auto simp: login_def resp_shaped_def msg_resp_def json_resp_def Let_def split: option.splits)
  subgoal by (auto simp: get_user_def split: option.splits)
  subgoal by (simp add: logout_def resp_shaped_def)
  subgoal by (auto simp: update_user_def Let_def split: option.splits sum.splits)
  subgoal by (auto simp: verify_user_def split: option.splits)
  done

lemma blog_routes_shaped:
  "resp_shaped (fst (create_blog e c t ds im cat d))" "resp_shaped (fst (list_blogs d))"
  "resp_shaped (fst (my_blogs c d))" "resp_shaped (fst (delete_blog c bid d))"
  "resp_shaped (fst (update_blog c bid t ds im cat d))"
  subgoal by (auto simp: create_blog_def Let_def split: option.splits sum.splits)
  subgoal by (simp add: list_blogs_def)
  subgoal by (auto simp: my_blogs_def split: option.splits)
  subgoal by (auto simp: delete_blog_def blog_not_found_def split: option.splits)
  subgoal by (auto simp: update_blog_def blog_not_found_def Let_def split: option.splits)
  done

lemma comment_routes_shaped:
  "resp_shaped (fst (list_comments bid d))" "resp_shaped (fst (create_comment e c tx bo d))"
  "resp_shaped (fst (update_comment e c cid tx d))" "resp_shaped (fst (delete_comment c cid d))"
  subgoal by (auto simp: list_comments_def split: option.splits)
  subgoal by (auto simp: create_comment_def comment_required_def Let_def split: option.splits sum.splits)
  subgoal by (auto simp: update_comment_def comment_required_def comment_not_found_def
                   split: option.splits sum.splits)
  subgoal by (auto simp: delete_comment_def comment_not_found_def split: option.splits)
  done

lemma serve_shaped: "resp_shaped (fst (serve e rt r d))"
  by (cases rt) (simp_all add: with_auth_shaped auth_routes_shaped blog_routes_shaped comment_routes_shaped)

subsection \<open>Users\<close>

lemma users_frame:
  "users (snd (delete_blog c bid d)) = users d"
  "users (snd (update_blog c bid t ds im cat d)) = users d"
  "users (snd (create_comment e c tx bo d)) = users d"
  "users (snd (update_comment e c cid tx d)) = users d"
  "users (snd (delete_comment c cid d)) = users d"
  by (auto simp: delete_blog_def update_blog_def create_comment_def update_comment_def delete_comment_def
                 save_new_comment_def save_comment_def Let_def split: option.splits sum.splits)

end
