(* ===== verification/Ownership.thy ===== *)
theory Ownership
  imports Server
begin

text \<open>
  The ownership contract of the spec (section 4.5) as an abstract machine, and the
  server as a refinement of it.  The abstract state is the blogs and comments by id; an
  abstract step is taken by an actor (the identity of a verified token, or nobody) and
  either changes nothing, or adds, replaces or removes one resource of that actor, a
  replacement keeping the owner.  \<open>abs_db\<close> maps a database to this state, \<open>actor\<close> maps
  a request to its actor; every \<open>serve\<close> step is an abstract step of the request's actor.
\<close>

record resources =
  res_blogs :: "oid \<rightharpoonup> blog"
  res_comments :: "oid \<rightharpoonup> comment"

definition abs_db :: "db \<Rightarrow> resources" where
  "abs_db d = \<lparr>res_blogs = map_of (blogs d), res_comments = map_of (comments d)\<rparr>"

definition actor :: "env \<Rightarrow> auth_req \<Rightarrow> oid option" where
  "actor e r = (case authMiddleware e r of Next c \<Rightarrow> cast_oid (claim_id c) | Deny rs \<Rightarrow> None)"

inductive own_step :: "oid option \<Rightarrow> resources \<Rightarrow> resources \<Rightarrow> bool" where
  stutter: "own_step a s s"
| add_blog: "res_blogs s i = None \<Longrightarrow> author b = u \<Longrightarrow>
    own_step (Some u) s (s\<lparr>res_blogs := (res_blogs s)(i \<mapsto> b)\<rparr>)"
| edit_blog: "res_blogs s i = Some b \<Longrightarrow> author b = u \<Longrightarrow> author b' = u \<Longrightarrow>
    own_step (Some u) s (s\<lparr>res_blogs := (res_blogs s)(i \<mapsto> b')\<rparr>)"
| del_blog: "res_blogs s i = Some b \<Longrightarrow> author b = u \<Longrightarrow>
    own_step (Some u) s (s\<lparr>res_blogs := (res_blogs s)(i := None)\<rparr>)"
| add_comment: "res_comments s i = None \<Longrightarrow> comment_user cm = u \<Longrightarrow>
    own_step (Some u) s (s\<lparr>res_comments := (res_comments s)(i \<mapsto> cm)\<rparr>)"
| edit_comment: "res_comments s i = Some cm \<Longrightarrow> comment_user cm = u \<Longrightarrow> comment_user cm' = u \<Longrightarrow>
    own_step (Some u) s (s\<lparr>res_comments := (res_comments s)(i \<mapsto> cm')\<rparr>)"
| del_comment: "res_comments s i = Some cm \<Longrightarrow> comment_user cm = u \<Longrightarrow>
    own_step (Some u) s (s\<lparr>res_comments := (res_comments s)(i := None)\<rparr>)"

inductive own_reach :: "resources \<Rightarrow> bool" where
  own_init: "own_reach \<lparr>res_blogs = Map.empty, res_comments = Map.empty\<rparr>"
| own_next: "own_reach s \<Longrightarrow> own_step a s s' \<Longrightarrow> own_reach s'"

text \<open>A client's run: the requests of a list, one after the other, with one token.\<close>

fun run :: "env \<Rightarrow> auth_req \<Rightarrow> route list \<Rightarrow> db \<Rightarrow> db" where
  "run e r [] d = d"
| "run e r (rt # rts) d = run e r rts (snd (serve e rt r d))"

text \<open>The blog ids a user owns in a database.\<close>

definition owned_by :: "oid \<Rightarrow> db \<Rightarrow> oid \<Rightarrow> bool" where
  "owned_by a d j \<longleftrightarrow> (\<exists>b. map_of (blogs d) j = Some b \<and> author b = a)"

subsection \<open>The abstraction of the collections\<close>

lemma owner_claim: "oid_str a = claim_id c \<Longrightarrow> cast_oid (claim_id c) = Some a"
  by (metis cast_oid_str)

subsection \<open>Each handler behind the gate is an abstract step of the token's identity\<close>

lemma with_auth_refines:
  assumes "\<And>c. authMiddleware e r = Next c \<Longrightarrow> own_step (cast_oid (claim_id c)) (abs_db d) (abs_db (snd (h c)))"
  shows "own_step (actor e r) (abs_db d) (abs_db (snd (with_auth e r d h)))"
  using assms by (auto simp: with_auth_def actor_def intro: own_step.stutter split: gate.splits)

lemma create_blog_refines:
  assumes wf: "db_wf d"
  shows "own_step (cast_oid (claim_id c)) (abs_db d) (abs_db (snd (create_blog e c t ds im cat d)))"
  using create_blog_effect [of e c t ds im cat d]
proof
  assume "snd (create_blog e c t ds im cat d) = d"
  then show ?thesis by (simp add: own_step.stutter)
next
  assume "\<exists>uid. cast_oid (claim_id c) = Some uid \<and> blog_valid (new_blog t ds im cat uid (now e)) \<and>
        snd (create_blog e c t ds im cat d) =
          d\<lparr>blogs := blogs d @ [(next_id d, new_blog t ds im cat uid (now e))], next_id := Suc (next_id d)\<rparr>"
  then obtain uid where u: "cast_oid (claim_id c) = Some uid"
    and d': "snd (create_blog e c t ds im cat d) =
          d\<lparr>blogs := blogs d @ [(next_id d, new_blog t ds im cat uid (now e))], next_id := Suc (next_id d)\<rparr>"
    by blast
  have "own_step (Some uid) (abs_db d)
          ((abs_db d)\<lparr>res_blogs := (res_blogs (abs_db d))(next_id d \<mapsto> new_blog t ds im cat uid (now e))\<rparr>)"
    using fresh_next_id [OF wf] by (intro own_step.add_blog) (simp_all add: abs_db_def)
  then show ?thesis using fresh_next_id [OF wf] by (simp add: u d' abs_db_def map_of_snoc_fresh del: map_of_append)
qed

lemma delete_blog_refines:
  assumes wf: "db_wf d"
  shows "own_step (cast_oid (claim_id c)) (abs_db d) (abs_db (snd (delete_blog c bid d)))"
  using delete_blog_effect [of c bid d]
proof
  assume "snd (delete_blog c bid d) = d"
  then show ?thesis by (simp add: own_step.stutter)
next
  assume "\<exists>i b. cast_oid bid = Some i \<and> map_of (blogs d) i = Some b \<and> oid_str (author b) = claim_id c \<and>
          snd (delete_blog c bid d) = d\<lparr>blogs := delete_doc i (blogs d)\<rparr>"
  then obtain i b where b: "map_of (blogs d) i = Some b" and o: "oid_str (author b) = claim_id c"
    and d': "snd (delete_blog c bid d) = d\<lparr>blogs := delete_doc i (blogs d)\<rparr>" by blast
  have "own_step (Some (author b)) (abs_db d) ((abs_db d)\<lparr>res_blogs := (res_blogs (abs_db d))(i := None)\<rparr>)"
    using b by (intro own_step.del_blog) (simp_all add: abs_db_def)
  then show ?thesis
    using keys_distinct_blogs [OF wf] by (simp add: owner_claim [OF o] d' abs_db_def map_of_delete_present)
qed

lemma update_blog_refines:
  "own_step (cast_oid (claim_id c)) (abs_db d) (abs_db (snd (update_blog c bid t ds im cat d)))"
  using update_blog_effect [of c bid t ds im cat d]
proof
  assume "snd (update_blog c bid t ds im cat d) = d"
  then show ?thesis by (simp add: own_step.stutter)
next
  assume "\<exists>i b. cast_oid bid = Some i \<and> map_of (blogs d) i = Some b \<and> oid_str (author b) = claim_id c \<and>
          snd (update_blog c bid t ds im cat d) = d\<lparr>blogs := replace_doc i (merge_blog t ds im cat b) (blogs d)\<rparr>"
  then obtain i b where b: "map_of (blogs d) i = Some b" and o: "oid_str (author b) = claim_id c"
    and d': "snd (update_blog c bid t ds im cat d) = d\<lparr>blogs := replace_doc i (merge_blog t ds im cat b) (blogs d)\<rparr>"
    by blast
  have "own_step (Some (author b)) (abs_db d)
          ((abs_db d)\<lparr>res_blogs := (res_blogs (abs_db d))(i \<mapsto> merge_blog t ds im cat b)\<rparr>)"
    using b by (intro own_step.edit_blog) (simp_all add: abs_db_def)
  then show ?thesis using b by (simp add: owner_claim [OF o] d' abs_db_def map_of_replace_present)
qed

lemma create_comment_refines:
  assumes wf: "db_wf d"
  shows "own_step (cast_oid (claim_id c)) (abs_db d) (abs_db (snd (create_comment e c tx bid d)))"
  using create_comment_effect [of e c tx bid d]
proof
  assume "snd (create_comment e c tx bid d) = d"
  then show ?thesis by (simp add: own_step.stutter)
next
  assume "\<exists>b u. cast_oid (claim_id c) = Some u \<and>
      snd (create_comment e c tx bid d) =
        d\<lparr>comments := comments d @ [(next_id d, new_comment (the tx) b u (now e))], next_id := Suc (next_id d)\<rparr>"
  then obtain b u where u: "cast_oid (claim_id c) = Some u"
    and d': "snd (create_comment e c tx bid d) =
        d\<lparr>comments := comments d @ [(next_id d, new_comment (the tx) b u (now e))], next_id := Suc (next_id d)\<rparr>"
    by blast
  have "own_step (Some u) (abs_db d)
          ((abs_db d)\<lparr>res_comments := (res_comments (abs_db d))(next_id d \<mapsto> new_comment (the tx) b u (now e))\<rparr>)"
    using fresh_next_id [OF wf] by (intro own_step.add_comment) (simp_all add: abs_db_def new_comment_def)
  then show ?thesis
    using fresh_next_id [OF wf] by (simp add: u d' abs_db_def map_of_snoc_fresh del: map_of_append)
qed

lemma delete_comment_refines:
  assumes wf: "db_wf d"
  shows "own_step (cast_oid (claim_id c)) (abs_db d) (abs_db (snd (delete_comment c cid d)))"
  using delete_comment_effect [of c cid d]
proof
  assume "snd (delete_comment c cid d) = d"
  then show ?thesis by (simp add: own_step.stutter)
next
  assume "\<exists>i cm. cast_oid cid = Some i \<and> map_of (comments d) i = Some cm \<and>
           oid_str (comment_user cm) = claim_id c \<and>
           snd (delete_comment c cid d) = d\<lparr>comments := delete_doc i (comments d)\<rparr>"
  then obtain i cm where m: "map_of (comments d) i = Some cm" and o: "oid_str (comment_user cm) = claim_id c"
    and d': "snd (delete_comment c cid d) = d\<lparr>comments := delete_doc i (comments d)\<rparr>" by blast
  have "own_step (Some (comment_user cm)) (abs_db d)
          ((abs_db d)\<lparr>res_comments := (res_comments (abs_db d))(i := None)\<rparr>)"
    using m by (intro own_step.del_comment) (simp_all add: abs_db_def)
  then show ?thesis
    using keys_distinct_comments [OF wf]
    by (simp add: owner_claim [OF o] d' abs_db_def map_of_delete_present)
qed

lemma update_comment_refines:
  "own_step (cast_oid (claim_id c)) (abs_db d) (abs_db (snd (update_comment e c cid tx d)))"
  using update_comment_effect [of e c cid tx d]
proof
  assume "snd (update_comment e c cid tx d) = d"
  then show ?thesis by (simp add: own_step.stutter)
next
  assume "\<exists>i cm. cast_oid cid = Some i \<and> map_of (comments d) i = Some cm \<and>
           oid_str (comment_user cm) = claim_id c \<and>
           snd (update_comment e c cid tx d) =
             d\<lparr>comments := replace_doc i (cm\<lparr>content := js_trim (the tx), comment_updatedAt := now e\<rparr>)
                                     (comments d)\<rparr>"
  then obtain i cm where m: "map_of (comments d) i = Some cm" and o: "oid_str (comment_user cm) = claim_id c"
    and d': "snd (update_comment e c cid tx d) =
             d\<lparr>comments := replace_doc i (cm\<lparr>content := js_trim (the tx), comment_updatedAt := now e\<rparr>)
                                     (comments d)\<rparr>"
    by blast
  have "own_step (Some (comment_user cm)) (abs_db d)
          ((abs_db d)\<lparr>res_comments := (res_comments (abs_db d))(i \<mapsto> cm\<lparr>content := js_trim (the tx),
                                                                       comment_updatedAt := now e\<rparr>)\<rparr>)"
    using m by (intro own_step.edit_comment) (simp_all add: abs_db_def)
  then show ?thesis using m by (simp add: owner_claim [OF o] d' abs_db_def map_of_replace_present)
qed

lemma frame_refines:
  "blogs (snd x) = blogs d \<Longrightarrow> comments (snd x) = comments d \<Longrightarrow> own_step a (abs_db d) (abs_db (snd x))"
  unfolding abs_db_def by (simp add: own_step.stutter)

lemma serve_own_step:
  assumes wf: "db_wf d"
  shows "own_step (actor e r) (abs_db d) (abs_db (snd (serve e rt r d)))"
proof (cases rt)
  case (Signup un em pw img)
  then show ?thesis by (simp add: actor_def frame_refines frame_simps split: gate.split)
next
  case (UpdateUser b)
  then show ?thesis by (simp add: with_auth_refines frame_refines frame_simps)
next
  case (CreateBlog t ds im cat)
  then show ?thesis by (simp add: with_auth_refines create_blog_refines wf)
next
  case (DeleteBlog bid)
  then show ?thesis by (simp add: with_auth_refines delete_blog_refines wf)
next
  case (UpdateBlog bid t ds im cat)
  then show ?thesis by (simp add: with_auth_refines update_blog_refines)
next
  case (CreateComment tx bid)
  then show ?thesis by (simp add: with_auth_refines create_comment_refines wf)
next
  case (UpdateComment cid tx)
  then show ?thesis by (simp add: with_auth_refines update_comment_refines)
next
  case (DeleteComment cid)
  then show ?thesis by (simp add: with_auth_refines delete_comment_refines wf)
qed (simp_all add: with_auth_refines own_step.stutter frame_simps)

lemma reachable_own_reach:
  assumes "reachable d"
  shows "own_reach (abs_db d)"
  using assms
proof (induction rule: reachable.induct)
  case start
  show ?case using own_init by (simp add: abs_db_def empty_db_def)
next
  case (step d e rt r)
  show ?case by (rule own_next [OF step.IH serve_own_step [OF reachable_wf [OF step.hyps]]])
qed

text \<open>
  C10.  The server refines the ownership contract: from any reachable database, a request
  takes the abstract resources by a step of the request's actor (nothing changes, or the
  actor adds, replaces or removes one of its own blogs or comments, keeping the owner), and
  every reachable database abstracts to a state the contract can reach.
\<close>

theorem serve_refines_ownership:
  assumes "reachable d"
  shows "own_reach (abs_db d) \<and> own_step (actor e r) (abs_db d) (abs_db (snd (serve e rt r d)))"
  using reachable_own_reach [OF assms] serve_own_step [OF reachable_wf [OF assms]] by blast

subsection \<open>Runs of requests\<close>

lemma reachable_run: "reachable d \<Longrightarrow> reachable (run e r rts d)"
  by (induction rts arbitrary: d) (auto intro: reachable.step)



lemma delete_step:
  assumes wf: "db_wf d" and gate: "authMiddleware e r = Next c" and a: "cast_oid (claim_id c) = Some a"
  shows "map_of (blogs (snd (serve e (DeleteBlog (oid_str i)) r d))) =
           (if owned_by a d i then (map_of (blogs d))(i := None) else map_of (blogs d))"
    and "comments (snd (serve e (DeleteBlog (oid_str i)) r d)) = comments d"
    and "db_wf (snd (serve e (DeleteBlog (oid_str i)) r d))"
proof -
  have cid: "claim_id c = oid_str a" using a by (rule cast_oid_Some)
  show "map_of (blogs (snd (serve e (DeleteBlog (oid_str i)) r d))) =
           (if owned_by a d i then (map_of (blogs d))(i := None) else map_of (blogs d))"
  proof (cases "map_of (blogs d) i")
    case None
    then show ?thesis by (simp add: gate with_auth_Next delete_blog_def find_by_id_def owned_by_def)
  next
    case (Some b)
    then show ?thesis
      using keys_distinct_blogs [OF wf]
      by (auto simp: gate with_auth_Next delete_blog_def find_by_id_def owned_by_def cid fun_eq_iff
                     map_of_delete_doc)
  qed
  show "comments (snd (serve e (DeleteBlog (oid_str i)) r d)) = comments d"
    by (simp add: gate with_auth_Next frame_simps)
  show "db_wf (snd (serve e (DeleteBlog (oid_str i)) r d))" using wf by (rule serve_wf)
qed

lemma run_deletes:
  assumes "db_wf d" and "authMiddleware e r = Next c" and "cast_oid (claim_id c) = Some a"
  shows "map_of (blogs (run e r (map (\<lambda>i. DeleteBlog (oid_str i)) ks) d)) j =
           (if j \<in> set ks \<and> owned_by a d j then None else map_of (blogs d) j) \<and>
         comments (run e r (map (\<lambda>i. DeleteBlog (oid_str i)) ks) d) = comments d"
  using assms(1)
proof (induction "ks" arbitrary: d)
  case Nil
  then show ?case by simp
next
  case (Cons i ks)
  let ?d1 = "snd (serve e (DeleteBlog (oid_str i)) r d)"
  note step = delete_step [OF Cons.prems assms(2,3), of i]
  have "owned_by a ?d1 j \<longleftrightarrow> j \<noteq> i \<and> owned_by a d j \<or> j = i \<and> False"
    using step(1) by (auto simp: owned_by_def split: if_splits)
  with Cons.IH [OF step(3)] step(1,2) show ?case
    by (auto simp: owned_by_def split: if_splits)
qed

text \<open>
  C38.  An owner can always remove all of their blogs: with a token the gate accepts, the run
  of one \<open>DELETE /api/blogs/:id\<close> per owned blog leaves no blog of theirs, keeps every
  other user's blog and every comment.
\<close>

theorem owner_can_clear_blogs:
  assumes wf: "db_wf d" and gate: "authMiddleware e r = Next c" and a: "cast_oid (claim_id c) = Some a"
  shows "(\<forall>j b. map_of (blogs (run e r (map (\<lambda>(i, b). DeleteBlog (oid_str i))
                     (filter (\<lambda>(i, b). author b = a) (blogs d))) d)) j = Some b \<longrightarrow> author b \<noteq> a) \<and>
         (\<forall>j b. map_of (blogs d) j = Some b \<longrightarrow> author b \<noteq> a \<longrightarrow>
                map_of (blogs (run e r (map (\<lambda>(i, b). DeleteBlog (oid_str i))
                     (filter (\<lambda>(i, b). author b = a) (blogs d))) d)) j = Some b) \<and>
         comments (run e r (map (\<lambda>(i, b). DeleteBlog (oid_str i))
                     (filter (\<lambda>(i, b). author b = a) (blogs d))) d) = comments d"
proof -
  define ks where "ks = map fst (filter (\<lambda>(i, b). author b = a) (blogs d))"
  have rts: "map (\<lambda>(i, b). DeleteBlog (oid_str i)) (filter (\<lambda>(i, b). author b = a) (blogs d)) =
             map (\<lambda>i. DeleteBlog (oid_str i)) ks"
    by (induction "blogs d") (auto simp: ks_def)
  have mem: "j \<in> set ks \<longleftrightarrow> owned_by a d j" for j
    using keys_distinct_blogs [OF wf]
    by (auto simp: ks_def owned_by_def image_iff intro: map_of_is_SomeI dest: map_of_SomeD)
  show ?thesis
    unfolding rts using run_deletes [OF wf gate a, of "ks"] mem
    by (auto simp: owned_by_def)
qed

end
