(* ===== verification/Routing.thy ===== *)
theory Routing
  imports Server
begin

text \<open>
  The HTTP layer of \<open>src/server.js\<close> in front of the handlers, in the order the
  application registers it: \<open>express.json()\<close> parses the body (a body it rejects goes
  straight to the error middleware with the parser's status and message), \<open>cors(corsOptions)\<close> answers a preflight
  \<open>OPTIONS\<close> request itself, the three routers are tried in order (auth and blog routes
  under \<open>/api\<close>, comment routes under \<open>/api/comments\<close>), and an unmatched request
  falls through to the 404 handler.  Paths are matched as Express 4 does: the query string
  is ignored, literal segments are compared without regard to case, a parameter is one
  non-empty segment, and one trailing slash is allowed.  \<open>HEAD\<close> is routed as \<open>GET\<close>.
\<close>

datatype http_method = GET | HEAD | POST | PUT | DELETE | OPTIONS | OtherMethod string

text \<open>The fields the handlers destructure from \<open>req.body\<close>.\<close>

record req_body =
  b_username :: "string option"
  b_email :: "string option"
  b_password :: "string option"
  b_profileImage :: "string option"
  b_firstName :: "string option"
  b_lastName :: "string option"
  b_age :: "int option"
  b_gender :: "string option"
  b_phone :: "string option"
  b_country :: "string option"
  b_city :: "string option"
  b_address :: "string option"
  b_qualification :: "string option"
  b_title :: "string option"
  b_description :: "string option"
  b_image :: "string option"
  b_category :: "string option"
  b_content :: "string option"
  b_blogId :: "string option"

text \<open>
  How \<open>express.json()\<close> (body-parser) rejects a body: it is not JSON (a \<open>SyntaxError\<close>
  with status 400 and the JSON parser's message), it exceeds the default limit of 100kb
  (413), its charset is not UTF-8 (415; the charset as body-parser prints it, upper-cased)
  or its \<open>Content-Encoding\<close> cannot be inflated (415).
\<close>

datatype body_error =
    ParseFailed string
  | EntityTooLarge
  | UnsupportedCharset string
  | UnsupportedEncoding string

datatype parsed_body = ParsedBody req_body | BodyRejected body_error

text \<open>The errors that reach the error middleware: \<open>err.name\<close>, \<open>err.status\<close>, \<open>err.message\<close>.\<close>

datatype server_error =
    ErrValidation "string list"
  | ErrUnauthorized
  | ErrOther "nat option" "string option"

definition error_middleware :: "server_error \<Rightarrow> resp" where
  "error_middleware err =
     (case err of
        ErrValidation msgs \<Rightarrow>
          json_resp 400 (JObj [(''message'', JStr ''Validation Error''), (''errors'', JArr (map JStr msgs))])
      | ErrUnauthorized \<Rightarrow> msg_resp 401 ''Unauthorized''
      | ErrOther st m \<Rightarrow>
          msg_resp (case st of None \<Rightarrow> 500 | Some s \<Rightarrow> if s = 0 then 500 else s)
                   (js_or m ''Internal Server Error''))"

text \<open>The error body-parser passes to \<open>next(err)\<close>: its \<open>status\<close> and \<open>message\<close>.\<close>

fun body_parser_error :: "body_error \<Rightarrow> server_error" where
  "body_parser_error (ParseFailed msg) = ErrOther (Some 400) (Some msg)"
| "body_parser_error EntityTooLarge = ErrOther (Some 413) (Some ''request entity too large'')"
| "body_parser_error (UnsupportedCharset cs) =
     ErrOther (Some 415) (Some (''unsupported charset '' @ [CHR 0x22] @ cs @ [CHR 0x22]))"
| "body_parser_error (UnsupportedEncoding enc) =
     ErrOther (Some 415) (Some (''unsupported content encoding '' @ [CHR 0x22] @ enc @ [CHR 0x22]))"

text \<open>\<open>cors\<close> ends a preflight request with 204 and no body.\<close>

definition preflight_resp :: resp where
  "preflight_resp = \<lparr>status = 204, body = JNull, cookie = KeepCookie\<rparr>"

definition route_not_found :: resp where
  "route_not_found = msg_resp 404 ''Route not found''"

subsection \<open>Paths\<close>

definition path_part :: "string \<Rightarrow> string" where
  "path_part p = takeWhile (\<lambda>c. c \<noteq> CHR ''?'') p"

definition strip_trailing :: "string list \<Rightarrow> string list" where
  "strip_trailing ss = (if ss \<noteq> [] \<and> last ss = [] then butlast ss else ss)"

text \<open>The segments after the leading slash, or \<open>None\<close> for a path without one.\<close>

definition segments :: "string \<Rightarrow> string list option" where
  "segments p =
     (case js_split CHR ''/'' (path_part p) of
        [] \<Rightarrow> None
      | s # ss \<Rightarrow> if s \<noteq> [] then None else Some (strip_trailing ss))"

definition lit :: "string \<Rightarrow> string \<Rightarrow> bool" where
  "lit l s \<longleftrightarrow> to_lower_case s = l"

definition profile_of :: "req_body \<Rightarrow> profile_update" where
  "profile_of b =
     \<lparr>pu_firstName = b_firstName b, pu_lastName = b_lastName b, pu_age = b_age b,
      pu_gender = b_gender b, pu_phone = b_phone b, pu_country = b_country b, pu_city = b_city b,
      pu_address = b_address b, pu_qualification = b_qualification b\<rparr>"

text \<open>\<open>src/routes/authRoutes.js\<close> under \<open>/api\<close>.\<close>

fun auth_router :: "http_method \<Rightarrow> string list \<Rightarrow> req_body \<Rightarrow> route option" where
  "auth_router POST [s] b =
     (if lit ''signup'' s then Some (Signup (b_username b) (b_email b) (b_password b) (b_profileImage b))
      else if lit ''login'' s then Some (Login (b_email b) (b_password b))
      else if lit ''logout'' s then Some Logout else None)"
| "auth_router GET [s] b = (if lit ''user'' s then Some GetUser else None)"
| "auth_router PUT [s, t] b = (if lit ''user'' s \<and> lit ''update'' t then Some (UpdateUser (profile_of b)) else None)"
| "auth_router GET [s, t] b = (if lit ''user'' s \<and> lit ''verify'' t then Some VerifyUser else None)"
| "auth_router m ss b = None"

text \<open>\<open>src/routes/blogRoutes.js\<close> under \<open>/api\<close>.\<close>

fun blog_router :: "http_method \<Rightarrow> string list \<Rightarrow> req_body \<Rightarrow> route option" where
  "blog_router POST [s] b =
     (if lit ''blogs'' s then Some (CreateBlog (b_title b) (b_description b) (b_image b) (b_category b)) else None)"
| "blog_router GET [s] b = (if lit ''blogs'' s then Some ListBlogs else None)"
| "blog_router GET [s, t] b = (if lit ''blogs'' s \<and> lit ''my-blogs'' t then Some MyBlogs else None)"
| "blog_router DELETE [s, i] b = (if lit ''blogs'' s \<and> i \<noteq> [] then Some (DeleteBlog i) else None)"
| "blog_router PUT [s, i] b =
     (if lit ''blogs'' s \<and> i \<noteq> [] then Some (UpdateBlog i (b_title b) (b_description b) (b_image b) (b_category b))
      else None)"
| "blog_router m ss b = None"

text \<open>\<open>src/routes/commentRoutes.js\<close> under \<open>/api/comments\<close>.\<close>

fun comment_router :: "http_method \<Rightarrow> string list \<Rightarrow> req_body \<Rightarrow> route option" where
  "comment_router GET [s, i] b = (if lit ''blog'' s \<and> i \<noteq> [] then Some (ListComments i) else None)"
| "comment_router POST [] b = Some (CreateComment (b_content b) (b_blogId b))"
| "comment_router PUT [i] b = (if i \<noteq> [] then Some (UpdateComment i (b_content b)) else None)"
| "comment_router DELETE [i] b = (if i \<noteq> [] then Some (DeleteComment i) else None)"
| "comment_router m ss b = None"

text \<open>The routers in the order \<open>app.use\<close> registers them; \<open>HEAD\<close> runs the \<open>GET\<close> routes.\<close>

definition route_of :: "http_method \<Rightarrow> string list \<Rightarrow> req_body \<Rightarrow> route option" where
  "route_of m ss b =
     (let m' = (if m = HEAD then GET else m) in
      case ss of
        a # rest \<Rightarrow>
          if \<not> lit ''api'' a then None
          else (case auth_router m' rest b of
                  Some rt \<Rightarrow> Some rt
                | None \<Rightarrow>
                    (case blog_router m' rest b of
                       Some rt \<Rightarrow> Some rt
                     | None \<Rightarrow>
                         (case rest of
                            c # rest' \<Rightarrow> if lit ''comments'' c then comment_router m' rest' b else None
                          | [] \<Rightarrow> None)))
      | [] \<Rightarrow> None)"

definition dispatch ::
  "env \<Rightarrow> http_method \<Rightarrow> string \<Rightarrow> parsed_body \<Rightarrow> auth_req \<Rightarrow> db \<Rightarrow> resp \<times> db" where
  "dispatch e m p pb r d =
     (case pb of
        BodyRejected be \<Rightarrow> (error_middleware (body_parser_error be), d)
      | ParsedBody b \<Rightarrow>
          if m = OPTIONS then (preflight_resp, d)
          else (case segments p of
                  None \<Rightarrow> (route_not_found, d)
                | Some ss \<Rightarrow>
                    (case route_of m ss b of
                       None \<Rightarrow> (route_not_found, d)
                     | Some rt \<Rightarrow> serve e rt r d)))"

subsection \<open>The request a client sends for each endpoint\<close>

definition empty_body :: req_body where
  "empty_body =
     \<lparr>b_username = None, b_email = None, b_password = None, b_profileImage = None,
      b_firstName = None, b_lastName = None, b_age = None, b_gender = None, b_phone = None,
      b_country = None, b_city = None, b_address = None, b_qualification = None,
      b_title = None, b_description = None, b_image = None, b_category = None,
      b_content = None, b_blogId = None\<rparr>"

definition path_of :: "string list \<Rightarrow> string" where
  "path_of ss = CHR ''/'' # js_join CHR ''/'' ss"

fun request_of :: "route \<Rightarrow> http_method \<times> string list \<times> req_body" where
  "request_of (Signup un em pw img) =
     (POST, [''api'', ''signup''], empty_body\<lparr>b_username := un, b_email := em, b_password := pw, b_profileImage := img\<rparr>)"
| "request_of (Login em pw) = (POST, [''api'', ''login''], empty_body\<lparr>b_email := em, b_password := pw\<rparr>)"
| "request_of GetUser = (GET, [''api'', ''user''], empty_body)"
| "request_of Logout = (POST, [''api'', ''logout''], empty_body)"
| "request_of (UpdateUser pu) =
     (PUT, [''api'', ''user'', ''update''],
      empty_body\<lparr>b_firstName := pu_firstName pu, b_lastName := pu_lastName pu, b_age := pu_age pu,
        b_gender := pu_gender pu, b_phone := pu_phone pu, b_country := pu_country pu, b_city := pu_city pu,
        b_address := pu_address pu, b_qualification := pu_qualification pu\<rparr>)"
| "request_of VerifyUser = (GET, [''api'', ''user'', ''verify''], empty_body)"
| "request_of (CreateBlog t ds im cat) =
     (POST, [''api'', ''blogs''], empty_body\<lparr>b_title := t, b_description := ds, b_image := im, b_category := cat\<rparr>)"
| "request_of ListBlogs = (GET, [''api'', ''blogs''], empty_body)"
| "request_of MyBlogs = (GET, [''api'', ''blogs'', ''my-blogs''], empty_body)"
| "request_of (DeleteBlog i) = (DELETE, [''api'', ''blogs'', i], empty_body)"
| "request_of (UpdateBlog i t ds im cat) =
     (PUT, [''api'', ''blogs'', i], empty_body\<lparr>b_title := t, b_description := ds, b_image := im, b_category := cat\<rparr>)"
| "request_of (ListComments i) = (GET, [''api'', ''comments'', ''blog'', i], empty_body)"
| "request_of (CreateComment tx bid) = (POST, [''api'', ''comments''], empty_body\<lparr>b_content := tx, b_blogId := bid\<rparr>)"
| "request_of (UpdateComment i tx) = (PUT, [''api'', ''comments'', i], empty_body\<lparr>b_content := tx\<rparr>)"
| "request_of (DeleteComment i) = (DELETE, [''api'', ''comments'', i], empty_body)"

text \<open>A path parameter a client can send: one non-empty segment without a query.\<close>

definition param_ok :: "string \<Rightarrow> bool" where
  "param_ok p \<longleftrightarrow> p \<noteq> [] \<and> CHR ''/'' \<notin> set p \<and> CHR ''?'' \<notin> set p"

fun route_params :: "route \<Rightarrow> string list" where
  "route_params (DeleteBlog i) = [i]"
| "route_params (UpdateBlog i t ds im cat) = [i]"
| "route_params (ListComments i) = [i]"
| "route_params (UpdateComment i tx) = [i]"
| "route_params (DeleteComment i) = [i]"
| "route_params _ = []"

subsection \<open>Parsing the printed request\<close>

lemma path_part_id: "CHR ''?'' \<notin> set p \<Longrightarrow> path_part p = p"
  by (auto simp: path_part_def takeWhile_eq_all_conv)

lemma segments_path_of:
  assumes "ss \<noteq> []" and "\<forall>s \<in> set ss. CHR ''/'' \<notin> set s \<and> CHR ''?'' \<notin> set s" and "last ss \<noteq> []"
  shows "segments (path_of ss) = Some ss"
proof -
  have q: "CHR ''?'' \<notin> set (path_of ss)"
    using assms(2) set_js_join [of "CHR ''/''" ss] by (auto simp: path_of_def)
  have "js_split CHR ''/'' (path_of ss) = [] # ss"
    using js_split_sep [of "CHR ''/''" "[]" "js_join CHR ''/'' ss"] js_split_join [OF assms(1)] assms(2)
    by (simp add: path_of_def)
  then show ?thesis using assms(3) by (simp add: segments_def path_part_id [OF q] strip_trailing_def)
qed

lemma lit_same: "to_lower_case s = s \<Longrightarrow> lit s s"
  by (simp add: lit_def)

lemmas literal_simps = lit_def to_lower_case_def js_lower_char_def

text \<open>
  C29.  Every endpoint is reached by its request: the method, path and body a client sends
  for it (with path parameters that are one non-empty segment without a query) are
  dispatched to exactly that handler.
\<close>

theorem dispatch_request_of:
  assumes "\<forall>p \<in> set (route_params rt). param_ok p"
  shows "(case request_of rt of (m, ss, b) \<Rightarrow> dispatch e m (path_of ss) (ParsedBody b) r d) = serve e rt r d"
proof -
  obtain m ss b where req: "request_of rt = (m, ss, b)" by (cases "request_of rt")
  have seg: "segments (path_of ss) = Some ss"
    using req assms by (intro segments_path_of) (cases rt; auto simp: param_ok_def)+
  have "route_of m ss b = Some rt"
    using req assms
    by (cases rt) (auto simp: route_of_def literal_simps profile_of_def empty_body_def param_ok_def)
  moreover have "m \<noteq> OPTIONS" using req by (cases rt) auto
  ultimately show ?thesis using req seg by (simp add: dispatch_def)
qed

text \<open>
  C39.  The HTTP layer's own answers: a body that is not JSON is answered 400 with the parser's
  message before any route or gate runs; a preflight \<open>OPTIONS\<close> is answered 204; an
  unknown method, or a path outside \<open>/api\<close>, is answered 404 \<open>Route not found\<close>;
  none of them changes the database.
\<close>

theorem dispatch_errors:
  "dispatch e m p (BodyRejected (ParseFailed msg)) r d = (msg_resp 400 (js_or (Some msg) ''Internal Server Error''), d) \<and>
   dispatch e OPTIONS p (ParsedBody b) r d = (preflight_resp, d) \<and>
   dispatch e (OtherMethod x) p (ParsedBody b) r d = (msg_resp 404 ''Route not found'', d) \<and>
   (m \<noteq> OPTIONS \<longrightarrow> segments p \<noteq> Some [] \<longrightarrow> (\<forall>a rest. segments p = Some (a # rest) \<longrightarrow> \<not> lit ''api'' a) \<longrightarrow>
      dispatch e m p (ParsedBody b) r d = (msg_resp 404 ''Route not found'', d))"
proof (intro conjI impI)
  show "dispatch e m p (BodyRejected (ParseFailed msg)) r d = (msg_resp 400 (js_or (Some msg) ''Internal Server Error''), d)"
    by (simp add: dispatch_def error_middleware_def)
  show "dispatch e OPTIONS p (ParsedBody b) r d = (preflight_resp, d)"
    by (simp add: dispatch_def)
  have "route_of (OtherMethod x) ss b = None" for ss
    by (cases ss) (auto simp: route_of_def Let_def split: option.splits list.splits)
  then show "dispatch e (OtherMethod x) p (ParsedBody b) r d = (msg_resp 404 ''Route not found'', d)"
    by (simp add: dispatch_def route_not_found_def split: option.splits)
  assume "m \<noteq> OPTIONS" "segments p \<noteq> Some []" "\<forall>a rest. segments p = Some (a # rest) \<longrightarrow> \<not> lit ''api'' a"
  then show "dispatch e m p (ParsedBody b) r d = (msg_resp 404 ''Route not found'', d)"
    by (auto simp: dispatch_def route_not_found_def route_of_def split: option.splits list.splits)
qed

text \<open>The answers of the body parser: its status, and a \<open>message\<close> body.\<close>

lemma body_parser_answer:
  "\<exists>msg. error_middleware (body_parser_error be) = msg_resp (case be of ParseFailed m \<Rightarrow> 400 | EntityTooLarge \<Rightarrow> 413
                                                          | UnsupportedCharset cs \<Rightarrow> 415 | UnsupportedEncoding enc \<Rightarrow> 415) msg"
  by (cases be) (auto simp: error_middleware_def)

lemma dispatch_parsed_shaped: "resp_shaped (fst (dispatch e m p (ParsedBody b) r d))"
proof -
  have "resp_shaped preflight_resp" by (simp add: resp_shaped_def preflight_resp_def)
  then show ?thesis
    by (auto simp: dispatch_def route_not_found_def serve_shaped split: option.splits)
qed

text \<open>
  C36.  Every response of the HTTP layer, for every method, path, body, token and database,
  has one of the statuses of the API (200, 201, 204, 400, 401, 403, 404, 500) or one of
  the body parser's 413 and 415, and only a body the parser rejects gets 413 or 415; every
  error response is a JSON object whose first field is a string \<open>message\<close>.
\<close>

theorem dispatch_response_shape:
  "status (fst (dispatch e m p pb r d)) \<in> {200, 201, 204, 400, 401, 403, 404, 413, 415, 500} \<and>
   (status (fst (dispatch e m p pb r d)) \<in> {413, 415} \<longrightarrow> (\<exists>be. pb = BodyRejected be)) \<and>
   (400 \<le> status (fst (dispatch e m p pb r d)) \<longrightarrow>
      (\<exists>msg rest. body (fst (dispatch e m p pb r d)) = JObj ((''message'', JStr msg) # rest)))"
proof (cases pb)
  case (ParsedBody b)
  then show ?thesis using dispatch_parsed_shaped [of e m p b r d] by (auto simp: resp_shaped_def)
next
  case (BodyRejected be)
  obtain msg where "error_middleware (body_parser_error be) = msg_resp (case be of ParseFailed m \<Rightarrow> 400 | EntityTooLarge \<Rightarrow> 413
                                                          | UnsupportedCharset cs \<Rightarrow> 415 | UnsupportedEncoding enc \<Rightarrow> 415) msg"
    using body_parser_answer by blast
  then show ?thesis using BodyRejected
    by (cases be) (auto simp: dispatch_def msg_resp_def json_resp_def)
qed

end
