(* ===== verification/Concurrency.thy ===== *)
theory Concurrency
  imports Server
begin

text \<open>
  Interleaving of requests at the handlers' \<open>await\<close>s.  Node runs one handler at a time
  but gives way at every \<open>await\<close>, so two requests can run between another's read and its
  write.  The blog routes of \<open>src/routes/blogRoutes.js\<close> read with \<open>Blog.findById\<close>
  and write later with \<open>findByIdAndUpdate\<close> or \<open>findByIdAndDelete\<close>; each is split
  here into a read phase, which answers or leaves a pending write, and a write phase.
  The write of an update is the \<open>$set\<close> document the read built from what it read
  (\<open>title: title || blog.title\<close>, ...); it is applied to whatever is stored when it
  runs.  Signup (\<open>src/routes/authRoutes.js\<close>) checks for a registered e-mail with
  \<open>User.findOne\<close> and saves later, after hashing; the profile update loads the user
  and saves it later.  Blog and comment creation save and then read the document back;
  the comment edit reads, saves and reads back; the comment delete reads and deletes.
  The routes that call the database once run as one phase, as in \<open>Server\<close>.  A server state holds
  the database and the requests in flight, and a schedule says which request runs its
  next phase; the atomic \<open>serve\<close> is the schedule that runs each request to its end.
\<close>

subsection \<open>The phases of the blog handlers\<close>

text \<open>The update document of \<open>Blog.findByIdAndUpdate(id, {...})\<close>.\<close>

record blog_set =
  set_title :: string
  set_description :: string
  set_image :: string
  set_category :: string

definition blog_set_of ::
  "string option \<Rightarrow> string option \<Rightarrow> string option \<Rightarrow> string option \<Rightarrow> blog \<Rightarrow> blog_set" where
  "blog_set_of t ds im cat b =
     \<lparr>set_title = js_or t (title b), set_description = js_or ds (description b),
      set_image = js_or im (blog_image b), set_category = js_or cat (category b)\<rparr>"

definition apply_set :: "blog_set \<Rightarrow> blog \<Rightarrow> blog" where
  "apply_set u b =
     b\<lparr>title := set_title u, description := set_description u,
       blog_image := set_image u, category := set_category u\<rparr>"

definition update_blog_read ::
  "claims \<Rightarrow> string \<Rightarrow> string option \<Rightarrow> string option \<Rightarrow> string option \<Rightarrow> string option \<Rightarrow> db \<Rightarrow>
   resp + oid \<times> blog_set" where
  "update_blog_read c bid t ds im cat d =
     (case cast_oid bid of
        None \<Rightarrow> Inl (msg_err_resp 500 ''Error updating blog'' (error_message (CastError ''_id'')))
      | Some i \<Rightarrow>
          (case find_by_id (blogs d) i of
             None \<Rightarrow> Inl blog_not_found
           | Some b \<Rightarrow>
               if oid_str (author b) \<noteq> claim_id c
               then Inl (msg_resp 403 ''Unauthorized: You can only edit your own blog'')
               else if js_truthy cat \<and> \<not> js_includes validCategories cat
               then Inl (msg_resp 400 ''Invalid category selected'')
               else Inr (i, blog_set_of t ds im cat b)))"

text \<open>
  \<open>findByIdAndUpdate(..., { new: true }).populate(...)\<close> answers \<open>null\<close> when no
  document has the id any more; the handler sends it as the updated blog.
\<close>

definition update_blog_write :: "oid \<Rightarrow> blog_set \<Rightarrow> db \<Rightarrow> resp \<times> db" where
  "update_blog_write i u d =
     (case find_by_id (blogs d) i of
        None \<Rightarrow> (json_resp 200 (JObj [(''message'', JStr ''Blog updated successfully''), (''blog'', JNull)]), d)
      | Some b \<Rightarrow>
          (let b' = apply_set u b;
               d' = d\<lparr>blogs := replace_doc i b' (blogs d)\<rparr> in
           (json_resp 200 (JObj [(''message'', JStr ''Blog updated successfully''),
              (''blog'', blog_json (populate_user [''username'', ''email'', ''profileImage''] d' (author b')) i b')]),
            d')))"

definition delete_blog_read :: "claims \<Rightarrow> string \<Rightarrow> db \<Rightarrow> resp + oid" where
  "delete_blog_read c bid d =
     (case cast_oid bid of
        None \<Rightarrow> Inl (msg_err_resp 500 ''Error deleting blog'' (error_message (CastError ''_id'')))
      | Some i \<Rightarrow>
          (case find_by_id (blogs d) i of
             None \<Rightarrow> Inl blog_not_found
           | Some b \<Rightarrow>
               if oid_str (author b) \<noteq> claim_id c
               then Inl (msg_resp 403 ''You are not authorized to delete this blog'')
               else Inr i))"

text \<open>\<open>findByIdAndDelete\<close> of an id that is gone deletes nothing and does not fail.\<close>

definition delete_blog_write :: "oid \<Rightarrow> db \<Rightarrow> resp \<times> db" where
  "delete_blog_write i d = (msg_resp 200 ''Blog deleted successfully'', d\<lparr>blogs := delete_doc i (blogs d)\<rparr>)"

text \<open>
  \<open>POST /api/auth/signup\<close> (\<open>src/routes/authRoutes.js\<close>) reads with
  \<open>User.findOne\<close> and writes with \<open>newUser.save()\<close> after hashing; the unique index
  on \<open>email\<close> is checked by the write itself (\<open>save_new_user\<close>).
\<close>

definition signup_read :: "string option \<Rightarrow> db \<Rightarrow> resp + string" where
  "signup_read em d =
     (case em of
        None \<Rightarrow> Inl (msg_resp 500 ''Internal Server Error'')
      | Some em' \<Rightarrow>
          (let lc = to_lower_case em' in
           if \<not> ends_with lc ''@gmail.com''
           then Inl (msg_resp 400 ''Only @gmail.com emails are allowed!'')
           else if find_one (\<lambda>u. email u = lc) (users d) \<noteq> None
           then Inl (msg_resp 400 ''Email already registered. Please log in!'')
           else Inr lc))"

definition signup_write ::
  "env \<Rightarrow> string option \<Rightarrow> string \<Rightarrow> string option \<Rightarrow> string option \<Rightarrow> db \<Rightarrow> resp \<times> db" where
  "signup_write e un lc pw img d =
     (case pw of
        None \<Rightarrow> (msg_resp 500 ''Internal Server Error'', d)
      | Some p \<Rightarrow>
          (case save_new_user (new_user un lc (bcrypt_hash p (salt e)) img (now e)) d of
             Inl err \<Rightarrow> (msg_resp 500 ''Internal Server Error'', d)
           | Inr (i, d') \<Rightarrow>
               (json_resp 201 (JObj [(''success'', JBool True),
                                     (''message'', JStr ''User registered successfully!'')]),
                d')))"

text \<open>
  \<open>PUT /api/auth/user/update\<close> loads the user with \<open>findById\<close>, assigns the given
  fields to the loaded document and saves it later.  \<open>save()\<close> of a loaded document
  writes only its modified paths: a path is modified when the assignment changed its
  value, and the \<open>pre('save')\<close> hook modifies \<open>updatedAt\<close>.  The write is
  validated on the document in memory, and fails with \<open>DocumentNotFoundError\<close> when
  no stored user has the id any more.
\<close>

definition user_update_read :: "claims \<Rightarrow> profile_update \<Rightarrow> db \<Rightarrow> resp + oid \<times> user \<times> user" where
  "user_update_read c b d =
     (case cast_oid (claim_id c) of
        None \<Rightarrow> Inl (msg_resp 500 ''Internal Server Error'')
      | Some i \<Rightarrow>
          (case find_by_id (users d) i of
             None \<Rightarrow> Inl (msg_resp 404 ''User not found!'')
           | Some u \<Rightarrow> Inr (i, u, apply_profile b u)))"

text \<open>A path of the update document: the new value if the loaded one was changed.\<close>

definition pick :: "'a \<Rightarrow> 'a \<Rightarrow> 'a \<Rightarrow> 'a" where
  "pick old new cur = (if new \<noteq> old then new else cur)"

definition save_modified :: "user \<Rightarrow> user \<Rightarrow> user \<Rightarrow> user" where
  "save_modified u0 u1 cur =
     cur\<lparr>firstName := pick (firstName u0) (firstName u1) (firstName cur),
         lastName := pick (lastName u0) (lastName u1) (lastName cur),
         age := pick (age u0) (age u1) (age cur),
         gender := pick (gender u0) (gender u1) (gender cur),
         phone := pick (phone u0) (phone u1) (phone cur),
         country := pick (country u0) (country u1) (country cur),
         city := pick (city u0) (city u1) (city cur),
         address := pick (address u0) (address u1) (address cur),
         qualification := pick (qualification u0) (qualification u1) (qualification cur),
         updatedAt := pick (updatedAt u0) (updatedAt u1) (updatedAt cur)\<rparr>"

definition user_save_write :: "env \<Rightarrow> oid \<Rightarrow> user \<Rightarrow> user \<Rightarrow> db \<Rightarrow> resp \<times> db" where
  "user_save_write e i u0 u1 d =
     (let u1' = u1\<lparr>updatedAt := now e\<rparr> in
      if failed_paths (user_checks u1') \<noteq> [] then (msg_resp 500 ''Internal Server Error'', d)
      else (case find_by_id (users d) i of
              None \<Rightarrow> (msg_resp 500 ''Internal Server Error'', d)
            | Some cur \<Rightarrow>
                (json_resp 200 (JObj [(''message'', JStr ''Profile updated successfully!''),
                                      (''user'', user_json i u1')]),
                 d\<lparr>users := replace_doc i (save_modified u0 u1' cur) (users d)\<rparr>)))"

text \<open>
  \<open>POST /api/blogs\<close> saves the new blog and then reads it back with
  \<open>Blog.findById(newBlog._id).populate("author", "username email")\<close>, which answers
  \<open>null\<close> when the blog is gone by then.
\<close>

definition create_blog_save ::
  "env \<Rightarrow> claims \<Rightarrow> string option \<Rightarrow> string option \<Rightarrow> string option \<Rightarrow> string option \<Rightarrow> db \<Rightarrow>
   (resp + oid) \<times> db" where
  "create_blog_save e c t ds im cat d =
     (if \<not> js_truthy t \<or> \<not> js_truthy ds
      then (Inl (msg_resp 400 ''Title and description are required''), d)
      else if \<not> js_includes validCategories cat
      then (Inl (msg_resp 400 ''Invalid category selected''), d)
      else (case cast_oid (claim_id c) of
              None \<Rightarrow> (Inl (msg_err_resp 500 ''Error posting blog''
                         (error_message (ValidationError ''Blog'' [''author'']))), d)
            | Some uid \<Rightarrow>
                (case save_new_blog (new_blog t ds im cat uid (now e)) d of
                   Inl err \<Rightarrow> (Inl (msg_err_resp 500 ''Error posting blog'' (error_message err)), d)
                 | Inr (i, d') \<Rightarrow> (Inr i, d'))))"

definition blog_refetch :: "oid \<Rightarrow> db \<Rightarrow> resp" where
  "blog_refetch i d =
     json_resp 201 (JObj [(''message'', JStr ''Blog posted successfully!''),
       (''blog'', case find_by_id (blogs d) i of
                    None \<Rightarrow> JNull
                  | Some b \<Rightarrow> blog_json (populate_user [''username'', ''email''] d (author b)) i b)])"

text \<open>
  The comment routes of \<open>src/routes/commentRoutes.js\<close>: creation saves and then reads
  the comment back; an edit reads, saves the loaded document and reads it back; a delete
  reads and then calls \<open>findByIdAndDelete\<close>.
\<close>

definition create_comment_save ::
  "env \<Rightarrow> claims \<Rightarrow> string option \<Rightarrow> string option \<Rightarrow> db \<Rightarrow> (resp + oid) \<times> db" where
  "create_comment_save e c txt bid d =
     (if content_missing txt then (Inl comment_required, d)
      else if \<not> js_truthy bid then (Inl (msg_resp 400 ''Blog ID is required''), d)
      else (case (cast_oid (the bid), cast_oid (claim_id c)) of
              (Some b, Some u) \<Rightarrow>
                (case save_new_comment (new_comment (the txt) b u (now e)) d of
                   Inl err \<Rightarrow> (Inl (msg_err_resp 400 ''Error creating comment'' (error_message err)), d)
                 | Inr (i, d') \<Rightarrow> (Inr i, d'))
            | (None, None) \<Rightarrow> (Inl (msg_err_resp 400 ''Error creating comment''
                             (error_message (ValidationError ''Comment'' [''blog'', ''user'']))), d)
            | (None, Some u) \<Rightarrow> (Inl (msg_err_resp 400 ''Error creating comment''
                             (error_message (ValidationError ''Comment'' [''blog'']))), d)
            | (Some b, None) \<Rightarrow> (Inl (msg_err_resp 400 ''Error creating comment''
                             (error_message (ValidationError ''Comment'' [''user'']))), d)))"

text \<open>\<open>Comment.findById(comment._id).populate('user', ...)\<close> and the answer built from it.\<close>

definition comment_refetch :: "nat \<Rightarrow> string \<Rightarrow> oid \<Rightarrow> db \<Rightarrow> resp" where
  "comment_refetch st m i d =
     json_resp st (JObj [(''message'', JStr m),
       (''comment'', case find_by_id (comments d) i of
                       None \<Rightarrow> JNull
                     | Some cm \<Rightarrow> comments_populated d i cm)])"

definition update_comment_read ::
  "env \<Rightarrow> claims \<Rightarrow> string \<Rightarrow> string option \<Rightarrow> db \<Rightarrow> resp + oid \<times> comment \<times> comment" where
  "update_comment_read e c cid txt d =
     (if content_missing txt then Inl comment_required
      else (case cast_oid cid of
              None \<Rightarrow> Inl (msg_err_resp 400 ''Error updating comment'' (error_message (CastError ''_id'')))
            | Some i \<Rightarrow>
                (case find_by_id (comments d) i of
                   None \<Rightarrow> Inl comment_not_found
                 | Some cm \<Rightarrow>
                     if oid_str (comment_user cm) \<noteq> claim_id c
                     then Inl (msg_resp 403 ''Not authorized to edit this comment'')
                     else Inr (i, cm, cm\<lparr>content := js_trim (the txt), comment_updatedAt := now e\<rparr>))))"

text \<open>\<open>comment.save()\<close> of the loaded comment: the modified paths over the stored one.\<close>

definition comment_save_modified :: "comment \<Rightarrow> comment \<Rightarrow> comment \<Rightarrow> comment" where
  "comment_save_modified c0 c1 cur =
     cur\<lparr>content := pick (content c0) (content c1) (content cur),
         comment_blog := pick (comment_blog c0) (comment_blog c1) (comment_blog cur),
         comment_user := pick (comment_user c0) (comment_user c1) (comment_user cur),
         comment_createdAt := pick (comment_createdAt c0) (comment_createdAt c1) (comment_createdAt cur),
         comment_updatedAt := pick (comment_updatedAt c0) (comment_updatedAt c1) (comment_updatedAt cur)\<rparr>"

definition comment_save_write :: "env \<Rightarrow> oid \<Rightarrow> comment \<Rightarrow> comment \<Rightarrow> db \<Rightarrow> (resp + oid) \<times> db" where
  "comment_save_write e i c0 c1 d =
     (let c1' = c1\<lparr>comment_updatedAt := now e\<rparr>; ps = failed_paths (comment_checks c1') in
      if ps \<noteq> []
      then (Inl (msg_err_resp 400 ''Error updating comment'' (error_message (ValidationError ''Comment'' ps))), d)
      else (case find_by_id (comments d) i of
              None \<Rightarrow> (Inl (msg_err_resp 400 ''Error updating comment''
                                (error_message (DocumentNotFound ''Comment'' i))), d)
            | Some cur \<Rightarrow> (Inr i, d\<lparr>comments := replace_doc i (comment_save_modified c0 c1' cur) (comments d)\<rparr>)))"

definition delete_comment_read :: "claims \<Rightarrow> string \<Rightarrow> db \<Rightarrow> resp + oid" where
  "delete_comment_read c cid d =
     (case cast_oid cid of
        None \<Rightarrow> Inl (msg_err_resp 400 ''Error deleting comment'' (error_message (CastError ''_id'')))
      | Some i \<Rightarrow>
          (case find_by_id (comments d) i of
             None \<Rightarrow> Inl comment_not_found
           | Some cm \<Rightarrow>
               if oid_str (comment_user cm) \<noteq> claim_id c
               then Inl (msg_resp 403 ''Not authorized to delete this comment'')
               else Inr i))"

definition delete_comment_write :: "string \<Rightarrow> oid \<Rightarrow> db \<Rightarrow> resp \<times> db" where
  "delete_comment_write cid i d =
     (json_resp 200 (JObj [(''message'', JStr ''Comment deleted successfully''), (''commentId'', JStr cid)]),
      d\<lparr>comments := delete_doc i (comments d)\<rparr>)"

subsection \<open>Requests in flight\<close>

datatype task =
    Request auth_req route
  | BlogUpdateWrite oid blog_set
  | BlogDeleteWrite oid
  | SignupWrite "string option" string "string option" "string option"
  | UserSaveWrite oid user user
  | BlogRefetch oid
  | CommentRefetch nat string oid
  | CommentSaveWrite oid comment comment
  | CommentDeleteWrite string oid

text \<open>One phase of a request: it answers (\<open>Inl\<close>) or leaves its next phase (\<open>Inr\<close>).\<close>

fun phase :: "env \<Rightarrow> task \<Rightarrow> db \<Rightarrow> (resp + task) \<times> db" where
  "phase e (Request r (UpdateBlog bid t ds im cat)) d =
     (case authMiddleware e r of
        Deny rs \<Rightarrow> (Inl rs, d)
      | Next c \<Rightarrow> (case update_blog_read c bid t ds im cat d of
                    Inl rs \<Rightarrow> (Inl rs, d)
                  | Inr (i, u) \<Rightarrow> (Inr (BlogUpdateWrite i u), d)))"
| "phase e (Request r (DeleteBlog bid)) d =
     (case authMiddleware e r of
        Deny rs \<Rightarrow> (Inl rs, d)
      | Next c \<Rightarrow> (case delete_blog_read c bid d of
                    Inl rs \<Rightarrow> (Inl rs, d)
                  | Inr i \<Rightarrow> (Inr (BlogDeleteWrite i), d)))"
| "phase e (Request r (Signup un em pw img)) d =
     (case signup_read em d of
        Inl rs \<Rightarrow> (Inl rs, d)
      | Inr lc \<Rightarrow> (Inr (SignupWrite un lc pw img), d))"
| "phase e (Request r (UpdateUser b)) d =
     (case authMiddleware e r of
        Deny rs \<Rightarrow> (Inl rs, d)
      | Next c \<Rightarrow> (case user_update_read c b d of
                    Inl rs \<Rightarrow> (Inl rs, d)
                  | Inr (i, u0, u1) \<Rightarrow> (Inr (UserSaveWrite i u0 u1), d)))"
| "phase e (Request r (CreateBlog t ds im cat)) d =
     (case authMiddleware e r of
        Deny rs \<Rightarrow> (Inl rs, d)
      | Next c \<Rightarrow> (case create_blog_save e c t ds im cat d of
                    (Inl rs, d') \<Rightarrow> (Inl rs, d')
                  | (Inr i, d') \<Rightarrow> (Inr (BlogRefetch i), d')))"
| "phase e (Request r (CreateComment txt bid)) d =
     (case authMiddleware e r of
        Deny rs \<Rightarrow> (Inl rs, d)
      | Next c \<Rightarrow> (case create_comment_save e c txt bid d of
                    (Inl rs, d') \<Rightarrow> (Inl rs, d')
                  | (Inr i, d') \<Rightarrow> (Inr (CommentRefetch 201 ''Comment added successfully'' i), d')))"
| "phase e (Request r (UpdateComment cid txt)) d =
     (case authMiddleware e r of
        Deny rs \<Rightarrow> (Inl rs, d)
      | Next c \<Rightarrow> (case update_comment_read e c cid txt d of
                    Inl rs \<Rightarrow> (Inl rs, d)
                  | Inr (i, c0, c1) \<Rightarrow> (Inr (CommentSaveWrite i c0 c1), d)))"
| "phase e (Request r (DeleteComment cid)) d =
     (case authMiddleware e r of
        Deny rs \<Rightarrow> (Inl rs, d)
      | Next c \<Rightarrow> (case delete_comment_read c cid d of
                    Inl rs \<Rightarrow> (Inl rs, d)
                  | Inr i \<Rightarrow> (Inr (CommentDeleteWrite cid i), d)))"
| "phase e (Request r rt) d = (case serve e rt r d of (rs, d') \<Rightarrow> (Inl rs, d'))"
| "phase e (BlogUpdateWrite i u) d = (case update_blog_write i u d of (rs, d') \<Rightarrow> (Inl rs, d'))"
| "phase e (BlogDeleteWrite i) d = (case delete_blog_write i d of (rs, d') \<Rightarrow> (Inl rs, d'))"
| "phase e (SignupWrite un lc pw img) d = (case signup_write e un lc pw img d of (rs, d') \<Rightarrow> (Inl rs, d'))"
| "phase e (UserSaveWrite i u0 u1) d = (case user_save_write e i u0 u1 d of (rs, d') \<Rightarrow> (Inl rs, d'))"
| "phase e (BlogRefetch i) d = (Inl (blog_refetch i d), d)"
| "phase e (CommentRefetch st m i) d = (Inl (comment_refetch st m i d), d)"
| "phase e (CommentSaveWrite i c0 c1) d =
     (case comment_save_write e i c0 c1 d of
        (Inl rs, d') \<Rightarrow> (Inl rs, d')
      | (Inr i', d') \<Rightarrow> (Inr (CommentRefetch 200 ''Comment updated successfully'' i'), d'))"
| "phase e (CommentDeleteWrite cid i) d = (case delete_comment_write cid i d of (rs, d') \<Rightarrow> (Inl rs, d'))"

text \<open>The routes whose handler is split here at its \<open>await\<close>s.\<close>

fun split_route :: "route \<Rightarrow> bool" where
  "split_route (UpdateBlog bid t ds im cat) = True"
| "split_route (DeleteBlog bid) = True"
| "split_route (Signup un em pw img) = True"
| "split_route (UpdateUser b) = True"
| "split_route (CreateBlog t ds im cat) = True"
| "split_route (CreateComment txt bid) = True"
| "split_route (UpdateComment cid txt) = True"
| "split_route (DeleteComment cid) = True"
| "split_route _ = False"

text \<open>A task run alone for at most \<open>n\<close> phases: its answer, or \<open>None\<close> if it needs more.\<close>

fun run_task :: "nat \<Rightarrow> env \<Rightarrow> task \<Rightarrow> db \<Rightarrow> (resp \<times> db) option" where
  "run_task 0 e tk d = None"
| "run_task (Suc n) e tk d =
     (case phase e tk d of (Inl rs, d') \<Rightarrow> Some (rs, d') | (Inr tk', d') \<Rightarrow> run_task n e tk' d')"

record server =
  srv_db :: db
  in_flight :: "task option list"
  answers :: "(nat \<times> resp) list"

text \<open>Request \<open>k\<close> runs its next phase; a finished or unknown request does nothing.\<close>

definition step_task :: "env \<Rightarrow> nat \<Rightarrow> server \<Rightarrow> server" where
  "step_task e k s =
     (case nth_opt (in_flight s) k of
        Some (Some tk) \<Rightarrow>
          (case phase e tk (srv_db s) of
             (Inl rs, d') \<Rightarrow> s\<lparr>srv_db := d', in_flight := (in_flight s)[k := None],
                               answers := answers s @ [(k, rs)]\<rparr>
           | (Inr tk', d') \<Rightarrow> s\<lparr>srv_db := d', in_flight := (in_flight s)[k := Some tk']\<rparr>)
      | _ \<Rightarrow> s)"

definition schedule :: "env \<Rightarrow> nat list \<Rightarrow> server \<Rightarrow> server" where
  "schedule e ks s = fold (step_task e) ks s"

text \<open>The atomic model: the requests served one after the other.\<close>

fun serve_seq :: "env \<Rightarrow> (auth_req \<times> route) list \<Rightarrow> db \<Rightarrow> resp list \<times> db" where
  "serve_seq e [] d = ([], d)"
| "serve_seq e ((r, rt) # rqs) d =
     (let (rs, d') = serve e rt r d; (rss, d'') = serve_seq e rqs d' in (rs # rss, d''))"

definition arrive :: "(auth_req \<times> route) list \<Rightarrow> db \<Rightarrow> server" where
  "arrive rqs d = \<lparr>srv_db = d, in_flight = map (\<lambda>(r, rt). Some (Request r rt)) rqs, answers = []\<rparr>"

subsection \<open>The phases compose to the atomic handlers\<close>

lemma merge_blog_set: "merge_blog t ds im cat b = apply_set (blog_set_of t ds im cat b) b"
  by (simp add: merge_blog_def apply_set_def blog_set_of_def)

lemma apply_set_twice [simp]: "apply_set u (apply_set v b) = apply_set u b"
  by (simp add: apply_set_def)

lemma author_apply_set [simp]: "author (apply_set u b) = author b"
  by (simp add: apply_set_def)

lemma update_blog_phases:
  "update_blog c bid t ds im cat d =
     (case update_blog_read c bid t ds im cat d of
        Inl rs \<Rightarrow> (rs, d)
      | Inr (i, u) \<Rightarrow> update_blog_write i u d)"
  by (auto simp: update_blog_def update_blog_read_def update_blog_write_def merge_blog_set
           split: option.splits)

lemma delete_blog_phases:
  "delete_blog c bid d =
     (case delete_blog_read c bid d of Inl rs \<Rightarrow> (rs, d) | Inr i \<Rightarrow> delete_blog_write i d)"
  by (simp add: delete_blog_def delete_blog_read_def delete_blog_write_def split: option.splits)

lemma signup_phases:
  "signup e un em pw img d =
     (case signup_read em d of Inl rs \<Rightarrow> (rs, d) | Inr lc \<Rightarrow> signup_write e un lc pw img d)"
  by (simp add: signup_def signup_read_def signup_write_def Let_def split: option.splits)

lemma save_modified_same [simp]:
  "save_modified u (apply_profile b u\<lparr>updatedAt := t\<rparr>) u = apply_profile b u\<lparr>updatedAt := t\<rparr>"
  by (simp add: save_modified_def pick_def apply_profile_def)

lemma update_user_phases:
  "update_user e c b d =
     (case user_update_read c b d of
        Inl rs \<Rightarrow> (rs, d)
      | Inr (i, u0, u1) \<Rightarrow> user_save_write e i u0 u1 d)"
  by (simp add: update_user_def user_update_read_def user_save_write_def save_user_def find_by_id_def Let_def
           split: option.splits)

lemma create_blog_save_db: "snd (create_blog_save e c t ds im cat d) = snd (create_blog e c t ds im cat d)"
  by (simp add: create_blog_save_def create_blog_def Let_def split: option.splits sum.splits prod.splits)

lemma create_comment_save_db: "snd (create_comment_save e c txt bid d) = snd (create_comment e c txt bid d)"
  by (simp add: create_comment_save_def create_comment_def Let_def split: option.splits sum.splits prod.splits)

text \<open>Reading back a document just inserted under a fresh id finds it.\<close>

lemma create_blog_phases:
  assumes "db_wf d"
  shows "create_blog e c t ds im cat d =
           (case create_blog_save e c t ds im cat d of
              (Inl rs, d') \<Rightarrow> (rs, d')
            | (Inr i, d') \<Rightarrow> (blog_refetch i d', d'))"
  using fresh_next_id (1) [OF assms]
  by (auto simp: create_blog_def create_blog_save_def blog_refetch_def save_new_blog_def find_by_id_def
                 map_of_insert_doc Let_def split: option.splits)

lemma create_comment_phases:
  assumes "db_wf d"
  shows "create_comment e c txt bid d =
           (case create_comment_save e c txt bid d of
              (Inl rs, d') \<Rightarrow> (rs, d')
            | (Inr i, d') \<Rightarrow> (comment_refetch 201 ''Comment added successfully'' i d', d'))"
  using fresh_next_id (2) [OF assms]
  by (auto simp: create_comment_def create_comment_save_def comment_refetch_def save_new_comment_def
                 find_by_id_def map_of_insert_doc Let_def split: option.splits)

lemma pick_same [simp]: "pick old new old = new"
  by (simp add: pick_def)

lemma comment_save_modified_same [simp]: "comment_save_modified c c1 c = c1"
  by (simp add: comment_save_modified_def)

lemma update_comment_phases:
  "update_comment e c cid txt d =
     (case update_comment_read e c cid txt d of
        Inl rs \<Rightarrow> (rs, d)
      | Inr (i, c0, c1) \<Rightarrow>
          (case comment_save_write e i c0 c1 d of
             (Inl rs, d') \<Rightarrow> (rs, d')
           | (Inr i', d') \<Rightarrow> (comment_refetch 200 ''Comment updated successfully'' i' d', d')))"
  by (auto simp: update_comment_def update_comment_read_def comment_save_write_def save_comment_def
                 comment_refetch_def find_by_id_def map_of_replace_present Let_def split: option.splits)

lemma delete_comment_phases:
  "delete_comment c cid d =
     (case delete_comment_read c cid d of Inl rs \<Rightarrow> (rs, d) | Inr i \<Rightarrow> delete_comment_write cid i d)"
  by (simp add: delete_comment_def delete_comment_read_def delete_comment_write_def split: option.splits)

lemma phase_comment_delete_write [simp]:
  "phase e (CommentDeleteWrite cid i) d = (Inl (fst (delete_comment_write cid i d)), snd (delete_comment_write cid i d))"
  by (simp split: prod.split)

lemma phase_comment_save:
  "comment_save_write e i c0 c1 d = (Inl rs, d') \<Longrightarrow> phase e (CommentSaveWrite i c0 c1) d = (Inl rs, d')"
  "comment_save_write e i c0 c1 d = (Inr i', d') \<Longrightarrow>
   phase e (CommentSaveWrite i c0 c1) d = (Inr (CommentRefetch 200 ''Comment updated successfully'' i'), d')"
  by simp_all

lemma update_comment_read_owner:
  assumes "cast_oid cid = Some i" and "map_of (comments d) i = Some cm"
    and "oid_str (comment_user cm) = claim_id c" and "\<not> content_missing tx"
  shows "update_comment_read e c cid tx d = Inr (i, cm, cm\<lparr>content := js_trim (the tx), comment_updatedAt := now e\<rparr>)"
  using assms by (simp add: update_comment_read_def find_by_id_def)

lemma delete_comment_read_owner:
  assumes "cast_oid cid = Some i" and "map_of (comments d) i = Some cm" and "oid_str (comment_user cm) = claim_id c"
  shows "delete_comment_read c cid d = Inr i"
  using assms by (simp add: delete_comment_read_def find_by_id_def)

lemma update_blog_read_owner:
  assumes "cast_oid bid = Some i" and "map_of (blogs d) i = Some b"
    and "oid_str (author b) = claim_id c" and "\<not> js_truthy cat \<or> js_includes validCategories cat"
  shows "update_blog_read c bid t ds im cat d = Inr (i, blog_set_of t ds im cat b)"
  using assms by (auto simp: update_blog_read_def find_by_id_def)

lemma delete_blog_read_owner:
  assumes "cast_oid bid = Some i" and "map_of (blogs d) i = Some b" and "oid_str (author b) = claim_id c"
  shows "delete_blog_read c bid d = Inr i"
  using assms by (simp add: delete_blog_read_def find_by_id_def)

lemma update_blog_write_present:
  "map_of (blogs d) i = Some b \<Longrightarrow>
   snd (update_blog_write i u d) = d\<lparr>blogs := replace_doc i (apply_set u b) (blogs d)\<rparr>"
  by (simp add: update_blog_write_def find_by_id_def Let_def)

lemma update_blog_write_missing:
  "map_of (blogs d) i = None \<Longrightarrow>
   update_blog_write i u d =
     (json_resp 200 (JObj [(''message'', JStr ''Blog updated successfully''), (''blog'', JNull)]), d)"
  by (simp add: update_blog_write_def find_by_id_def)

lemma status_update_blog_write [simp]: "status (fst (update_blog_write i u d)) = 200"
  by (simp add: update_blog_write_def Let_def json_resp_def split: option.splits)

lemma phase_update_write [simp]:
  "phase e (BlogUpdateWrite i u) d = (Inl (fst (update_blog_write i u d)), snd (update_blog_write i u d))"
  by (simp split: prod.split)

lemma phase_delete_write [simp]:
  "phase e (BlogDeleteWrite i) d = (Inl (fst (delete_blog_write i d)), snd (delete_blog_write i d))"
  by (simp split: prod.split)

lemma phase_signup_write [simp]:
  "phase e (SignupWrite un lc pw img) d = (Inl (fst (signup_write e un lc pw img d)), snd (signup_write e un lc pw img d))"
  by (simp split: prod.split)

lemma phase_signup_read:
  "signup_read em d = Inr lc \<Longrightarrow> phase e (Request r (Signup un em pw img)) d = (Inr (SignupWrite un lc pw img), d)"
  "signup_read em d = Inl rs \<Longrightarrow> phase e (Request r (Signup un em pw img)) d = (Inl rs, d)"
  by simp_all

lemma phase_user_write [simp]:
  "phase e (UserSaveWrite i u0 u1) d = (Inl (fst (user_save_write e i u0 u1 d)), snd (user_save_write e i u0 u1 d))"
  by (simp split: prod.split)

lemma phase_update_read:
  "authMiddleware e r = Next c \<Longrightarrow> update_blog_read c bid t ds im cat d = Inr (i, u) \<Longrightarrow>
   phase e (Request r (UpdateBlog bid t ds im cat)) d = (Inr (BlogUpdateWrite i u), d)"
  by simp

lemma phase_delete_read:
  "authMiddleware e r = Next c \<Longrightarrow> delete_blog_read c bid d = Inr i \<Longrightarrow>
   phase e (Request r (DeleteBlog bid)) d = (Inr (BlogDeleteWrite i), d)"
  by simp

lemma phase_user_read:
  "authMiddleware e r = Next c \<Longrightarrow> user_update_read c b d = Inr (i, u0, u1) \<Longrightarrow>
   phase e (Request r (UpdateUser b)) d = (Inr (UserSaveWrite i u0 u1), d)"
  by simp

lemma user_valid_updatedAt [simp]: "user_valid (u\<lparr>updatedAt := t\<rparr>) = user_valid u"
  by (simp add: user_valid_def user_checks_def)

lemma user_save_write_present:
  "map_of (users d) i = Some cur \<Longrightarrow> user_valid u1 \<Longrightarrow>
   status (fst (user_save_write e i u0 u1 d)) = 200 \<and>
   snd (user_save_write e i u0 u1 d) =
     d\<lparr>users := replace_doc i (save_modified u0 (u1\<lparr>updatedAt := now e\<rparr>) cur) (users d)\<rparr>"
  by (simp add: user_save_write_def find_by_id_def Let_def user_valid_def [symmetric])

lemma map_of_delete_doc_self [simp]: "map_of (delete_doc i c) i = None"
  by (induction c) (auto simp: delete_doc_def)

subsection \<open>Running a schedule\<close>

lemma step_task_answer:
  "nth_opt (in_flight s) k = Some (Some tk) \<Longrightarrow> phase e tk (srv_db s) = (Inl rs, d') \<Longrightarrow>
   step_task e k s = s\<lparr>srv_db := d', in_flight := (in_flight s)[k := None], answers := answers s @ [(k, rs)]\<rparr>"
  by (simp add: step_task_def)

lemma step_task_pending:
  "nth_opt (in_flight s) k = Some (Some tk) \<Longrightarrow> phase e tk (srv_db s) = (Inr tk', d') \<Longrightarrow>
   step_task e k s = s\<lparr>srv_db := d', in_flight := (in_flight s)[k := Some tk']\<rparr>"
  by (simp add: step_task_def)

lemma step_task_idle:
  "nth_opt (in_flight s) k \<noteq> Some (Some tk) \<Longrightarrow> (\<And>tk. nth_opt (in_flight s) k \<noteq> Some (Some tk)) \<Longrightarrow>
   step_task e k s = s"
  by (auto simp: step_task_def split: option.splits)

lemma schedule_Cons [simp]: "schedule e (k # ks) s = schedule e ks (step_task e k s)"
  by (simp add: schedule_def)

lemma schedule_Nil [simp]: "schedule e [] s = s"
  by (simp add: schedule_def)

lemma step_task_done:
  "nth_opt (in_flight s) k = Some None \<Longrightarrow> step_task e k s = s"
  by (simp add: step_task_def)

lemma nth_opt_update_same [simp]: "k < length xs \<Longrightarrow> nth_opt (xs[k := v]) k = Some v"
  by (simp add: nth_opt_conv)

lemma schedule_replicate_done:
  "nth_opt (in_flight s) k = Some None \<Longrightarrow> schedule e (replicate n k) s = s"
  by (induction n) (simp_all add: step_task_done)

text \<open>A request alone on the server, resumed \<open>n\<close> times, finishes as \<open>run_task\<close> says.\<close>

lemma schedule_run_task:
  assumes "nth_opt (in_flight s) k = Some (Some tk)" and "run_task n e tk (srv_db s) = Some (rs, d')"
  shows "schedule e (replicate n k) s =
           s\<lparr>srv_db := d', in_flight := (in_flight s)[k := None], answers := answers s @ [(k, rs)]\<rparr>"
  using assms
proof (induction n arbitrary: tk s)
  case (Suc n)
  have len: "k < length (in_flight s)" using Suc.prems(1) by (simp add: nth_opt_conv split: if_splits)
  obtain res d1 where ph: "phase e tk (srv_db s) = (res, d1)" by fastforce
  show ?case
  proof (cases res)
    case (Inl rs1)
    then show ?thesis using Suc.prems ph len
      by (simp add: step_task_answer schedule_replicate_done)
  next
    case (Inr tk')
    then have "run_task n e tk' d1 = Some (rs, d')" using Suc.prems(2) ph by simp
    then show ?thesis using Suc.prems(1) ph Inr len
      by (simp add: step_task_pending Suc.IH)
  qed
qed simp

text \<open>Every handler finishes within three phases, as the atomic \<open>serve\<close> does.\<close>

lemma run_task_serve:
  assumes wf: "db_wf d"
  shows "run_task 3 e (Request r rt) d = Some (serve e rt r d)"
proof (cases rt)
  case (UpdateBlog bid t ds im cat)
  then show ?thesis
    by (auto simp: numeral_3_eq_3 with_auth_def update_blog_phases split: gate.splits sum.splits prod.splits)
next
  case (DeleteBlog bid)
  then show ?thesis
    by (auto simp: numeral_3_eq_3 with_auth_def delete_blog_phases split: gate.splits sum.splits prod.splits)
next
  case (Signup un em pw img)
  then show ?thesis by (auto simp: numeral_3_eq_3 signup_phases split: sum.splits prod.splits)
next
  case (UpdateUser b)
  then show ?thesis
    by (auto simp: numeral_3_eq_3 with_auth_def update_user_phases split: gate.splits sum.splits prod.splits)
next
  case (CreateBlog t ds im cat)
  then show ?thesis
    by (auto simp: numeral_3_eq_3 with_auth_def create_blog_phases [OF wf] split: gate.splits sum.splits prod.splits)
next
  case (CreateComment tx bid)
  then show ?thesis
    by (auto simp: numeral_3_eq_3 with_auth_def create_comment_phases [OF wf] split: gate.splits sum.splits prod.splits)
next
  case (UpdateComment cid tx)
  then show ?thesis
    by (auto simp: numeral_3_eq_3 with_auth_def update_comment_phases split: gate.splits sum.splits prod.splits)
next
  case (DeleteComment cid)
  then show ?thesis
    by (auto simp: numeral_3_eq_3 with_auth_def delete_comment_phases split: gate.splits sum.splits prod.splits)
qed (auto simp: numeral_3_eq_3 split: prod.splits)

lemma run_to_end:
  assumes wf: "db_wf (srv_db s)" and k: "nth_opt (in_flight s) k = Some (Some (Request r rt))"
  shows "schedule e [k, k, k] s =
           s\<lparr>srv_db := snd (serve e rt r (srv_db s)), in_flight := (in_flight s)[k := None],
             answers := answers s @ [(k, fst (serve e rt r (srv_db s)))]\<rparr>"
proof -
  have "run_task 3 e (Request r rt) (srv_db s) = Some (fst (serve e rt r (srv_db s)), snd (serve e rt r (srv_db s)))"
    using run_task_serve [OF wf] by simp
  from schedule_run_task [OF k this] show ?thesis by (simp add: numeral_3_eq_3)
qed

lemma schedule_append: "schedule e (ks @ ks') s = schedule e ks' (schedule e ks s)"
  by (simp add: schedule_def)

lemma serial_from:
  assumes "in_flight s = replicate n None @ map (\<lambda>(r, rt). Some (Request r rt)) rqs"
    and "db_wf (srv_db s)"
  shows "schedule e (concat (map (\<lambda>k. [k, k, k]) [n..<n + length rqs])) s =
           s\<lparr>srv_db := snd (serve_seq e rqs (srv_db s)), in_flight := replicate (n + length rqs) None,
             answers := answers s @ zip [n..<n + length rqs] (fst (serve_seq e rqs (srv_db s)))\<rparr>"
  using assms
proof (induction rqs arbitrary: n s)
  case Nil
  then show ?case by simp
next
  case (Cons q rqs)
  obtain r rt where q: "q = (r, rt)" by fastforce
  have k: "nth_opt (in_flight s) n = Some (Some (Request r rt))"
    using Cons.prems q by (simp add: nth_opt_conv nth_append)
  have upd: "(in_flight s)[n := None] = replicate (Suc n) None @ map (\<lambda>(r, rt). Some (Request r rt)) rqs"
    using Cons.prems q by (simp add: list_update_append replicate_append_same [symmetric])
  have up: "[n..<n + length (q # rqs)] = n # [Suc n..<Suc n + length rqs]"
    by (subst upt_rec) simp
  let ?s1 = "s\<lparr>srv_db := snd (serve e rt r (srv_db s)), in_flight := (in_flight s)[n := None],
               answers := answers s @ [(n, fst (serve e rt r (srv_db s)))]\<rparr>"
  have "schedule e (concat (map (\<lambda>k. [k, k, k]) [n..<n + length (q # rqs)])) s =
        schedule e (concat (map (\<lambda>k. [k, k, k]) [Suc n..<Suc n + length rqs])) (schedule e [n, n, n] s)"
    by (simp only: up list.map concat.simps schedule_append)
  also have "\<dots> = schedule e (concat (map (\<lambda>k. [k, k, k]) [Suc n..<Suc n + length rqs])) ?s1"
    by (simp only: run_to_end [OF Cons.prems(2) k])
  also have "\<dots> = ?s1\<lparr>srv_db := snd (serve_seq e rqs (srv_db ?s1)),
                      in_flight := replicate (Suc n + length rqs) None,
                      answers := answers ?s1 @ zip [Suc n..<Suc n + length rqs] (fst (serve_seq e rqs (srv_db ?s1)))\<rparr>"
    using upd serve_wf [OF Cons.prems(2)] by (intro Cons.IH) simp_all
  finally show ?case
    unfolding up by (simp add: q del: upt_Suc split: prod.split)
qed

subsection \<open>Invariants of every interleaving\<close>

text \<open>
  An invariant \<open>I\<close> of the database and an invariant \<open>Q\<close> of each request in flight,
  which every phase preserves together with the phase it leaves pending, hold after any
  schedule.  The two instances below are the well-formedness of the database and the
  safety of one blog or one comment from requests that do not act as its author.
\<close>

lemma list_all_update: "list_all P xs \<Longrightarrow> P v \<Longrightarrow> list_all P (xs[k := v])"
  by (auto simp: list_all_iff dest: set_update_subset_insert [THEN subsetD])

lemma step_preserves:
  assumes pres: "\<And>tk d res d'. I d \<Longrightarrow> Q tk \<Longrightarrow> phase e tk d = (res, d') \<Longrightarrow>
                   I d' \<and> (\<forall>tk'. res = Inr tk' \<longrightarrow> Q tk')"
    and inv: "I (srv_db s)" and fl: "list_all (pred_option Q) (in_flight s)"
  shows "I (srv_db (step_task e k s)) \<and> list_all (pred_option Q) (in_flight (step_task e k s))"
proof (cases "nth_opt (in_flight s) k")
  case None
  then show ?thesis using inv fl by (simp add: step_task_def)
next
  case k_some: (Some x)
  show ?thesis
  proof (cases x)
    case None
    with k_some show ?thesis using inv fl by (simp add: step_task_def)
  next
    case (Some tk)
    have "Q tk" using k_some Some fl by (auto simp: nth_opt_conv list_all_iff split: if_splits dest!: nth_mem)
    moreover obtain res d' where ph: "phase e tk (srv_db s) = (res, d')" by fastforce
    ultimately have "I d' \<and> (\<forall>tk'. res = Inr tk' \<longrightarrow> Q tk')" using pres inv by blast
    with k_some Some ph fl show ?thesis
      by (cases res) (auto simp: step_task_def intro!: list_all_update)
  qed
qed

lemma schedule_preserves:
  assumes pres: "\<And>tk d res d'. I d \<Longrightarrow> Q tk \<Longrightarrow> phase e tk d = (res, d') \<Longrightarrow>
                   I d' \<and> (\<forall>tk'. res = Inr tk' \<longrightarrow> Q tk')"
  shows "I (srv_db s) \<Longrightarrow> list_all (pred_option Q) (in_flight s) \<Longrightarrow>
         I (srv_db (schedule e ks s)) \<and> list_all (pred_option Q) (in_flight (schedule e ks s))"
proof (induction ks arbitrary: s)
  case (Cons k ks)
  have "I (srv_db (step_task e k s)) \<and> list_all (pred_option Q) (in_flight (step_task e k s))"
    using pres Cons.prems(1) Cons.prems(2) by (rule step_preserves)
  then show ?case using Cons.IH by simp
qed simp

text \<open>
  What a pending write needs to keep the database well-formed: the fields of an update
  document make a valid blog, and a comment edit writes trimmed content.
\<close>

definition set_valid :: "blog_set \<Rightarrow> bool" where
  "set_valid u \<longleftrightarrow> set_title u \<noteq> [] \<and> set_description u \<noteq> [] \<and> set_category u \<noteq> [] \<and>
                    set_category u \<in> set validCategories \<and> set_image u \<noteq> []"

definition pending_wf :: "task \<Rightarrow> bool" where
  "pending_wf tk =
     (case tk of
        BlogUpdateWrite i u \<Rightarrow> set_valid u
      | CommentSaveWrite i c0 c1 \<Rightarrow> js_trim (content c1) = content c1
      | _ \<Rightarrow> True)"

text \<open>
  What a request in flight may still do to the blog \<open>j\<close> with contents \<open>b\<close>, or to the
  comment \<open>j\<close> with contents \<open>cm\<close>: a request not yet started does not act as the
  author, and a pending write or delete targets another id.
\<close>

definition blog_safe :: "env \<Rightarrow> oid \<Rightarrow> blog \<Rightarrow> task \<Rightarrow> bool" where
  "blog_safe e j b tk =
     (case tk of
        Request r rt \<Rightarrow> \<not> acts_as e r (oid_str (author b))
      | BlogUpdateWrite i u \<Rightarrow> i \<noteq> j
      | BlogDeleteWrite i \<Rightarrow> i \<noteq> j
      | _ \<Rightarrow> True)"

definition comment_safe :: "env \<Rightarrow> oid \<Rightarrow> comment \<Rightarrow> task \<Rightarrow> bool" where
  "comment_safe e j cm tk =
     (case tk of
        Request r rt \<Rightarrow> \<not> acts_as e r (oid_str (comment_user cm))
      | CommentSaveWrite i c0 c1 \<Rightarrow> i \<noteq> j
      | CommentDeleteWrite cid i \<Rightarrow> i \<noteq> j
      | _ \<Rightarrow> True)"

lemma blog_valid_apply_set: "blog_valid (apply_set u b) \<longleftrightarrow> set_valid u"
  by (auto simp: blog_valid_def blog_checks_def apply_set_def set_valid_def failed_paths_def)

lemma update_blog_read_Inr:
  "update_blog_read c bid t ds im cat d = Inr (i, u) \<Longrightarrow>
   \<exists>b'. map_of (blogs d) i = Some b' \<and> oid_str (author b') = claim_id c \<and>
        \<not> (js_truthy cat \<and> \<not> js_includes validCategories cat) \<and> u = blog_set_of t ds im cat b'"
  by (auto simp: update_blog_read_def find_by_id_def split: option.splits if_splits)

lemma delete_blog_read_Inr:
  "delete_blog_read c bid d = Inr i \<Longrightarrow> \<exists>b'. map_of (blogs d) i = Some b' \<and> oid_str (author b') = claim_id c"
  by (auto simp: delete_blog_read_def find_by_id_def split: option.splits if_splits)

lemma phase_other:
  "\<not> split_route rt \<Longrightarrow> phase e (Request r rt) d = (Inl (fst (serve e rt r d)), snd (serve e rt r d))"
  by (cases rt) (auto split: prod.split)

subsubsection \<open>What the first phase of a request leaves\<close>

text \<open>The first phase of a request leaves the database as it is or as \<open>serve\<close> leaves it.\<close>

lemma phase_request_db:
  "snd (phase e (Request r rt) d) = d \<or> snd (phase e (Request r rt) d) = snd (serve e rt r d)"
  by (cases rt)
     (auto simp: with_auth_def create_blog_save_db [symmetric] create_comment_save_db [symmetric]
           split: gate.splits sum.splits prod.splits)

lemma phase_request_not_request: "phase e (Request r rt) d \<noteq> (Inr (Request r' rt'), d')"
  by (cases rt) (auto split: gate.splits sum.splits prod.splits)

lemma phase_request_blog_update:
  "phase e (Request r rt) d = (Inr (BlogUpdateWrite i u), d') \<Longrightarrow>
   \<exists>c bid t ds im cat. authMiddleware e r = Next c \<and> update_blog_read c bid t ds im cat d = Inr (i, u)"
  by (cases rt; auto split: gate.splits sum.splits prod.splits; blast)

lemma phase_request_blog_delete:
  "phase e (Request r rt) d = (Inr (BlogDeleteWrite i), d') \<Longrightarrow>
   \<exists>c bid. authMiddleware e r = Next c \<and> delete_blog_read c bid d = Inr i"
  by (cases rt; auto split: gate.splits sum.splits prod.splits; blast)

lemma phase_request_comment_save:
  "phase e (Request r rt) d = (Inr (CommentSaveWrite i c0 c1), d') \<Longrightarrow>
   js_trim (content c1) = content c1 \<and>
   (\<exists>c cm'. authMiddleware e r = Next c \<and> map_of (comments d) i = Some cm' \<and> oid_str (comment_user cm') = claim_id c)"
  by (cases rt; auto simp: update_comment_read_def find_by_id_def
                     split: gate.splits sum.splits prod.splits option.splits if_splits)

lemma phase_request_comment_delete:
  "phase e (Request r rt) d = (Inr (CommentDeleteWrite cid i), d') \<Longrightarrow>
   \<exists>c cm'. authMiddleware e r = Next c \<and> map_of (comments d) i = Some cm' \<and> oid_str (comment_user cm') = claim_id c"
  by (cases rt; auto simp: delete_comment_read_def find_by_id_def
                     split: gate.splits sum.splits prod.splits option.splits if_splits)

subsubsection \<open>The write phases\<close>

lemma update_blog_write_wf:
  assumes wf: "db_wf d" and v: "set_valid u"
  shows "db_wf (snd (update_blog_write i u d))"
proof (cases "map_of (blogs d) i")
  case None
  then show ?thesis using wf by (simp add: update_blog_write_missing)
next
  case (Some b'')
  have "blog_valid (apply_set u b'')" using v by (simp add: blog_valid_apply_set)
  with wf Some show ?thesis by (simp add: update_blog_write_present db_wf_def coll_wf_replace)
qed

lemma delete_blog_write_wf: "db_wf d \<Longrightarrow> db_wf (snd (delete_blog_write i d))"
  by (auto simp: delete_blog_write_def db_wf_def intro: coll_wf_delete)

lemma blog_writes_other:
  "i \<noteq> j \<Longrightarrow> map_of (blogs (snd (update_blog_write i u d))) j = map_of (blogs d) j"
  "db_wf d \<Longrightarrow> i \<noteq> j \<Longrightarrow> map_of (blogs (snd (delete_blog_write i d))) j = map_of (blogs d) j"
  "comments (snd (update_blog_write i u d)) = comments d"
  "comments (snd (delete_blog_write i d)) = comments d"
  by (auto simp: update_blog_write_def delete_blog_write_def find_by_id_def map_of_replace_doc Let_def
                 map_of_delete_doc [OF keys_distinct_blogs] split: option.splits)

lemma signup_write_wf:
  assumes wf: "db_wf d"
  shows "db_wf (snd (signup_write e un lc pw img d)) \<and> blogs (snd (signup_write e un lc pw img d)) = blogs d \<and>
         comments (snd (signup_write e un lc pw img d)) = comments d"
proof -
  have "db_wf d' \<and> blogs d' = blogs d \<and> comments d' = comments d"
    if "save_new_user (new_user un lc (bcrypt_hash p (salt e)) img (now e)) d = Inr (i, d')" for p i d'
    using save_new_user_wf [OF wf _ that] that
    by (auto simp: save_new_user_def Let_def split: if_splits)
  with wf show ?thesis by (auto simp: signup_write_def split: option.splits sum.splits)
qed

lemma pick_holds: "P new \<Longrightarrow> P cur \<Longrightarrow> P (pick old new cur)"
  by (simp add: pick_def)

lemma user_valid_save_modified:
  assumes cur: "user_valid cur" and new: "user_valid u1"
  shows "user_valid (save_modified u0 u1 cur)"
proof -
  have "list_all snd (user_checks cur)" "list_all snd (user_checks u1)"
    using cur new by (simp_all add: user_valid_def failed_paths_Nil_iff)
  then show ?thesis
    unfolding user_valid_def failed_paths_Nil_iff user_checks_def save_modified_def
    by (simp add: pick_holds [where P = "opt_maxlength 50"] pick_holds [where P = "opt_maxlength 200"]
                  pick_holds [where P = "opt_maxlength 100"]
                  pick_holds [where P = "\<lambda>a. case a of None \<Rightarrow> True | Some a \<Rightarrow> 1 \<le> a \<and> a \<le> (120::int)"]
                  pick_holds [where P = "\<lambda>g. case g of None \<Rightarrow> True | Some g \<Rightarrow> g \<in> set [''Male'', ''Female'', ''Other'', '''']"]
                  pick_holds [where P = "\<lambda>p. case p of None \<Rightarrow> True | Some p \<Rightarrow> p = [] \<or> phone_match p"])
qed

lemma user_save_write_wf:
  assumes wf: "db_wf d"
  shows "db_wf (snd (user_save_write e i u0 u1 d)) \<and> blogs (snd (user_save_write e i u0 u1 d)) = blogs d \<and>
         comments (snd (user_save_write e i u0 u1 d)) = comments d"
proof (cases "failed_paths (user_checks (u1\<lparr>updatedAt := now e\<rparr>)) = [] \<and> map_of (users d) i \<noteq> None")
  case True
  then obtain cur where c: "map_of (users d) i = Some cur" by blast
  let ?u = "save_modified u0 (u1\<lparr>updatedAt := now e\<rparr>) cur"
  have "user_doc_ok cur" using wf c by (auto simp: db_wf_def dest: coll_wf_lookup)
  then have "user_valid ?u" using True user_valid_save_modified [of cur "u1\<lparr>updatedAt := now e\<rparr>" u0]
    by (simp add: user_doc_ok_def user_valid_def)
  moreover have "email ?u = email cur" by (simp add: save_modified_def)
  ultimately have "save_user i ?u (updatedAt ?u) d = Inr (?u, d\<lparr>users := replace_doc i ?u (users d)\<rparr>)"
    by (simp add: save_user_def user_valid_def Let_def)
  then have "db_wf (d\<lparr>users := replace_doc i ?u (users d)\<rparr>)"
    using save_user_wf [OF wf c] \<open>email ?u = email cur\<close> by blast
  with True c show ?thesis by (simp add: user_save_write_def find_by_id_def Let_def)
next
  case False
  with wf show ?thesis by (auto simp: user_save_write_def find_by_id_def Let_def split: option.splits)
qed

lemma comment_doc_ok_save_modified:
  "comment_doc_ok cur \<Longrightarrow> comment_doc_ok c1 \<Longrightarrow> comment_doc_ok (comment_save_modified c0 c1 cur)"
  using pick_holds [where P = "\<lambda>x. x \<noteq> [] \<and> js_trim x = x"]
  by (simp add: comment_doc_ok_def comment_valid_def comment_checks_def failed_paths_Nil_iff
                comment_save_modified_def)

lemma comment_save_write_wf:
  assumes wf: "db_wf d" and tr: "js_trim (content c1) = content c1"
  shows "db_wf (snd (comment_save_write e i c0 c1 d)) \<and> blogs (snd (comment_save_write e i c0 c1 d)) = blogs d"
proof (cases "failed_paths (comment_checks c1) = [] \<and> map_of (comments d) i \<noteq> None")
  case True
  then obtain cur where c: "map_of (comments d) i = Some cur" by blast
  have "comment_doc_ok cur" using wf c by (auto simp: db_wf_def dest: coll_wf_lookup)
  moreover have "comment_doc_ok (c1\<lparr>comment_updatedAt := now e\<rparr>)"
    using True tr by (simp add: comment_doc_ok_def comment_valid_def)
  ultimately have "comment_doc_ok (comment_save_modified c0 (c1\<lparr>comment_updatedAt := now e\<rparr>) cur)"
    by (rule comment_doc_ok_save_modified)
  with wf True c show ?thesis
    by (simp add: comment_save_write_def find_by_id_def Let_def db_wf_def coll_wf_replace)
next
  case False
  with wf show ?thesis by (auto simp: comment_save_write_def find_by_id_def Let_def split: option.splits)
qed

lemma comment_writes_other:
  "i \<noteq> j \<Longrightarrow> map_of (comments (snd (comment_save_write e i c0 c1 d))) j = map_of (comments d) j"
  "db_wf d \<Longrightarrow> i \<noteq> j \<Longrightarrow> map_of (comments (snd (delete_comment_write cid i d))) j = map_of (comments d) j"
  "blogs (snd (delete_comment_write cid i d)) = blogs d"
  by (auto simp: comment_save_write_def delete_comment_write_def find_by_id_def map_of_replace_doc Let_def
                 map_of_delete_doc [OF keys_distinct_comments] split: option.splits)

subsubsection \<open>Every phase keeps the invariants\<close>

lemma phase_wf:
  assumes wf: "db_wf d" and ok: "pending_wf tk" and ph: "phase e tk d = (res, d')"
  shows "db_wf d' \<and> (\<forall>tk'. res = Inr tk' \<longrightarrow> pending_wf tk')"
proof (cases tk)
  case (Request r rt)
  have "db_wf d'" using phase_request_db [of e r rt d] ph Request serve_wf [OF wf] wf by auto
  moreover have "pending_wf tk'" if "res = Inr tk'" for tk'
  proof (cases tk')
    case (BlogUpdateWrite i u)
    have "phase e (Request r rt) d = (Inr (BlogUpdateWrite i u), d')" using ph Request that BlogUpdateWrite by simp
    then obtain c bid t ds im cat where rd: "update_blog_read c bid t ds im cat d = Inr (i, u)"
      using phase_request_blog_update by blast
    then obtain b' where b': "map_of (blogs d) i = Some b'"
      "\<not> (js_truthy cat \<and> \<not> js_includes validCategories cat)" "u = blog_set_of t ds im cat b'"
      using update_blog_read_Inr by blast
    have "blog_valid b'" using wf b'(1) by (auto simp: db_wf_def dest: coll_wf_lookup)
    then have "blog_valid (merge_blog t ds im cat b')" using b'(2) by (rule blog_valid_merge)
    then show ?thesis using BlogUpdateWrite b'(3) by (simp add: pending_wf_def merge_blog_set blog_valid_apply_set)
  next
    case (CommentSaveWrite i c0 c1)
    have "phase e (Request r rt) d = (Inr (CommentSaveWrite i c0 c1), d')" using ph Request that CommentSaveWrite by simp
    then show ?thesis using phase_request_comment_save CommentSaveWrite by (simp add: pending_wf_def)
  qed (simp_all add: pending_wf_def)
  ultimately show ?thesis by blast
next
  case (BlogUpdateWrite i u)
  then show ?thesis using ok ph update_blog_write_wf [OF wf] by (auto simp: pending_wf_def simp del: phase.simps)
next
  case (BlogDeleteWrite i)
  then show ?thesis using ph delete_blog_write_wf [OF wf] by (auto simp del: phase.simps)
next
  case (SignupWrite un lc pw img)
  then show ?thesis using ph signup_write_wf [OF wf] by (auto simp del: phase.simps)
next
  case (UserSaveWrite i u0 u1)
  then show ?thesis using ph user_save_write_wf [OF wf] by (auto simp del: phase.simps)
next
  case (CommentSaveWrite i c0 c1)
  then have "js_trim (content c1) = content c1" using ok by (simp add: pending_wf_def)
  from comment_save_write_wf [OF wf this, of e i c0] show ?thesis
    using CommentSaveWrite ph by (auto simp: pending_wf_def split: sum.splits prod.splits)
next
  case (CommentDeleteWrite cid i)
  then show ?thesis using ph wf by (auto simp: delete_comment_write_def db_wf_def intro: coll_wf_delete)
qed (use ph wf in auto)

lemma phase_blog_safe:
  assumes wf: "db_wf d" and j: "map_of (blogs d) j = Some b" and ok: "blog_safe e j b tk"
    and ph: "phase e tk d = (res, d')"
  shows "map_of (blogs d') j = Some b \<and> (\<forall>tk'. res = Inr tk' \<longrightarrow> blog_safe e j b tk')"
proof (cases tk)
  case (Request r rt)
  then have who: "\<not> acts_as e r (oid_str (author b))" using ok by (simp add: blog_safe_def)
  have "map_of (blogs d') j = Some b"
    using phase_request_db [of e r rt d] ph Request serve_blog_foreign [OF wf j who] j by auto
  moreover have "blog_safe e j b tk'" if "res = Inr tk'" for tk'
  proof (cases tk')
    case (BlogUpdateWrite i u)
    have "phase e (Request r rt) d = (Inr (BlogUpdateWrite i u), d')" using ph Request that BlogUpdateWrite by simp
    then obtain c bid t ds im cat where g: "authMiddleware e r = Next c"
      and rd: "update_blog_read c bid t ds im cat d = Inr (i, u)"
      using phase_request_blog_update by blast
    obtain b' where "map_of (blogs d) i = Some b'" "oid_str (author b') = claim_id c"
      using update_blog_read_Inr [OF rd] by blast
    then show ?thesis using BlogUpdateWrite j not_acts_as [OF who g] by (auto simp: blog_safe_def)
  next
    case (BlogDeleteWrite i)
    have "phase e (Request r rt) d = (Inr (BlogDeleteWrite i), d')" using ph Request that BlogDeleteWrite by simp
    then obtain c bid where g: "authMiddleware e r = Next c" and rd: "delete_blog_read c bid d = Inr i"
      using phase_request_blog_delete by blast
    obtain b' where "map_of (blogs d) i = Some b'" "oid_str (author b') = claim_id c"
      using delete_blog_read_Inr [OF rd] by blast
    then show ?thesis using BlogDeleteWrite j not_acts_as [OF who g] by (auto simp: blog_safe_def)
  next
    case inner: (Request r' rt')
    have "phase e (Request r rt) d = (Inr (Request r' rt'), d')" using ph Request that inner by simp
    then show ?thesis using phase_request_not_request by blast
  qed (simp_all add: blog_safe_def)
  ultimately show ?thesis by blast
next
  case (BlogUpdateWrite i u)
  then show ?thesis using ok ph j blog_writes_other (1) [of i j u d]
    by (auto simp: blog_safe_def simp del: phase.simps)
next
  case (BlogDeleteWrite i)
  then show ?thesis using ok ph j blog_writes_other (2) [OF wf, of i j]
    by (auto simp: blog_safe_def simp del: phase.simps)
next
  case (SignupWrite un lc pw img)
  then show ?thesis using ph j signup_write_wf [OF wf] by (auto simp del: phase.simps)
next
  case (UserSaveWrite i u0 u1)
  then show ?thesis using ph j user_save_write_wf [OF wf] by (auto simp del: phase.simps)
next
  case (CommentSaveWrite i c0 c1)
  have "blogs (snd (comment_save_write e i c0 c1 d)) = blogs d"
    by (auto simp: comment_save_write_def Let_def split: option.splits)
  then show ?thesis using CommentSaveWrite ph j by (auto simp: blog_safe_def split: sum.splits prod.splits)
next
  case (CommentDeleteWrite cid i)
  then show ?thesis using ph j by (auto simp: delete_comment_write_def)
qed (use ph j in auto)

lemma phase_comment_safe:
  assumes wf: "db_wf d" and j: "map_of (comments d) j = Some cm" and ok: "comment_safe e j cm tk"
    and ph: "phase e tk d = (res, d')"
  shows "map_of (comments d') j = Some cm \<and> (\<forall>tk'. res = Inr tk' \<longrightarrow> comment_safe e j cm tk')"
proof (cases tk)
  case (Request r rt)
  then have who: "\<not> acts_as e r (oid_str (comment_user cm))" using ok by (simp add: comment_safe_def)
  have "map_of (comments d') j = Some cm"
    using phase_request_db [of e r rt d] ph Request serve_comment_foreign [OF wf j who] j by auto
  moreover have "comment_safe e j cm tk'" if "res = Inr tk'" for tk'
  proof (cases tk')
    case (CommentSaveWrite i c0 c1)
    have "phase e (Request r rt) d = (Inr (CommentSaveWrite i c0 c1), d')" using ph Request that CommentSaveWrite by simp
    then obtain c cm' where "authMiddleware e r = Next c" "map_of (comments d) i = Some cm'"
      "oid_str (comment_user cm') = claim_id c"
      using phase_request_comment_save by blast
    then show ?thesis using CommentSaveWrite j not_acts_as [OF who] by (auto simp: comment_safe_def)
  next
    case (CommentDeleteWrite cid i)
    have "phase e (Request r rt) d = (Inr (CommentDeleteWrite cid i), d')" using ph Request that CommentDeleteWrite by simp
    then obtain c cm' where "authMiddleware e r = Next c" "map_of (comments d) i = Some cm'"
      "oid_str (comment_user cm') = claim_id c"
      using phase_request_comment_delete by blast
    then show ?thesis using CommentDeleteWrite j not_acts_as [OF who] by (auto simp: comment_safe_def)
  next
    case inner: (Request r' rt')
    have "phase e (Request r rt) d = (Inr (Request r' rt'), d')" using ph Request that inner by simp
    then show ?thesis using phase_request_not_request by blast
  qed (simp_all add: comment_safe_def)
  ultimately show ?thesis by blast
next
  case (BlogUpdateWrite i u)
  then show ?thesis using ph j blog_writes_other (3) [of i u d] by (auto simp del: phase.simps)
next
  case (BlogDeleteWrite i)
  then show ?thesis using ph j blog_writes_other (4) [of i d] by (auto simp del: phase.simps)
next
  case (SignupWrite un lc pw img)
  then show ?thesis using ph j signup_write_wf [OF wf] by (auto simp del: phase.simps)
next
  case (UserSaveWrite i u0 u1)
  then show ?thesis using ph j user_save_write_wf [OF wf] by (auto simp del: phase.simps)
next
  case (CommentSaveWrite i c0 c1)
  then have "i \<noteq> j" using ok by (simp add: comment_safe_def)
  then show ?thesis using CommentSaveWrite ph j comment_writes_other (1) [of i j e c0 c1 d]
    by (auto simp: comment_safe_def split: sum.splits prod.splits)
next
  case (CommentDeleteWrite cid i)
  then have "i \<noteq> j" using ok by (simp add: comment_safe_def)
  then show ?thesis using CommentDeleteWrite ph j comment_writes_other (2) [OF wf, of i j cid]
    by (auto split: prod.splits)
qed (use ph j in auto)

subsection \<open>Properties of the interleavings\<close>

text \<open>
  From a well-formed database, requests run one after the other, each resumed until
  its end (three phases at most) before the next starts, answer and change the database
  exactly as the atomic handlers of \<open>serve\<close> do in that order.
\<close>

theorem serial_schedule_refines_serve:
  assumes "db_wf d"
  shows "schedule e (concat (map (\<lambda>k. [k, k, k]) [0..<length rqs])) (arrive rqs d) =
           \<lparr>srv_db = snd (serve_seq e rqs d), in_flight = replicate (length rqs) None,
            answers = zip [0..<length rqs] (fst (serve_seq e rqs d))\<rparr>"
  using serial_from [where s = "arrive rqs d" and n = 0] assms by (simp add: arrive_def)

text \<open>
  C32.  When the owner's delete of a blog runs between the read and the write of an update
  of that blog, the update still answers 200 \<open>Blog updated successfully\<close>, with
  \<open>null\<close> as the blog, and the blog stays deleted.
\<close>

theorem interleaved_update_after_delete:
  assumes ga: "authMiddleware e ra = Next ca" and gb: "authMiddleware e rb = Next cb"
    and i: "cast_oid bid = Some i" and b: "map_of (blogs d) i = Some b"
    and oa: "oid_str (author b) = claim_id ca" and ob: "oid_str (author b) = claim_id cb"
    and va: "\<not> js_truthy cat \<or> js_includes validCategories cat"
  shows "answers (schedule e [0, 1, 1, 0] (arrive [(ra, UpdateBlog bid t ds im cat), (rb, DeleteBlog bid)] d)) =
           [(1, msg_resp 200 ''Blog deleted successfully''),
            (0, json_resp 200 (JObj [(''message'', JStr ''Blog updated successfully''), (''blog'', JNull)]))] \<and>
         map_of (blogs (srv_db (schedule e [0, 1, 1, 0]
           (arrive [(ra, UpdateBlog bid t ds im cat), (rb, DeleteBlog bid)] d)))) i = None"
proof -
  define u where "u = blog_set_of t ds im cat b"
  define d2 where "d2 = d\<lparr>blogs := delete_doc i (blogs d)\<rparr>"
  have ra: "phase e (Request ra (UpdateBlog bid t ds im cat)) d = (Inr (BlogUpdateWrite i u), d)"
    using ga update_blog_read_owner [OF i b oa va] unfolding u_def by (rule phase_update_read)
  have rb: "phase e (Request rb (DeleteBlog bid)) d = (Inr (BlogDeleteWrite i), d)"
    using gb delete_blog_read_owner [OF i b ob] by (rule phase_delete_read)
  have m2: "map_of (blogs d2) i = None" by (simp add: d2_def)
  have wb: "delete_blog_write i d = (msg_resp 200 ''Blog deleted successfully'', d2)"
    by (simp add: delete_blog_write_def d2_def)
  show ?thesis
    using m2 by (simp add: arrive_def step_task_def ra rb wb update_blog_write_missing del: phase.simps)
qed

text \<open>
  C35.  Two owner updates of a blog that both read before either writes lose the first:
  both answer 200, and the blog ends as the second update made it from the blog as it was
  before either, while run one after the other the second applies on top of the first.
\<close>

theorem interleaved_updates_lose_first:
  assumes ga: "authMiddleware e ra = Next ca" and gb: "authMiddleware e rb = Next cb"
    and i: "cast_oid bid = Some i" and b: "map_of (blogs d) i = Some b"
    and oa: "oid_str (author b) = claim_id ca" and ob: "oid_str (author b) = claim_id cb"
    and va: "\<not> js_truthy catA \<or> js_includes validCategories catA"
    and vb: "\<not> js_truthy catB \<or> js_includes validCategories catB"
  shows "map (\<lambda>(k, rs). (k, status rs))
           (answers (schedule e [0, 1, 0, 1]
              (arrive [(ra, UpdateBlog bid tA dA iA catA), (rb, UpdateBlog bid tB dB iB catB)] d))) =
           [(0, 200), (1, 200)] \<and>
         map_of (blogs (srv_db (schedule e [0, 1, 0, 1]
           (arrive [(ra, UpdateBlog bid tA dA iA catA), (rb, UpdateBlog bid tB dB iB catB)] d)))) i =
           Some (merge_blog tB dB iB catB b) \<and>
         map_of (blogs (srv_db (schedule e [0, 0, 1, 1]
           (arrive [(ra, UpdateBlog bid tA dA iA catA), (rb, UpdateBlog bid tB dB iB catB)] d)))) i =
           Some (merge_blog tB dB iB catB (merge_blog tA dA iA catA b))"
proof -
  define uA where "uA = blog_set_of tA dA iA catA b"
  define uB where "uB = blog_set_of tB dB iB catB b"
  define b1 where "b1 = apply_set uA b"
  define uB1 where "uB1 = blog_set_of tB dB iB catB b1"
  define d1 where "d1 = d\<lparr>blogs := replace_doc i b1 (blogs d)\<rparr>"
  have m1: "map_of (blogs d1) i = Some b1" using b by (simp add: d1_def map_of_replace_present)
  have o1: "oid_str (author b1) = claim_id cb" using ob by (simp add: b1_def)
  have ra: "phase e (Request ra (UpdateBlog bid tA dA iA catA)) d = (Inr (BlogUpdateWrite i uA), d)"
    using ga update_blog_read_owner [OF i b oa va] unfolding uA_def by (rule phase_update_read)
  have rb: "phase e (Request rb (UpdateBlog bid tB dB iB catB)) d = (Inr (BlogUpdateWrite i uB), d)"
    using gb update_blog_read_owner [OF i b ob vb] unfolding uB_def by (rule phase_update_read)
  have rb1: "phase e (Request rb (UpdateBlog bid tB dB iB catB)) d1 = (Inr (BlogUpdateWrite i uB1), d1)"
    using gb update_blog_read_owner [OF i m1 o1 vb] unfolding uB1_def by (rule phase_update_read)
  have wa: "snd (update_blog_write i uA d) = d1"
    using b by (simp add: update_blog_write_present d1_def b1_def)
  have wb: "map_of (blogs (snd (update_blog_write i u d1))) i = Some (apply_set u b1)" for u
    using m1 by (simp add: update_blog_write_present map_of_replace_present)
  have ma: "merge_blog tA dA iA catA b = b1" by (simp add: b1_def uA_def merge_blog_set)
  have mb: "merge_blog tB dB iB catB b = apply_set uB b" by (simp add: uB_def merge_blog_set)
  have mb1: "merge_blog tB dB iB catB b1 = apply_set uB1 b1" by (simp add: uB1_def merge_blog_set)
  have ab: "apply_set uB b1 = apply_set uB b" by (simp add: b1_def)
  show ?thesis
    by (simp add: arrive_def step_task_def ra rb rb1 wa wb ma mb mb1 ab del: phase.simps)
qed

text \<open>
  C22.  In every interleaving of any requests, none of which is authenticated as a blog's
  author, the blog keeps its id and its contents; likewise a comment and the requests not
  authenticated as its author.  The owner check made at a read still protects the later
  write, since authors never change and ids are never reused.
\<close>

theorem schedule_keeps_foreign_docs:
  assumes wf: "db_wf d"
  shows "(map_of (blogs d) j = Some b \<and> (\<forall>(r, rt) \<in> set rqs. \<not> acts_as e r (oid_str (author b))) \<longrightarrow>
            map_of (blogs (srv_db (schedule e ks (arrive rqs d)))) j = Some b) \<and>
         (map_of (comments d) j' = Some cm \<and> (\<forall>(r, rt) \<in> set rqs. \<not> acts_as e r (oid_str (comment_user cm))) \<longrightarrow>
            map_of (comments (srv_db (schedule e ks (arrive rqs d)))) j' = Some cm)"
proof (intro conjI impI; elim conjE)
  assume j: "map_of (blogs d) j = Some b" and who: "\<forall>(r, rt) \<in> set rqs. \<not> acts_as e r (oid_str (author b))"
  let ?I = "\<lambda>d. db_wf d \<and> map_of (blogs d) j = Some b"
  let ?Q = "\<lambda>tk. pending_wf tk \<and> blog_safe e j b tk"
  have "?I (srv_db (schedule e ks (arrive rqs d))) \<and> list_all (pred_option ?Q) (in_flight (schedule e ks (arrive rqs d)))"
  proof (rule schedule_preserves [where I = ?I and Q = ?Q])
    fix tk d0 res d1
    assume "?I d0" "?Q tk" "phase e tk d0 = (res, d1)"
    then show "?I d1 \<and> (\<forall>tk'. res = Inr tk' \<longrightarrow> ?Q tk')"
      using phase_wf [of d0 tk e res d1] phase_blog_safe [of d0 j b e tk res d1] by blast
  next
    show "?I (srv_db (arrive rqs d))" using wf j by (simp add: arrive_def)
  next
    show "list_all (pred_option ?Q) (in_flight (arrive rqs d))"
      using who by (auto simp: arrive_def list_all_iff pending_wf_def blog_safe_def)
  qed
  then show "map_of (blogs (srv_db (schedule e ks (arrive rqs d)))) j = Some b" by simp
next
  assume j: "map_of (comments d) j' = Some cm"
    and who: "\<forall>(r, rt) \<in> set rqs. \<not> acts_as e r (oid_str (comment_user cm))"
  let ?I = "\<lambda>d. db_wf d \<and> map_of (comments d) j' = Some cm"
  let ?Q = "\<lambda>tk. pending_wf tk \<and> comment_safe e j' cm tk"
  have "?I (srv_db (schedule e ks (arrive rqs d))) \<and> list_all (pred_option ?Q) (in_flight (schedule e ks (arrive rqs d)))"
  proof (rule schedule_preserves [where I = ?I and Q = ?Q])
    fix tk d0 res d1
    assume "?I d0" "?Q tk" "phase e tk d0 = (res, d1)"
    then show "?I d1 \<and> (\<forall>tk'. res = Inr tk' \<longrightarrow> ?Q tk')"
      using phase_wf [of d0 tk e res d1] phase_comment_safe [of d0 j' cm e tk res d1] by blast
  next
    show "?I (srv_db (arrive rqs d))" using wf j by (simp add: arrive_def)
  next
    show "list_all (pred_option ?Q) (in_flight (arrive rqs d))"
      using who by (auto simp: arrive_def list_all_iff pending_wf_def comment_safe_def)
  qed
  then show "map_of (comments (srv_db (schedule e ks (arrive rqs d)))) j' = Some cm" by simp
qed

text \<open>
  C34.  Two signups with the same Gmail address (in any letter case) that both pass the
  \<open>findOne\<close> check before either saves: the first answers 201, the second 500
  \<open>Internal Server Error\<close> from the unique index on \<open>email\<close>, not the 400
  \<open>Email already registered\<close> that the same requests get one after the other, and
  exactly one user with that address is stored.
\<close>

theorem interleaved_signups_duplicate:
  assumes g: "ends_with (to_lower_case em) ''@gmail.com''"
    and n: "find_one (\<lambda>u. email u = to_lower_case em) (users d) = None"
    and same: "to_lower_case em' = to_lower_case em"
    and v: "user_valid (new_user un (to_lower_case em) (bcrypt_hash p (salt e)) img (now e))"
  shows "map (\<lambda>(k, rs). (k, status rs)) (answers (schedule e [0, 1, 0, 1]
           (arrive [(r, Signup un (Some em) (Some p) img), (r', Signup un' (Some em') (Some p') img')] d))) =
           [(0, 201), (1, 500)] \<and>
         filter (\<lambda>(i, u). email u = to_lower_case em) (users (srv_db (schedule e [0, 1, 0, 1]
           (arrive [(r, Signup un (Some em) (Some p) img), (r', Signup un' (Some em') (Some p') img')] d)))) =
           [(next_id d, new_user un (to_lower_case em) (bcrypt_hash p (salt e)) img (now e))] \<and>
         map (\<lambda>(k, rs). (k, status rs)) (answers (schedule e [0, 0, 1, 1]
           (arrive [(r, Signup un (Some em) (Some p) img), (r', Signup un' (Some em') (Some p') img')] d))) =
           [(0, 201), (1, 400)]"
proof -
  define lc where "lc = to_lower_case em"
  define u1 where "u1 = new_user un lc (bcrypt_hash p (salt e)) img (now e)"
  define d1 where "d1 = d\<lparr>users := users d @ [(next_id d, u1)], next_id := Suc (next_id d)\<rparr>"
  have e1: "email u1 = lc" by (simp add: u1_def lc_def)
  have ra: "signup_read (Some em) d = Inr lc" using g n by (simp add: signup_read_def lc_def)
  have rb: "signup_read (Some em') d = Inr lc" using g n same by (simp add: signup_read_def lc_def)
  have f1: "find_one (\<lambda>u. email u = lc) (users d1) \<noteq> None"
    using e1 by (auto simp: d1_def find_one_None)
  have rb1: "signup_read (Some em') d1 = Inl (msg_resp 400 ''Email already registered. Please log in!'')"
    using g same f1 by (simp add: signup_read_def lc_def)
  have wa: "signup_write e un lc (Some p) img d =
              (json_resp 201 (JObj [(''success'', JBool True), (''message'', JStr ''User registered successfully!'')]), d1)"
    using v n by (simp add: signup_write_def save_new_user_def user_valid_def u1_def d1_def insert_doc_def lc_def)
  have wb: "fst (signup_write e un' lc (Some p') img' d1) = msg_resp 500 ''Internal Server Error'' \<and>
            snd (signup_write e un' lc (Some p') img' d1) = d1"
  proof -
    have "find_one (\<lambda>v. email v = email (new_user un' lc (bcrypt_hash p' (salt e)) img' (now e))) (users d1) \<noteq> None"
      using f1 by (simp add: lc_def)
    then show ?thesis by (auto simp: signup_write_def save_new_user_def Let_def)
  qed
  have flt: "filter (\<lambda>(i, u). email u = lc) (users d) = []"
    using n by (auto simp: find_one_None lc_def filter_empty_conv)
  have fl1: "filter (\<lambda>(i, u). email u = lc) (users d1) = [(next_id d, u1)]"
    using flt e1 by (simp add: d1_def)
  show ?thesis
    using fl1 phase_signup_read(1) [OF ra] phase_signup_read(1) [OF rb] phase_signup_read(2) [OF rb1] wa wb flt e1
    by (simp add: arrive_def step_task_def lc_def [symmetric] u1_def [symmetric] d1_def [symmetric] del: phase.simps)
qed
text \<open>
  C20.  Two overlapping profile updates of one user, the first giving a first name and
  no last name, the second a last name and no first name, both answer 200 and both take
  effect: \<open>save()\<close> of a loaded user writes only the paths its handler changed, so,
  unlike the blog update, neither request reverts the other's field.
\<close>

theorem interleaved_profile_updates_merge:
  assumes g: "authMiddleware e r = Next c" and i: "cast_oid (claim_id c) = Some i"
    and u: "map_of (users d) i = Some u"
    and a: "pu_lastName bA = None" and b: "pu_firstName bB = None"
    and va: "user_valid (apply_profile bA u)" and vb: "user_valid (apply_profile bB u)"
  shows "map (\<lambda>(k, rs). (k, status rs))
           (answers (schedule e [0, 1, 0, 1] (arrive [(r, UpdateUser bA), (r, UpdateUser bB)] d))) =
           [(0, 200), (1, 200)] \<and>
         (\<exists>u'. map_of (users (srv_db (schedule e [0, 1, 0, 1] (arrive [(r, UpdateUser bA), (r, UpdateUser bB)] d)))) i =
                 Some u' \<and>
               firstName u' = firstName (apply_profile bA u) \<and> lastName u' = lastName (apply_profile bB u))"
proof -
  define uA where "uA = apply_profile bA u"
  define uB where "uB = apply_profile bB u"
  define uA' where "uA' = uA\<lparr>updatedAt := now e\<rparr>"
  define d1 where "d1 = d\<lparr>users := replace_doc i uA' (users d)\<rparr>"
  have rd: "user_update_read c bX d = Inr (i, u, apply_profile bX u)" for bX
    using i u by (simp add: user_update_read_def find_by_id_def)
  have m1: "map_of (users d1) i = Some uA'" using u by (simp add: d1_def map_of_replace_present)
  have wa: "status (fst (user_save_write e i u uA d)) = 200 \<and> snd (user_save_write e i u uA d) = d1"
    using user_save_write_present [OF u, of uA e u] va by (simp add: uA_def uA'_def d1_def)
  have wb: "status (fst (user_save_write e i u uB d1)) = 200 \<and>
            snd (user_save_write e i u uB d1) =
              d1\<lparr>users := replace_doc i (save_modified u (uB\<lparr>updatedAt := now e\<rparr>) uA') (users d1)\<rparr>"
    using user_save_write_present [OF m1, of uB e u] vb by (simp add: uB_def)
  have f: "firstName (save_modified u (uB\<lparr>updatedAt := now e\<rparr>) uA') = firstName uA"
    using b by (simp add: save_modified_def pick_def uB_def uA'_def apply_profile_def assign_if_def)
  have l: "lastName (save_modified u (uB\<lparr>updatedAt := now e\<rparr>) uA') = lastName uB"
    using a by (simp add: save_modified_def pick_def uB_def uA'_def uA_def apply_profile_def assign_if_def)
  show ?thesis
    using phase_user_read [OF g rd [of bA]] phase_user_read [OF g rd [of bB]] wa wb m1 f l
    by (simp add: arrive_def step_task_def uA_def [symmetric] uB_def [symmetric] map_of_replace_present
             del: phase.simps)
qed

text \<open>
  C33.  When the author's delete of a comment runs between the read and the save of an
  edit of it, the edit answers 400 \<open>Error updating comment\<close> with the message of
  Mongoose's \<open>DocumentNotFoundError\<close>, and the comment stays deleted; when the delete
  runs between the save and the read-back, the edit answers 200 with \<open>null\<close> as the
  comment.  The delete answers 200 in both.
\<close>

theorem interleaved_comment_edit_delete:
  assumes g: "authMiddleware e r = Next c" and i: "cast_oid cid = Some i"
    and cm: "map_of (comments d) i = Some cm" and o: "oid_str (comment_user cm) = claim_id c"
    and t: "\<not> content_missing tx"
  shows "answers (schedule e [0, 1, 1, 0] (arrive [(r, UpdateComment cid tx), (r, DeleteComment cid)] d)) =
           [(1, json_resp 200 (JObj [(''message'', JStr ''Comment deleted successfully''), (''commentId'', JStr cid)])),
            (0, msg_err_resp 400 ''Error updating comment'' (error_message (DocumentNotFound ''Comment'' i)))] \<and>
         map_of (comments (srv_db (schedule e [0, 1, 1, 0]
           (arrive [(r, UpdateComment cid tx), (r, DeleteComment cid)] d)))) i = None \<and>
         answers (schedule e [0, 0, 1, 1, 0] (arrive [(r, UpdateComment cid tx), (r, DeleteComment cid)] d)) =
           [(1, json_resp 200 (JObj [(''message'', JStr ''Comment deleted successfully''), (''commentId'', JStr cid)])),
            (0, json_resp 200 (JObj [(''message'', JStr ''Comment updated successfully''), (''comment'', JNull)]))] \<and>
         map_of (comments (srv_db (schedule e [0, 0, 1, 1, 0]
           (arrive [(r, UpdateComment cid tx), (r, DeleteComment cid)] d)))) i = None"
proof -
  define c1 where "c1 = cm\<lparr>content := js_trim (the tx), comment_updatedAt := now e\<rparr>"
  have ru: "phase e (Request r (UpdateComment cid tx)) d' = (Inr (CommentSaveWrite i cm c1), d')"
    if "map_of (comments d') i = Some cm" for d'
    using update_comment_read_owner [OF i that o t, of e] g by (simp add: c1_def)
  have rd: "phase e (Request r (DeleteComment cid)) d' = (Inr (CommentDeleteWrite cid i), d')"
    if "map_of (comments d') i = Some cm'" "comment_user cm' = comment_user cm" for d' cm'
    using delete_comment_read_owner [OF i that(1)] that(2) o g by simp
  have ok: "failed_paths (comment_checks (c1\<lparr>comment_updatedAt := now e\<rparr>)) = []"
    using t by (simp add: c1_def comment_checks_def failed_paths_def content_missing_def)
  let ?d1 = "d\<lparr>comments := replace_doc i (c1\<lparr>comment_updatedAt := now e\<rparr>) (comments d)\<rparr>"
  have sw: "comment_save_write e i cm c1 d = (Inr i, ?d1)"
    using ok cm by (simp add: comment_save_write_def find_by_id_def Let_def c1_def)
  have m1: "map_of (comments ?d1) i = Some (c1\<lparr>comment_updatedAt := now e\<rparr>)"
    using cm by (simp add: map_of_replace_present)
  have rf: "phase e (CommentRefetch 200 ''Comment updated successfully'' i) d' =
              (Inl (comment_refetch 200 ''Comment updated successfully'' i d'), d')" for d'
    by simp
  have u1: "comment_user (c1\<lparr>comment_updatedAt := now e\<rparr>) = comment_user cm" by (simp add: c1_def)
  have sw': "comment_save_write e i cm c1 (d\<lparr>comments := delete_doc i (comments d)\<rparr>) =
               (Inl (msg_err_resp 400 ''Error updating comment'' (error_message (DocumentNotFound ''Comment'' i))),
                d\<lparr>comments := delete_doc i (comments d)\<rparr>)"
    using ok by (simp add: comment_save_write_def find_by_id_def Let_def)
  show ?thesis
    using ru [OF cm] rd [OF cm refl] rd [OF m1 u1] rf phase_comment_save (1) [OF sw'] phase_comment_save (2) [OF sw] m1
    by (simp add: arrive_def step_task_def delete_comment_write_def comment_refetch_def find_by_id_def
             del: phase.simps error_message.simps)
qed

end
