(* ===== verification/EmailRegex.thy ===== *)
theory EmailRegex
  imports Models
begin

text \<open>
  How JavaScript runs the e-mail pattern of the user schema (\<open>src/models/User.js\<close>,
  line 16), \<open>/^\w+([\.-]?\w+)*@gmail\.com$/\<close>, which Mongoose's \<open>match\<close> validator
  tests on every e-mail a \<open>save\<close> validates.  ECMAScript matches a pattern by
  backtracking (ECMA-262, pattern semantics): a greedy quantifier first tries one more
  iteration of its atom and falls back to the rest of the pattern only when that fails,
  and an iteration of a starred group that consumes nothing fails (the empty check).
  Each matcher below returns the remainders of the input at which the rest of the
  pattern is tried, in the order the backtracking tries them.  The match succeeds at
  the first remainder on which \<open>@gmail\.com$\<close> succeeds; the remainders tried before
  it are the engine's backtracking steps.  Because of \<open>^\<close> only the attempt at index 0
  can succeed; the attempts at later indices fail on \<open>^\<close> at once and are not counted.
\<close>

text \<open>\<open>\w*\<close>, greedy: the longest run is tried first.\<close>

fun word_star :: "string \<Rightarrow> string list" where
  "word_star [] = [[]]"
| "word_star (c # cs) = (if is_word_char c then word_star cs else []) @ [c # cs]"

text \<open>\<open>\w+\<close>: one word character, then \<open>\w*\<close>.\<close>

definition word_plus :: "string \<Rightarrow> string list" where
  "word_plus s = (case s of [] \<Rightarrow> [] | c # cs \<Rightarrow> if is_word_char c then word_star cs else [])"

text \<open>\<open>[\.-]?\w+\<close>: the greedy \<open>?\<close> first tries to take a separator.\<close>

definition grp :: "string \<Rightarrow> string list" where
  "grp s = (case s of [] \<Rightarrow> [] | c # cs \<Rightarrow> if is_email_sep c then word_plus cs else []) @ word_plus s"

lemma word_star_set: "r \<in> set (word_star s) \<longleftrightarrow> (\<exists>w. s = w @ r \<and> list_all is_word_char w)"
proof (induction s)
  case Nil
  then show ?case by simp
next
  case (Cons c cs)
  then show ?case by (auto simp: Cons_eq_append_conv)
qed

lemma word_run_iff: "word_run w \<longleftrightarrow> w \<noteq> [] \<and> list_all is_word_char w"
proof
  show "word_run w \<Longrightarrow> w \<noteq> [] \<and> list_all is_word_char w"
    by (induction rule: word_run.induct) auto
  show "w \<noteq> [] \<and> list_all is_word_char w \<Longrightarrow> word_run w"
  proof (induction w)
    case (Cons c w)
    show ?case
    proof (cases "w = []")
      case True
      with Cons.prems show ?thesis by (simp add: word_one)
    next
      case False
      with Cons show ?thesis by (simp add: word_more)
    qed
  qed simp
qed

lemma word_run_Cons_append:
  "(\<exists>w. c # cs = w @ r \<and> word_run w) \<longleftrightarrow> is_word_char c \<and> (\<exists>w. cs = w @ r \<and> list_all is_word_char w)"
proof
  assume "\<exists>w. c # cs = w @ r \<and> word_run w"
  then obtain w where "c # cs = w @ r" "w \<noteq> []" "list_all is_word_char w"
    by (auto simp: word_run_iff)
  then show "is_word_char c \<and> (\<exists>w. cs = w @ r \<and> list_all is_word_char w)"
    by (cases w) auto
next
  assume "is_word_char c \<and> (\<exists>w. cs = w @ r \<and> list_all is_word_char w)"
  then obtain w where "is_word_char c" "cs = w @ r" "list_all is_word_char w" by blast
  then have "c # cs = (c # w) @ r \<and> word_run (c # w)" by (simp add: word_run_iff)
  then show "\<exists>w. c # cs = w @ r \<and> word_run w" by blast
qed

lemma word_plus_set: "r \<in> set (word_plus s) \<longleftrightarrow> (\<exists>w. s = w @ r \<and> word_run w)"
proof (cases s)
  case Nil
  then show ?thesis by (simp add: word_plus_def word_run_iff)
next
  case (Cons c cs)
  then show ?thesis by (simp add: word_plus_def word_star_set word_run_Cons_append)
qed

lemma grp_set:
  "r \<in> set (grp s) \<longleftrightarrow>
     (\<exists>w. s = w @ r \<and> word_run w) \<or> (\<exists>c w. s = c # w @ r \<and> is_email_sep c \<and> word_run w)"
proof (cases s)
  case Nil
  then show ?thesis by (simp add: grp_def word_plus_def word_run_iff)
next
  case (Cons c cs)
  then show ?thesis
    by (auto simp: grp_def word_plus_set word_run_Cons_append dest: word_not_sep)
qed

lemma grp_split: "r \<in> set (grp s) \<Longrightarrow> \<exists>w. s = w @ r \<and> w \<noteq> []"
  by (auto simp: grp_set word_run_iff)

text \<open>
  \<open>([\.-]?\w+)*\<close>, greedy: one more iteration of the group is tried first, and the rest
  of the pattern at the current position last.  An iteration that would end where it
  started is refused, as ECMAScript's empty check does; this is also what makes the
  recursion terminate.
\<close>

function grp_star :: "string \<Rightarrow> string list" where
  "grp_star s = concat (map (\<lambda>r. if r = s then [] else grp_star r) (grp s)) @ [s]"
  by pat_completeness auto
termination
proof (relation "measure length")
  fix s r
  assume "r \<in> set (grp s)" "r \<noteq> s"
  then show "(r, s) \<in> measure length" by (auto dest!: grp_split)
qed simp

declare grp_star.simps [simp del]

text \<open>The whole pattern: the remainders at which \<open>@gmail\.com$\<close> is tried.\<close>

definition regex_candidates :: "string \<Rightarrow> string list" where
  "regex_candidates s = concat (map grp_star (word_plus s))"

definition tail_ok :: "string \<Rightarrow> bool" where
  "tail_ok r \<longleftrightarrow> r = ''@gmail.com''"

definition regex_test :: "string \<Rightarrow> bool" where
  "regex_test s \<longleftrightarrow> list_ex tail_ok (regex_candidates s)"

definition regex_backtracks :: "string \<Rightarrow> nat" where
  "regex_backtracks s = length (takeWhile (\<lambda>r. \<not> tail_ok r) (regex_candidates s))"

subsection \<open>What the matchers return\<close>

lemma grp_star_set: "r \<in> set (grp_star s) \<longleftrightarrow> (\<exists>t. s = t @ r \<and> local_tail t)"
proof (induction s arbitrary: r rule: grp_star.induct)
  case (1 s)
  have unf: "r \<in> set (grp_star s) \<longleftrightarrow>
               r = s \<or> (\<exists>r' \<in> set (grp s). r' \<noteq> s \<and> r \<in> set (grp_star r'))"
    by (subst grp_star.simps) auto
  show ?case
  proof
    assume "r \<in> set (grp_star s)"
    then consider "r = s" | r' where "r' \<in> set (grp s)" "r' \<noteq> s" "r \<in> set (grp_star r')"
      using unf by blast
    then show "\<exists>t. s = t @ r \<and> local_tail t"
    proof cases
      case 1
      then show ?thesis using tail_nil by auto
    next
      case 2
      then obtain t where t: "r' = t @ r" "local_tail t" using "1.IH" by blast
      from \<open>r' \<in> set (grp s)\<close> consider w where "s = w @ r'" "word_run w"
        | c w where "s = c # w @ r'" "is_email_sep c" "word_run w"
        by (auto simp: grp_set)
      then show ?thesis
      proof cases
        case 1
        with t show ?thesis using tail_word [of w t] by auto
      next
        case 2
        with t show ?thesis using tail_sep [of c w t] by auto
      qed
    qed
  next
    assume "\<exists>t. s = t @ r \<and> local_tail t"
    then obtain t where s: "s = t @ r" and lt: "local_tail t" by blast
    from lt show "r \<in> set (grp_star s)"
    proof cases
      case tail_nil
      with s unf show ?thesis by simp
    next
      case (tail_word w t')
      let ?r' = "t' @ r"
      have g: "?r' \<in> set (grp s)" using tail_word s by (auto simp: grp_set)
      have n: "?r' \<noteq> s" using tail_word s by (auto simp: word_run_iff)
      have "r \<in> set (grp_star ?r')" using "1.IH" [OF g n] tail_word by blast
      with g n unf show ?thesis by blast
    next
      case (tail_sep c w t')
      let ?r' = "t' @ r"
      have g: "?r' \<in> set (grp s)" using tail_sep s by (auto simp: grp_set)
      have n: "?r' \<noteq> s" using tail_sep s by auto
      have "r \<in> set (grp_star ?r')" using "1.IH" [OF g n] tail_sep by blast
      with g n unf show ?thesis by blast
    qed
  qed
qed

lemma regex_candidates_set:
  "r \<in> set (regex_candidates s) \<longleftrightarrow> (\<exists>w t. s = w @ t @ r \<and> word_run w \<and> local_tail t)"
  unfolding regex_candidates_def by (auto simp: grp_star_set word_plus_set; blast)

subsection \<open>How many remainders are tried\<close>

lemma pow2_sum_lt:
  assumes "distinct ks" and "set ks \<subseteq> {..<n}"
  shows "sum_list (map (\<lambda>k. (2::nat) ^ k) ks) < 2 ^ n"
proof -
  have "sum_list (map (\<lambda>k. (2::nat) ^ k) ks) = sum (\<lambda>k. 2 ^ k) (set ks)"
    using assms(1) by (simp add: sum_list_distinct_conv_sum_set)
  also have "\<dots> \<le> sum (\<lambda>k. 2 ^ k) {..<n}"
    using assms(2) by (intro sum_mono2) auto
  also have "\<dots> < 2 ^ n"
    by (induction n) auto
  finally show ?thesis .
qed

lemma word_star_lengths: "sorted_wrt (<) (map length (word_star s)) \<and> list_all (\<lambda>r. length r \<le> length s) (word_star s)"
proof (induction s)
  case (Cons c cs)
  then show ?case by (auto simp: sorted_wrt_append list_all_iff)
qed simp

lemma word_plus_lengths:
  "distinct (map length (word_plus s)) \<and> list_all (\<lambda>r. length r < length s) (word_plus s)"
  using word_star_lengths [of "tl s"]
  by (cases s) (auto simp: word_plus_def strict_sorted_iff list_all_iff)

lemma grp_lengths:
  "distinct (map length (grp s)) \<and> list_all (\<lambda>r. length r < length s) (grp s)"
proof (cases s)
  case Nil
  then show ?thesis by (simp add: grp_def word_plus_def)
next
  case (Cons c cs)
  show ?thesis
  proof (cases "is_email_sep c")
    case True
    then have "word_plus s = []" using Cons word_not_sep by (auto simp: word_plus_def)
    then show ?thesis using Cons True word_plus_lengths [of cs] by (auto simp: grp_def list_all_iff)
  next
    case False
    then show ?thesis using Cons word_plus_lengths [of s] by (simp add: grp_def)
  qed
qed

lemma sum_lengths_pow2:
  fixes f :: "string \<Rightarrow> nat"
  assumes "distinct (map length xs)" and "list_all (\<lambda>r. length r < n) xs"
    and "\<And>r. r \<in> set xs \<Longrightarrow> f r \<le> 2 ^ length r"
  shows "sum_list (map f xs) < 2 ^ n"
proof -
  have "sum_list (map f xs) \<le> sum_list (map (\<lambda>r. 2 ^ length r) xs)"
    using assms(3) by (rule sum_list_mono)
  also have "\<dots> = sum_list (map (\<lambda>k. 2 ^ k) (map length xs))" by (simp add: comp_def)
  also have "\<dots> < 2 ^ n"
    using assms(1,2) by (intro pow2_sum_lt) (auto simp: list_all_iff)
  finally show ?thesis .
qed

lemma grp_star_length: "length (grp_star s) \<le> 2 ^ length s"
proof (induction s rule: grp_star.induct)
  case (1 s)
  have "length (grp_star s) = sum_list (map (\<lambda>r. length (if r = s then [] else grp_star r)) (grp s)) + 1"
    by (subst grp_star.simps) (simp add: length_concat comp_def)
  also have "\<dots> < 2 ^ length s + 1"
    using grp_lengths [of s] "1.IH" by (subst add_less_cancel_right, intro sum_lengths_pow2) auto
  finally show ?case by simp
qed

subsection \<open>An input that makes the search exponential\<close>

text \<open>
  A run of word characters followed by a character that is neither a word character nor a
  separator: every split of the run between \<open>\w+\<close> and the iterations of the group is a
  different way to reach the \<open>!\<close>, and each is tried.
\<close>

lemma word_star_attack:
  "word_star (replicate m CHR ''a'' @ ''!@gmail.com'') =
     map (\<lambda>j. replicate j CHR ''a'' @ ''!@gmail.com'') [0..<Suc m]"
  by (induction m) (simp_all add: is_word_char_def)

lemma word_plus_attack:
  "word_plus (replicate k CHR ''a'' @ ''!@gmail.com'') =
     map (\<lambda>j. replicate j CHR ''a'' @ ''!@gmail.com'') [0..<k]"
  by (cases k) (simp_all add: word_plus_def word_star_attack is_word_char_def)

lemma grp_attack:
  "grp (replicate k CHR ''a'' @ ''!@gmail.com'') =
     map (\<lambda>j. replicate j CHR ''a'' @ ''!@gmail.com'') [0..<k]"
proof -
  have "grp (replicate k CHR ''a'' @ ''!@gmail.com'') = word_plus (replicate k CHR ''a'' @ ''!@gmail.com'')"
    by (cases k) (simp_all add: grp_def is_email_sep_def)
  then show ?thesis by (simp only: word_plus_attack)
qed

lemma pow2_upt_sum: "Suc (sum_list (map ((^) (2::nat)) [0..<k])) = 2 ^ k"
  by (induction k) simp_all

lemma grp_star_attack:
  "length (grp_star (replicate k CHR ''a'' @ ''!@gmail.com'')) = 2 ^ k \<and>
   set (grp_star (replicate k CHR ''a'' @ ''!@gmail.com'')) \<subseteq>
     range (\<lambda>j. replicate j CHR ''a'' @ ''!@gmail.com'')"
proof (induction k rule: less_induct)
  case (less k)
  define a where "a j = replicate j CHR ''a'' @ ''!@gmail.com''" for j
  have ne: "j < k \<Longrightarrow> a j \<noteq> a k" for j
    by (auto simp: a_def dest: arg_cong [where f = length])
  have m: "map (\<lambda>r. if r = a k then [] else grp_star r) (map a [0..<k]) = map (\<lambda>j. grp_star (a j)) [0..<k]"
    by (auto dest: ne)
  have g: "grp (a k) = map a [0..<k]" by (simp add: a_def [abs_def] grp_attack)
  have unf: "grp_star (a k) = concat (map (\<lambda>j. grp_star (a j)) [0..<k]) @ [a k]"
    by (simp only: grp_star.simps [of "a k"] g m)
  have IH: "j < k \<Longrightarrow> length (grp_star (a j)) = 2 ^ j \<and> set (grp_star (a j)) \<subseteq> range a" for j
    using less by (simp add: a_def [abs_def])
  have "map (\<lambda>j. length (grp_star (a j))) [0..<k] = map (\<lambda>j. 2 ^ j) [0..<k]"
    using IH by (intro map_cong) auto
  then have "length (grp_star (a k)) = sum_list (map (\<lambda>j. (2::nat) ^ j) [0..<k]) + 1"
    by (simp only: unf length_append length_concat map_map comp_def) simp
  moreover have "set (grp_star (a k)) \<subseteq> range a" using IH unf by fastforce
  ultimately show ?case by (simp add: pow2_upt_sum a_def [abs_def])
qed

subsection \<open>Properties of the pattern's matcher\<close>

text \<open>
  JavaScript's backtracking matcher of \<open>^\w+([\.-]?\w+)*@gmail\.com$\<close> and the
  model's left-to-right matcher \<open>email_match\<close>, which the schema checks use, both accept
  exactly the strings of the pattern's language.
\<close>

theorem regex_test_iff_language: "(regex_test s \<longleftrightarrow> gmail_regex s) \<and> (email_match s \<longleftrightarrow> gmail_regex s)"
  by (auto simp: regex_test_def list_ex_iff tail_ok_def regex_candidates_set gmail_regex_def
                 email_match_iff_regex [unfolded gmail_regex_def])

text \<open>
  The backtracking search of the e-mail pattern always ends: on an input of length
  \<open>n\<close> it tries the rest of the pattern at fewer than \<open>2 ^ n\<close> remainders, and the
  backtracking steps before the answer are among those.
\<close>

theorem regex_search_bounded:
  "regex_backtracks s \<le> length (regex_candidates s) \<and> length (regex_candidates s) < 2 ^ length s"
proof
  show "regex_backtracks s \<le> length (regex_candidates s)"
    by (simp add: regex_backtracks_def length_takeWhile_le)
  have "length (regex_candidates s) = sum_list (map (\<lambda>r. length (grp_star r)) (word_plus s))"
    by (simp add: regex_candidates_def length_concat comp_def)
  also have "\<dots> < 2 ^ length s"
    using word_plus_lengths [of s] grp_star_length by (intro sum_lengths_pow2) auto
  finally show "length (regex_candidates s) < 2 ^ length s" .
qed

text \<open>
  C27.  The pattern is open to catastrophic backtracking: the e-mail of \<open>n\<close> letters
  followed by \<open>!@gmail.com\<close> passes the route's \<open>endsWith("@gmail.com")\<close> test, is
  rejected by the pattern, and only after \<open>2 ^ n - 1\<close> backtracking steps.
\<close>

theorem regex_backtracking_exponential:
  "ends_with (replicate n CHR ''a'' @ ''!@gmail.com'') ''@gmail.com'' \<and>
   \<not> regex_test (replicate n CHR ''a'' @ ''!@gmail.com'') \<and>
   regex_backtracks (replicate n CHR ''a'' @ ''!@gmail.com'') = 2 ^ n - 1"
proof (intro conjI)
  let ?a = "\<lambda>j. replicate j CHR ''a'' @ ''!@gmail.com''"
  let ?c = "regex_candidates (?a n)"
  have c: "?c = concat (map (\<lambda>j. grp_star (?a j)) [0..<n])"
    by (simp add: regex_candidates_def word_plus_attack comp_def)
  have "set ?c \<subseteq> range ?a" unfolding c using grp_star_attack by auto
  then have none: "\<not> tail_ok r" if "r \<in> set ?c" for r
    using that by (auto simp: tail_ok_def dest: arg_cong [where f = length])
  have "length ?c + 1 = 2 ^ n"
    unfolding c using grp_star_attack by (simp add: length_concat comp_def pow2_upt_sum)
  moreover have "takeWhile (\<lambda>r. \<not> tail_ok r) ?c = ?c"
    using none by (simp add: takeWhile_eq_all_conv)
  then have "regex_backtracks (?a n) = length ?c"
    by (simp only: regex_backtracks_def)
  ultimately show "regex_backtracks (?a n) = 2 ^ n - 1"
    by simp
  show "\<not> regex_test (?a n)" using none by (auto simp: regex_test_def list_ex_iff)
  show "ends_with (?a n) ''@gmail.com''" by (simp add: ends_with_def)
qed

end
