(* ===== verification/Outage.thy ===== *)
theory Outage
  imports Server
begin

text \<open>
  The server while the database cannot be reached.  \<open>mongoose.connect\<close> in
  \<open>src/server.js\<close> only logs a failed connection, and the application listens anyway;
  Mongoose then buffers every operation and, after \<open>bufferTimeoutMS\<close> (10000 ms),
  rejects it with a \<open>MongooseError\<close> naming the collection and the operation.  Each
  handler answers what it answers before its first database call, or its \<open>catch\<close>
  block's answer to that error.  \<open>first_db_call\<close> is the part of each handler before
  its first database call, \<open>catch_answer\<close> its \<open>catch\<close> block, and \<open>serve_down\<close>
  the answer of the whole handler during the outage.
\<close>

text \<open>The message of a buffered operation that timed out.\<close>

definition buffer_timeout :: "string \<Rightarrow> string \<Rightarrow> string" where
  "buffer_timeout coll op =
     ''Operation '' @ [CHR 0x60] @ coll @ ''.'' @ op @ ''()'' @ [CHR 0x60] @ '' buffering timed out after 10000ms''"

text \<open>The gate in front of a protected handler.\<close>

definition gate_first :: "env \<Rightarrow> auth_req \<Rightarrow> (claims \<Rightarrow> resp + string \<times> string) \<Rightarrow> resp + string \<times> string" where
  "gate_first e r h = (case authMiddleware e r of Deny rs \<Rightarrow> Inl rs | Next c \<Rightarrow> h c)"

text \<open>
  Each handler up to its first database call: \<open>Inl\<close> the answer it gives before any
  call, \<open>Inr (collection, operation)\<close> the call it makes first.  Casting an id and
  validating a new document happen before the operation is sent.
\<close>

fun first_db_call :: "env \<Rightarrow> route \<Rightarrow> auth_req \<Rightarrow> resp + string \<times> string" where
  "first_db_call e (Signup un em pw img) r =
     (case em of
        None \<Rightarrow> Inl (msg_resp 500 ''Internal Server Error'')
      | Some em' \<Rightarrow>
          if \<not> ends_with (to_lower_case em') ''@gmail.com''
          then Inl (msg_resp 400 ''Only @gmail.com emails are allowed!'')
          else Inr (''users'', ''findOne''))"
| "first_db_call e (Login em pw) r = Inr (''users'', ''findOne'')"
| "first_db_call e GetUser r =
     gate_first e r (\<lambda>c. case cast_oid (claim_id c) of
                           None \<Rightarrow> Inl (msg_resp 500 ''Internal Server Error'')
                         | Some i \<Rightarrow> Inr (''users'', ''findOne''))"
| "first_db_call e Logout r =
     Inl \<lparr>status = 200, body = JObj [(''message'', JStr ''Logout successful!'')], cookie = ClearCookie ''token''\<rparr>"
| "first_db_call e (UpdateUser b) r =
     gate_first e r (\<lambda>c. case cast_oid (claim_id c) of
                           None \<Rightarrow> Inl (msg_resp 500 ''Internal Server Error'')
                         | Some i \<Rightarrow> Inr (''users'', ''findOne''))"
| "first_db_call e VerifyUser r =
     gate_first e r (\<lambda>c. case cast_oid (claim_id c) of
                           None \<Rightarrow> Inl (msg_resp 500 ''Server error'')
                         | Some i \<Rightarrow> Inr (''users'', ''findOne''))"
| "first_db_call e (CreateBlog t ds im cat) r =
     gate_first e r (\<lambda>c.
       if \<not> js_truthy t \<or> \<not> js_truthy ds then Inl (msg_resp 400 ''Title and description are required'')
       else if \<not> js_includes validCategories cat then Inl (msg_resp 400 ''Invalid category selected'')
       else (case cast_oid (claim_id c) of
               None \<Rightarrow> Inl (msg_err_resp 500 ''Error posting blog''
                          (error_message (ValidationError ''Blog'' [''author''])))
             | Some uid \<Rightarrow>
                 (let ps = failed_paths (blog_checks (new_blog t ds im cat uid (now e))) in
                  if ps \<noteq> [] then Inl (msg_err_resp 500 ''Error posting blog'' (error_message (ValidationError ''Blog'' ps)))
                  else Inr (''blogs'', ''insertOne''))))"
| "first_db_call e ListBlogs r = Inr (''blogs'', ''find'')"
| "first_db_call e MyBlogs r =
     gate_first e r (\<lambda>c. case cast_oid (claim_id c) of
                           None \<Rightarrow> Inl (msg_err_resp 500 ''Error fetching user blogs'' (error_message (CastError ''author'')))
                         | Some uid \<Rightarrow> Inr (''blogs'', ''find''))"
| "first_db_call e (DeleteBlog bid) r =
     gate_first e r (\<lambda>c. case cast_oid bid of
                           None \<Rightarrow> Inl (msg_err_resp 500 ''Error deleting blog'' (error_message (CastError ''_id'')))
                         | Some i \<Rightarrow> Inr (''blogs'', ''findOne''))"
| "first_db_call e (UpdateBlog bid t ds im cat) r =
     gate_first e r (\<lambda>c. case cast_oid bid of
                           None \<Rightarrow> Inl (msg_err_resp 500 ''Error updating blog'' (error_message (CastError ''_id'')))
                         | Some i \<Rightarrow> Inr (''blogs'', ''findOne''))"
| "first_db_call e (ListComments bid) r =
     (case cast_oid bid of
        None \<Rightarrow> Inl (msg_resp 500 ''Error fetching comments'')
      | Some b \<Rightarrow> Inr (''comments'', ''find''))"
| "first_db_call e (CreateComment tx bid) r =
     gate_first e r (\<lambda>c.
       if content_missing tx then Inl comment_required
       else if \<not> js_truthy bid then Inl (msg_resp 400 ''Blog ID is required'')
       else (case (cast_oid (the bid), cast_oid (claim_id c)) of
               (Some b, Some u) \<Rightarrow>
                 (let ps = failed_paths (comment_checks (new_comment (the tx) b u (now e))) in
                  if ps \<noteq> [] then Inl (msg_err_resp 400 ''Error creating comment''
                                         (error_message (ValidationError ''Comment'' ps)))
                  else Inr (''comments'', ''insertOne''))
             | (None, None) \<Rightarrow> Inl (msg_err_resp 400 ''Error creating comment''
                              (error_message (ValidationError ''Comment'' [''blog'', ''user''])))
             | (None, Some u) \<Rightarrow> Inl (msg_err_resp 400 ''Error creating comment''
                              (error_message (ValidationError ''Comment'' [''blog''])))
             | (Some b, None) \<Rightarrow> Inl (msg_err_resp 400 ''Error creating comment''
                              (error_message (ValidationError ''Comment'' [''user''])))))"
| "first_db_call e (UpdateComment cid tx) r =
     gate_first e r (\<lambda>c.
       if content_missing tx then Inl comment_required
       else (case cast_oid cid of
               None \<Rightarrow> Inl (msg_err_resp 400 ''Error updating comment'' (error_message (CastError ''_id'')))
             | Some i \<Rightarrow> Inr (''comments'', ''findOne'')))"
| "first_db_call e (DeleteComment cid) r =
     gate_first e r (\<lambda>c. case cast_oid cid of
                           None \<Rightarrow> Inl (msg_err_resp 400 ''Error deleting comment'' (error_message (CastError ''_id'')))
                         | Some i \<Rightarrow> Inr (''comments'', ''findOne''))"

text \<open>
  The \<open>catch\<close> block of each handler, given \<open>err.message\<close>; the logout handler has none
  (it makes no database call).
\<close>

fun catch_answer :: "route \<Rightarrow> string \<Rightarrow> resp option" where
  "catch_answer (Signup un em pw img) m = Some (msg_resp 500 ''Internal Server Error'')"
| "catch_answer (Login em pw) m = Some (msg_resp 500 ''Server error'')"
| "catch_answer GetUser m = Some (msg_resp 500 ''Internal Server Error'')"
| "catch_answer Logout m = None"
| "catch_answer (UpdateUser b) m = Some (msg_resp 500 ''Internal Server Error'')"
| "catch_answer VerifyUser m = Some (msg_resp 500 ''Server error'')"
| "catch_answer (CreateBlog t ds im cat) m = Some (msg_err_resp 500 ''Error posting blog'' m)"
| "catch_answer ListBlogs m = Some (msg_err_resp 500 ''Error fetching blogs'' m)"
| "catch_answer MyBlogs m = Some (msg_err_resp 500 ''Error fetching user blogs'' m)"
| "catch_answer (DeleteBlog bid) m = Some (msg_err_resp 500 ''Error deleting blog'' m)"
| "catch_answer (UpdateBlog bid t ds im cat) m = Some (msg_err_resp 500 ''Error updating blog'' m)"
| "catch_answer (ListComments bid) m = Some (msg_resp 500 ''Error fetching comments'')"
| "catch_answer (CreateComment tx bid) m = Some (msg_err_resp 400 ''Error creating comment'' m)"
| "catch_answer (UpdateComment cid tx) m = Some (msg_err_resp 400 ''Error updating comment'' m)"
| "catch_answer (DeleteComment cid) m = Some (msg_err_resp 400 ''Error deleting comment'' m)"

text \<open>
  The answer to a request during the outage: the handler's answer before its first
  database call, or its \<open>catch\<close> block's answer to the timed-out call; \<open>None\<close> would be
  an uncaught rejection.
\<close>

definition serve_down :: "env \<Rightarrow> route \<Rightarrow> auth_req \<Rightarrow> resp option" where
  "serve_down e rt r =
     (case first_db_call e rt r of
        Inl rs \<Rightarrow> Some rs
      | Inr (coll, op) \<Rightarrow> catch_answer rt (buffer_timeout coll op))"


subsection \<open>What the outage answers\<close>

lemma gate_Deny_status: "authMiddleware e r = Deny rs \<Longrightarrow> 400 \<le> status rs"
  by (auto simp: authMiddleware_def auth_gate_def Let_def split: if_splits verify_result.splits)

text \<open>
  An answer given before the first database call is the one the connected server gives,
  on every database, and it changes nothing.
\<close>

lemma first_db_call_serve:
  "first_db_call e rt r = Inl rs \<Longrightarrow> serve e rt r d = (rs, d)"
  by (cases rt)
     (auto simp: gate_first_def with_auth_def signup_def get_user_def logout_def update_user_def verify_user_def
                 create_blog_def save_new_blog_def my_blogs_def delete_blog_def update_blog_def list_comments_def
                 create_comment_def save_new_comment_def update_comment_def delete_comment_def Let_def
           split: gate.splits option.splits if_splits prod.splits)

lemma first_db_call_status:
  "first_db_call e rt r = Inl rs \<Longrightarrow> rt = Logout \<or> 400 \<le> status rs"
  by (cases rt)
     (auto simp: gate_first_def comment_required_def Let_def dest: gate_Deny_status
           split: gate.splits option.splits if_splits prod.splits)

lemma first_db_call_Logout: "first_db_call e Logout r = Inl (fst (logout d))"
  by (simp add: logout_def)

text \<open>Every handler that calls the database catches the failure, with an error status.\<close>

lemma catch_answer_Some: "rt \<noteq> Logout \<Longrightarrow> \<exists>rs. catch_answer rt m = Some rs \<and> 400 \<le> status rs"
  by (cases rt) auto

lemma first_db_call_Inr: "first_db_call e rt r = Inr call \<Longrightarrow> rt \<noteq> Logout"
  by auto

lemma serve_down_answers:
  "\<exists>rs. serve_down e rt r = Some rs \<and> (rt = Logout \<or> 400 \<le> status rs) \<and>
        (case first_db_call e rt r of Inl rs' \<Rightarrow> rs = rs' \<and> serve e rt r d = (rs, d) | Inr call \<Rightarrow> True)"
proof (cases "first_db_call e rt r")
  case (Inl rs)
  then show ?thesis using first_db_call_status [OF Inl] first_db_call_serve [OF Inl]
    by (simp add: serve_down_def)
next
  case (Inr call)
  obtain coll op where call: "call = (coll, op)" by fastforce
  obtain rs where "catch_answer rt (buffer_timeout coll op) = Some rs" "400 \<le> status rs"
    using catch_answer_Some first_db_call_Inr [OF Inr] by blast
  then show ?thesis using Inr call by (simp add: serve_down_def)
qed

end
