(* ===== verification/Startup.thy ===== *)
theory Startup
  imports Routing Outage
begin

text \<open>
  Starting the application.  An entry point loads its modules with \<open>require\<close>, in
  order; a module that cannot be found throws at once and the process exits before
  anything else runs.  \<open>src/server.js\<close> then loads \<open>.env\<close> (\<open>dotenv.config()\<close>),
  builds the Express application as a stack of middleware layers, starts the
  database connection without waiting for it (a failure is only logged) and listens on
  \<open>process.env.PORT || 5000\<close>.  \<open>src/index.js\<close>, an older entry point, requires
  \<open>./routes/userRoutes\<close>, which the repository does not have.  The layer stack is run by
  \<open>run_layers\<close>, Express's dispatch of one request through \<open>app.use\<close> layers, over the
  handlers of a connected or an unreachable database.
\<close>

subsection \<open>Modules\<close>

datatype module =
    Express | Mongoose | Cors | Dotenv | CookieParser
  | AuthRoutesModule | BlogRoutesModule | CommentRoutesModule | UserRoutesModule

fun module_id :: "module \<Rightarrow> string" where
  "module_id Express = ''express''"
| "module_id Mongoose = ''mongoose''"
| "module_id Cors = ''cors''"
| "module_id Dotenv = ''dotenv''"
| "module_id CookieParser = ''cookie-parser''"
| "module_id AuthRoutesModule = ''./routes/authRoutes''"
| "module_id BlogRoutesModule = ''./routes/blogRoutes''"
| "module_id CommentRoutesModule = ''./routes/commentRoutes''"
| "module_id UserRoutesModule = ''./routes/userRoutes''"

text \<open>The installed packages and the route files of \<open>src/routes\<close>.\<close>

definition repo_modules :: "module set" where
  "repo_modules = {Express, Mongoose, Cors, Dotenv, CookieParser,
                   AuthRoutesModule, BlogRoutesModule, CommentRoutesModule}"

text \<open>The \<open>require\<close> calls in order: the first module that cannot be found, if any.\<close>

fun require_all :: "module set \<Rightarrow> module list \<Rightarrow> module option" where
  "require_all ms [] = None"
| "require_all ms (m # rest) = (if m \<in> ms then require_all ms rest else Some m)"

definition cannot_find :: "module \<Rightarrow> string" where
  "cannot_find m = ''Cannot find module '' @ [CHR 0x27] @ module_id m @ [CHR 0x27]"

definition index_requires :: "module list" where
  "index_requires = [Express, Mongoose, Cors, BlogRoutesModule, UserRoutesModule, CommentRoutesModule]"

definition server_requires :: "module list" where
  "server_requires = [Express, Mongoose, Cors, Dotenv, CookieParser,
                      AuthRoutesModule, BlogRoutesModule, CommentRoutesModule]"

subsection \<open>Environment, port and connection\<close>

type_synonym vars = "string \<rightharpoonup> string"

text \<open>\<open>dotenv.config()\<close>: the variables of \<open>.env\<close>, except those already set.\<close>

definition dotenv_config :: "vars \<Rightarrow> vars \<Rightarrow> vars" where
  "dotenv_config pe file = file ++ pe"

text \<open>
  The environment the handlers read: \<open>JWT_SECRET\<close> (the model covers a configured
  secret) and \<open>NODE_ENV\<close>; the two clock readings and the salt are the environment's.
\<close>

definition handler_env :: "vars \<Rightarrow> time \<Rightarrow> time \<Rightarrow> nat \<Rightarrow> env option" where
  "handler_env vs t dl s =
     (case vs ''JWT_SECRET'' of
        None \<Rightarrow> None
      | Some k \<Rightarrow> Some \<lparr>now = t, check_delay = dl, jwt_secret = k, salt = s, production = (vs ''NODE_ENV'' = Some ''production'')\<rparr>)"

text \<open>The argument of \<open>app.listen\<close>: a variable's value is a string, and \<open>''''\<close> is falsy.\<close>

datatype listen_arg = ListenNumber nat | ListenString string

definition server_port :: "vars \<Rightarrow> listen_arg" where
  "server_port vs = (case vs ''PORT'' of Some p \<Rightarrow> if p = [] then ListenNumber 5000 else ListenString p
                                       | None \<Rightarrow> ListenNumber 5000)"

text \<open>
  \<open>mongoose.connect(process.env.MONGO_URI)\<close>: it fails for an absent URI and for a URI
  with no reachable server; the failure is only logged.
\<close>

datatype connection = Connected | ConnectionFailed

definition mongo_connect :: "(string \<Rightarrow> bool) \<Rightarrow> string option \<Rightarrow> connection" where
  "mongo_connect reach uri = (case uri of Some u \<Rightarrow> if reach u then Connected else ConnectionFailed
                                        | None \<Rightarrow> ConnectionFailed)"

subsection \<open>The middleware stack\<close>

datatype router_name = AuthRouter | BlogRouter | CommentRouter | UserRouter

text \<open>\<open>app.use(...)\<close> layers: the body parser, the cookie parser, CORS, a router under a
  mount path, the 404 handler and the error handler.\<close>

datatype layer =
    UseJson | UseCookieParser | UseCors | UseRouter "string list" router_name
  | UseNotFound | UseErrorHandler

type_synonym router = "http_method \<Rightarrow> string list \<Rightarrow> req_body \<Rightarrow> route option"

text \<open>The routers of the repository's route modules.\<close>

fun repo_router :: "router_name \<Rightarrow> router" where
  "repo_router AuthRouter = auth_router"
| "repo_router BlogRouter = blog_router"
| "repo_router CommentRouter = comment_router"

text \<open>A mount path matches leading segments without regard to case; the router sees the rest.\<close>

fun strip_mount :: "string list \<Rightarrow> string list \<Rightarrow> string list option" where
  "strip_mount [] ss = Some ss"
| "strip_mount (a # as) (s # ss) = (if lit a s then strip_mount as ss else None)"
| "strip_mount (a # as) [] = None"

type_synonym handlers = "route \<Rightarrow> auth_req \<Rightarrow> db \<Rightarrow> (resp \<times> db) option"

text \<open>
  One request through the layers.  A parse error of the body is passed on as an error;
  while an error is pending, only error handlers run.  A router that has no route for
  the request passes it on.  \<open>None\<close>: the stack ends without an answer (Express's final
  handler), or a handler does not answer.
\<close>

fun run_layers ::
  "(router_name \<Rightarrow> router) \<Rightarrow> handlers \<Rightarrow> layer list \<Rightarrow> http_method \<Rightarrow> string \<Rightarrow> parsed_body \<Rightarrow>
   req_body \<Rightarrow> server_error option \<Rightarrow> auth_req \<Rightarrow> db \<Rightarrow> (resp \<times> db) option" where
  "run_layers rs h [] m p pb b err r d = None"
| "run_layers rs h (l # ls) m p pb b (Some x) r d =
     (case l of
        UseErrorHandler \<Rightarrow> Some (error_middleware x, d)
      | _ \<Rightarrow> run_layers rs h ls m p pb b (Some x) r d)"
| "run_layers rs h (l # ls) m p pb b None r d =
     (case l of
        UseJson \<Rightarrow>
          (case pb of
             BodyRejected be \<Rightarrow> run_layers rs h ls m p pb b (Some (body_parser_error be)) r d
           | ParsedBody b' \<Rightarrow> run_layers rs h ls m p pb b' None r d)
      | UseCookieParser \<Rightarrow> run_layers rs h ls m p pb b None r d
      | UseCors \<Rightarrow> if m = OPTIONS then Some (preflight_resp, d) else run_layers rs h ls m p pb b None r d
      | UseRouter mnt n \<Rightarrow>
          (case segments p of
             None \<Rightarrow> run_layers rs h ls m p pb b None r d
           | Some ss \<Rightarrow>
               (case strip_mount mnt ss of
                  None \<Rightarrow> run_layers rs h ls m p pb b None r d
                | Some rest \<Rightarrow>
                    (case rs n (if m = HEAD then GET else m) rest b of
                       None \<Rightarrow> run_layers rs h ls m p pb b None r d
                     | Some rt \<Rightarrow> h rt r d)))
      | UseNotFound \<Rightarrow> Some (route_not_found, d)
      | UseErrorHandler \<Rightarrow> run_layers rs h ls m p pb b None r d)"

text \<open>\<open>req.body\<close> before the body parser has run is taken as an empty body.\<close>

definition run_app ::
  "(router_name \<Rightarrow> router) \<Rightarrow> handlers \<Rightarrow> layer list \<Rightarrow> http_method \<Rightarrow> string \<Rightarrow> parsed_body \<Rightarrow>
   auth_req \<Rightarrow> db \<Rightarrow> (resp \<times> db) option" where
  "run_app rs h ls m p pb r d = run_layers rs h ls m p pb empty_body None r d"

text \<open>The handlers over a connected database, and while it cannot be reached.\<close>

definition handlers_of :: "env \<Rightarrow> connection \<Rightarrow> handlers" where
  "handlers_of e c rt r d =
     (case c of
        Connected \<Rightarrow> Some (serve e rt r d)
      | ConnectionFailed \<Rightarrow> map_option (\<lambda>rs. (rs, d)) (serve_down e rt r))"

text \<open>The stack of \<open>src/server.js\<close>, in the order of its \<open>app.use\<close> calls.\<close>

definition server_app :: "layer list" where
  "server_app =
     [UseJson, UseCookieParser, UseCors, UseRouter [''api''] AuthRouter, UseRouter [''api''] BlogRouter,
      UseRouter [''api'', ''comments''] CommentRouter, UseNotFound, UseErrorHandler]"

text \<open>The stack \<open>src/index.js\<close> would build.\<close>

definition index_app :: "layer list" where
  "index_app =
     [UseCors, UseJson, UseRouter [''api''] BlogRouter, UseRouter [''api''] UserRouter,
      UseRouter [''api''] CommentRouter]"

subsection \<open>Starting an entry point\<close>

datatype boot = Crashed string | Listening listen_arg vars "layer list" connection

definition boot_index :: "module set \<Rightarrow> vars \<Rightarrow> (string \<Rightarrow> bool) \<Rightarrow> boot" where
  "boot_index ms pe reach =
     (case require_all ms index_requires of
        Some m \<Rightarrow> Crashed (cannot_find m)
      | None \<Rightarrow> Listening (ListenNumber 5000) pe index_app (mongo_connect reach (pe ''MONGO_URI'')))"

definition boot_server :: "module set \<Rightarrow> vars \<Rightarrow> vars \<Rightarrow> (string \<Rightarrow> bool) \<Rightarrow> boot" where
  "boot_server ms pe file reach =
     (case require_all ms server_requires of
        Some m \<Rightarrow> Crashed (cannot_find m)
      | None \<Rightarrow>
          (let vs = dotenv_config pe file in
           Listening (server_port vs) vs server_app (mongo_connect reach (vs ''MONGO_URI''))))"


subsection \<open>Loading modules\<close>

lemma require_all_None: "require_all ms xs = None \<longleftrightarrow> set xs \<subseteq> ms"
  by (induction xs) auto

lemma require_all_first:
  "set xs \<subseteq> ms \<Longrightarrow> m \<notin> ms \<Longrightarrow> require_all ms (xs @ m # ys) = Some m"
  by (induction xs) auto

subsection \<open>The stack of \<open>server.js\<close>\<close>

lemma strip_mount_api:
  "strip_mount [''api''] ss = (case ss of a # rest \<Rightarrow> if lit ''api'' a then Some rest else None | [] \<Rightarrow> None)"
  by (cases ss) auto

lemma strip_mount_api_comments:
  "strip_mount [''api'', ''comments''] ss =
     (case ss of a # c # rest \<Rightarrow> if lit ''api'' a \<and> lit ''comments'' c then Some rest else None | _ \<Rightarrow> None)"
  by (cases ss rule: remdups_adj.cases) auto

text \<open>
  The stack of \<open>server.js\<close> over any handlers: the body parser's errors go to the error
  handler, CORS answers preflights, the routers are tried in mount order, and the 404
  handler answers what none of them routes.
\<close>

lemma server_app_run:
  "run_app repo_router h server_app m p pb r d =
     (case pb of
        BodyRejected be \<Rightarrow> Some (error_middleware (body_parser_error be), d)
      | ParsedBody b \<Rightarrow>
          if m = OPTIONS then Some (preflight_resp, d)
          else (case segments p of
                  None \<Rightarrow> Some (route_not_found, d)
                | Some ss \<Rightarrow> (case route_of m ss b of None \<Rightarrow> Some (route_not_found, d) | Some rt \<Rightarrow> h rt r d)))"
  by (auto simp: run_app_def server_app_def route_of_def strip_mount_api strip_mount_api_comments Let_def
           split: parsed_body.splits option.splits list.splits if_splits)

text \<open>
  During an outage, \<open>GET /api/blogs\<close> waits for the buffered \<open>find\<close> to time out and
  answers 500 with Mongoose's message in the body.
\<close>

lemma outage_list_blogs:
  "run_app repo_router (handlers_of e ConnectionFailed) server_app GET ''/api/blogs'' (ParsedBody empty_body) r d =
   Some (msg_err_resp 500 ''Error fetching blogs'' (buffer_timeout ''blogs'' ''find''), d)"
  by (simp add: server_app_run handlers_of_def serve_down_def segments_def path_part_def strip_trailing_def
                route_of_def literal_simps)

subsection \<open>Properties of startup\<close>

text \<open>
  The middleware stack \<open>src/server.js\<close> registers, run as Express runs
  \<open>app.use\<close> layers over the connected database's handlers, answers every request
  exactly as \<open>dispatch\<close>, the HTTP layer the other properties are stated over.
\<close>

theorem server_stack_is_dispatch:
  "run_app repo_router (handlers_of e Connected) server_app m p pb r d = Some (dispatch e m p pb r d)"
  by (simp add: server_app_run dispatch_def handlers_of_def split: parsed_body.split option.split)

text \<open>
  With any modules that include the packages and route files \<open>src/index.js\<close>
  loads before it but not \<open>./routes/userRoutes\<close>, \<open>src/index.js\<close> stops with
  \<open>Cannot find module './routes/userRoutes'\<close> and never listens, whatever the
  environment; \<open>src/server.js\<close>, given the modules it requires, starts listening with
  its stack and the variables of \<open>.env\<close> under those of the process.
\<close>

theorem entry_points_start:
  assumes "{Express, Mongoose, Cors, BlogRoutesModule} \<subseteq> ms" and "UserRoutesModule \<notin> ms"
  shows "boot_index ms pe reach = Crashed (cannot_find UserRoutesModule) \<and>
         (set server_requires \<subseteq> ms \<longrightarrow>
            boot_server ms pe file reach =
              Listening (server_port (file ++ pe)) (file ++ pe) server_app (mongo_connect reach ((file ++ pe) ''MONGO_URI'')))"
proof -
  have "require_all ms index_requires = Some UserRoutesModule"
    using assms require_all_first [of "[Express, Mongoose, Cors, BlogRoutesModule]" ms UserRoutesModule]
    by (simp add: index_requires_def)
  moreover have "require_all ms server_requires = None" if "set server_requires \<subseteq> ms"
    using that by (simp only: require_all_None)
  ultimately show ?thesis by (simp add: boot_index_def boot_server_def dotenv_config_def Let_def)
qed

text \<open>
  C26.  When the database cannot be reached, \<open>src/server.js\<close> still starts listening,
  and then answers every request, without changing the database: with the body
  parser's error, the preflight's 204, the 404 handler, an answer its handler gives before calling
  the database (the connected server's answer), or the handler's \<open>catch\<close> answer.
  Every answer is an error but the preflight and logout.
\<close>

theorem outage_server_answers:
  assumes "set server_requires \<subseteq> ms" and "mongo_connect reach ((file ++ pe) ''MONGO_URI'') = ConnectionFailed"
  shows "boot_server ms pe file reach = Listening (server_port (file ++ pe)) (file ++ pe) server_app ConnectionFailed \<and>
         (\<exists>rs. run_app repo_router (handlers_of e ConnectionFailed) server_app m p pb r d = Some (rs, d) \<and>
               (400 \<le> status rs \<or> rs = preflight_resp \<or> rs = fst (logout d)))"
proof -
  have boot: "boot_server ms pe file reach = Listening (server_port (file ++ pe)) (file ++ pe) server_app ConnectionFailed"
    using assms require_all_None [of ms server_requires] by (simp add: boot_server_def dotenv_config_def Let_def)
  have handler: "\<exists>rs. handlers_of e ConnectionFailed rt r d = Some (rs, d) \<and> (400 \<le> status rs \<or> rs = fst (logout d))" for rt
  proof -
    obtain rs where rs: "serve_down e rt r = Some rs" "rt = Logout \<or> 400 \<le> status rs"
      and agree: "case first_db_call e rt r of Inl rs' \<Rightarrow> rs = rs' \<and> serve e rt r d = (rs, d) | Inr call \<Rightarrow> True"
      using serve_down_answers by blast
    have "400 \<le> status rs \<or> rs = fst (logout d)"
      using rs(2) agree first_db_call_Logout [of e r d] by auto
    then show ?thesis using rs(1) by (simp add: handlers_of_def)
  qed
  have "400 \<le> status (error_middleware (body_parser_error be))" for be
    using body_parser_answer [of be] by (cases be) auto
  moreover have "status route_not_found = 404" by (simp add: route_not_found_def)
  ultimately show ?thesis
    using boot handler by (auto simp: server_app_run split: parsed_body.split option.split)
qed

end
