(* ===== verification/Spec2Isabelle.thy ===== *)
theory Spec2Isabelle
  imports Ownership Routing Concurrency EmailRegex Startup
begin

text \<open>
  \<^bold>\<open>A verification development for the Backend-Blog-Project REST API.\<close>

  \<^bold>\<open>The program.\<close>  An Express server (\<open>src/server.js\<close>) mounts three routers:
  \<open>src/routes/authRoutes.js\<close> (signup, login, logout, profile), \<open>src/routes/blogRoutes.js\<close>
  (blog CRUD) and \<open>src/routes/commentRoutes.js\<close> (comment CRUD).  Protected routes first
  pass the authentication gate \<open>src/middleware/authMiddleware.js\<close>, which reads a JWT from
  the \<open>token\<close> cookie or the \<open>Authorization\<close> header, verifies it with \<open>jsonwebtoken\<close>
  and attaches its claims as \<open>req.user\<close>.  Handlers read and write a MongoDB database
  through the Mongoose models of \<open>src/models\<close> (User, Blog, Comment), hash passwords
  with \<open>bcrypt\<close>, and answer with JSON.  Mutations of blogs and comments are allowed to
  their owner only.

  \<^bold>\<open>The theories.\<close>
  \<^item> \<open>Prelude\<close>: JavaScript's string operations as the handlers use them (truthiness,
    \<open>trim\<close>, \<open>toLowerCase\<close>, \<open>endsWith\<close>, \<open>split\<close>, \<open>includes\<close>), decimal
    and hex codecs with their round trips, JSON values.
  \<^item> \<open>Http\<close>: responses (status, JSON body, cookie action) and the process environment
    (the clock and the delay to the middleware's second reading of it, JWT secret, bcrypt
    salt, \<open>NODE_ENV\<close>).
  \<^item> \<open>Crypto\<close>: \<open>bcrypt\<close> and \<open>jsonwebtoken\<close>, which the code only calls, modelled
    from their documented behaviour (spec sections 4.1, 4.2): a hash keeps the first 72
    bytes of the password; a token is signed with the secret, carries \<open>iat\<close> and
    \<open>exp = iat + 7 days\<close> in seconds, and \<open>jwt_verify\<close> checks shape, signature,
    then expiry.  Round trip: \<open>jwt_verify_encode\<close>.
  \<^item> \<open>Models\<close>: the three schemas as records, their setters as constructors
    (\<open>new_user\<close>), their validators as named checks; the e-mail pattern both as the
    language of the regular expression and as an executable matcher.
  \<^item> \<open>EmailRegex\<close>: how JavaScript runs that pattern (\<open>src/models/User.js\<close> line 16):
    ECMAScript's backtracking semantics, each quantifier a function listing the
    remainders at which the rest of the pattern is tried, in the order the engine tries
    them (\<open>word_star\<close>, \<open>word_plus\<close>, \<open>grp\<close>, \<open>grp_star\<close>), the test
    \<open>regex_test\<close> and the count of backtracking steps \<open>regex_backtracks\<close>.
  \<^item> \<open>Store\<close>: the database as a record of three collections (association lists in
    natural order) and an ObjectId counter; \<open>findById\<close>, \<open>find\<close>, \<open>findOne\<close>,
    \<open>save()\<close>, \<open>findByIdAndUpdate\<close>, \<open>findByIdAndDelete\<close>; the invariant
    \<open>db_wf\<close> and its preservation by every save.
  \<^item> \<open>AuthMiddleware\<close>: token extraction and the gate, first over any verifier
    (\<open>auth_gate\<close>), then with the JWT model (\<open>authMiddleware\<close>).
  \<^item> \<open>AuthRoutes\<close>, \<open>BlogRoutes\<close>, \<open>CommentRoutes\<close>: one definition per route
    handler, every early return and every caught exception a branch.
  \<^item> \<open>Server\<close>: the endpoints as a datatype, \<open>serve\<close> composing gate and handler,
    the databases \<open>reachable\<close> by any sequence of requests, and the frame and ownership
    lemmas; \<open>resp_shaped\<close>, the statuses and error bodies of the API, and its proof for
    every handler.
  \<^item> \<open>Routing\<close>: the HTTP layer of \<open>src/server.js\<close> in front of \<open>serve\<close>: JSON body
    parsing and its error path into the error middleware, the CORS preflight, Express path
    matching of the three routers in their mount order (\<open>route_of\<close>), the 404 handler;
    composed as \<open>dispatch\<close>.  \<open>request_of\<close> prints the request a client sends for an
    endpoint; parsing it back is the round trip C29.
  \<^item> \<open>Ownership\<close>: the ownership contract of spec section 4.5 as an abstract machine
    (\<open>own_step\<close>, \<open>own_reach\<close>) over the blogs and comments by id, the abstraction
    \<open>abs_db\<close> and the request's \<open>actor\<close>; the refinement (C10), and runs of requests
    (\<open>run\<close>) with the progress property C38.
  \<^item> \<open>Concurrency\<close>: the interleavings Node allows at the \<open>await\<close>s.  Every handler
    that calls the database more than once is split at its awaits into phases: the blog
    update and delete (\<open>update_blog_read\<close>, \<open>update_blog_write\<close>: \<open>findById\<close> and
    the checks, then \<open>findByIdAndUpdate\<close> with the \<open>$set\<close> document built at the
    read; \<open>delete_blog_read\<close>, \<open>delete_blog_write\<close>) and the blog creation
    (\<open>create_blog_save\<close>, then the read-back \<open>blog_refetch\<close>) of
    \<open>src/routes/blogRoutes.js\<close>; signup (\<open>signup_read\<close>: \<open>findOne\<close>;
    \<open>signup_write\<close>: hashing and \<open>save()\<close> with the unique index) and the profile
    update (\<open>user_update_read\<close>; \<open>user_save_write\<close>: \<open>save()\<close> of the loaded user,
    which writes only its modified paths, \<open>save_modified\<close>) of
    \<open>src/routes/authRoutes.js\<close>; the comment creation (\<open>create_comment_save\<close>,
    \<open>comment_refetch\<close>), edit (\<open>update_comment_read\<close>, \<open>comment_save_write\<close> with
    \<open>comment_save_modified\<close>, \<open>comment_refetch\<close>) and delete
    (\<open>delete_comment_read\<close>, \<open>delete_comment_write\<close>) of
    \<open>src/routes/commentRoutes.js\<close>.  The other handlers call the database once and
    run as one phase.  A \<open>server\<close> holds the database and the requests in flight;
    \<open>schedule\<close> runs the phase of the request each index names, and \<open>run_task\<close> runs
    one request alone for a number of phases.  \<open>schedule_preserves\<close> carries an
    invariant of the database and one of each request in flight through any schedule;
    its instances are \<open>pending_wf\<close> (pending writes keep the database well-formed) and
    \<open>blog_safe\<close>, \<open>comment_safe\<close> (the owner check made at a read still holds at
    the write).
  \<^item> \<open>Outage\<close>: the handlers while the database cannot be reached.  Mongoose buffers
    every operation and rejects it after \<open>bufferTimeoutMS\<close> (10000 ms) with a message
    naming the collection and the operation (\<open>buffer_timeout\<close>); \<open>first_db_call\<close> is
    each handler up to its first database call, \<open>catch_answer\<close> its \<open>catch\<close> block,
    \<open>serve_down\<close> their composition.
  \<^item> \<open>Startup\<close>: the two entry points.  \<open>require_all\<close> is Node's \<open>require\<close> over
    the modules present (the repository's and its dependencies, \<open>repo_modules\<close>),
    failing at the first missing one; \<open>boot_index\<close> is \<open>src/index.js\<close>,
    \<open>boot_server\<close> is \<open>src/server.js\<close>: \<open>dotenv.config()\<close> (\<open>dotenv_config\<close>,
    the process environment wins over the file), \<open>mongoose.connect\<close>
    (\<open>mongo_connect\<close>, whose failure is only logged) and \<open>app.listen(PORT || 5000)\<close>
    (\<open>server_port\<close>).  The middleware stack is a list of layers (\<open>server_app\<close>,
    \<open>index_app\<close>) run by \<open>run_layers\<close> with Express's semantics: a router mounted
    at a path sees the rest of the path, a layer that does not answer passes the request
    on, an error skips to the error handlers; \<open>handlers_of\<close> gives the handlers
    over a live database (\<open>serve\<close>) or during an outage (\<open>serve_down\<close>).
  \<^item> This theory: the properties that span the components.

  \<^bold>\<open>Modelling choices.\<close>  Every handler is a function from the request's fields (absent
  body fields are \<open>None\<close>), the gate's claims and the database to a response and a new
  database; nothing is shared between requests but the database, as in the code, and a
  run of requests is a sequence of \<open>serve\<close> steps (\<open>reachable\<close>).  \<open>Concurrency\<close>
  refines this with interleaved phases and shows that, from a well-formed database, a
  serial schedule is exactly the sequence of \<open>serve\<close> steps (\<open>serial_schedule_refines_serve\<close>), so the properties of \<open>serve\<close> are those of
  requests that do not overlap.  Characters are
  code units 0..255.  ObjectIds are natural numbers printed in decimal; casting a path
  parameter or a token's \<open>id\<close> to an ObjectId is parsing that numeral.  Mongoose's
  \<open>save()\<close> is modelled as validating every path; on a database satisfying the schema
  (every reachable one) this agrees with Mongoose validating the modified and required
  paths.  A filter with an absent value (\<open>{ email: undefined }\<close>) matches no document.
  Express matching: the query string is dropped, literal segments compare without
  regard to case, a parameter is one non-empty segment, one trailing slash is allowed,
  \<open>HEAD\<close> runs the \<open>GET\<close> routes.  No loop of the source is unbounded, so no fuel is
  needed: every definition is total and executable (\<open>run\<close> and \<open>schedule\<close> recurse
  over a list).  \<open>run_task\<close> is given a number of phases; three are enough for every
  handler (the comment edit has three, \<open>run_task_serve\<close>), and a serial schedule
  resumes each request three times, a resumption of a finished request doing nothing.  The one recursion that is not structural is the backtracking search of
  the starred group, \<open>grp_star\<close>; it terminates by the length of the remaining input,
  because ECMAScript refuses an iteration that consumes nothing (the empty check), and
  \<open>regex_search_bounded\<close> bounds the number of remainders it tries by \<open>2 ^ n\<close>.
  The clock is read more than once per request: \<open>jwt.verify\<close> reads \<open>now\<close>, and the
  middleware's own expiry test reads it again \<open>check_delay\<close> milliseconds later (any
  delay, so every property about the gate holds for every timing).  \<open>express.json()\<close>
  is modelled by its outcome: the parsed body, or how it rejected the body (not JSON, over
  the 100kb limit, an unsupported charset or encoding), with body-parser's status.

  \<^bold>\<open>Not modelled.\<close>  What \<open>src/index.js\<close> would serve past its \<open>require\<close>s (it
  requires a non-existent \<open>./routes/userRoutes\<close> and stops there; its stack is kept as
  \<open>index_app\<close> but never runs), the CORS response headers (only the preflight answer
  is modelled), cookie parsing, the bytes of a request body (the parser's outcome is an
  input of the model, and the text of a JSON syntax error is the parser's message), how Node binds a \<open>PORT\<close> string (the model keeps the string it passes),
  a process without \<open>JWT_SECRET\<close>, the time the connection takes, a connection
  that comes back during an outage, and logging; \<open>bufferTimeoutMS\<close> is Mongoose's
  default, 10000 ms; percent-decoding of path parameters (the model
  is exact for parameters without \<open>%\<close>); request bodies whose fields are not strings, and
  an \<open>age\<close> that is not an integer (the profile update's \<open>age\<close> is an integer;
  a string or fractional age sent by a client is not modelled).
  The error middleware's \<open>ValidationError\<close> and \<open>UnauthorizedError\<close> branches are
  modelled but unreachable: every handler catches its own exceptions, so only the body
  parser's errors reach it.  Interleaving is modelled between database calls, not inside one: each
  Mongoose call, \<open>populate\<close> included, is atomic.
  The regular-expression engine is modelled for the one pattern of the code, not for
  regular expressions in general; attempts at start indices after 0, which fail on
  \<open>^\<close> at once, are not counted.

  \<^bold>\<open>The properties.\<close>  Each is stated after a text naming its claim.
  \<^item> Ownership and authorship, for every endpoint and body: no request alters or removes
    another user's blog or comment (C1, C2); no request changes a blog's author (C13);
    creation stamps the author from the token (C14); the owner's delete and edit of a
    blog do exactly what they should (C37); no request changes a user's e-mail, password
    hash, username or creation time (C31).
  \<^item> Error order and codes: missing blogs and comments are 404 before any 403 (C3);
    protected endpoints without a token are 401 (C15); invalid categories on create and
    update (C7), blank comments (C21), non-Gmail e-mails are 400 and change nothing;
    every response of the HTTP layer has a status of the API's taxonomy or the body
    parser's 413 or 415, which only a rejected body gets, and every error body is an
    object led by a string \<open>message\<close> (C36).
  \<^item> The invariant of every reachable database (C4) and the bounds it gives on stored
    fields and ids (C40), proved by rule induction over \<open>reachable\<close> from the
    per-handler preservation lemmas of the component theories.
  \<^item> Refinement: the server implements the abstract ownership contract (C10); an owner
    can always clear their blogs by a run of requests (C38).
  \<^item> The HTTP layer: each endpoint's request reaches its handler (C29); malformed
    bodies, preflights, unknown methods and paths get the layer's own answers (C39).
  \<^item> Authentication: the signup-login-gate round trip (C5), the same token sent as a
    \<open>Bearer\<close> header (C28), the cookie's flags (C17), expiry after seven days (C8),
    forged tokens (C19), and the middleware's second expiry test, which answers only for
    a token whose expiry falls between its two clock readings (C9).
  \<^item> What responses reveal: login failures are indistinguishable when a password is given
    (C6); no endpoint but \<open>PUT /user/update\<close> returns a password field at any
    depth (C30), while that one returns the hash (C11); the owner's blog update
    and delete (C37) and comment edit (C18).
  \<^item> Listings: every blog once, newest first (C12); exactly the comments of a blog,
    newest first (C16).
  \<^item> Behaviour the spec does not fix, or contradicts: signup's 500 on pattern mismatch
    (C23), unchecked password length (C24), comments on missing blogs (C25).
  \<^item> Startup and outage: when the database is unreachable the server still listens and
    answers every request, with an error status except for the preflight and logout
    (C26).  The lemmas \<open>server_stack_is_dispatch\<close> (the stack of \<open>src/server.js\<close>
    run as Express runs it is \<open>dispatch\<close>) and \<open>entry_points_start\<close>
    (\<open>src/index.js\<close> crashes at its \<open>require\<close> of the missing user router) tie
    the layers together.
  \<^item> The e-mail pattern as JavaScript runs it (the backtracking matcher and the model's
    matcher \<open>email_match\<close> accept exactly the pattern's language,
    \<open>regex_test_iff_language\<close>): an e-mail of \<open>n\<close> letters and \<open>!@gmail.com\<close>, which signup's
    \<open>endsWith\<close> test lets through to the validator, takes \<open>2 ^ n - 1\<close> backtracking
    steps (C27).
  \<^item> Interleaving: a comment delete between
    an edit's read and its save makes the edit answer 400 with Mongoose's
    \<open>DocumentNotFoundError\<close>, and between its save and read-back 200 with a
    \<open>null\<close> comment (C33); in every interleaving a
    blog or comment is safe from requests that do not act as its author (C22); a delete between an
    update's read and write makes the update answer 200 with a \<open>null\<close> blog (C32); two
    overlapping updates lose the first (C35); two overlapping signups with one address
    store one user but answer the second with 500 from the unique index instead of 400
    (C34); two overlapping profile updates of different fields both take effect, since
    \<open>save()\<close> writes only modified paths (C20).

  The definitions \<open>demo_env\<close>, \<open>demo_user\<close>, \<open>demo_blog\<close>,
  \<open>demo_comment\<close>, \<open>demo_db\<close> and the claims and requests of the users
  \<open>alice\<close> (id 1, author of the demo blog and comment) and \<open>bob\<close> (id 5)
  are a concrete state on which each conditional property is instantiated.
\<close>

definition demo_env :: env where
  "demo_env = \<lparr>now = 1000, check_delay = 0, jwt_secret = ''s3cr3t'', salt = 7, production = True\<rparr>"

definition demo_blog :: blog where
  "demo_blog = \<lparr>title = ''Hello'', description = ''First post'', category = ''Food'',
                blog_image = ''img.png'', author = 1, blog_createdAt = 0\<rparr>"

definition demo_comment :: comment where
  "demo_comment = \<lparr>content = ''Nice'', comment_blog = 0, comment_user = 1,
                   comment_createdAt = 0, comment_updatedAt = 0\<rparr>"

definition demo_user :: user where
  "demo_user = new_user (Some ''alice'') ''Alice@gmail.com'' (bcrypt_hash ''secret1'' 7) None 0"

definition demo_db :: db where
  "demo_db = \<lparr>users = [(1, demo_user)], blogs = [(0, demo_blog)], comments = [(2, demo_comment)], next_id = 3\<rparr>"

definition bob_claims :: claims where
  "bob_claims = \<lparr>claim_id = oid_str 5, claim_email = ''bob@gmail.com'', claim_username = ''bob'',
                 claim_iat = 1, claim_exp = 604801\<rparr>"

definition bob_req :: auth_req where
  "bob_req = \<lparr>cookie_token = Some (jwt_encode ''s3cr3t'' bob_claims), authorization = None\<rparr>"

definition alice_claims :: claims where
  "alice_claims = \<lparr>claim_id = oid_str 1, claim_email = ''alice@gmail.com'', claim_username = ''alice'',
                   claim_iat = 0, claim_exp = 604800\<rparr>"

definition blank_profile :: profile_update where
  "blank_profile = \<lparr>pu_firstName = None, pu_lastName = None, pu_age = None, pu_gender = None,
     pu_phone = None, pu_country = None, pu_city = None, pu_address = None, pu_qualification = None\<rparr>"

definition alice_req :: auth_req where
  "alice_req = \<lparr>cookie_token = Some (jwt_encode ''s3cr3t'' alice_claims), authorization = None\<rparr>"

lemma bob_gate: "authMiddleware demo_env bob_req = Next bob_claims"
  by (rule authMiddleware_signed)
     (simp_all add: bob_req_def extract_token_def jwt_encode_not_Nil demo_env_def bob_claims_def)

lemma alice_gate: "authMiddleware demo_env alice_req = Next alice_claims"
  by (rule authMiddleware_signed)
     (simp_all add: alice_req_def extract_token_def jwt_encode_not_Nil demo_env_def alice_claims_def)

lemma demo_user_valid: "user_doc_ok demo_user"
  by (simp add: user_doc_ok_def demo_user_def user_valid_def user_checks_def new_user_def failed_paths_def
      email_match_def ends_with_def hash_string_length_def js_trim_def is_js_space_def to_lower_case_def
      js_lower_char_def is_word_char_def is_email_sep_def char_of_eq_iff)

lemma demo_db_wf: "db_wf demo_db"
  using demo_user_valid
  by (simp add: db_wf_def coll_wf_def demo_db_def demo_blog_def demo_comment_def blog_valid_def
                blog_checks_def failed_paths_def validCategories_def comment_doc_ok_def
                comment_valid_def comment_checks_def js_trim_def is_js_space_def)

lemma bob_not_author: "\<not> acts_as demo_env bob_req (oid_str 1)"
  by (simp add: acts_as_def bob_gate bob_claims_def)

subsection \<open>Ownership\<close>

text \<open>
  C1.  No request changes or removes a blog unless it is authenticated as the blog's
  author: for every endpoint and every body (the handlers read no owner field from the
  body), a blog whose author is not the identity of the verified token keeps its id and
  its contents.
\<close>

theorem serve_keeps_foreign_blog:
  assumes "db_wf d" and "map_of (blogs d) j = Some b" and "\<not> acts_as e r (oid_str (author b))"
  shows "map_of (blogs (snd (serve e rt r d))) j = Some b"
  using assms by (rule serve_blog_foreign)

theorem serve_keeps_foreign_blog_witness:
  "db_wf demo_db \<and> map_of (blogs demo_db) 0 = Some demo_blog \<and>
   \<not> acts_as demo_env bob_req (oid_str (author demo_blog)) \<and>
   map_of (blogs (snd (serve demo_env (DeleteBlog (oid_str 0)) bob_req demo_db))) 0 = Some demo_blog"
proof -
  have j: "map_of (blogs demo_db) 0 = Some demo_blog" by (simp add: demo_db_def)
  have who: "\<not> acts_as demo_env bob_req (oid_str (author demo_blog))"
    using bob_not_author by (simp add: demo_blog_def)
  show ?thesis
    using demo_db_wf j who serve_keeps_foreign_blog [OF demo_db_wf j who, of "DeleteBlog (oid_str 0)"] by simp
qed

text \<open>
  C2.  Likewise no request changes or removes a comment unless it is authenticated as the
  comment's author.
\<close>

theorem serve_keeps_foreign_comment:
  assumes "db_wf d" and "map_of (comments d) j = Some cm"
    and "\<not> acts_as e r (oid_str (comment_user cm))"
  shows "map_of (comments (snd (serve e rt r d))) j = Some cm"
  using assms by (rule serve_comment_foreign)

theorem serve_keeps_foreign_comment_witness:
  "db_wf demo_db \<and> map_of (comments demo_db) 2 = Some demo_comment \<and>
   \<not> acts_as demo_env bob_req (oid_str (comment_user demo_comment)) \<and>
   map_of (comments (snd (serve demo_env (DeleteComment (oid_str 2)) bob_req demo_db))) 2 = Some demo_comment"
proof -
  have j: "map_of (comments demo_db) 2 = Some demo_comment" by (simp add: demo_db_def)
  have who: "\<not> acts_as demo_env bob_req (oid_str (comment_user demo_comment))"
    using bob_not_author by (simp add: demo_comment_def)
  show ?thesis
    using demo_db_wf j who serve_keeps_foreign_comment [OF demo_db_wf j who, of "DeleteComment (oid_str 2)"] by simp
qed

subsection \<open>Existence before ownership\<close>

text \<open>
  C3.  An authenticated \<open>DELETE\<close> or \<open>PUT\<close> of a blog or a comment whose id names no
  document is answered 404 (\<open>Blog not found\<close>, \<open>Comment not found\<close>), never 403,
  and changes nothing.
\<close>

theorem serve_missing_id_404:
  assumes "authMiddleware e r = Next c" and "cast_oid bid = Some i" and "map_of (blogs d) i = None"
    and "cast_oid cid = Some j" and "map_of (comments d) j = None" and "\<not> content_missing tx"
  shows "serve e (DeleteBlog bid) r d = (msg_resp 404 ''Blog not found'', d) \<and>
         serve e (UpdateBlog bid t ds im cat) r d = (msg_resp 404 ''Blog not found'', d) \<and>
         serve e (DeleteComment cid) r d = (msg_resp 404 ''Comment not found'', d) \<and>
         serve e (UpdateComment cid tx) r d = (msg_resp 404 ''Comment not found'', d)"
  using assms
  by (simp add: with_auth_Next delete_blog_missing update_blog_missing blog_not_found_def
                delete_comment_missing update_comment_missing comment_not_found_def)

theorem serve_missing_id_404_witness:
  "authMiddleware demo_env bob_req = Next bob_claims \<and> cast_oid (oid_str 9) = Some 9 \<and>
   map_of (blogs demo_db) 9 = None \<and> map_of (comments demo_db) 9 = None \<and>
   \<not> content_missing (Some ''x'') \<and>
   serve demo_env (DeleteBlog (oid_str 9)) bob_req demo_db = (msg_resp 404 ''Blog not found'', demo_db) \<and>
   serve demo_env (UpdateBlog (oid_str 9) None None None None) bob_req demo_db =
     (msg_resp 404 ''Blog not found'', demo_db) \<and>
   serve demo_env (DeleteComment (oid_str 9)) bob_req demo_db = (msg_resp 404 ''Comment not found'', demo_db) \<and>
   serve demo_env (UpdateComment (oid_str 9) (Some ''x'')) bob_req demo_db =
     (msg_resp 404 ''Comment not found'', demo_db)"
proof -
  have n: "map_of (blogs demo_db) 9 = None" by (simp add: demo_db_def)
  have m: "map_of (comments demo_db) 9 = None" by (simp add: demo_db_def)
  have t: "\<not> content_missing (Some ''x'')" by (simp add: content_missing_def js_trim_def is_js_space_def)
  show ?thesis
    using serve_missing_id_404 [OF bob_gate cast_oid_str n cast_oid_str m t] bob_gate n m t by simp
qed

subsection \<open>Invariants\<close>

text \<open>
  C4.  Every database that a sequence of requests produces from the empty one holds no
  two users with the same e-mail, only lower-case e-mails matching the schema's pattern,
  only blogs with a category of the schema's list, only non-empty trimmed comments, and
  no two documents of a collection with the same id.
\<close>

theorem reachable_invariant:
  assumes "reachable d"
  shows "distinct (map (email \<circ> snd) (users d)) \<and>
         list_all (\<lambda>(i, u). email_match (email u) \<and> to_lower_case (email u) = email u) (users d) \<and>
         list_all (\<lambda>(i, b). category b \<in> set validCategories \<and> i < next_id d) (blogs d) \<and>
         list_all (\<lambda>(i, c). content c \<noteq> [] \<and> js_trim (content c) = content c) (comments d) \<and>
         distinct (map fst (users d)) \<and> distinct (map fst (blogs d)) \<and> distinct (map fst (comments d))"
proof -
  have wf: "db_wf d" using assms by (rule reachable_wf)
  show ?thesis
    using wf unfolding db_wf_def coll_wf_def
    by (auto simp: list_all_iff user_doc_ok_def user_valid_def user_checks_def blog_valid_def
          blog_checks_def comment_doc_ok_def comment_valid_def comment_checks_def failed_paths_Nil_iff)
qed

theorem reachable_invariant_witness:
  "reachable (snd (serve demo_env (Signup (Some ''alice'') (Some ''Alice@gmail.com'') (Some ''secret1'') None) bob_req empty_db)) \<and>
   (let d = snd (serve demo_env (Signup (Some ''alice'') (Some ''Alice@gmail.com'') (Some ''secret1'') None) bob_req empty_db) in
    distinct (map (email \<circ> snd) (users d)) \<and>
    list_all (\<lambda>(i, u). email_match (email u) \<and> to_lower_case (email u) = email u) (users d) \<and>
    list_all (\<lambda>(i, b). category b \<in> set validCategories \<and> i < next_id d) (blogs d) \<and>
    list_all (\<lambda>(i, c). content c \<noteq> [] \<and> js_trim (content c) = content c) (comments d) \<and>
    distinct (map fst (users d)) \<and> distinct (map fst (blogs d)) \<and> distinct (map fst (comments d)))"
proof -
  have r: "reachable (snd (serve demo_env (Signup (Some ''alice'') (Some ''Alice@gmail.com'') (Some ''secret1'') None) bob_req empty_db))"
    by (rule reachable.step [OF reachable.start])
  show ?thesis unfolding Let_def using reachable_invariant [OF r] r by blast
qed

text \<open>
  C40.  Bounds on every reachable database: each stored user's username has 3 to 30
  characters, an age is between 1 and 120, first and last names have at most 50 characters,
  an address at most 200 and a qualification at most 100; every id of every collection is
  below the id counter.
\<close>

theorem reachable_field_bounds:
  assumes "reachable d"
  shows "list_all (\<lambda>(i, u). i < next_id d \<and> 3 \<le> length (username u) \<and> length (username u) \<le> 30 \<and>
            (\<forall>a. age u = Some a \<longrightarrow> 1 \<le> a \<and> a \<le> 120) \<and>
            (\<forall>s. firstName u = Some s \<longrightarrow> length s \<le> 50) \<and> (\<forall>s. lastName u = Some s \<longrightarrow> length s \<le> 50) \<and>
            (\<forall>s. address u = Some s \<longrightarrow> length s \<le> 200) \<and>
            (\<forall>s. qualification u = Some s \<longrightarrow> length s \<le> 100)) (users d) \<and>
         list_all (\<lambda>(i, b). i < next_id d) (blogs d) \<and> list_all (\<lambda>(i, c). i < next_id d) (comments d)"
proof -
  have wf: "db_wf d" using assms by (rule reachable_wf)
  have om: "opt_maxlength n x \<Longrightarrow> x = Some s \<Longrightarrow> length s \<le> n" for n x s by (cases x) auto
  show ?thesis
    using wf unfolding db_wf_def coll_wf_def
    by (auto simp: list_all_iff user_doc_ok_def user_valid_def user_checks_def failed_paths_Nil_iff
             dest: om)
qed

theorem reachable_field_bounds_witness:
  "reachable (snd (serve demo_env (Signup (Some ''alice'') (Some ''Alice@gmail.com'') (Some ''secret1'') None) bob_req empty_db)) \<and>
   list_all (\<lambda>(i, u). i < next_id (snd (serve demo_env (Signup (Some ''alice'') (Some ''Alice@gmail.com'') (Some ''secret1'') None) bob_req empty_db)) \<and>
                      3 \<le> length (username u) \<and> length (username u) \<le> 30)
     (users (snd (serve demo_env (Signup (Some ''alice'') (Some ''Alice@gmail.com'') (Some ''secret1'') None) bob_req empty_db)))"
proof -
  have r: "reachable (snd (serve demo_env (Signup (Some ''alice'') (Some ''Alice@gmail.com'') (Some ''secret1'') None) bob_req empty_db))"
    by (rule reachable.step [OF reachable.start])
  show ?thesis using reachable_field_bounds [OF r] r by (auto simp: list_all_iff)
qed

subsection \<open>Signup, login and the gate\<close>

text \<open>
  C5.  After a successful signup, logging in with the same e-mail (in any letter case)
  and password answers 200 and sets a \<open>token\<close> cookie; as long as the gate's later
  clock reading (\<open>Date.now()\<close> of its own expiry test) is before the token's expiry,
  seven days after the login's second, the gate accepts that cookie, with the new user's
  id and lower-cased e-mail as claims.
\<close>

theorem signup_login_roundtrip:
  assumes created: "status (fst (signup e un (Some em) (Some pw) img d)) = 201"
    and secret: "jwt_secret e3 = jwt_secret e2"
    and live: "now e3 + check_delay e3 < (now e2 div 1000 + token_lifetime) * 1000"
  shows "\<exists>tok c. login e2 (Some em) (Some pw) (snd (signup e un (Some em) (Some pw) img d)) =
                 (\<lparr>status = 200, body = login_body (next_id d)
                    (new_user un (to_lower_case em) (bcrypt_hash pw (salt e)) img (now e)) tok,
                   cookie = SetCookie ''token'' tok (login_cookie_options e2)\<rparr>,
                  snd (signup e un (Some em) (Some pw) img d)) \<and>
               authMiddleware e3 \<lparr>cookie_token = Some tok, authorization = None\<rparr> = Next c \<and>
               claim_id c = oid_str (next_id d) \<and> claim_email c = to_lower_case em"
proof -
  define u where "u = new_user un (to_lower_case em) (bcrypt_hash pw (salt e)) img (now e)"
  define d' where "d' = snd (signup e un (Some em) (Some pw) img d)"
  from signup_201 [OF created] have
    none: "find_one (\<lambda>u. email u = to_lower_case em) (users d) = None" and
    d': "d' = d\<lparr>users := users d @ [(next_id d, u)], next_id := Suc (next_id d)\<rparr>"
    by (auto simp: u_def d'_def)
  have "find_one (\<lambda>u. email u = to_lower_case em) (users d') = Some (next_id d, u)"
    using find_one_snoc [OF none] by (simp add: d' u_def)
  then have found: "find_one (\<lambda>u. Some (email u) = map_option to_lower_case (Some em)) (users d') = Some (next_id d, u)"
    by simp
  have match: "bcrypt_compare pw (password u)" by (simp add: u_def new_user_def)
  define c where "c = \<lparr>claim_id = oid_str (next_id d), claim_email = email u, claim_username = username u,
                       claim_iat = now e2 div 1000, claim_exp = now e2 div 1000 + token_lifetime\<rparr>"
  define tok where "tok = jwt_sign (jwt_secret e2) (oid_str (next_id d)) (email u) (username u) (now e2)"
  have "tok = jwt_encode (jwt_secret e3) c" by (simp add: tok_def jwt_sign_def c_def secret)
  then have "authMiddleware e3 \<lparr>cookie_token = Some tok, authorization = None\<rparr> = Next c"
    using live by (intro authMiddleware_signed) (simp_all add: extract_token_def jwt_encode_not_Nil c_def)
  moreover have "login e2 (Some em) (Some pw) d' =
                 (\<lparr>status = 200, body = login_body (next_id d) u tok,
                   cookie = SetCookie ''token'' tok (login_cookie_options e2)\<rparr>, d')"
    using login_success [OF found match] by (simp add: tok_def Let_def)
  ultimately show ?thesis
    by (auto simp: u_def d'_def c_def)
qed

theorem signup_login_roundtrip_witness:
  "status (fst (signup demo_env (Some ''alice'') (Some ''Alice@Gmail.com'') (Some ''secret1'') None empty_db)) = 201 \<and>
   jwt_secret (demo_env\<lparr>now := 86400000\<rparr>) = jwt_secret demo_env \<and>
   now (demo_env\<lparr>now := 86400000\<rparr>) + check_delay (demo_env\<lparr>now := 86400000\<rparr>) <
     (now demo_env div 1000 + token_lifetime) * 1000 \<and>
   (\<exists>tok c. login demo_env (Some ''Alice@Gmail.com'') (Some ''secret1'')
               (snd (signup demo_env (Some ''alice'') (Some ''Alice@Gmail.com'') (Some ''secret1'') None empty_db)) =
             (\<lparr>status = 200, body = login_body (next_id empty_db)
                 (new_user (Some ''alice'') (to_lower_case ''Alice@Gmail.com'') (bcrypt_hash ''secret1'' (salt demo_env)) None (now demo_env)) tok,
               cookie = SetCookie ''token'' tok (login_cookie_options demo_env)\<rparr>,
              snd (signup demo_env (Some ''alice'') (Some ''Alice@Gmail.com'') (Some ''secret1'') None empty_db)) \<and>
           authMiddleware (demo_env\<lparr>now := 86400000\<rparr>) \<lparr>cookie_token = Some tok, authorization = None\<rparr> = Next c \<and>
           claim_id c = oid_str (next_id empty_db) \<and> claim_email c = to_lower_case ''Alice@Gmail.com'')"
proof -
  have ok: "status (fst (signup demo_env (Some ''alice'') (Some ''Alice@Gmail.com'') (Some ''secret1'') None empty_db)) = 201"
    by (simp add: signup_def demo_env_def empty_db_def find_one_def save_new_user_def insert_doc_def
        user_valid_def user_checks_def new_user_def failed_paths_def email_match_def ends_with_def
        hash_string_length_def js_trim_def is_js_space_def to_lower_case_def js_lower_char_def
        is_word_char_def is_email_sep_def json_resp_def Let_def char_of_eq_iff)
  have t: "now (demo_env\<lparr>now := 86400000\<rparr>) + check_delay (demo_env\<lparr>now := 86400000\<rparr>) <
           (now demo_env div 1000 + token_lifetime) * 1000"
    by (simp add: demo_env_def token_lifetime_def)
  show ?thesis using signup_login_roundtrip [OF ok _ t] ok t by simp
qed

text \<open>
  C6.  Every failed login with a password given, whether the e-mail is unknown or the
  password wrong, is the same answer 400 \<open>Invalid credentials\<close> and changes nothing.
\<close>

theorem login_failure_generic:
  "status (fst (login e em (Some p) d)) \<noteq> 200 \<Longrightarrow>
   login e em (Some p) d = (msg_resp 400 ''Invalid credentials'', d)"
  by (auto simp: login_def Let_def split: option.splits if_splits)

theorem login_failure_generic_witness:
  "status (fst (login demo_env (Some ''bob@gmail.com'') (Some ''pw'') demo_db)) \<noteq> 200 \<and>
   login demo_env (Some ''bob@gmail.com'') (Some ''pw'') demo_db = (msg_resp 400 ''Invalid credentials'', demo_db) \<and>
   status (fst (login demo_env (Some ''alice@gmail.com'') (Some ''wrong'') demo_db)) \<noteq> 200 \<and>
   login demo_env (Some ''alice@gmail.com'') (Some ''wrong'') demo_db = (msg_resp 400 ''Invalid credentials'', demo_db)"
proof -
  have a: "status (fst (login demo_env (Some ''bob@gmail.com'') (Some ''pw'') demo_db)) \<noteq> 200"
    by (simp add: login_def find_one_def demo_db_def demo_user_def new_user_def to_lower_case_def
                  js_lower_char_def char_of_eq_iff)
  have b: "status (fst (login demo_env (Some ''alice@gmail.com'') (Some ''wrong'') demo_db)) \<noteq> 200"
    by (simp add: login_def find_one_def demo_db_def demo_user_def new_user_def to_lower_case_def
                  js_lower_char_def char_of_eq_iff bcrypt_compare_def bcrypt_hash_def)
  show ?thesis using login_failure_generic [OF a] login_failure_generic [OF b] a b by simp
qed

text \<open>
  C7.  A category outside the schema's list is answered 400 \<open>Invalid category selected\<close>
  and stores nothing: on an authenticated creation with a title and a description, and on
  the owner's update.
\<close>

theorem serve_invalid_category:
  assumes "authMiddleware e r = Next c" and "js_truthy t" and "js_truthy ds"
    and "js_truthy cat" and "\<not> js_includes validCategories cat"
    and "cast_oid bid = Some i" and "map_of (blogs d) i = Some b" and "oid_str (author b) = claim_id c"
  shows "serve e (CreateBlog t ds im cat) r d = (msg_resp 400 ''Invalid category selected'', d) \<and>
         serve e (UpdateBlog bid t' ds' im' cat) r d = (msg_resp 400 ''Invalid category selected'', d)"
  using assms by (simp add: with_auth_Next create_blog_def update_blog_def find_by_id_def)

theorem serve_invalid_category_witness:
  "authMiddleware demo_env alice_req = Next alice_claims \<and> js_truthy (Some ''T'') \<and> js_truthy (Some ''D'') \<and>
   js_truthy (Some ''Music'') \<and> \<not> js_includes validCategories (Some ''Music'') \<and>
   cast_oid (oid_str 0) = Some 0 \<and> map_of (blogs demo_db) 0 = Some demo_blog \<and>
   oid_str (author demo_blog) = claim_id alice_claims \<and>
   serve demo_env (CreateBlog (Some ''T'') (Some ''D'') None (Some ''Music'')) alice_req demo_db =
     (msg_resp 400 ''Invalid category selected'', demo_db) \<and>
   serve demo_env (UpdateBlog (oid_str 0) None None None (Some ''Music'')) alice_req demo_db =
     (msg_resp 400 ''Invalid category selected'', demo_db)"
proof -
  have v: "\<not> js_includes validCategories (Some ''Music'')" by (simp add: validCategories_def)
  have m: "map_of (blogs demo_db) 0 = Some demo_blog" by (simp add: demo_db_def)
  have o: "oid_str (author demo_blog) = claim_id alice_claims" by (simp add: demo_blog_def alice_claims_def)
  have t: "js_truthy (Some ''T'')" and ds: "js_truthy (Some ''D'')" and c: "js_truthy (Some ''Music'')"
    by simp_all
  show ?thesis
    using serve_invalid_category [OF alice_gate t ds c v cast_oid_str m o, of None None None None]
          alice_gate v m o by simp
qed

text \<open>
  C8.  A token issued by login is refused with 401 \<open>Session expired\<close> from seven
  days after its issue on, whatever else the request carries.
\<close>

theorem login_token_expires:
  assumes issued: "cookie (fst (login e em pw d)) = SetCookie n tok opts"
    and secret: "jwt_secret e' = jwt_secret e"
    and late: "now e div 1000 + token_lifetime \<le> now e' div 1000"
  shows "authMiddleware e' \<lparr>cookie_token = Some tok, authorization = h\<rparr> =
           Deny (msg_resp 401 ''Session expired. Please login again.'')"
proof -
  obtain uid em' un where tok: "tok = jwt_sign (jwt_secret e) uid em' un (now e)"
    using login_cookie_token [OF issued] by blast
  define c where "c = \<lparr>claim_id = uid, claim_email = em', claim_username = un,
                       claim_iat = now e div 1000, claim_exp = now e div 1000 + token_lifetime\<rparr>"
  have "extract_token \<lparr>cookie_token = Some tok, authorization = h\<rparr> = Some (jwt_encode (jwt_secret e') c)"
    by (simp add: tok extract_token_def jwt_encode_not_Nil jwt_sign_def secret c_def)
  moreover have "claim_exp c \<le> now e' div 1000" using late by (simp add: c_def)
  ultimately show ?thesis by (rule authMiddleware_expired)
qed

theorem login_token_expires_witness:
  "cookie (fst (login demo_env (Some ''alice@gmail.com'') (Some ''secret1'') demo_db)) =
     SetCookie ''token'' (jwt_sign ''s3cr3t'' (oid_str 1) (email demo_user) (username demo_user) 1000)
       (login_cookie_options demo_env) \<and>
   jwt_secret (demo_env\<lparr>now := 604801000\<rparr>) = jwt_secret demo_env \<and>
   now demo_env div 1000 + token_lifetime \<le> now (demo_env\<lparr>now := 604801000\<rparr>) div 1000 \<and>
   authMiddleware (demo_env\<lparr>now := 604801000\<rparr>)
     \<lparr>cookie_token = Some (jwt_sign ''s3cr3t'' (oid_str 1) (email demo_user) (username demo_user) 1000), authorization = None\<rparr> =
     Deny (msg_resp 401 ''Session expired. Please login again.'')"
proof -
  have i: "cookie (fst (login demo_env (Some ''alice@gmail.com'') (Some ''secret1'') demo_db)) =
     SetCookie ''token'' (jwt_sign ''s3cr3t'' (oid_str 1) (email demo_user) (username demo_user) 1000)
       (login_cookie_options demo_env)"
    by (simp add: login_def find_one_def demo_db_def demo_user_def new_user_def to_lower_case_def
                  js_lower_char_def char_of_eq_iff js_trim_def is_js_space_def demo_env_def Let_def)
  have l: "now demo_env div 1000 + token_lifetime \<le> now (demo_env\<lparr>now := 604801000\<rparr>) div 1000"
    by (simp add: demo_env_def token_lifetime_def)
  show ?thesis using login_token_expires [OF i _ l] i l by simp
qed

subsection \<open>What responses reveal\<close>

text \<open>
  C11.  A successful \<open>PUT /api/user/update\<close> answers with the stored user's password
  hash under \<open>user.password\<close>: the handler returns the whole document, without the
  \<open>select("-password")\<close> of the other user routes.
\<close>

theorem update_user_exposes_hash:
  assumes "status (fst (update_user e c b d)) = 200"
  shows "\<exists>i u. map_of (users d) i = Some u \<and>
           Option.bind (json_get (body (fst (update_user e c b d))) ''user'') (\<lambda>j. json_get j ''password'') =
             Some (JStr (hash_string (password u)))"
proof -
  from assms obtain i u u' d' where i: "cast_oid (claim_id c) = Some i" and u: "map_of (users d) i = Some u"
    and s: "save_user i (apply_profile b u) (now e) d = Inr (u', d')"
    by (auto simp: update_user_def find_by_id_def split: option.splits sum.splits)
  from s have "password u' = password u"
    by (auto simp: save_user_def Let_def apply_profile_def split: if_splits)
  with i u s show ?thesis
    by (auto simp: update_user_def find_by_id_def user_json_def user_fields_def json_resp_def)
qed

theorem update_user_exposes_hash_witness:
  "status (fst (update_user demo_env alice_claims blank_profile demo_db)) = 200 \<and>
   (\<exists>i u. map_of (users demo_db) i = Some u \<and>
      Option.bind (json_get (body (fst (update_user demo_env alice_claims blank_profile demo_db))) ''user'')
        (\<lambda>j. json_get j ''password'') = Some (JStr (hash_string (password u))))"
proof -
  have s: "status (fst (update_user demo_env alice_claims blank_profile demo_db)) = 200"
    using demo_user_valid
    by (simp add: update_user_def alice_claims_def demo_db_def find_by_id_def save_user_def
                  blank_profile_def apply_profile_def assign_if_def user_doc_ok_def user_valid_def Let_def)
  show ?thesis using update_user_exposes_hash [OF s] s by simp
qed

text \<open>
  A login request without a password is answered 400 \<open>Invalid credentials\<close>
  when the e-mail is unknown but 500 \<open>Server error\<close> when it is registered (the
  \<open>bcrypt.compare\<close> of \<open>undefined\<close> throws), so the answer reveals which e-mails
  have accounts.
\<close>

theorem login_absent_password:
  "login e em None d =
     (if find_one (\<lambda>u. Some (email u) = map_option to_lower_case em) (users d) = None
      then msg_resp 400 ''Invalid credentials'' else msg_resp 500 ''Server error'', d)"
  by (simp add: login_def split: option.splits)

subsection \<open>Blog authorship\<close>

text \<open>
  C13.  No request changes the author of a stored blog: whatever any endpoint does, a blog
  still stored under its id afterwards has the author it had before.
\<close>

theorem serve_author_immutable:
  assumes wf: "db_wf d" and j: "map_of (blogs d) j = Some b"
    and j': "map_of (blogs (snd (serve e rt r d))) j = Some b'"
  shows "author b' = author b"
proof -
  have keep: "author b' = author b" if "map_of (blogs d') j = Some b'" and "blogs d' = blogs d" for d'
    using that j by simp
  have upd: "author b' = author b"
    if "map_of (blogs (snd (update_blog c bid t ds im cat d))) j = Some b'" for c bid t ds im cat
    using update_blog_effect [of c bid t ds im cat d] that j
    by (auto simp: map_of_replace_doc split: if_splits)
  have del: "author b' = author b" if "map_of (blogs (snd (delete_blog c bid d))) j = Some b'" for c bid
    using delete_blog_effect [of c bid d] that j map_of_delete_doc [OF keys_distinct_blogs [OF wf]]
    by (auto split: if_splits)
  have cre: "author b' = author b" if "map_of (blogs (snd (create_blog e c t ds im cat d))) j = Some b'" for c t ds im cat
    using create_blog_keeps [OF j, of e c t ds im cat] that by simp
  have gate: "author b' = author b"
    if "map_of (blogs (snd (with_auth e r d h))) j = Some b'"
      and "\<And>c. map_of (blogs (snd (h c))) j = Some b' \<Longrightarrow> author b' = author b" for h
    using that j by (auto simp: with_auth_def split: gate.splits)
  show ?thesis
  proof (cases rt)
    case (CreateBlog t ds im cat)
    then show ?thesis using j' by (auto elim!: gate intro: cre)
  next
    case (DeleteBlog bid)
    then show ?thesis using j' by (auto elim!: gate intro: del)
  next
    case (UpdateBlog bid t ds im cat)
    then show ?thesis using j' by (auto elim!: gate intro: upd)
  qed (use j' j in \<open>auto elim!: gate simp: frame_simps\<close>)
qed

theorem serve_author_immutable_witness:
  "db_wf demo_db \<and> map_of (blogs demo_db) 0 = Some demo_blog \<and>
   map_of (blogs (snd (serve demo_env ListBlogs bob_req demo_db))) 0 = Some demo_blog \<and>
   author demo_blog = author demo_blog"
proof -
  have j: "map_of (blogs demo_db) 0 = Some demo_blog" by (simp add: demo_db_def)
  have j': "map_of (blogs (snd (serve demo_env ListBlogs bob_req demo_db))) 0 = Some demo_blog"
    using j by (simp add: frame_simps)
  show ?thesis using serve_author_immutable [OF demo_db_wf j j'] demo_db_wf j j' by simp
qed

text \<open>
  C14.  A blog creation that changes the database appends exactly one blog under the next
  id, whose author is the id the verified token names, whose title, description and
  category are the request's and whose creation time is the clock: the request body
  carries no author field that could override it.
\<close>

theorem serve_create_blog_stamps_author:
  assumes "snd (serve e (CreateBlog t ds im cat) r d) \<noteq> d"
  shows "\<exists>c b. authMiddleware e r = Next c \<and>
           blogs (snd (serve e (CreateBlog t ds im cat) r d)) = blogs d @ [(next_id d, b)] \<and>
           cast_oid (claim_id c) = Some (author b) \<and>
           Some (title b) = t \<and> Some (description b) = ds \<and> Some (category b) = cat \<and>
           blog_createdAt b = now e"
  using assms
proof (cases "authMiddleware e r")
  case (Next c)
  have ch: "snd (create_blog e c t ds im cat d) \<noteq> d" using assms Next by (simp add: with_auth_Next)
  obtain uid where uid: "cast_oid (claim_id c) = Some uid"
    and bl: "blogs (snd (serve e (CreateBlog t ds im cat) r d)) = blogs d @ [(next_id d, new_blog t ds im cat uid (now e))]"
    using ch Next create_blog_effect [of e c t ds im cat d] by (auto simp: with_auth_Next)
  then show ?thesis using Next create_blog_fields [OF ch] by (auto simp: new_blog_def)
qed (simp add: with_auth_Deny)

theorem serve_create_blog_stamps_author_witness:
  "snd (serve demo_env (CreateBlog (Some ''T'') (Some ''D'') (Some ''i.png'') (Some ''Food'')) bob_req demo_db) \<noteq> demo_db \<and>
   (\<exists>c b. authMiddleware demo_env bob_req = Next c \<and>
      blogs (snd (serve demo_env (CreateBlog (Some ''T'') (Some ''D'') (Some ''i.png'') (Some ''Food'')) bob_req demo_db)) =
        blogs demo_db @ [(next_id demo_db, b)] \<and>
      cast_oid (claim_id c) = Some (author b) \<and>
      Some (title b) = Some ''T'' \<and> Some (description b) = Some ''D'' \<and> Some (category b) = Some ''Food'' \<and>
      blog_createdAt b = now demo_env)"
proof -
  have ch: "snd (serve demo_env (CreateBlog (Some ''T'') (Some ''D'') (Some ''i.png'') (Some ''Food'')) bob_req demo_db) \<noteq> demo_db"
    by (simp add: bob_gate with_auth_Next create_blog_def bob_claims_def save_new_blog_def demo_db_def
          blog_checks_def new_blog_def failed_paths_def validCategories_def Let_def insert_doc_def)
  show ?thesis using serve_create_blog_stamps_author [OF ch] ch by blast
qed

subsection \<open>Authentication and existence\<close>

text \<open>
  C15.  Every endpoint registered behind \<open>authMiddleware\<close> answers a request without a
  token with 401 \<open>Access denied. Please login to continue.\<close> and changes nothing.
\<close>

theorem serve_requires_token:
  assumes "requires_auth rt" and "\<not> js_truthy (extract_token r)"
  shows "serve e rt r d = (msg_resp 401 ''Access denied. Please login to continue.'', d)"
proof -
  have "authMiddleware e r = Deny (msg_resp 401 ''Access denied. Please login to continue.'')"
    using assms(2) by (simp add: authMiddleware_def auth_gate_no_token)
  then show ?thesis using assms(1) by (cases rt) (simp_all add: with_auth_Deny)
qed

theorem serve_requires_token_witness:
  "requires_auth (DeleteBlog (oid_str 0)) \<and>
   \<not> js_truthy (extract_token \<lparr>cookie_token = None, authorization = None\<rparr>) \<and>
   serve demo_env (DeleteBlog (oid_str 0)) \<lparr>cookie_token = None, authorization = None\<rparr> demo_db =
     (msg_resp 401 ''Access denied. Please login to continue.'', demo_db)"
proof -
  have a: "requires_auth (DeleteBlog (oid_str 0))" by simp
  have b: "\<not> js_truthy (extract_token \<lparr>cookie_token = None, authorization = None\<rparr>)"
    by (simp add: extract_token_def)
  show ?thesis using serve_requires_token [OF a b] a b by simp
qed

subsection \<open>Tokens\<close>

text \<open>
  A token issued by \<open>jwt.sign\<close> verifies under the same secret to exactly the
  claims it was issued with until seven days after its issue, and as expired from then on.
\<close>

theorem jwt_sign_roundtrip:
  "jwt_verify secret t (jwt_sign secret uid em un t0) =
     (if t div 1000 < t0 div 1000 + token_lifetime
      then Verified \<lparr>claim_id = uid, claim_email = em, claim_username = un,
                     claim_iat = t0 div 1000, claim_exp = t0 div 1000 + token_lifetime\<rparr>
      else TokenExpiredError)"
  by (simp add: jwt_sign_def jwt_verify_encode)

subsection \<open>Signup validation\<close>

text \<open>
  C23.  An e-mail that ends in \<open>@gmail.com\<close> but does not match the schema's pattern
  (such as \<open>a..b@gmail.com\<close>) passes the route's own check and fails only in
  \<open>save()\<close>, so signup answers 500 \<open>Internal Server Error\<close>, not a 400
  validation error.
\<close>

theorem signup_regex_mismatch_500:
  assumes "ends_with (to_lower_case em) ''@gmail.com''" and "\<not> email_match (to_lower_case em)"
    and "find_one (\<lambda>u. email u = to_lower_case em) (users d) = None"
  shows "signup e un (Some em) (Some p) img d = (msg_resp 500 ''Internal Server Error'', d)"
  using assms
  by (simp add: signup_def save_new_user_def user_checks_def new_user_def failed_paths_Nil_iff Let_def)

theorem signup_regex_mismatch_500_witness:
  "ends_with (to_lower_case ''a..b@gmail.com'') ''@gmail.com'' \<and> \<not> email_match (to_lower_case ''a..b@gmail.com'') \<and>
   find_one (\<lambda>u. email u = to_lower_case ''a..b@gmail.com'') (users empty_db) = None \<and>
   signup demo_env (Some ''ann'') (Some ''a..b@gmail.com'') (Some ''secret1'') None empty_db =
     (msg_resp 500 ''Internal Server Error'', empty_db)"
proof -
  have l: "to_lower_case ''a..b@gmail.com'' = ''a..b@gmail.com''"
    by (simp add: to_lower_case_def js_lower_char_def)
  have a: "ends_with (to_lower_case ''a..b@gmail.com'') ''@gmail.com''" by (simp add: l ends_with_def)
  have b: "\<not> email_match (to_lower_case ''a..b@gmail.com'')"
    by (simp add: l email_match_def ends_with_def is_word_char_def is_email_sep_def)
  have c: "find_one (\<lambda>u. email u = to_lower_case ''a..b@gmail.com'') (users empty_db) = None"
    by (simp add: empty_db_def find_one_def)
  show ?thesis using signup_regex_mismatch_500 [OF a b c] a b c by simp
qed

text \<open>
  C24.  Whether signup succeeds does not depend on the password: the schema's length limits
  (5 to 100) apply to the 60-character bcrypt hash, never to the password itself.
\<close>

theorem signup_password_length_unchecked:
  "status (fst (signup e un em (Some p) img d)) = status (fst (signup e un em (Some p') img d))"
  by (simp add: signup_def save_new_user_def user_checks_def new_user_def hash_string_length_def
                Let_def split: option.splits)

subsection \<open>Comments\<close>

text \<open>
  C25.  A comment may be created for a blog id that names no blog: the handler never looks
  the blog up, and the comment is stored with that dangling reference.
\<close>

theorem serve_comment_on_missing_blog:
  assumes wf: "db_wf d" and gate: "authMiddleware e r = Next c" and u: "cast_oid (claim_id c) = Some u"
    and "map_of (blogs d) b = None" and tx: "js_trim tx \<noteq> []"
  shows "status (fst (serve e (CreateComment (Some tx) (Some (oid_str b))) r d)) = 201 \<and>
         map_of (comments (snd (serve e (CreateComment (Some tx) (Some (oid_str b))) r d))) (next_id d) =
           Some (new_comment tx b u (now e))"
proof -
  have b: "oid_str b \<noteq> []" using nat_to_dec_props by (simp add: oid_str_def)
  have fresh: "map_of (comments d) (next_id d) = None" by (rule fresh_next_id(2) [OF wf])
  have ne: "tx \<noteq> []" using tx by (cases tx) (simp_all add: js_trim_def)
  have nm: "\<not> content_missing (Some tx)" using tx ne by (simp add: content_missing_def)
  show ?thesis
    using gate u b fresh nm tx ne
    by (simp add: with_auth_Next create_comment_def save_new_comment_def comment_checks_def
                  new_comment_def failed_paths_def Let_def map_of_insert_doc)
qed

theorem serve_comment_on_missing_blog_witness:
  "db_wf demo_db \<and> authMiddleware demo_env bob_req = Next bob_claims \<and> cast_oid (claim_id bob_claims) = Some 5 \<and>
   map_of (blogs demo_db) 7 = None \<and> js_trim ''hi'' \<noteq> [] \<and>
   status (fst (serve demo_env (CreateComment (Some ''hi'') (Some (oid_str 7))) bob_req demo_db)) = 201 \<and>
   map_of (comments (snd (serve demo_env (CreateComment (Some ''hi'') (Some (oid_str 7))) bob_req demo_db))) (next_id demo_db) =
     Some (new_comment ''hi'' 7 5 (now demo_env))"
proof -
  have u: "cast_oid (claim_id bob_claims) = Some 5" by (simp add: bob_claims_def)
  have m: "map_of (blogs demo_db) 7 = None" by (simp add: demo_db_def)
  have t: "js_trim ''hi'' \<noteq> []" by (simp add: js_trim_def is_js_space_def)
  show ?thesis using serve_comment_on_missing_blog [OF demo_db_wf bob_gate u m t] demo_db_wf bob_gate u m t by simp
qed

text \<open>
  C21.  An authenticated comment creation or edit whose content is absent or only white
  space is answered 400 \<open>Comment content is required\<close> and changes nothing.
\<close>

theorem serve_blank_comment:
  assumes "authMiddleware e r = Next c" and "content_missing tx"
  shows "serve e (CreateComment tx bid) r d = (msg_resp 400 ''Comment content is required'', d) \<and>
         serve e (UpdateComment cid tx) r d = (msg_resp 400 ''Comment content is required'', d)"
  using assms by (simp add: with_auth_Next create_comment_def update_comment_def comment_required_def)

theorem serve_blank_comment_witness:
  "authMiddleware demo_env bob_req = Next bob_claims \<and> content_missing (Some ''  '') \<and>
   serve demo_env (CreateComment (Some ''  '') (Some (oid_str 0))) bob_req demo_db =
     (msg_resp 400 ''Comment content is required'', demo_db) \<and>
   serve demo_env (UpdateComment (oid_str 2) (Some ''  '')) bob_req demo_db =
     (msg_resp 400 ''Comment content is required'', demo_db)"
proof -
  have m: "content_missing (Some ''  '')" by (simp add: content_missing_def js_trim_def is_js_space_def)
  show ?thesis using serve_blank_comment [OF bob_gate m] bob_gate m by simp
qed

subsection \<open>Listings\<close>


subsection \<open>Credentials\<close>

text \<open>
  C30.  Every endpoint but \<open>PUT /api/user/update\<close> keeps a \<open>password\<close> key out of
  its whole response, nested objects and arrays included: user documents reach a client
  only through \<open>select("-password")\<close> or a \<open>populate\<close> of named paths.
\<close>

theorem serve_hides_password:
  assumes "\<forall>b. rt \<noteq> UpdateUser b"
  shows "''password'' \<notin> set (json_all_keys (body (fst (serve e rt r d))))"
  using assms
  by (cases rt) (auto intro!: with_auth_no_pw simp: auth_routes_no_pw blog_routes_no_pw comment_routes_no_pw)

theorem serve_hides_password_witness:
  "(\<forall>b. ListBlogs \<noteq> UpdateUser b) \<and>
   ''password'' \<notin> set (json_all_keys (body (fst (serve demo_env ListBlogs bob_req demo_db))))"
  using serve_hides_password [of ListBlogs] by simp

text \<open>
  C31.  No request changes the e-mail, password hash, username or creation time of a
  stored user: the profile update assigns only the optional profile paths.
\<close>

theorem serve_keeps_credentials:
  assumes j: "map_of (users d) j = Some u"
    and j': "map_of (users (snd (serve e rt r d))) j = Some u'"
  shows "email u' = email u \<and> password u' = password u \<and> username u' = username u \<and> createdAt u' = createdAt u"
proof -
  have same: "u' = u" if "users d' = users d" "map_of (users d') j = Some u'" for d'
    using that j by simp
  have upd: "email u' = email u \<and> password u' = password u \<and> username u' = username u \<and> createdAt u' = createdAt u"
    if "map_of (users (snd (update_user e c b d))) j = Some u'" for c b
    using update_user_effect [of e c b d] that j
    by (auto simp: map_of_replace_doc split: if_splits)
  have sig: "u' = u" if "map_of (users (snd (signup e un em pw img d))) j = Some u'" for un em pw img
    using signup_users [of e un em pw img d] that j by (auto simp: map_add_find_right)
  have gate: "email u' = email u \<and> password u' = password u \<and> username u' = username u \<and> createdAt u' = createdAt u"
    if "map_of (users (snd (with_auth e r d h))) j = Some u'"
      and "\<And>c. map_of (users (snd (h c))) j = Some u' \<Longrightarrow>
             email u' = email u \<and> password u' = password u \<and> username u' = username u \<and> createdAt u' = createdAt u" for h
    using that j by (auto simp: with_auth_def split: gate.splits)
  show ?thesis
  proof (cases rt)
    case (Signup un em pw img)
    then show ?thesis using j' sig by auto
  next
    case (UpdateUser b)
    then show ?thesis using j' by (auto elim!: gate dest: upd)
  qed (use j' j in \<open>auto elim!: gate simp: frame_simps users_frame\<close>)
qed

theorem serve_keeps_credentials_witness:
  "map_of (users demo_db) 1 = Some demo_user \<and>
   map_of (users (snd (serve demo_env (UpdateUser blank_profile) alice_req demo_db))) 1 =
     Some (demo_user\<lparr>updatedAt := now demo_env\<rparr>) \<and>
   email (demo_user\<lparr>updatedAt := now demo_env\<rparr>) = email demo_user \<and>
   password (demo_user\<lparr>updatedAt := now demo_env\<rparr>) = password demo_user \<and>
   username (demo_user\<lparr>updatedAt := now demo_env\<rparr>) = username demo_user \<and>
   createdAt (demo_user\<lparr>updatedAt := now demo_env\<rparr>) = createdAt demo_user"
proof -
  have j: "map_of (users demo_db) 1 = Some demo_user" by (simp add: demo_db_def)
  have j': "map_of (users (snd (serve demo_env (UpdateUser blank_profile) alice_req demo_db))) 1 =
     Some (demo_user\<lparr>updatedAt := now demo_env\<rparr>)"
    using demo_user_valid
    by (simp add: alice_gate with_auth_Next update_user_def alice_claims_def demo_db_def find_by_id_def
          save_user_def blank_profile_def apply_profile_def assign_if_def user_doc_ok_def user_valid_def
          Let_def replace_doc_def)
  show ?thesis using serve_keeps_credentials [OF j j'] j j' by simp
qed

text \<open>
  C17.  A successful login sets the \<open>token\<close> cookie with \<open>httpOnly\<close>,
  \<open>sameSite=strict\<close>, a seven-day \<open>maxAge\<close> and \<open>secure\<close> exactly in production,
  and returns the same token in the JSON body.
\<close>

theorem login_sets_token_cookie:
  assumes "status (fst (login e em pw d)) = 200"
  shows "\<exists>tok. cookie (fst (login e em pw d)) =
           SetCookie ''token'' tok \<lparr>httpOnly = True, secure = production e, sameSite = ''strict'',
                                    maxAge = 7 * 24 * 60 * 60 * 1000\<rparr> \<and>
         json_get (body (fst (login e em pw d))) ''token'' = Some (JStr tok)"
  using assms
  by (auto simp: login_def login_body_def login_cookie_options_def Let_def split: option.splits if_splits)

theorem login_sets_token_cookie_witness:
  "status (fst (login demo_env (Some ''alice@gmail.com'') (Some ''secret1'') demo_db)) = 200 \<and>
   (\<exists>tok. cookie (fst (login demo_env (Some ''alice@gmail.com'') (Some ''secret1'') demo_db)) =
           SetCookie ''token'' tok \<lparr>httpOnly = True, secure = production demo_env, sameSite = ''strict'',
                                    maxAge = 7 * 24 * 60 * 60 * 1000\<rparr> \<and>
         json_get (body (fst (login demo_env (Some ''alice@gmail.com'') (Some ''secret1'') demo_db))) ''token'' =
           Some (JStr tok))"
proof -
  have s: "status (fst (login demo_env (Some ''alice@gmail.com'') (Some ''secret1'') demo_db)) = 200"
    by (simp add: login_def find_one_def demo_db_def demo_user_def new_user_def to_lower_case_def
                  js_lower_char_def char_of_eq_iff Let_def)
  show ?thesis using login_sets_token_cookie [OF s] s by simp
qed

subsection \<open>Owners' mutations\<close>

text \<open>
  C18.  The owner's edit of a comment with non-blank content answers 200 and replaces exactly
  that comment's content by its trimmed form, stamping \<open>updatedAt\<close> with the clock.
\<close>

theorem serve_update_comment_owner:
  assumes "authMiddleware e r = Next c" and "cast_oid cid = Some i" and "map_of (comments d) i = Some cm"
    and "oid_str (comment_user cm) = claim_id c" and "\<not> content_missing tx"
  shows "status (fst (serve e (UpdateComment cid tx) r d)) = 200 \<and>
         snd (serve e (UpdateComment cid tx) r d) =
           d\<lparr>comments := replace_doc i (cm\<lparr>content := js_trim (the tx), comment_updatedAt := now e\<rparr>) (comments d)\<rparr>"
  using assms
  by (auto simp: with_auth_Next update_comment_def find_by_id_def save_comment_def comment_checks_def
                 failed_paths_def content_missing_def Let_def)

theorem serve_update_comment_owner_witness:
  "authMiddleware demo_env alice_req = Next alice_claims \<and> cast_oid (oid_str 2) = Some 2 \<and>
   map_of (comments demo_db) 2 = Some demo_comment \<and> oid_str (comment_user demo_comment) = claim_id alice_claims \<and>
   \<not> content_missing (Some '' Great '') \<and>
   status (fst (serve demo_env (UpdateComment (oid_str 2) (Some '' Great '')) alice_req demo_db)) = 200 \<and>
   snd (serve demo_env (UpdateComment (oid_str 2) (Some '' Great '')) alice_req demo_db) =
     demo_db\<lparr>comments := replace_doc 2 (demo_comment\<lparr>content := js_trim '' Great '', comment_updatedAt := now demo_env\<rparr>)
                           (comments demo_db)\<rparr>"
proof -
  have m: "map_of (comments demo_db) 2 = Some demo_comment" by (simp add: demo_db_def)
  have o: "oid_str (comment_user demo_comment) = claim_id alice_claims"
    by (simp add: demo_comment_def alice_claims_def)
  have t: "\<not> content_missing (Some '' Great '')" by (simp add: content_missing_def js_trim_def is_js_space_def)
  show ?thesis using serve_update_comment_owner [OF alice_gate cast_oid_str m o t] alice_gate m o t by simp
qed

text \<open>
  C16.  \<open>GET /api/comments/blog/:blogId\<close> answers 200 with exactly the comments of that
  blog, each once, newest first by \<open>createdAt\<close>, and changes nothing.
\<close>

theorem list_comments_of_blog:
  "\<exists>cs. serve e (ListComments (oid_str b)) r d = (json_resp 200 (JArr (map (\<lambda>(i, c). comments_populated d i c) cs)), d) \<and>
        mset cs = mset (filter (\<lambda>(i, c). comment_blog c = b) (comments d)) \<and>
        sorted_wrt (\<lambda>(i, x) (j, y). comment_createdAt y \<le> comment_createdAt x) cs"
proof (intro exI conjI)
  show "serve e (ListComments (oid_str b)) r d =
          (json_resp 200 (JArr (map (\<lambda>(i, c). comments_populated d i c)
             (newest_comments (find_where (\<lambda>c. comment_blog c = b) (comments d))))), d)"
    by (simp add: list_comments_def)
  show "mset (newest_comments (find_where (\<lambda>c. comment_blog c = b) (comments d))) =
        mset (filter (\<lambda>(i, c). comment_blog c = b) (comments d))"
    by (simp add: newest_comments_mset find_where_def case_prod_unfold)
  show "sorted_wrt (\<lambda>(i, x) (j, y). comment_createdAt y \<le> comment_createdAt x)
          (newest_comments (find_where (\<lambda>c. comment_blog c = b) (comments d)))"
    using newest_comments_sorted [of "find_where (\<lambda>c. comment_blog c = b) (comments d)"]
    by (auto simp: sorted_map case_prod_unfold elim!: sorted_wrt_mono_rel [rotated])
qed

subsection \<open>More on tokens and owners\<close>

text \<open>
  C28.  The token a successful login returns in its JSON body is accepted when a
  non-cookie client sends it as \<open>Authorization: Bearer\<close>, as long as the gate's later
  clock reading is before the token's expiry, seven days after the login's second.
\<close>

theorem login_token_as_bearer:
  assumes ok: "status (fst (login e em pw d)) = 200"
    and tok: "json_get (body (fst (login e em pw d))) ''token'' = Some (JStr tok)"
    and secret: "jwt_secret e' = jwt_secret e"
    and live: "now e' + check_delay e' < (now e div 1000 + token_lifetime) * 1000"
  shows "\<exists>c. authMiddleware e' \<lparr>cookie_token = None, authorization = Some (''Bearer '' @ tok)\<rparr> = Next c"
proof -
  obtain i u p where f: "find_one (\<lambda>u. Some (email u) = map_option to_lower_case em) (users d) = Some (i, u)"
    and pw: "pw = Some p" and m: "bcrypt_compare p (password u)"
    using ok by (auto simp: login_def split: option.splits if_splits)
  define c where "c = \<lparr>claim_id = oid_str i, claim_email = email u, claim_username = username u,
                       claim_iat = now e div 1000, claim_exp = now e div 1000 + token_lifetime\<rparr>"
  have t: "tok = jwt_encode (jwt_secret e') c"
    using tok login_success [OF f m] pw by (simp add: Let_def login_body_def jwt_sign_def c_def secret)
  have "extract_token \<lparr>cookie_token = None, authorization = Some (''Bearer '' @ tok)\<rparr> = Some (jwt_encode (jwt_secret e') c)"
    using extract_token_header [of "\<lparr>cookie_token = None, authorization = Some (''Bearer '' @ tok)\<rparr>" "''Bearer''" tok]
    by (simp add: t space_not_in_jwt)
  moreover have "now e' + check_delay e' < claim_exp c * 1000" using live by (simp add: c_def)
  ultimately show ?thesis by (blast intro: authMiddleware_signed)
qed

theorem login_token_as_bearer_witness:
  "status (fst (login demo_env (Some ''alice@gmail.com'') (Some ''secret1'') demo_db)) = 200 \<and>
   json_get (body (fst (login demo_env (Some ''alice@gmail.com'') (Some ''secret1'') demo_db))) ''token'' =
     Some (JStr (jwt_sign ''s3cr3t'' (oid_str 1) (email demo_user) (username demo_user) 1000)) \<and>
   jwt_secret (demo_env\<lparr>now := 5000\<rparr>) = jwt_secret demo_env \<and>
   now (demo_env\<lparr>now := 5000\<rparr>) + check_delay (demo_env\<lparr>now := 5000\<rparr>) <
     (now demo_env div 1000 + token_lifetime) * 1000 \<and>
   (\<exists>c. authMiddleware (demo_env\<lparr>now := 5000\<rparr>)
          \<lparr>cookie_token = None,
           authorization = Some (''Bearer '' @ jwt_sign ''s3cr3t'' (oid_str 1) (email demo_user) (username demo_user) 1000)\<rparr> =
        Next c)"
proof -
  have s: "status (fst (login demo_env (Some ''alice@gmail.com'') (Some ''secret1'') demo_db)) = 200"
    by (simp add: login_def find_one_def demo_db_def demo_user_def new_user_def to_lower_case_def
                  js_lower_char_def char_of_eq_iff Let_def)
  have t: "json_get (body (fst (login demo_env (Some ''alice@gmail.com'') (Some ''secret1'') demo_db))) ''token'' =
     Some (JStr (jwt_sign ''s3cr3t'' (oid_str 1) (email demo_user) (username demo_user) 1000))"
    by (simp add: login_def login_body_def find_one_def demo_db_def demo_user_def new_user_def to_lower_case_def
                  js_lower_char_def char_of_eq_iff js_trim_def is_js_space_def demo_env_def Let_def)
  have l: "now (demo_env\<lparr>now := 5000\<rparr>) + check_delay (demo_env\<lparr>now := 5000\<rparr>) <
           (now demo_env div 1000 + token_lifetime) * 1000"
    by (simp add: demo_env_def token_lifetime_def)
  show ?thesis using login_token_as_bearer [OF s t _ l] s t l by simp
qed

text \<open>
  C37.  The owner's mutations of a blog do exactly what they should: an update with an
  absent, empty or listed category answers 200 and replaces exactly that blog by the merge
  of the given fields over the old ones (\<open>title || blog.title\<close>, ...), keeping its
  author; a delete answers 200 and removes exactly that blog, leaving the users and the
  comments (including the blog's own) as they were.
\<close>

theorem serve_blog_owner_mutations:
  assumes wf: "db_wf d" and g: "authMiddleware e r = Next c" and b: "map_of (blogs d) i = Some b"
    and o: "oid_str (author b) = claim_id c" and v: "\<not> (js_truthy cat \<and> \<not> js_includes validCategories cat)"
  shows "status (fst (serve e (UpdateBlog (oid_str i) t ds im cat) r d)) = 200 \<and>
         map_of (blogs (snd (serve e (UpdateBlog (oid_str i) t ds im cat) r d))) =
           (map_of (blogs d))(i \<mapsto> merge_blog t ds im cat b) \<and>
         author (merge_blog t ds im cat b) = author b \<and>
         fst (serve e (DeleteBlog (oid_str i)) r d) = msg_resp 200 ''Blog deleted successfully'' \<and>
         map_of (blogs (snd (serve e (DeleteBlog (oid_str i)) r d))) = (map_of (blogs d))(i := None) \<and>
         users (snd (serve e (DeleteBlog (oid_str i)) r d)) = users d \<and>
         comments (snd (serve e (DeleteBlog (oid_str i)) r d)) = comments d"
proof -
  have "status (fst (serve e (UpdateBlog (oid_str i) t ds im cat) r d)) = 200 \<and>
        map_of (blogs (snd (serve e (UpdateBlog (oid_str i) t ds im cat) r d))) =
          (map_of (blogs d))(i \<mapsto> merge_blog t ds im cat b) \<and>
        author (merge_blog t ds im cat b) = author b"
    using g b o v
    by (auto simp: with_auth_Next update_blog_def find_by_id_def Let_def map_of_replace_doc fun_eq_iff)
  moreover have "fst (serve e (DeleteBlog (oid_str i)) r d) = msg_resp 200 ''Blog deleted successfully'' \<and>
        map_of (blogs (snd (serve e (DeleteBlog (oid_str i)) r d))) = (map_of (blogs d))(i := None) \<and>
        users (snd (serve e (DeleteBlog (oid_str i)) r d)) = users d \<and>
        comments (snd (serve e (DeleteBlog (oid_str i)) r d)) = comments d"
    using g b o keys_distinct_blogs [OF wf]
    by (auto simp: with_auth_Next delete_blog_owner map_of_delete_doc)
  ultimately show ?thesis by blast
qed

theorem serve_blog_owner_mutations_witness:
  "db_wf demo_db \<and> authMiddleware demo_env alice_req = Next alice_claims \<and>
   map_of (blogs demo_db) 0 = Some demo_blog \<and> oid_str (author demo_blog) = claim_id alice_claims \<and>
   status (fst (serve demo_env (UpdateBlog (oid_str 0) (Some ''New'') None None (Some ''Travel'')) alice_req demo_db)) = 200 \<and>
   map_of (blogs (snd (serve demo_env (UpdateBlog (oid_str 0) (Some ''New'') None None (Some ''Travel'')) alice_req demo_db))) =
     (map_of (blogs demo_db))(0 \<mapsto> merge_blog (Some ''New'') None None (Some ''Travel'') demo_blog) \<and>
   author (merge_blog (Some ''New'') None None (Some ''Travel'') demo_blog) = author demo_blog \<and>
   fst (serve demo_env (DeleteBlog (oid_str 0)) alice_req demo_db) = msg_resp 200 ''Blog deleted successfully'' \<and>
   map_of (blogs (snd (serve demo_env (DeleteBlog (oid_str 0)) alice_req demo_db))) = (map_of (blogs demo_db))(0 := None) \<and>
   users (snd (serve demo_env (DeleteBlog (oid_str 0)) alice_req demo_db)) = users demo_db \<and>
   comments (snd (serve demo_env (DeleteBlog (oid_str 0)) alice_req demo_db)) = comments demo_db"
proof -
  have m: "map_of (blogs demo_db) 0 = Some demo_blog" by (simp add: demo_db_def)
  have o: "oid_str (author demo_blog) = claim_id alice_claims" by (simp add: demo_blog_def alice_claims_def)
  have v: "\<not> (js_truthy (Some ''Travel'') \<and> \<not> js_includes validCategories (Some ''Travel''))"
    by (simp add: validCategories_def)
  show ?thesis
    using serve_blog_owner_mutations [OF demo_db_wf alice_gate m o v, of "Some ''New''" None None]
          demo_db_wf alice_gate m o
    by simp
qed

subsection \<open>Witnesses of the component theorems\<close>

theorem serve_refines_ownership_witness:
  "reachable empty_db \<and> own_reach (abs_db empty_db) \<and>
   own_step (actor demo_env alice_req) (abs_db empty_db) (abs_db (snd (serve demo_env ListBlogs alice_req empty_db)))"
  using serve_refines_ownership [OF reachable.start, of demo_env alice_req ListBlogs] reachable.start by blast

theorem owner_can_clear_blogs_witness:
  "db_wf demo_db \<and> authMiddleware demo_env alice_req = Next alice_claims \<and> cast_oid (claim_id alice_claims) = Some 1 \<and>
   map_of (blogs (run demo_env alice_req (map (\<lambda>(i, b). DeleteBlog (oid_str i))
     (filter (\<lambda>(i, b). author b = 1) (blogs demo_db))) demo_db)) 0 \<noteq> Some demo_blog \<and>
   comments (run demo_env alice_req (map (\<lambda>(i, b). DeleteBlog (oid_str i))
     (filter (\<lambda>(i, b). author b = 1) (blogs demo_db))) demo_db) = comments demo_db"
proof -
  have a: "cast_oid (claim_id alice_claims) = Some 1" by (simp add: alice_claims_def)
  have au: "author demo_blog = 1" by (simp add: demo_blog_def)
  note clr = owner_can_clear_blogs [OF demo_db_wf alice_gate a]
  have "map_of (blogs (run demo_env alice_req (map (\<lambda>(i, b). DeleteBlog (oid_str i))
          (filter (\<lambda>(i, b). author b = 1) (blogs demo_db))) demo_db)) 0 \<noteq> Some demo_blog"
  proof
    assume "map_of (blogs (run demo_env alice_req (map (\<lambda>(i, b). DeleteBlog (oid_str i))
          (filter (\<lambda>(i, b). author b = 1) (blogs demo_db))) demo_db)) 0 = Some demo_blog"
    with clr have "author demo_blog \<noteq> 1" by blast
    with au show False by blast
  qed
  with clr demo_db_wf alice_gate a show ?thesis by blast
qed

theorem dispatch_request_of_witness:
  "param_ok (oid_str 0) \<and>
   (case request_of (DeleteBlog (oid_str 0)) of (m, ss, b) \<Rightarrow>
      dispatch demo_env m (path_of ss) (ParsedBody b) alice_req demo_db) =
   serve demo_env (DeleteBlog (oid_str 0)) alice_req demo_db"
proof -
  have "oid_str 0 = ''0''" by (simp add: oid_str_def nat_to_dec.simps char_of_eq_iff)
  then have p: "param_ok (oid_str 0)" by (simp add: param_ok_def)
  then have "\<forall>p \<in> set (route_params (DeleteBlog (oid_str 0))). param_ok p" by simp
  then show ?thesis using dispatch_request_of p by blast
qed

theorem dispatch_errors_witness:
  "dispatch demo_env PUT ''/about'' (ParsedBody empty_body) bob_req demo_db = (msg_resp 404 ''Route not found'', demo_db) \<and>
   dispatch demo_env PUT ''/about'' (BodyRejected (ParseFailed ''Unexpected token'')) bob_req demo_db =
     (msg_resp 400 (js_or (Some ''Unexpected token'') ''Internal Server Error''), demo_db)"
proof -
  have s: "segments ''/about'' = Some [''about'']"
    by (simp add: segments_def path_part_def strip_trailing_def)
  have l: "\<not> lit ''api'' ''about''" by (simp add: lit_def to_lower_case_def js_lower_char_def)
  show ?thesis
    using dispatch_errors [of demo_env PUT "''/about''" "''Unexpected token''" bob_req demo_db empty_body] s l
    by simp
qed

theorem authMiddleware_forged_witness:
  "extract_token \<lparr>cookie_token = Some (jwt_encode ''guess'' alice_claims), authorization = None\<rparr> =
     Some (jwt_encode ''guess'' alice_claims) \<and> ''guess'' \<noteq> jwt_secret demo_env \<and>
   authMiddleware demo_env \<lparr>cookie_token = Some (jwt_encode ''guess'' alice_claims), authorization = None\<rparr> =
     Deny (msg_resp 401 ''Invalid token. Please login again.'')"
proof -
  have a: "extract_token \<lparr>cookie_token = Some (jwt_encode ''guess'' alice_claims), authorization = None\<rparr> =
     Some (jwt_encode ''guess'' alice_claims)" by (simp add: extract_token_def jwt_encode_not_Nil)
  have b: "''guess'' \<noteq> jwt_secret demo_env" by (simp add: demo_env_def)
  show ?thesis using authMiddleware_forged [OF a b] a b by simp
qed

theorem signup_non_gmail_witness:
  "\<not> ends_with (to_lower_case ''bob@yahoo.com'') ''@gmail.com'' \<and>
   signup demo_env (Some ''bob'') (Some ''bob@yahoo.com'') (Some ''secret1'') None demo_db =
     (msg_resp 400 ''Only @gmail.com emails are allowed!'', demo_db)"
proof -
  have n: "\<not> ends_with (to_lower_case ''bob@yahoo.com'') ''@gmail.com''"
    by (simp add: to_lower_case_def js_lower_char_def ends_with_def)
  show ?thesis using signup_non_gmail [OF n] n by simp
qed

theorem signup_registered_witness:
  "ends_with (to_lower_case ''ALICE@gmail.com'') ''@gmail.com'' \<and>
   find_one (\<lambda>u. email u = to_lower_case ''ALICE@gmail.com'') (users demo_db) \<noteq> None \<and>
   signup demo_env (Some ''al'') (Some ''ALICE@gmail.com'') (Some ''other'') None demo_db =
     (msg_resp 400 ''Email already registered. Please log in!'', demo_db)"
proof -
  have l: "to_lower_case ''ALICE@gmail.com'' = ''alice@gmail.com''"
    by (simp add: to_lower_case_def js_lower_char_def char_of_eq_iff)
  have e: "email demo_user = ''alice@gmail.com''"
    by (simp add: demo_user_def new_user_def to_lower_case_def js_lower_char_def char_of_eq_iff)
  have a: "ends_with (to_lower_case ''ALICE@gmail.com'') ''@gmail.com''" by (simp add: l ends_with_def)
  have b: "find_one (\<lambda>u. email u = to_lower_case ''ALICE@gmail.com'') (users demo_db) \<noteq> None"
    by (simp add: find_one_def demo_db_def l e)
  show ?thesis using signup_registered [OF a b] a b by simp
qed

theorem extract_token_header_witness:
  "\<not> js_truthy (cookie_token \<lparr>cookie_token = None, authorization = Some ''Basic abc''\<rparr>) \<and>
   authorization \<lparr>cookie_token = None, authorization = Some ''Basic abc''\<rparr> = Some (''Basic'' @ CHR '' '' # ''abc'') \<and>
   CHR '' '' \<notin> set ''Basic'' \<and> CHR '' '' \<notin> set ''abc'' \<and>
   extract_token \<lparr>cookie_token = None, authorization = Some ''Basic abc''\<rparr> = Some ''abc''"
proof -
  have a: "\<not> js_truthy (cookie_token \<lparr>cookie_token = None, authorization = Some ''Basic abc''\<rparr>)" by simp
  have b: "authorization \<lparr>cookie_token = None, authorization = Some ''Basic abc''\<rparr> = Some (''Basic'' @ CHR '' '' # ''abc'')"
    by simp
  have c: "CHR '' '' \<notin> set ''Basic''" "CHR '' '' \<notin> set ''abc''" by simp_all
  show ?thesis using extract_token_header [OF a b c] a b c by simp
qed

theorem serial_schedule_refines_serve_witness:
  "db_wf demo_db \<and>
   schedule demo_env (concat (map (\<lambda>k. [k, k, k]) [0..<length [(alice_req, DeleteComment (oid_str 2))]]))
     (arrive [(alice_req, DeleteComment (oid_str 2))] demo_db) =
     \<lparr>srv_db = snd (serve_seq demo_env [(alice_req, DeleteComment (oid_str 2))] demo_db),
      in_flight = replicate (length [(alice_req, DeleteComment (oid_str 2))]) None,
      answers = zip [0..<length [(alice_req, DeleteComment (oid_str 2))]]
                  (fst (serve_seq demo_env [(alice_req, DeleteComment (oid_str 2))] demo_db))\<rparr>"
  by (rule conjI [OF demo_db_wf serial_schedule_refines_serve [OF demo_db_wf]])

theorem interleaved_comment_edit_delete_witness:
  "authMiddleware demo_env alice_req = Next alice_claims \<and> cast_oid (oid_str 2) = Some 2 \<and>
   map_of (comments demo_db) 2 = Some demo_comment \<and>
   oid_str (comment_user demo_comment) = claim_id alice_claims \<and> \<not> content_missing (Some ''Edited'') \<and>
   answers (schedule demo_env [0, 1, 1, 0]
     (arrive [(alice_req, UpdateComment (oid_str 2) (Some ''Edited'')), (alice_req, DeleteComment (oid_str 2))] demo_db)) =
     [(1, json_resp 200 (JObj [(''message'', JStr ''Comment deleted successfully''), (''commentId'', JStr (oid_str 2))])),
      (0, msg_err_resp 400 ''Error updating comment'' (error_message (DocumentNotFound ''Comment'' 2)))] \<and>
   map_of (comments (srv_db (schedule demo_env [0, 1, 1, 0]
     (arrive [(alice_req, UpdateComment (oid_str 2) (Some ''Edited'')), (alice_req, DeleteComment (oid_str 2))] demo_db)))) 2 = None \<and>
   answers (schedule demo_env [0, 0, 1, 1, 0]
     (arrive [(alice_req, UpdateComment (oid_str 2) (Some ''Edited'')), (alice_req, DeleteComment (oid_str 2))] demo_db)) =
     [(1, json_resp 200 (JObj [(''message'', JStr ''Comment deleted successfully''), (''commentId'', JStr (oid_str 2))])),
      (0, json_resp 200 (JObj [(''message'', JStr ''Comment updated successfully''), (''comment'', JNull)]))] \<and>
   map_of (comments (srv_db (schedule demo_env [0, 0, 1, 1, 0]
     (arrive [(alice_req, UpdateComment (oid_str 2) (Some ''Edited'')), (alice_req, DeleteComment (oid_str 2))] demo_db)))) 2 = None"
proof -
  have m: "map_of (comments demo_db) 2 = Some demo_comment" by (simp add: demo_db_def)
  have o: "oid_str (comment_user demo_comment) = claim_id alice_claims"
    by (simp add: demo_comment_def alice_claims_def)
  have t: "\<not> content_missing (Some ''Edited'')" by (simp add: content_missing_def js_trim_def is_js_space_def)
  have c: "cast_oid (oid_str 2) = Some 2" by (rule cast_oid_str)
  from interleaved_comment_edit_delete [OF alice_gate c m o t] show ?thesis
    using alice_gate c m o t by (simp only: simp_thms)
qed

theorem interleaved_update_after_delete_witness:
  "authMiddleware demo_env alice_req = Next alice_claims \<and> cast_oid (oid_str 0) = Some 0 \<and>
   map_of (blogs demo_db) 0 = Some demo_blog \<and> oid_str (author demo_blog) = claim_id alice_claims \<and>
   answers (schedule demo_env [0, 1, 1, 0]
     (arrive [(alice_req, UpdateBlog (oid_str 0) (Some ''Renamed'') None None None),
              (alice_req, DeleteBlog (oid_str 0))] demo_db)) =
     [(1, msg_resp 200 ''Blog deleted successfully''),
      (0, json_resp 200 (JObj [(''message'', JStr ''Blog updated successfully''), (''blog'', JNull)]))] \<and>
   map_of (blogs (srv_db (schedule demo_env [0, 1, 1, 0]
     (arrive [(alice_req, UpdateBlog (oid_str 0) (Some ''Renamed'') None None None),
              (alice_req, DeleteBlog (oid_str 0))] demo_db)))) 0 = None"
proof -
  have m: "map_of (blogs demo_db) 0 = Some demo_blog" by (simp add: demo_db_def)
  have o: "oid_str (author demo_blog) = claim_id alice_claims" by (simp add: demo_blog_def alice_claims_def)
  have v: "\<not> js_truthy None \<or> js_includes validCategories None" by simp
  show ?thesis
    using interleaved_update_after_delete [OF alice_gate alice_gate cast_oid_str m o o v] alice_gate m o
    by simp
qed

theorem interleaved_updates_lose_first_witness:
  "authMiddleware demo_env alice_req = Next alice_claims \<and> cast_oid (oid_str 0) = Some 0 \<and>
   map_of (blogs demo_db) 0 = Some demo_blog \<and> oid_str (author demo_blog) = claim_id alice_claims \<and>
   map (\<lambda>(k, rs). (k, status rs)) (answers (schedule demo_env [0, 1, 0, 1]
     (arrive [(alice_req, UpdateBlog (oid_str 0) (Some ''Renamed'') None None None),
              (alice_req, UpdateBlog (oid_str 0) None (Some ''Edited'') None None)] demo_db))) =
     [(0, 200), (1, 200)] \<and>
   map_of (blogs (srv_db (schedule demo_env [0, 1, 0, 1]
     (arrive [(alice_req, UpdateBlog (oid_str 0) (Some ''Renamed'') None None None),
              (alice_req, UpdateBlog (oid_str 0) None (Some ''Edited'') None None)] demo_db)))) 0 =
     Some (demo_blog\<lparr>description := ''Edited''\<rparr>) \<and>
   map_of (blogs (srv_db (schedule demo_env [0, 0, 1, 1]
     (arrive [(alice_req, UpdateBlog (oid_str 0) (Some ''Renamed'') None None None),
              (alice_req, UpdateBlog (oid_str 0) None (Some ''Edited'') None None)] demo_db)))) 0 =
     Some (demo_blog\<lparr>title := ''Renamed'', description := ''Edited''\<rparr>)"
proof -
  have m: "map_of (blogs demo_db) 0 = Some demo_blog" by (simp add: demo_db_def)
  have o: "oid_str (author demo_blog) = claim_id alice_claims" by (simp add: demo_blog_def alice_claims_def)
  have v: "\<not> js_truthy None \<or> js_includes validCategories None" by simp
  show ?thesis
    using interleaved_updates_lose_first [OF alice_gate alice_gate cast_oid_str m o o v v,
            of "Some ''Renamed''" None None None "Some ''Edited''" None]
          alice_gate m o
    by (simp add: merge_blog_def)
qed

theorem schedule_keeps_foreign_docs_witness:
  "db_wf demo_db \<and> map_of (blogs demo_db) 0 = Some demo_blog \<and> map_of (comments demo_db) 2 = Some demo_comment \<and>
   \<not> acts_as demo_env bob_req (oid_str (author demo_blog)) \<and>
   \<not> acts_as demo_env bob_req (oid_str (comment_user demo_comment)) \<and>
   map_of (blogs (srv_db (schedule demo_env [0, 1, 2, 0, 1, 2]
     (arrive [(bob_req, DeleteBlog (oid_str 0)), (bob_req, UpdateBlog (oid_str 0) (Some ''X'') None None None),
              (bob_req, DeleteComment (oid_str 2))] demo_db)))) 0 = Some demo_blog \<and>
   map_of (comments (srv_db (schedule demo_env [0, 1, 2, 0, 1, 2]
     (arrive [(bob_req, DeleteBlog (oid_str 0)), (bob_req, UpdateBlog (oid_str 0) (Some ''X'') None None None),
              (bob_req, DeleteComment (oid_str 2))] demo_db)))) 2 = Some demo_comment"
proof -
  have j: "map_of (blogs demo_db) 0 = Some demo_blog" by (simp add: demo_db_def)
  have jc: "map_of (comments demo_db) 2 = Some demo_comment" by (simp add: demo_db_def)
  have b: "\<not> acts_as demo_env bob_req (oid_str (author demo_blog))"
    using bob_not_author by (simp add: demo_blog_def)
  have c: "\<not> acts_as demo_env bob_req (oid_str (comment_user demo_comment))"
    using b by (simp add: demo_blog_def demo_comment_def)
  show ?thesis
    using schedule_keeps_foreign_docs [OF demo_db_wf, where j = 0 and b = demo_blog and j' = 2 and cm = demo_comment
            and e = demo_env and ks = "[0, 1, 2, 0, 1, 2]" and rqs = "[(bob_req, DeleteBlog (oid_str 0)), (bob_req, UpdateBlog (oid_str 0) (Some ''X'') None None None),
              (bob_req, DeleteComment (oid_str 2))]"]
          demo_db_wf j jc b c
    by simp
qed

theorem dispatch_response_shape_witness:
  "status (fst (dispatch demo_env PUT ''/api/blogs/0'' (BodyRejected EntityTooLarge) bob_req demo_db)) = 413 \<and>
   (\<exists>be. BodyRejected EntityTooLarge = BodyRejected be) \<and>
   (\<exists>msg rest. body (fst (dispatch demo_env PUT ''/api/blogs/0'' (BodyRejected EntityTooLarge) bob_req demo_db)) =
      JObj ((''message'', JStr msg) # rest))"
proof -
  have st: "status (fst (dispatch demo_env PUT ''/api/blogs/0'' (BodyRejected EntityTooLarge) bob_req demo_db)) = 413"
    by (simp add: dispatch_def error_middleware_def)
  show ?thesis
    using dispatch_response_shape [of demo_env PUT "''/api/blogs/0''" "BodyRejected EntityTooLarge" bob_req demo_db] st
    by simp
qed

theorem interleaved_signups_duplicate_witness:
  "ends_with (to_lower_case ''Alice@Gmail.com'') ''@gmail.com'' \<and>
   find_one (\<lambda>u. email u = to_lower_case ''Alice@Gmail.com'') (users empty_db) = None \<and>
   to_lower_case ''alice@gmail.com'' = to_lower_case ''Alice@Gmail.com'' \<and>
   user_valid (new_user (Some ''alice'') (to_lower_case ''Alice@Gmail.com'') (bcrypt_hash ''secret1'' (salt demo_env))
     None (now demo_env)) \<and>
   map (\<lambda>(k, rs). (k, status rs)) (answers (schedule demo_env [0, 1, 0, 1]
     (arrive [(bob_req, Signup (Some ''alice'') (Some ''Alice@Gmail.com'') (Some ''secret1'') None),
              (bob_req, Signup (Some ''al'') (Some ''alice@gmail.com'') (Some ''other1'') None)] empty_db))) =
     [(0, 201), (1, 500)] \<and>
   map (\<lambda>(k, rs). (k, status rs)) (answers (schedule demo_env [0, 0, 1, 1]
     (arrive [(bob_req, Signup (Some ''alice'') (Some ''Alice@Gmail.com'') (Some ''secret1'') None),
              (bob_req, Signup (Some ''al'') (Some ''alice@gmail.com'') (Some ''other1'') None)] empty_db))) =
     [(0, 201), (1, 400)]"
proof -
  have g: "ends_with (to_lower_case ''Alice@Gmail.com'') ''@gmail.com''"
    by (simp add: ends_with_def to_lower_case_def js_lower_char_def char_of_eq_iff)
  have n: "find_one (\<lambda>u. email u = to_lower_case ''Alice@Gmail.com'') (users empty_db) = None"
    by (simp add: empty_db_def find_one_def)
  have l1: "to_lower_case ''Alice@Gmail.com'' = ''alice@gmail.com''"
    by (simp add: to_lower_case_def js_lower_char_def char_of_eq_iff)
  have l2: "to_lower_case ''alice@gmail.com'' = ''alice@gmail.com''"
    by (simp add: to_lower_case_def js_lower_char_def char_of_eq_iff)
  have l: "to_lower_case ''alice@gmail.com'' = to_lower_case ''Alice@Gmail.com''"
    by (simp only: l1 l2)
  have v: "user_valid (new_user (Some ''alice'') (to_lower_case ''Alice@Gmail.com'') (bcrypt_hash ''secret1'' (salt demo_env))
     None (now demo_env))"
    by (simp add: demo_env_def user_valid_def user_checks_def new_user_def failed_paths_def email_match_def
        ends_with_def hash_string_length_def js_trim_def is_js_space_def to_lower_case_def js_lower_char_def
        is_word_char_def is_email_sep_def char_of_eq_iff)
  show ?thesis
    using interleaved_signups_duplicate [OF g n l v, where r = bob_req and r' = bob_req and un' = "Some ''al''"
            and p' = "''other1''" and img' = None] g n l v
    by (simp add: char_of_eq_iff)
qed

theorem interleaved_profile_updates_merge_witness:
  "authMiddleware demo_env alice_req = Next alice_claims \<and> cast_oid (claim_id alice_claims) = Some 1 \<and>
   map_of (users demo_db) 1 = Some demo_user \<and>
   user_valid (apply_profile (blank_profile\<lparr>pu_firstName := Some ''Al''\<rparr>) demo_user) \<and>
   user_valid (apply_profile (blank_profile\<lparr>pu_lastName := Some ''Smith''\<rparr>) demo_user) \<and>
   map (\<lambda>(k, rs). (k, status rs)) (answers (schedule demo_env [0, 1, 0, 1]
     (arrive [(alice_req, UpdateUser (blank_profile\<lparr>pu_firstName := Some ''Al''\<rparr>)),
              (alice_req, UpdateUser (blank_profile\<lparr>pu_lastName := Some ''Smith''\<rparr>))] demo_db))) =
     [(0, 200), (1, 200)] \<and>
   (\<exists>u'. map_of (users (srv_db (schedule demo_env [0, 1, 0, 1]
       (arrive [(alice_req, UpdateUser (blank_profile\<lparr>pu_firstName := Some ''Al''\<rparr>)),
                (alice_req, UpdateUser (blank_profile\<lparr>pu_lastName := Some ''Smith''\<rparr>))] demo_db)))) 1 = Some u' \<and>
      firstName u' = Some ''Al'' \<and> lastName u' = Some ''Smith'')"
proof -
  have i: "cast_oid (claim_id alice_claims) = Some 1" by (simp add: alice_claims_def)
  have u: "map_of (users demo_db) 1 = Some demo_user" by (simp add: demo_db_def)
  have a: "pu_lastName (blank_profile\<lparr>pu_firstName := Some ''Al''\<rparr>) = None" by (simp add: blank_profile_def)
  have b: "pu_firstName (blank_profile\<lparr>pu_lastName := Some ''Smith''\<rparr>) = None" by (simp add: blank_profile_def)
  have va: "user_valid (apply_profile (blank_profile\<lparr>pu_firstName := Some ''Al''\<rparr>) demo_user)"
    using demo_user_valid
    by (simp add: user_doc_ok_def user_valid_def user_checks_def failed_paths_Nil_iff blank_profile_def
                  apply_profile_def assign_if_def js_trim_def is_js_space_def)
  have vb: "user_valid (apply_profile (blank_profile\<lparr>pu_lastName := Some ''Smith''\<rparr>) demo_user)"
    using demo_user_valid
    by (simp add: user_doc_ok_def user_valid_def user_checks_def failed_paths_Nil_iff blank_profile_def
                  apply_profile_def assign_if_def js_trim_def is_js_space_def)
  have fa: "firstName (apply_profile (blank_profile\<lparr>pu_firstName := Some ''Al''\<rparr>) demo_user) = Some ''Al''"
    by (simp add: apply_profile_def assign_if_def js_trim_def is_js_space_def)
  have lb: "lastName (apply_profile (blank_profile\<lparr>pu_lastName := Some ''Smith''\<rparr>) demo_user) = Some ''Smith''"
    by (simp add: apply_profile_def assign_if_def js_trim_def is_js_space_def)
  show ?thesis
    using interleaved_profile_updates_merge [OF alice_gate i u a b va vb] alice_gate i u va vb fa lb
    by simp
qed

theorem entry_points_start_witness:
  "{Express, Mongoose, Cors, BlogRoutesModule} \<subseteq> repo_modules \<and> UserRoutesModule \<notin> repo_modules \<and>
   set server_requires \<subseteq> repo_modules \<and>
   boot_index repo_modules Map.empty (\<lambda>u. True) = Crashed (cannot_find UserRoutesModule) \<and>
   boot_server repo_modules Map.empty [''MONGO_URI'' \<mapsto> ''mongodb://db''] (\<lambda>u. True) =
     Listening (ListenNumber 5000) [''MONGO_URI'' \<mapsto> ''mongodb://db''] server_app Connected"
proof -
  have h1: "{Express, Mongoose, Cors, BlogRoutesModule} \<subseteq> repo_modules" by (simp add: repo_modules_def)
  have h2: "UserRoutesModule \<notin> repo_modules" by (simp add: repo_modules_def)
  have h3: "set server_requires \<subseteq> repo_modules" by (simp add: repo_modules_def server_requires_def)
  show ?thesis
    using entry_points_start [OF h1 h2, of Map.empty "\<lambda>u. True" "[''MONGO_URI'' \<mapsto> ''mongodb://db'']"] h1 h2 h3
    by (simp add: server_port_def mongo_connect_def)
qed

theorem outage_server_answers_witness:
  "set server_requires \<subseteq> repo_modules \<and>
   mongo_connect (\<lambda>u. True) ((Map.empty ++ Map.empty) ''MONGO_URI'') = ConnectionFailed \<and>
   boot_server repo_modules Map.empty Map.empty (\<lambda>u. True) =
     Listening (ListenNumber 5000) Map.empty server_app ConnectionFailed \<and>
   (\<exists>rs. run_app repo_router (handlers_of demo_env ConnectionFailed) server_app GET ''/api/blogs''
           (ParsedBody empty_body) bob_req demo_db = Some (rs, demo_db) \<and>
         (400 \<le> status rs \<or> rs = preflight_resp \<or> rs = fst (logout demo_db)))"
proof -
  have h1: "set server_requires \<subseteq> repo_modules" by (simp add: repo_modules_def server_requires_def)
  have h2: "mongo_connect (\<lambda>u. True) ((Map.empty ++ Map.empty) ''MONGO_URI'') = ConnectionFailed"
    by (simp add: mongo_connect_def)
  show ?thesis
    using outage_server_answers [OF h1 h2, of demo_env GET "''/api/blogs''" "ParsedBody empty_body" bob_req demo_db]
          h1 h2
    by (simp add: server_port_def)
qed

theorem authMiddleware_second_expiry_witness:
  "extract_token alice_req =
     Some (jwt_encode (jwt_secret (demo_env\<lparr>now := 604799999, check_delay := 2\<rparr>)) alice_claims) \<and>
   authMiddleware (demo_env\<lparr>now := 604799999, check_delay := 2\<rparr>) alice_req =
     Deny (msg_resp 401 ''Token has expired. Please login again.'')"
proof -
  have tok: "extract_token alice_req =
     Some (jwt_encode (jwt_secret (demo_env\<lparr>now := 604799999, check_delay := 2\<rparr>)) alice_claims)"
    by (simp add: alice_req_def extract_token_def demo_env_def jwt_encode_not_Nil)
  have w: "now (demo_env\<lparr>now := 604799999, check_delay := 2\<rparr>) < claim_exp alice_claims * 1000 \<and>
           claim_exp alice_claims * 1000 \<le>
             now (demo_env\<lparr>now := 604799999, check_delay := 2\<rparr>) + check_delay (demo_env\<lparr>now := 604799999, check_delay := 2\<rparr>)"
    by (simp add: alice_claims_def)
  show ?thesis using AuthMiddleware.authMiddleware_second_expiry [OF tok] tok w by simp
qed

end
